(* ===== verification/Prelude.thy ===== *)
theory Prelude
  imports Complex_Main "HOL-Library.Multiset" "HOL-Library.Sublist"
begin

text \<open>
  Shared vocabulary of the development. JavaScript numbers are modelled as exact rationals
  (\<open>rat\<close>): the code's arithmetic on nutrient values, scores and deviations is addition,
  multiplication and division by non-zero values, which \<open>rat\<close> computes exactly; floating
  point rounding error is not modelled. The JavaScript primitives the sources use are given
  one definition each: \<open>Math.round\<close>, rounding to one decimal, the falsy default
  \<open>x || d\<close>, \<open>toLowerCase\<close> on ASCII letters and \<open>String.includes\<close>.
  The nutrient vector \<open>NutritionData\<close> is a datatype with the library's
  \<open>comm_monoid_add\<close> structure, so that plan totals are \<open>sum_list\<close> and
  \<open>sum_mset\<close> and the library's permutation lemmas apply to them.
\<close>

named_theorems js_simps "evaluation rules of the JavaScript primitives of the model"

subsection \<open>JavaScript numeric primitives\<close>

text \<open>\<open>Math.round(x)\<close>: the nearest integer, halves rounded up (towards \<open>+\<infinity>\<close>).\<close>

definition js_round :: "rat \<Rightarrow> int" where
  "js_round x = \<lfloor>x + 1 / 2\<rfloor>"

text \<open>\<open>Math.round(x * 10) / 10\<close>: the code's rounding of grams to one decimal.\<close>

definition round1 :: "rat \<Rightarrow> rat" where
  "round1 x = of_int (js_round (x * 10)) / 10"

text \<open>
  \<open>v || d\<close> on a number that may be missing: \<open>undefined\<close> and \<open>0\<close> are falsy
  and give \<open>d\<close>.
\<close>

definition js_or :: "rat option \<Rightarrow> rat \<Rightarrow> rat" where
  "js_or v d = (case v of None \<Rightarrow> d | Some x \<Rightarrow> if x = 0 then d else x)"

text \<open>Comparisons with \<open>undefined\<close> are false.\<close>

definition js_gt0 :: "rat option \<Rightarrow> bool" where
  "js_gt0 v = (case v of None \<Rightarrow> False | Some x \<Rightarrow> 0 < x)"

definition js_ge0 :: "rat option \<Rightarrow> bool" where
  "js_ge0 v = (case v of None \<Rightarrow> False | Some x \<Rightarrow> 0 \<le> x)"

subsection \<open>Strings\<close>

definition lower_char :: "char \<Rightarrow> char" where
  "lower_char c = (let n = (of_char c :: nat) in if 65 \<le> n \<and> n \<le> 90 then char_of (n + 32) else c)"

text \<open>\<open>s.toLowerCase()\<close> on ASCII text.\<close>

definition to_lower :: "string \<Rightarrow> string" where
  "to_lower s = map lower_char s"

text \<open>\<open>s.includes(t)\<close>: \<open>t\<close> occurs contiguously in \<open>s\<close>.\<close>

definition str_includes :: "string \<Rightarrow> string \<Rightarrow> bool" where
  "str_includes s t = sublist t s"

definition is_hex :: "char \<Rightarrow> bool" where
  "is_hex c \<longleftrightarrow> c \<in> set ''0123456789abcdefABCDEF''"

text \<open>zod's \<open>z.string().uuid()\<close>: the 8-4-4-4-12 hexadecimal shape, either case.\<close>

definition is_uuid :: "string \<Rightarrow> bool" where
  "is_uuid s = list_all2 (\<lambda>p c. if p = CHR ''-'' then c = CHR ''-'' else is_hex c)
     ''xxxxxxxx-xxxx-xxxx-xxxx-xxxxxxxxxxxx'' s"

subsection \<open>Nutrient vectors\<close>

text \<open>\<open>NutritionData\<close> (nutrition-validator/index.ts, lines 52-58).\<close>

datatype nutrition = Nutrition
  (calories: rat) (protein: rat) (fat: rat) (carbohydrates: rat) (fiber: rat)

instantiation nutrition :: comm_monoid_add
begin

definition zero_nutrition :: nutrition where
  "0 = Nutrition 0 0 0 0 0"

definition plus_nutrition :: "nutrition \<Rightarrow> nutrition \<Rightarrow> nutrition" where
  "a + b = Nutrition (calories a + calories b) (protein a + protein b) (fat a + fat b)
     (carbohydrates a + carbohydrates b) (fiber a + fiber b)"

instance
proof
  fix a b c :: nutrition
  show "a + b + c = a + (b + c)"
    by (simp add: plus_nutrition_def add.assoc)
  show "a + b = b + a"
    by (simp add: plus_nutrition_def add.commute)
  show "0 + a = a"
    by (cases a) (simp add: plus_nutrition_def zero_nutrition_def)
qed

end

text \<open>Scaling every field by a serving multiplier.\<close>

definition scale_nutrition :: "rat \<Rightarrow> nutrition \<Rightarrow> nutrition" where
  "scale_nutrition k n = Nutrition (calories n * k) (protein n * k) (fat n * k)
     (carbohydrates n * k) (fiber n * k)"

text \<open>
  The code's rounding of a nutrient vector: \<open>Math.round\<close> for calories, one decimal
  for the gram fields (e.g. nutrition-validator/index.ts, lines 418-424 and 370-376).
\<close>

definition round_nutrition :: "nutrition \<Rightarrow> nutrition" where
  "round_nutrition n = Nutrition (of_int (js_round (calories n))) (round1 (protein n))
     (round1 (fat n)) (round1 (carbohydrates n)) (round1 (fiber n))"

text \<open>A nutrient vector all of whose fields are non-negative.\<close>

definition nonneg_nutrition :: "nutrition \<Rightarrow> bool" where
  "nonneg_nutrition n \<longleftrightarrow> 0 \<le> calories n \<and> 0 \<le> protein n \<and> 0 \<le> fat n
     \<and> 0 \<le> carbohydrates n \<and> 0 \<le> fiber n"

text \<open>\<open>xs.join(sep)\<close>.\<close>

fun join_str :: "string \<Rightarrow> string list \<Rightarrow> string" where
  "join_str sep [] = []"
| "join_str sep [x] = x"
| "join_str sep (x # y # xs) = x @ sep @ join_str sep (y # xs)"

text \<open>An optional value as a list of at most one element.\<close>

definition opt_list :: "'a option \<Rightarrow> 'a list" where
  "opt_list x = (case x of None \<Rightarrow> [] | Some y \<Rightarrow> [y])"

subsection \<open>Lemmas on the primitives\<close>

text \<open>The decimal text of a natural number.\<close>

fun nat_text :: "nat \<Rightarrow> string" where
  "nat_text n = (if n < 10 then [''0123456789'' ! n] else nat_text (n div 10) @ [''0123456789'' ! (n mod 10)])"

text \<open>\<open>[...new Set(xs)]\<close>: the elements in the order of their first occurrence.\<close>

definition remdups_first :: "'a list \<Rightarrow> 'a list" where
  "remdups_first xs = rev (remdups (rev xs))"

text \<open>The method of an HTTP request as the edge functions test it.\<close>

datatype http_method = OPTIONS | POST | Other_method

lemma nutrition_sel_zero [simp]:
  "calories 0 = 0" "protein 0 = 0" "fat 0 = 0" "carbohydrates 0 = 0" "fiber 0 = 0"
  by (simp_all add: zero_nutrition_def)

lemma nutrition_sel_plus [simp]:
  "calories (a + b) = calories a + calories b"
  "protein (a + b) = protein a + protein b"
  "fat (a + b) = fat a + fat b"
  "carbohydrates (a + b) = carbohydrates a + carbohydrates b"
  "fiber (a + b) = fiber a + fiber b"
  by (simp_all add: plus_nutrition_def)

lemma floor_half_rat: "\<lfloor>(1 / 2 :: rat)\<rfloor> = 0"
  by (simp add: floor_eq_iff)

lemma js_round_of_int [simp]: "js_round (of_int k) = k"
  by (simp add: js_round_def floor_half_rat)

lemma js_round_zero [simp]: "js_round 0 = 0"
  using js_round_of_int [of 0] by simp

lemma js_round_bounds: "x - 1 / 2 < of_int (js_round x) \<and> of_int (js_round x) \<le> x + 1 / 2"
  unfolding js_round_def by linarith

lemma js_round_mono: "x \<le> y \<Longrightarrow> js_round x \<le> js_round y"
  by (simp add: js_round_def floor_mono)

lemma js_round_nonneg: "0 \<le> x \<Longrightarrow> 0 \<le> js_round x"
  using js_round_mono [of 0 x] by simp

lemma js_round_dist: "\<bar>of_int (js_round x) - x\<bar> \<le> 1 / 2"
proof -
  have "of_int \<lfloor>x + 1 / 2\<rfloor> \<le> x + 1 / 2" by (rule of_int_floor_le)
  moreover have "x + 1 / 2 < of_int \<lfloor>x + 1 / 2\<rfloor> + 1" using floor_correct [of "x + 1 / 2"] by simp
  ultimately show ?thesis unfolding js_round_def abs_le_iff by linarith
qed

lemma round1_nonneg: "0 \<le> x \<Longrightarrow> 0 \<le> round1 x"
  by (simp add: round1_def js_round_nonneg)

lemma js_or_None [simp, js_simps]: "js_or None d = d"
  and js_or_Some [simp, js_simps]: "js_or (Some x) d = (if x = 0 then d else x)"
  by (simp_all add: js_or_def)

lemma js_or_pos: "0 < d \<Longrightarrow> js_or v d \<noteq> 0"
  by (cases v) simp_all

lemma js_gt0_simps [simp, js_simps]: "js_gt0 None = False" "js_gt0 (Some x) = (0 < x)"
  and js_ge0_simps [simp, js_simps]: "js_ge0 None = False" "js_ge0 (Some x) = (0 \<le> x)"
  by (simp_all add: js_gt0_def js_ge0_def)

lemma sum_list_nutrition_perm:
  "mset xs = mset ys \<Longrightarrow> sum_list (xs :: nutrition list) = sum_list ys"
  by (metis sum_mset_sum_list)

lemma nonneg_round_nutrition: "nonneg_nutrition n \<Longrightarrow> nonneg_nutrition (round_nutrition n)"
  by (simp add: nonneg_nutrition_def round_nutrition_def js_round_nonneg round1_nonneg)

lemma nonneg_scale_nutrition:
  "0 \<le> k \<Longrightarrow> nonneg_nutrition n \<Longrightarrow> nonneg_nutrition (scale_nutrition k n)"
  by (simp add: nonneg_nutrition_def scale_nutrition_def)

lemma nonneg_nutrition_zero [simp]: "nonneg_nutrition 0"
  by (simp add: nonneg_nutrition_def)

lemma nonneg_nutrition_add:
  "nonneg_nutrition a \<Longrightarrow> nonneg_nutrition b \<Longrightarrow> nonneg_nutrition (a + b)"
  by (simp add: nonneg_nutrition_def)

lemma nonneg_sum_list:
  "(\<And>x. x \<in> set xs \<Longrightarrow> nonneg_nutrition x) \<Longrightarrow> nonneg_nutrition (sum_list xs)"
  by (induction xs) (auto intro: nonneg_nutrition_add)

lemma sum_list_indicator_length:
  "sum_list (map (\<lambda>x. if P x then 1 else 0) xs) = length (filter P xs)"
  by (induction xs) simp_all

lemma sorted_wrt_subseq: "subseq xs ys \<Longrightarrow> sorted_wrt P ys \<Longrightarrow> sorted_wrt P xs"
proof (induction rule: list_emb.induct)
  case (list_emb_Cons2 x y xs ys)
  have "z \<in> set ys" if "z \<in> set xs" for z
    using list_emb_set [OF list_emb_Cons2.hyps(2) that] by blast
  with list_emb_Cons2 show ?case by auto
qed auto

lemma subseq_set: "subseq xs ys \<Longrightarrow> set xs \<subseteq> set ys"
  by (blast elim: list_emb_set)

lemma find_upt_Some: "find P [a..<b] = Some x \<Longrightarrow> a \<le> x \<and> x < b \<and> P x"
  by (auto simp: find_Some_iff)

lemma opt_list_simps [simp]: "opt_list None = []" "opt_list (Some y) = [y]"
  by (simp_all add: opt_list_def)

text \<open>The first element of a list sorted by a key has the least key (\<open>ORDER BY ... LIMIT 1\<close>).\<close>

lemma sort_key_head_min:
  assumes "sort_key f xs = u # us"
  shows "u \<in> set xs \<and> (\<forall>v\<in>set xs. f u \<le> f v)"
proof -
  have "sorted (map f (u # us))" using assms by (metis sorted_sort_key)
  moreover have "set xs = set (u # us)" using assms by (metis set_sort)
  ultimately show ?thesis by auto
qed

lemma sort_key_Nil_iff: "sort_key f xs = [] \<longleftrightarrow> xs = []"
  by (metis length_0_conv length_sort)

lemma fold_fiber: "(\<And>x. fiber (f x) = 0) \<Longrightarrow> fiber (fold (\<lambda>x t. t + f x) xs t0) = fiber t0"
  by (induct xs arbitrary: t0) simp_all

lemmas nutrition_defs = plus_nutrition_def zero_nutrition_def scale_nutrition_def
  round_nutrition_def

declare js_round_def [js_simps] round1_def [js_simps] to_lower_def [js_simps]
  lower_char_def [js_simps] str_includes_def [js_simps]

end
