(* ===== verification/Meal_Plan.thy ===== *)
theory Meal_Plan
  imports Prelude
begin

text \<open>
  The plan and usage types shared by the stages of the pipeline: \<open>MealPlan\<close>,
  \<open>PlanData\<close>, \<open>DayPlan\<close> and \<open>MealSlot\<close> (unnamed/part\_003, lines 15-90) with the
  fields the code writes, the usage counters every stage reports
  (\<open>claude_requests\<close>, \<open>tokens_used\<close>, \<open>cost_cents\<close>, each possibly \<open>undefined\<close>)
  and a stage's result \<open>{success, meal_plan | candidates, error, ...usage}\<close> as a
  datatype with one constructor per value of \<open>success\<close>. Dates are day numbers: the ISO
  formatting of dates is not modelled.
\<close>

record meal_slot =
  ms_meal_type :: string
  ms_recipe_id :: string
  ms_servings :: "rat option"
  ms_completed :: bool

record day_plan =
  dp_day :: string
  dp_date :: int
  dp_meals :: "meal_slot list"

record plan_data =
  pd_days :: "day_plan list"
  pd_total_recipes :: rat
  pd_unique_recipes :: rat
  pd_variety_score :: rat

record meal_plan =
  mp_id :: string
  mp_user_id :: string
  mp_intake_id :: "string option"
  mp_week_theme :: "string option"
  mp_week_start_date :: int
  mp_status :: string
  mp_plan_data :: plan_data
  mp_generated_by :: string
  mp_generation_id :: string
  mp_completion_percentage :: rat
  mp_is_public :: bool
  mp_clone_count :: rat

text \<open>The fields of \<open>GenerationContext\<close> (part\_002, lines 206-213) the stages read: the
  profile and intake ids of the blueprint, the generation id and the week's first day.\<close>

record gen_context =
  ctx_user_id :: string
  ctx_intake_id :: string
  ctx_generation_id :: string
  ctx_week_start_date :: int

text \<open>The usage fields of a stage's result; \<open>undefined\<close> is \<open>None\<close>.\<close>

record usage =
  claude_requests :: "rat option"
  tokens_used :: "rat option"
  cost_cents :: "rat option"

definition no_usage :: usage where
  "no_usage = \<lparr>claude_requests = None, tokens_used = None, cost_cents = None\<rparr>"

text \<open>A stage's result: \<open>success: true\<close> with its value, or \<open>success: false\<close> with its error.\<close>

datatype 'a stage = Stage_ok 'a usage | Stage_failed string usage

primrec stage_usage :: "'a stage \<Rightarrow> usage" where
  "stage_usage (Stage_ok x u) = u"
| "stage_usage (Stage_failed e u) = u"

text \<open>The value field of a stage's result (e.g. \<open>enhancedResult.meal_plan\<close>):
  \<open>undefined\<close> when the stage failed.\<close>

primrec stage_value :: "'a stage \<Rightarrow> 'a option" where
  "stage_value (Stage_ok x u) = Some x"
| "stage_value (Stage_failed e u) = None"

text \<open>
  The text of a Claude reply after the match of its outermost braces and
  \<open>JSON.parse\<close>: no match, a parse error with its message, or the parsed object.
\<close>

datatype 'a parsed = No_json_match | Json_error string | Parsed 'a

text \<open>The token counts a Claude reply reports in \<open>data.usage\<close> (input, output), if any.\<close>

type_synonym api_usage = "(rat \<times> rat) option"

text \<open>The three running totals of a caller (\<open>totalClaudeRequests\<close>, \<open>totalTokensUsed\<close>,
  \<open>totalCostCents\<close>).\<close>

record totals =
  total_requests :: rat
  total_tokens :: rat
  total_cost :: rat

definition totals_zero :: totals where
  "totals_zero = \<lparr>total_requests = 0, total_tokens = 0, total_cost = 0\<rparr>"

text \<open>\<open>total += r.claude_requests || 0\<close> and the same for tokens and cost.\<close>

definition add_usage :: "totals \<Rightarrow> usage \<Rightarrow> totals" where
  "add_usage t u = \<lparr>total_requests = total_requests t + js_or (claude_requests u) 0,
     total_tokens = total_tokens t + js_or (tokens_used u) 0,
     total_cost = total_cost t + js_or (cost_cents u) 0\<rparr>"

text \<open>The meal slots of a plan, day by day.\<close>

definition plan_slots :: "meal_plan \<Rightarrow> meal_slot list" where
  "plan_slots p = concat (map dp_meals (pd_days (mp_plan_data p)))"

lemma add_usage_no_usage [simp]: "add_usage t no_usage = t"
  by (simp add: add_usage_def no_usage_def)

lemma add_usage_sel [simp]:
  "total_requests (add_usage t u) = total_requests t + js_or (claude_requests u) 0"
  "total_tokens (add_usage t u) = total_tokens t + js_or (tokens_used u) 0"
  "total_cost (add_usage t u) = total_cost t + js_or (cost_cents u) 0"
  by (simp_all add: add_usage_def)

lemma js_or_zero_nonneg: "(\<And>x. v = Some x \<Longrightarrow> 0 \<le> x) \<Longrightarrow> 0 \<le> js_or v 0"
  by (cases v) auto

end
