(* ===== verification/Nutrient_Resolver.thy ===== *)
theory Nutrient_Resolver
  imports Prelude
begin

text \<open>
  The nutrient resolver of the standalone validator (nutrition-validator/index.ts, class
  \<open>NutritionValidator\<close>, lines 318-513): a recipe's nutrients come from its stored
  \<open>nutrition_info\<close> when that is reliable, else from the USDA table summed over its main
  ingredients, else from a keyword estimate on its title; the result is scaled by the meal's
  serving multiplier and rounded. The recipe table and the USDA search are external: they
  are parameters of type \<open>recipe_store\<close> and \<open>usda_lookup\<close>, \<open>None\<close> standing for
  an error, an empty result or a missing row, which the code turns into \<open>null\<close>.
\<close>

subsection \<open>Data\<close>

text \<open>The \<open>nutrition_info\<close> JSON column; any field may be absent.\<close>

record nutrition_info =
  ni_calories :: "rat option"
  ni_protein :: "rat option"
  ni_fat :: "rat option"
  ni_carbohydrates :: "rat option"
  ni_fiber :: "rat option"

text \<open>\<open>Ingredient\<close> (types/recipe.ts, lines 57-70): the fields the resolver reads.\<close>

record ingredient =
  ing_name :: string
  ing_amount :: rat
  ing_unit :: string

text \<open>The row of \<open>select('title, nutrition_info, ingredients, servings')\<close>.\<close>

record recipe_row =
  rr_title :: string
  rr_nutrition_info :: "nutrition_info option"
  rr_ingredients :: "ingredient list option"
  rr_servings :: "rat option"

text \<open>A row of the RPC \<open>search_nutrition_data\<close>: nutrients per 100 g.\<close>

record usda_row =
  usda_calories :: "rat option"
  usda_protein :: "rat option"
  usda_fat :: "rat option"
  usda_carbohydrates :: "rat option"
  usda_fiber :: "rat option"

type_synonym recipe_store = "string \<Rightarrow> recipe_row option"
type_synonym usda_lookup = "string \<Rightarrow> usda_row option"

text \<open>\<open>calculation_method\<close> of \<open>MealNutrition\<close> (lines 83-88).\<close>

datatype calc_method = Spoonacular | Usda_calculated | Estimated

record meal_nutrition =
  mn_recipe_id :: string
  mn_recipe_title :: string
  mn_nutrition :: nutrition
  mn_method :: calc_method

subsection \<open>Helpers\<close>

text \<open>\<open>isReliableNutrition\<close> (lines 457-463).\<close>

definition isReliableNutrition :: "nutrition_info \<Rightarrow> bool" where
  "isReliableNutrition n \<longleftrightarrow> js_gt0 (ni_calories n) \<and> js_ge0 (ni_protein n)
     \<and> js_ge0 (ni_fat n) \<and> js_ge0 (ni_carbohydrates n)"

text \<open>\<open>isMinorIngredient\<close> (lines 465-471).\<close>

definition minorIngredients :: "string list" where
  "minorIngredients = [''salt'', ''pepper'', ''water'', ''vanilla'', ''baking powder'',
     ''garlic powder'', ''onion powder'', ''paprika'', ''oregano'', ''basil'', ''thyme'',
     ''rosemary'']"

definition isMinorIngredient :: "string \<Rightarrow> bool" where
  "isMinorIngredient name = list_ex (\<lambda>minor. str_includes (to_lower name) minor) minorIngredients"

text \<open>\<open>convertToGrams\<close> (lines 473-488): a fixed table, 100 for an unknown unit.\<close>

definition gramConversions :: "(string \<times> rat) list" where
  "gramConversions = [(''g'', 1), (''gram'', 1), (''grams'', 1),
     (''kg'', 1000), (''kilogram'', 1000),
     (''oz'', 2835 / 100), (''ounce'', 2835 / 100), (''ounces'', 2835 / 100),
     (''lb'', 45359 / 100), (''pound'', 45359 / 100), (''pounds'', 45359 / 100),
     (''cup'', 240), (''cups'', 240),
     (''tbsp'', 15), (''tablespoon'', 15), (''tablespoons'', 15),
     (''tsp'', 5), (''teaspoon'', 5), (''teaspoons'', 5),
     (''ml'', 1), (''milliliter'', 1), (''milliliters'', 1),
     (''l'', 1000), (''liter'', 1000), (''liters'', 1000)]"

definition convertToGrams :: "rat \<Rightarrow> string \<Rightarrow> rat" where
  "convertToGrams amount unit = amount * js_or (map_of gramConversions (to_lower unit)) 100"

text \<open>\<open>estimateNutrition\<close> (lines 490-513): the first matching keyword wins.\<close>

definition estimateNutrition :: "string \<Rightarrow> nutrition" where
  "estimateNutrition recipeTitle =
     (let title = to_lower recipeTitle in
      if str_includes title ''salad'' then Nutrition 150 8 5 15 3
      else if str_includes title ''pasta'' \<or> str_includes title ''rice'' then Nutrition 400 12 8 60 3
      else if str_includes title ''chicken'' \<or> str_includes title ''beef'' then Nutrition 350 25 15 10 3
      else if str_includes title ''soup'' then Nutrition 200 10 6 20 3
      else Nutrition 300 15 10 30 3)"

text \<open>The stored nutrients, each missing field read as \<open>0\<close> (lines 341-347).\<close>

definition infoNutrition :: "nutrition_info \<Rightarrow> nutrition" where
  "infoNutrition n = Nutrition (js_or (ni_calories n) 0) (js_or (ni_protein n) 0)
     (js_or (ni_fat n) 0) (js_or (ni_carbohydrates n) 0) (js_or (ni_fiber n) 0)"

definition usdaNutrition :: "usda_row \<Rightarrow> nutrition" where
  "usdaNutrition d = Nutrition (js_or (usda_calories d) 0) (js_or (usda_protein d) 0)
     (js_or (usda_fat d) 0) (js_or (usda_carbohydrates d) 0) (js_or (usda_fiber d) 0)"

subsection \<open>The three tiers\<close>

text \<open>
  \<open>calculateFromUSDA\<close> (lines 386-430). The filter keeps ingredients with a positive
  amount that are not minor; each one found in the USDA table with a positive gram weight
  adds its per-100 g nutrients times \<open>grams / 100\<close>; the loop is a fold over the list.
  Every path of the \<open>try\<close> block returns an object, so the result is always \<open>Some\<close>.
\<close>

definition mainIngredients :: "ingredient list \<Rightarrow> ingredient list" where
  "mainIngredients ings = filter (\<lambda>ing. 0 < ing_amount ing \<and> \<not> isMinorIngredient (ing_name ing)) ings"

definition usdaContribution :: "usda_lookup \<Rightarrow> ingredient \<Rightarrow> nutrition" where
  "usdaContribution usda ing =
     (case usda (ing_name ing) of
        None \<Rightarrow> 0
      | Some d \<Rightarrow>
          (let amountInGrams = convertToGrams (ing_amount ing) (ing_unit ing) in
           if 0 < amountInGrams then scale_nutrition (amountInGrams / 100) (usdaNutrition d) else 0))"

definition calculateFromUSDA :: "usda_lookup \<Rightarrow> ingredient list \<Rightarrow> nutrition option" where
  "calculateFromUSDA usda ings =
     Some (round_nutrition (fold (\<lambda>ing total. total + usdaContribution usda ing) (mainIngredients ings) 0))"

text \<open>The reliable stored nutrients of a row, if any (the test of line 340).\<close>

definition reliableInfo :: "recipe_row \<Rightarrow> nutrition_info option" where
  "reliableInfo r = (case rr_nutrition_info r of
      None \<Rightarrow> None
    | Some ni \<Rightarrow> if isReliableNutrition ni then Some ni else None)"

text \<open>The tier chain of lines 339-362, before scaling: \<open>None\<close> is the \<open>return null\<close>.\<close>

definition resolveTier :: "usda_lookup \<Rightarrow> bool \<Rightarrow> recipe_row \<Rightarrow> (nutrition \<times> calc_method) option" where
  "resolveTier usda useUSDAFallback r =
     (case reliableInfo r of
        Some ni \<Rightarrow> Some (infoNutrition ni, Spoonacular)
      | None \<Rightarrow>
          (case rr_ingredients r of
             Some ings \<Rightarrow>
               if useUSDAFallback then
                 (case calculateFromUSDA usda ings of
                    Some n \<Rightarrow> Some (n, Usda_calculated)
                  | None \<Rightarrow> Some (estimateNutrition (rr_title r), Estimated))
               else None
           | None \<Rightarrow> None))"

text \<open>
  \<open>calculateMealNutrition\<close> (lines 318-384): fetch the row, resolve, then scale by
  \<open>servings / (recipe.servings || 1)\<close> and round.
\<close>

definition calculateMealNutrition ::
  "recipe_store \<Rightarrow> usda_lookup \<Rightarrow> string \<Rightarrow> rat \<Rightarrow> bool \<Rightarrow> meal_nutrition option" where
  "calculateMealNutrition store usda recipeId servings useUSDAFallback =
     (case store recipeId of
        None \<Rightarrow> None
      | Some r \<Rightarrow>
          (case resolveTier usda useUSDAFallback r of
             None \<Rightarrow> None
           | Some (n, m) \<Rightarrow>
               (let servingMultiplier = servings / js_or (rr_servings r) 1 in
                Some \<lparr>mn_recipe_id = recipeId, mn_recipe_title = rr_title r,
                      mn_nutrition = round_nutrition (scale_nutrition servingMultiplier n),
                      mn_method = m\<rparr>)))"

text \<open>Concrete rows: stored reliable nutrients, and ingredients the USDA table does not know.\<close>

definition soup_row :: recipe_row where
  "soup_row = \<lparr>rr_title = ''Soup'',
     rr_nutrition_info = Some \<lparr>ni_calories = Some 200, ni_protein = Some 10, ni_fat = Some 6,
       ni_carbohydrates = Some 20, ni_fiber = None\<rparr>,
     rr_ingredients = None, rr_servings = Some 1\<rparr>"

definition stew_row :: recipe_row where
  "stew_row = \<lparr>rr_title = ''Mystery Stew'', rr_nutrition_info = None,
     rr_ingredients = Some [\<lparr>ing_name = ''dragonfruit'', ing_amount = 2, ing_unit = ''handful''\<rparr>,
                            \<lparr>ing_name = ''Sea Salt'', ing_amount = 1, ing_unit = ''tsp''\<rparr>],
     rr_servings = Some 0\<rparr>"

subsection \<open>Properties\<close>

lemma resolveTier_method: "resolveTier usda b r = Some (n, m) \<Longrightarrow> m \<noteq> Estimated"
  by (auto simp: resolveTier_def calculateFromUSDA_def split: option.splits if_splits)

text \<open>
  the third tier is dead code. \<open>calculateFromUSDA\<close> returns an object on every
  path, so no meal is ever resolved by the keyword estimate: a recipe none of whose
  ingredients is found in the USDA table contributes zero nutrients instead.
\<close>

theorem calculateMealNutrition_never_estimated:
  "calculateMealNutrition store usda rid servings b = Some mn \<Longrightarrow> mn_method mn \<noteq> Estimated"
  by (auto simp: calculateMealNutrition_def Let_def dest: resolveTier_method split: option.splits)

text \<open>
  first tier. A row whose stored \<open>nutrition_info\<close> is reliable is resolved from it,
  scaled by \<open>servings / (recipe.servings || 1)\<close> and rounded, whatever the USDA table holds.
\<close>

theorem calculateMealNutrition_reliable:
  assumes "store rid = Some r" "rr_nutrition_info r = Some ni" "isReliableNutrition ni"
  shows "calculateMealNutrition store usda rid servings b =
    Some \<lparr>mn_recipe_id = rid, mn_recipe_title = rr_title r,
          mn_nutrition = round_nutrition (scale_nutrition (servings / js_or (rr_servings r) 1) (infoNutrition ni)),
          mn_method = Spoonacular\<rparr>"
  using assms by (simp add: calculateMealNutrition_def resolveTier_def reliableInfo_def)

text \<open>
  no division by zero. A recipe whose \<open>servings\<close> is missing or \<open>0\<close> is scaled
  as if it had one serving: the multiplier is the meal's own serving count.
\<close>

theorem calculateMealNutrition_servings_default:
  assumes "store rid = Some r" "rr_servings r = None \<or> rr_servings r = Some 0"
    and "resolveTier usda b r = Some (n, m)"
  shows "calculateMealNutrition store usda rid servings b =
    Some \<lparr>mn_recipe_id = rid, mn_recipe_title = rr_title r,
          mn_nutrition = round_nutrition (scale_nutrition servings n), mn_method = m\<rparr>"
  using assms by (auto simp: calculateMealNutrition_def)

text \<open>
  only zero and a missing value are replaced by one serving. A recipe stored with a
  negative serving count yields negative nutrients, although \<open>NutrientTotals\<close> are
  meant to be non-negative.
\<close>

theorem calculateMealNutrition_negative_servings:
  "calculateMealNutrition (\<lambda>_. Some \<lparr>rr_title = ''Soup'',
       rr_nutrition_info = Some \<lparr>ni_calories = Some 200, ni_protein = Some 10, ni_fat = Some 6,
         ni_carbohydrates = Some 20, ni_fiber = None\<rparr>,
       rr_ingredients = None, rr_servings = Some (-1)\<rparr>) (\<lambda>_. None) ''r'' 1 True
   = Some \<lparr>mn_recipe_id = ''r'', mn_recipe_title = ''Soup'',
           mn_nutrition = Nutrition (-200) (-10) (-6) (-20) 0, mn_method = Spoonacular\<rparr>"
  by code_simp

text \<open>
  minor seasonings are skipped: an ingredient whose lower-cased name contains a
  minor-ingredient keyword contributes nothing to the USDA tier.
\<close>

theorem calculateFromUSDA_skips_minor:
  "isMinorIngredient (ing_name ing) \<Longrightarrow> calculateFromUSDA usda (ing # ings) = calculateFromUSDA usda ings"
  by (simp add: calculateFromUSDA_def mainIngredients_def)

text \<open>an unrecognised unit does not abort resolution: it counts as 100 g per unit.\<close>

theorem convertToGrams_unknown_unit:
  "map_of gramConversions (to_lower unit) = None \<Longrightarrow> convertToGrams amount unit = amount * 100"
  by (simp add: convertToGrams_def)

subsection \<open>Witnesses\<close>

theorem calculateMealNutrition_never_estimated_witness:
  "calculateMealNutrition (\<lambda>_. Some stew_row) (\<lambda>_. None) ''s'' 1 True =
     Some \<lparr>mn_recipe_id = ''s'', mn_recipe_title = ''Mystery Stew'', mn_nutrition = Nutrition 0 0 0 0 0,
           mn_method = Usda_calculated\<rparr>
   \<and> Usda_calculated \<noteq> Estimated"
proof -
  have h: "calculateMealNutrition (\<lambda>_. Some stew_row) (\<lambda>_. None) ''s'' 1 True =
     Some \<lparr>mn_recipe_id = ''s'', mn_recipe_title = ''Mystery Stew'', mn_nutrition = Nutrition 0 0 0 0 0,
           mn_method = Usda_calculated\<rparr>"
    by code_simp
  show ?thesis using h calculateMealNutrition_never_estimated [OF h] by simp
qed

theorem calculateMealNutrition_reliable_witness:
  "calculateMealNutrition (\<lambda>_. Some soup_row) (\<lambda>_. None) ''r'' 2 True =
     Some \<lparr>mn_recipe_id = ''r'', mn_recipe_title = ''Soup'', mn_nutrition = Nutrition 400 20 12 40 0,
           mn_method = Spoonacular\<rparr>"
proof -
  have v: "round_nutrition (scale_nutrition (2 / js_or (Some 1) 1)
      (infoNutrition \<lparr>ni_calories = Some 200, ni_protein = Some 10, ni_fat = Some 6,
         ni_carbohydrates = Some 20, ni_fiber = None\<rparr>)) = Nutrition 400 20 12 40 0"
    by code_simp
  have "calculateMealNutrition (\<lambda>_. Some soup_row) (\<lambda>_. None) ''r'' 2 True =
    Some \<lparr>mn_recipe_id = ''r'', mn_recipe_title = rr_title soup_row,
          mn_nutrition = round_nutrition (scale_nutrition (2 / js_or (rr_servings soup_row) 1)
            (infoNutrition \<lparr>ni_calories = Some 200, ni_protein = Some 10, ni_fat = Some 6,
               ni_carbohydrates = Some 20, ni_fiber = None\<rparr>)),
          mn_method = Spoonacular\<rparr>"
    by (rule calculateMealNutrition_reliable) (simp_all add: soup_row_def isReliableNutrition_def)
  then show ?thesis using v by (simp add: soup_row_def)
qed

theorem calculateMealNutrition_servings_default_witness:
  "calculateMealNutrition (\<lambda>_. Some stew_row) (\<lambda>_. None) ''s'' 3 True =
     Some \<lparr>mn_recipe_id = ''s'', mn_recipe_title = ''Mystery Stew'',
           mn_nutrition = round_nutrition (scale_nutrition 3 (Nutrition 0 0 0 0 0)),
           mn_method = Usda_calculated\<rparr>"
proof -
  have t: "resolveTier (\<lambda>_. None) True stew_row = Some (Nutrition 0 0 0 0 0, Usda_calculated)"
    by code_simp
  have "calculateMealNutrition (\<lambda>_. Some stew_row) (\<lambda>_. None) ''s'' 3 True =
     Some \<lparr>mn_recipe_id = ''s'', mn_recipe_title = rr_title stew_row,
           mn_nutrition = round_nutrition (scale_nutrition 3 (Nutrition 0 0 0 0 0)),
           mn_method = Usda_calculated\<rparr>"
    by (rule calculateMealNutrition_servings_default [OF _ _ t]) (simp_all add: stew_row_def)
  then show ?thesis by (simp add: stew_row_def)
qed

theorem calculateFromUSDA_skips_minor_witness:
  "calculateFromUSDA (\<lambda>_. Some \<lparr>usda_calories = Some 1, usda_protein = None, usda_fat = None,
       usda_carbohydrates = None, usda_fiber = None\<rparr>)
     (\<lparr>ing_name = ''Sea Salt'', ing_amount = 5, ing_unit = ''g''\<rparr> # [])
   = calculateFromUSDA (\<lambda>_. Some \<lparr>usda_calories = Some 1, usda_protein = None, usda_fat = None,
       usda_carbohydrates = None, usda_fiber = None\<rparr>) []"
proof -
  have "isMinorIngredient (ing_name \<lparr>ing_name = ''Sea Salt'', ing_amount = (5::rat), ing_unit = ''g''\<rparr>)"
    by code_simp
  then show ?thesis by (rule calculateFromUSDA_skips_minor)
qed

theorem convertToGrams_unknown_unit_witness: "convertToGrams 2 ''Handful'' = 200"
proof -
  have "map_of gramConversions (to_lower ''Handful'') = None" by code_simp
  then show ?thesis using convertToGrams_unknown_unit [of "''Handful''" 2] by simp
qed

lemmas resolver_defs = calculateMealNutrition_def resolveTier_def reliableInfo_def
  calculateFromUSDA_def

end
