(* ===== verification/Nutrition_Validator.thy ===== *)
theory Nutrition_Validator
  imports Nutrient_Resolver
begin

text \<open>
  The standalone validator, \<open>NutritionValidator.validatePlan\<close>
  (nutrition-validator/index.ts, lines 195-316, with \<open>calculateDeviation\<close> and
  \<open>generateNutritionSuggestions\<close>, lines 452-455 and 515-535). The two nested
  \<open>for\<close> loops over days and meals are folds over a loop-state record; each meal is
  resolved by \<open>calculateMealNutrition\<close> of \<^theory_text>\<open>Nutrient_Resolver\<close>. An empty
  plan divides \<open>0 / 0\<close>: every daily average and deviation is \<open>NaN\<close>, which the model
  writes as \<open>None\<close>; \<open>Math.abs(NaN) <= t\<close> and \<open>Math.abs(NaN) > t\<close> are both false.
  Suggestion strings are kept as a datatype carrying the nutrient and the percentage the
  template prints.
\<close>

subsection \<open>Data\<close>

text \<open>The \<open>plan_data\<close> of a request (lines 19-26): meals with an optional serving count.\<close>

record meal_in =
  meal_recipe_id :: string
  meal_servings :: "rat option"

record day_in =
  day_label :: "string option"
  day_meals :: "meal_in list"

text \<open>\<open>targets\<close> and \<open>options\<close> of the request schema (lines 29-43).\<close>

record targets =
  daily_calories :: rat
  daily_protein :: rat
  daily_fat :: rat
  daily_carbohydrates :: rat
  daily_fiber :: "rat option"

record validation_options =
  deviation_threshold :: rat
  require_all_recipes :: bool
  use_usda_fallback :: bool
  detailed_breakdown :: bool

text \<open>\<open>target_deviations\<close> of \<open>ValidationResult\<close> (lines 64-70).\<close>

record deviation_set =
  calories_deviation :: rat
  protein_deviation :: rat
  fat_deviation :: rat
  carbohydrates_deviation :: rat
  fiber_deviation :: "rat option"

datatype nutrient = Calories | Protein | Fat | Carbohydrates | Fiber

text \<open>
  The suggestion strings: \<open>Reduce X intake - currently d% above target\<close>,
  \<open>Increase X intake - currently |d|% below target\<close> and
  \<open>Missing nutrition data for recipe id\<close>.
\<close>

datatype suggestion =
    Reduce_intake nutrient rat
  | Increase_intake nutrient rat
  | Missing_recipe_data string

record daily_breakdown =
  db_day :: string
  db_nutrition :: nutrition
  db_meals :: "meal_nutrition list"

text \<open>\<open>ValidationResult\<close> (lines 60-75); \<open>None\<close> in the two optional fields is \<open>NaN\<close>.\<close>

record validation_result =
  is_valid :: bool
  total_nutrition :: nutrition
  daily_average :: "nutrition option"
  target_deviations :: "deviation_set option"
  within_threshold :: bool
  missing_nutrition_data :: "string list"
  suggestions :: "suggestion list"
  breakdown :: "daily_breakdown list option"

text \<open>The local variables of the loops of \<open>validatePlan\<close>.\<close>

record vstate =
  vs_total :: nutrition
  vs_day_total :: nutrition
  vs_day_meals :: "meal_nutrition list"
  vs_missing :: "string list"
  vs_suggestions :: "suggestion list"
  vs_breakdown :: "daily_breakdown list"

definition vstate_init :: vstate where
  "vstate_init = \<lparr>vs_total = 0, vs_day_total = 0, vs_day_meals = [], vs_missing = [],
     vs_suggestions = [], vs_breakdown = []\<rparr>"

subsection \<open>The loops\<close>

text \<open>The body of the inner loop (lines 226-256).\<close>

definition processMeal ::
  "recipe_store \<Rightarrow> usda_lookup \<Rightarrow> validation_options \<Rightarrow> meal_in \<Rightarrow> vstate \<Rightarrow> vstate" where
  "processMeal store usda opts meal st =
     (case calculateMealNutrition store usda (meal_recipe_id meal) (js_or (meal_servings meal) 1)
             (use_usda_fallback opts) of
        Some mn \<Rightarrow>
          st\<lparr>vs_total := vs_total st + mn_nutrition mn,
             vs_day_total := vs_day_total st + mn_nutrition mn,
             vs_day_meals := (if detailed_breakdown opts then vs_day_meals st @ [mn] else vs_day_meals st)\<rparr>
      | None \<Rightarrow>
          st\<lparr>vs_missing := vs_missing st @ [''Recipe '' @ meal_recipe_id meal],
             vs_suggestions := (if require_all_recipes opts
                                then vs_suggestions st @ [Missing_recipe_data (meal_recipe_id meal)]
                                else vs_suggestions st)\<rparr>)"

text \<open>\<open>day.day || 'unknown'\<close>.\<close>

definition dayName :: "day_in \<Rightarrow> string" where
  "dayName d = (case day_label d of None \<Rightarrow> ''unknown'' | Some s \<Rightarrow> if s = [] then ''unknown'' else s)"

text \<open>The body of the outer loop (lines 218-262): a fresh day breakdown, the meals, the push.\<close>

definition processDay ::
  "recipe_store \<Rightarrow> usda_lookup \<Rightarrow> validation_options \<Rightarrow> day_in \<Rightarrow> vstate \<Rightarrow> vstate" where
  "processDay store usda opts day st =
     (let st1 = fold (processMeal store usda opts) (day_meals day)
                  (st\<lparr>vs_day_total := 0, vs_day_meals := []\<rparr>)
      in if detailed_breakdown opts
         then st1\<lparr>vs_breakdown := vs_breakdown st1 @
                 [\<lparr>db_day = dayName day, db_nutrition = vs_day_total st1, db_meals = vs_day_meals st1\<rparr>]\<rparr>
         else st1)"

subsection \<open>Averages, deviations, threshold, suggestions\<close>

text \<open>Lines 265-272: \<open>None\<close> when \<open>dayCount = 0\<close> (every field \<open>NaN\<close>).\<close>

definition dailyAverageOf :: "nutrition \<Rightarrow> nat \<Rightarrow> nutrition option" where
  "dailyAverageOf t dayCount =
     (if dayCount = 0 then None
      else (let k = rat_of_nat dayCount in
            Some (round_nutrition (Nutrition (calories t / k) (protein t / k) (fat t / k)
                    (carbohydrates t / k) (fiber t / k)))))"

text \<open>\<open>calculateDeviation\<close> (lines 452-455).\<close>

definition calculateDeviation :: "rat \<Rightarrow> rat \<Rightarrow> rat" where
  "calculateDeviation actual target = (if target = 0 then 0 else ((actual - target) / target) * 100)"

text \<open>Lines 275-282; a falsy \<open>daily_fiber\<close> gives no fiber deviation.\<close>

definition calculateDeviations :: "nutrition \<Rightarrow> targets \<Rightarrow> deviation_set" where
  "calculateDeviations avg t =
     \<lparr>calories_deviation = calculateDeviation (calories avg) (daily_calories t),
      protein_deviation = calculateDeviation (protein avg) (daily_protein t),
      fat_deviation = calculateDeviation (fat avg) (daily_fat t),
      carbohydrates_deviation = calculateDeviation (carbohydrates avg) (daily_carbohydrates t),
      fiber_deviation = (case daily_fiber t of None \<Rightarrow> None
                         | Some f \<Rightarrow> if f = 0 then None else Some (calculateDeviation (fiber avg) f))\<rparr>"

text \<open>Lines 285-292: the four core deviations, fiber excluded.\<close>

definition coreDeviations :: "deviation_set \<Rightarrow> rat list" where
  "coreDeviations d = [\<bar>calories_deviation d\<bar>, \<bar>protein_deviation d\<bar>, \<bar>fat_deviation d\<bar>,
     \<bar>carbohydrates_deviation d\<bar>]"

definition withinThreshold :: "deviation_set \<Rightarrow> rat \<Rightarrow> bool" where
  "withinThreshold d threshold = list_all (\<lambda>dev. dev \<le> threshold) (coreDeviations d)"

text \<open>\<open>Object.entries(deviations)\<close> in key order; an \<open>undefined\<close> fiber entry is skipped.\<close>

definition deviationEntries :: "deviation_set \<Rightarrow> (nutrient \<times> rat) list" where
  "deviationEntries d = [(Calories, calories_deviation d), (Protein, protein_deviation d),
     (Fat, fat_deviation d), (Carbohydrates, carbohydrates_deviation d)]
     @ (case fiber_deviation d of None \<Rightarrow> [] | Some f \<Rightarrow> [(Fiber, f)])"

definition suggestionFor :: "rat \<Rightarrow> nutrient \<times> rat \<Rightarrow> suggestion list" where
  "suggestionFor threshold e =
     (case e of (n, deviation) \<Rightarrow>
        if threshold < \<bar>deviation\<bar> then
          [if 0 < deviation then Reduce_intake n deviation else Increase_intake n \<bar>deviation\<bar>]
        else [])"

text \<open>\<open>generateNutritionSuggestions\<close> (lines 515-535).\<close>

definition generateNutritionSuggestions :: "deviation_set \<Rightarrow> rat \<Rightarrow> suggestion list" where
  "generateNutritionSuggestions d threshold = concat (map (suggestionFor threshold) (deviationEntries d))"

subsection \<open>validatePlan\<close>

definition validatePlan ::
  "recipe_store \<Rightarrow> usda_lookup \<Rightarrow> day_in list \<Rightarrow> targets \<Rightarrow> validation_options \<Rightarrow> validation_result" where
  "validatePlan store usda days t opts =
     (let st = fold (processDay store usda opts) days vstate_init;
          dailyAverage = dailyAverageOf (vs_total st) (length days);
          deviations = map_option (\<lambda>a. calculateDeviations a t) dailyAverage;
          withinT = (case deviations of None \<Rightarrow> False
                    | Some d \<Rightarrow> withinThreshold d (deviation_threshold opts));
          valid = (withinT \<and> (if require_all_recipes opts then vs_missing st = [] else True));
          extra = (if \<not> withinT then (case deviations of None \<Rightarrow> []
                     | Some d \<Rightarrow> generateNutritionSuggestions d (deviation_threshold opts))
                   else [])
      in \<lparr>is_valid = valid, total_nutrition = vs_total st, daily_average = dailyAverage,
          target_deviations = deviations, within_threshold = withinT,
          missing_nutrition_data = vs_missing st, suggestions = vs_suggestions st @ extra,
          breakdown = (if detailed_breakdown opts then Some (vs_breakdown st) else None)\<rparr>)"

subsection \<open>Views of a plan used by the properties\<close>

text \<open>The meals of a plan in loop order, what each adds to the totals, and whether it resolves.\<close>

definition planMeals :: "day_in list \<Rightarrow> meal_in list" where
  "planMeals days = concat (map day_meals days)"

definition mealContribution ::
  "recipe_store \<Rightarrow> usda_lookup \<Rightarrow> validation_options \<Rightarrow> meal_in \<Rightarrow> nutrition" where
  "mealContribution store usda opts m =
     (case calculateMealNutrition store usda (meal_recipe_id m) (js_or (meal_servings m) 1)
             (use_usda_fallback opts) of
        None \<Rightarrow> 0 | Some mn \<Rightarrow> mn_nutrition mn)"

definition unresolved :: "recipe_store \<Rightarrow> usda_lookup \<Rightarrow> validation_options \<Rightarrow> meal_in \<Rightarrow> bool" where
  "unresolved store usda opts m \<longleftrightarrow>
     calculateMealNutrition store usda (meal_recipe_id m) (js_or (meal_servings m) 1)
       (use_usda_fallback opts) = None"

text \<open>Concrete inputs: a recipe with stored nutrients, a one-meal day, the default options.\<close>

definition plate_store :: "rat \<Rightarrow> rat \<Rightarrow> rat \<Rightarrow> rat \<Rightarrow> recipe_store" where
  "plate_store c p f h = (\<lambda>rid. if rid = ''r'' then Some \<lparr>rr_title = ''Plate'',
      rr_nutrition_info = Some \<lparr>ni_calories = Some c, ni_protein = Some p, ni_fat = Some f,
        ni_carbohydrates = Some h, ni_fiber = None\<rparr>,
      rr_ingredients = None, rr_servings = Some 1\<rparr> else None)"

definition plate_day :: day_in where
  "plate_day = \<lparr>day_label = None, day_meals = [\<lparr>meal_recipe_id = ''r'', meal_servings = None\<rparr>]\<rparr>"

definition default_options :: validation_options where
  "default_options = \<lparr>deviation_threshold = 15, require_all_recipes = True,
     use_usda_fallback = True, detailed_breakdown = False\<rparr>"

definition day_of :: "meal_in list \<Rightarrow> day_in" where
  "day_of ms = \<lparr>day_label = Some ''monday'', day_meals = ms\<rparr>"

definition meal_r :: meal_in where
  "meal_r = \<lparr>meal_recipe_id = ''r'', meal_servings = None\<rparr>"

definition meal_x :: meal_in where
  "meal_x = \<lparr>meal_recipe_id = ''x'', meal_servings = Some 2\<rparr>"

definition plate_targets :: targets where
  "plate_targets = \<lparr>daily_calories = 2000, daily_protein = 150, daily_fat = 67,
     daily_carbohydrates = 250, daily_fiber = None\<rparr>"

subsection \<open>Loop invariants\<close>

lemma fold_processMeal_total:
  "vs_total (fold (processMeal store usda opts) ms st) =
     vs_total st + sum_list (map (mealContribution store usda opts) ms)"
  by (induction ms arbitrary: st)
     (auto simp: processMeal_def mealContribution_def add.assoc split: option.splits)

lemma fold_processMeal_missing:
  "vs_missing (fold (processMeal store usda opts) ms st) =
     vs_missing st @ map (\<lambda>m. ''Recipe '' @ meal_recipe_id m) (filter (unresolved store usda opts) ms)"
  by (induction ms arbitrary: st) (auto simp: processMeal_def unresolved_def split: option.splits)

lemma fold_processMeal_suggestions:
  "vs_suggestions (fold (processMeal store usda opts) ms st) =
     vs_suggestions st @ (if require_all_recipes opts
       then map (\<lambda>m. Missing_recipe_data (meal_recipe_id m)) (filter (unresolved store usda opts) ms)
       else [])"
  by (induction ms arbitrary: st) (auto simp: processMeal_def unresolved_def split: option.splits)

lemma processDay_total:
  "vs_total (processDay store usda opts d st) =
     vs_total st + sum_list (map (mealContribution store usda opts) (day_meals d))"
  by (simp add: processDay_def Let_def fold_processMeal_total)

lemma processDay_missing:
  "vs_missing (processDay store usda opts d st) =
     vs_missing st @ map (\<lambda>m. ''Recipe '' @ meal_recipe_id m) (filter (unresolved store usda opts) (day_meals d))"
  by (simp add: processDay_def Let_def fold_processMeal_missing)

lemma fold_processDay_total:
  "vs_total (fold (processDay store usda opts) days st) =
     vs_total st + sum_list (map (mealContribution store usda opts) (planMeals days))"
  by (induction days arbitrary: st) (simp_all add: planMeals_def processDay_total add.assoc)

lemma fold_processDay_missing:
  "vs_missing (fold (processDay store usda opts) days st) =
     vs_missing st @ map (\<lambda>m. ''Recipe '' @ meal_recipe_id m) (filter (unresolved store usda opts) (planMeals days))"
  by (induction days arbitrary: st) (simp_all add: planMeals_def processDay_missing)

lemma validatePlan_total_eq:
  "total_nutrition (validatePlan store usda days t opts) =
     sum_list (map (mealContribution store usda opts) (planMeals days))"
  by (simp add: validatePlan_def Let_def fold_processDay_total vstate_init_def)

lemma mem_generateNutritionSuggestions:
  "s \<in> set (generateNutritionSuggestions d thr) \<longleftrightarrow>
     (\<exists>e\<in>set (deviationEntries d). s \<in> set (suggestionFor thr e))"
  by (simp add: generateNutritionSuggestions_def)

subsection \<open>Properties\<close>

text \<open>
  validity. A plan is valid iff it is within threshold and, when all recipes are
  required, no meal lacks nutrition data; the missing list names exactly the meals that do
  not resolve, in plan order.
\<close>

theorem validatePlan_is_valid:
  "(is_valid (validatePlan store usda days t opts) \<longleftrightarrow>
     within_threshold (validatePlan store usda days t opts)
     \<and> (require_all_recipes opts \<longrightarrow> missing_nutrition_data (validatePlan store usda days t opts) = []))
   \<and> missing_nutrition_data (validatePlan store usda days t opts) =
       map (\<lambda>m. ''Recipe '' @ meal_recipe_id m) (filter (unresolved store usda opts) (planMeals days))"
  by (simp add: validatePlan_def Let_def fold_processDay_missing vstate_init_def)

text \<open>
  suggestions. A suggestion names a nutrient whose deviation exceeds the threshold,
  "reduce" for a positive deviation and "increase" for a negative one, one per such
  nutrient (fiber included when it has a target).
\<close>

theorem generateNutritionSuggestions_sign:
  "(Reduce_intake n v \<in> set (generateNutritionSuggestions d thr) \<longleftrightarrow>
      (n, v) \<in> set (deviationEntries d) \<and> thr < \<bar>v\<bar> \<and> 0 < v)
   \<and> (Increase_intake n w \<in> set (generateNutritionSuggestions d thr) \<longleftrightarrow>
      (\<exists>v. (n, v) \<in> set (deviationEntries d) \<and> thr < \<bar>v\<bar> \<and> v \<le> 0 \<and> w = \<bar>v\<bar>))
   \<and> length (generateNutritionSuggestions d thr) = length (filter (\<lambda>e. thr < \<bar>snd e\<bar>) (deviationEntries d))"
proof -
  have R: "Reduce_intake n v \<in> set (suggestionFor thr e) \<longleftrightarrow> e = (n, v) \<and> thr < \<bar>v\<bar> \<and> 0 < v" for e
    by (cases e) (auto simp: suggestionFor_def)
  have I: "Increase_intake n w \<in> set (suggestionFor thr e) \<longleftrightarrow>
      (\<exists>v. e = (n, v) \<and> thr < \<bar>v\<bar> \<and> v \<le> 0 \<and> w = \<bar>v\<bar>)" for e
    by (cases e) (auto simp: suggestionFor_def)
  have L: "length \<circ> suggestionFor thr = (\<lambda>e. if thr < \<bar>snd e\<bar> then 1 else 0)"
    by (rule ext) (auto simp: suggestionFor_def split: prod.splits)
  show ?thesis
    by (auto simp: mem_generateNutritionSuggestions R I L generateNutritionSuggestions_def
        length_concat sum_list_indicator_length)
qed

text \<open>
  the spec's scenario. Targets 2000 kcal, 150 g protein, 67 g fat, 250 g carbohydrates
  and a seven-day plan averaging 1985 / 145 / 71 / 248 give deviations -0.75, -3.33,
  +5.97, -0.8 and a valid plan. An empty plan is never within threshold (its averages are
  \<open>NaN\<close>). At the boundary, a deviation of exactly 15.0 passes and 15.01 fails.
\<close>

theorem validatePlan_scenarios:
  "target_deviations (validatePlan (plate_store 1985 145 71 248) (\<lambda>_. None) (replicate 7 plate_day)
      \<lparr>daily_calories = 2000, daily_protein = 150, daily_fat = 67, daily_carbohydrates = 250,
       daily_fiber = None\<rparr> default_options)
     = Some \<lparr>calories_deviation = -3/4, protein_deviation = -10/3, fat_deviation = 400/67,
             carbohydrates_deviation = -4/5, fiber_deviation = None\<rparr>
   \<and> is_valid (validatePlan (plate_store 1985 145 71 248) (\<lambda>_. None) (replicate 7 plate_day)
      \<lparr>daily_calories = 2000, daily_protein = 150, daily_fat = 67, daily_carbohydrates = 250,
       daily_fiber = None\<rparr> default_options)
   \<and> \<not> within_threshold (validatePlan store usda [] t opts)
   \<and> within_threshold (validatePlan (plate_store 11500 150 67 250) (\<lambda>_. None) [plate_day]
      \<lparr>daily_calories = 10000, daily_protein = 150, daily_fat = 67, daily_carbohydrates = 250,
       daily_fiber = None\<rparr> default_options)
   \<and> \<not> within_threshold (validatePlan (plate_store 11501 150 67 250) (\<lambda>_. None) [plate_day]
      \<lparr>daily_calories = 10000, daily_protein = 150, daily_fat = 67, daily_carbohydrates = 250,
       daily_fiber = None\<rparr> default_options)"
proof (intro conjI)
  show "\<not> within_threshold (validatePlan store usda [] t opts)"
    by (simp add: validatePlan_def Let_def dailyAverageOf_def)
qed (code_simp)+

subsection \<open>Witnesses\<close>

theorem validatePlan_is_valid_witness:
  "\<not> is_valid (validatePlan (plate_store 2000 150 67 250) (\<lambda>_. None) [day_of [meal_r, meal_x]] plate_targets default_options)
   \<and> missing_nutrition_data (validatePlan (plate_store 2000 150 67 250) (\<lambda>_. None) [day_of [meal_r, meal_x]] plate_targets default_options)
     = [''Recipe x'']"
proof -
  have u: "filter (unresolved (plate_store 2000 150 67 250) (\<lambda>_. None) default_options) (planMeals [day_of [meal_r, meal_x]])
     = [\<lparr>meal_recipe_id = ''x'', meal_servings = Some 2\<rparr>]"
    by code_simp
  show ?thesis
    using validatePlan_is_valid [of "plate_store 2000 150 67 250" "\<lambda>_. None" "[day_of [meal_r, meal_x]]" plate_targets default_options] u
    by (simp add: default_options_def)
qed

end
