(* ===== verification/Candidate_Selector.thy ===== *)
theory Candidate_Selector
  imports Prelude "HOL-Library.Product_Lexorder"
begin

text \<open>
  Stage 2 of the pipeline, class \<open>CandidateSelector\<close> (agents/wow-layer.ts, lines
  592-1153): a hard-constraint query over the recipe table, an external personalisation
  score per recipe, a weighted final score, a stable sort and a diversity-constrained pass
  that keeps at most 30 candidates. The recipe table is a list of rows; the query's
  PostgREST filters are read as predicates on a row, its \<open>order\<close> as a stable sort and
  its \<open>limit\<close> as \<open>take\<close>. The scorer's reply is a parameter (\<open>ai_reply\<close>): a failed
  call, an unparsable text, or the parsed \<open>recipe_scores\<close> object as a map.
\<close>

subsection \<open>Data\<close>

datatype rating_value = Love | Meh | Skip

record recent_rating =
  rating_recipe_id :: string
  rating :: rating_value

record recent_swap =
  original_recipe_id :: string
  replacement_recipe_id :: string

text \<open>The columns of \<open>Recipe\<close> (types/recipe.ts, lines 12-55) the selector reads.\<close>

record recipe =
  r_id :: string
  r_title :: string
  r_ingredient_names :: "string list"
  r_prep_time :: "rat option"
  r_cook_time :: "rat option"
  r_difficulty :: "string option"
  r_dietary_tags :: "string list"
  r_cuisine :: "string option"
  r_meal_types :: "string list"
  r_status :: string
  r_is_premium :: bool
  r_rating_average :: rat
  r_rating_count :: rat

text \<open>The parts of \<open>UserBlueprint\<close> and \<open>GenerationPreferences\<close> the selector reads.\<close>

record intake =
  diet_type :: "string option"
  allergies :: "string list option"
  dislikes :: "string list option"
  cooking_time_preference :: "rat option"

record selector_blueprint =
  bp_intake :: intake
  bp_premium_access :: bool
  bp_recent_ratings :: "recent_rating list option"
  bp_recent_swaps :: "recent_swap list option"

record preferences =
  pref_max_prep_time :: "rat option"
  pref_exclude_recipes :: "string list option"

text \<open>\<open>RecipeFilter\<close>: the fields \<open>performSQLFiltering\<close> reads.\<close>

record recipe_filter =
  dietary_restrictions :: "string list"
  allergen_exclusions :: "string list"
  max_prep_time :: "rat option"
  max_cook_time :: "rat option"
  include_premium :: bool
  exclude_recipe_ids :: "string list option"

text \<open>\<open>RecipeCandidate\<close> (types/recipe.ts, lines 151-166).\<close>

record candidate =
  c_recipe :: recipe
  base_score :: rat
  ai_personalization_score :: rat
  final_score :: rat
  match_reasons :: "string list"
  penalty_reasons :: "string list"

text \<open>An entry of the scorer's \<open>recipe_scores\<close> object.\<close>

record score_data =
  sd_score :: "rat option"
  sd_match_reasons :: "string list option"
  sd_penalty_reasons :: "string list option"

datatype ai_reply =
    Reply_failed string
  | Reply_unparsable
  | Reply_scores "(string \<rightharpoonup> score_data) option"

datatype selection_result =
    Selected "candidate list"
  | Selection_failed string

subsection \<open>Hard filtering\<close>

text \<open>\<open>a || b\<close> on optional numbers.\<close>

definition js_or_opt :: "rat option \<Rightarrow> rat option \<Rightarrow> rat option" where
  "js_or_opt a b = (case a of None \<Rightarrow> b | Some x \<Rightarrow> if x = 0 then b else Some x)"

text \<open>\<open>buildRecipeFilter\<close> (lines 835-863).\<close>

definition buildRecipeFilter :: "selector_blueprint \<Rightarrow> preferences \<Rightarrow> recipe_filter" where
  "buildRecipeFilter bp prefs =
     (let i = bp_intake bp in
      \<lparr>dietary_restrictions = (case diet_type i of None \<Rightarrow> []
          | Some d \<Rightarrow> if d = [] \<or> d = ''omnivore'' then [] else [d]),
       allergen_exclusions = (case allergies i of None \<Rightarrow> [] | Some a \<Rightarrow> a)
          @ (case dislikes i of None \<Rightarrow> [] | Some d \<Rightarrow> d),
       max_prep_time = js_or_opt (pref_max_prep_time prefs) (cooking_time_preference i),
       max_cook_time = (case pref_max_prep_time prefs of None \<Rightarrow> None
          | Some m \<Rightarrow> if m = 0 then None else Some (m + 30)),
       include_premium = bp_premium_access bp,
       exclude_recipe_ids = pref_exclude_recipes prefs\<rparr>)"

text \<open>\<open>.lte(column, m)\<close>: a \<open>NULL\<close> column fails the comparison.\<close>

definition sql_lte :: "rat option \<Rightarrow> rat \<Rightarrow> bool" where
  "sql_lte v m = (case v of None \<Rightarrow> False | Some x \<Rightarrow> x \<le> m)"

text \<open>
  The filters of \<open>performSQLFiltering\<close> (lines 687-724) on one row: published, tagged
  with every dietary restriction (trivially so when there is none, where the code adds no
  filter), no allergen or dislike among its tags or (case
  insensitively) in an ingredient name, within the time caps, not premium without access,
  not excluded by id.
\<close>

definition allergenFree :: "string \<Rightarrow> recipe \<Rightarrow> bool" where
  "allergenFree a r \<longleftrightarrow> a \<notin> set (r_dietary_tags r)
     \<and> \<not> list_ex (\<lambda>n. str_includes (to_lower n) (to_lower a)) (r_ingredient_names r)"

definition sqlFilter :: "recipe_filter \<Rightarrow> recipe \<Rightarrow> bool" where
  "sqlFilter f r \<longleftrightarrow>
     r_status r = ''published''
     \<and> set (dietary_restrictions f) \<subseteq> set (r_dietary_tags r)
     \<and> list_all (\<lambda>a. allergenFree a r) (allergen_exclusions f)
     \<and> (case max_prep_time f of None \<Rightarrow> True | Some m \<Rightarrow> m = 0 \<or> sql_lte (r_prep_time r) m)
     \<and> (case max_cook_time f of None \<Rightarrow> True | Some m \<Rightarrow> m = 0 \<or> sql_lte (r_cook_time r) m)
     \<and> (include_premium f \<or> \<not> r_is_premium r)
     \<and> (case exclude_recipe_ids f of None \<Rightarrow> True | Some ids \<Rightarrow> r_id r \<notin> set ids)"

text \<open>\<open>order(rating_average desc, rating_count desc).limit(50)\<close> (lines 727-730).\<close>

definition performSQLFiltering :: "recipe list \<Rightarrow> selector_blueprint \<Rightarrow> preferences \<Rightarrow> recipe list" where
  "performSQLFiltering db bp prefs =
     take 50 (sort_key (\<lambda>r. (- r_rating_average r, - r_rating_count r))
       (filter (sqlFilter (buildRecipeFilter bp prefs)) db))"

subsection \<open>Scoring\<close>

text \<open>\<open>parseAIScoringResponse\<close>, the map over the recipes (lines 964-987).\<close>

definition candidateOf :: "(string \<rightharpoonup> score_data) \<Rightarrow> recipe \<Rightarrow> candidate" where
  "candidateOf recipeScores r =
     (case recipeScores (r_id r) of
        None \<Rightarrow> \<lparr>c_recipe = r, base_score = 50, ai_personalization_score = 50, final_score = 50,
                 match_reasons = [], penalty_reasons = [''No AI score available'']\<rparr>
      | Some sd \<Rightarrow> \<lparr>c_recipe = r, base_score = r_rating_average r * 20,
                 ai_personalization_score = js_or (sd_score sd) 50, final_score = 0,
                 match_reasons = (case sd_match_reasons sd of None \<Rightarrow> [] | Some m \<Rightarrow> m),
                 penalty_reasons = (case sd_penalty_reasons sd of None \<Rightarrow> [] | Some p \<Rightarrow> p)\<rparr>)"

text \<open>\<open>performAIScoring\<close> with \<open>parseAIScoringResponse\<close> (lines 744-808, 946-997).\<close>

definition performAIScoring :: "ai_reply \<Rightarrow> recipe list \<Rightarrow> string + candidate list" where
  "performAIScoring reply recipes =
     (case reply of
        Reply_failed e \<Rightarrow> Inl (''AI scoring failed: '' @ e)
      | Reply_unparsable \<Rightarrow> Inl ''Failed to parse AI response: No JSON found in AI response''
      | Reply_scores None \<Rightarrow> Inl ''Failed to parse AI response: No recipe_scores found in AI response''
      | Reply_scores (Some recipeScores) \<Rightarrow> Inr (map (candidateOf recipeScores) recipes))"

text \<open>\<open>getRecentFavoriteBonus\<close> and \<open>getSwapPenalty\<close> (lines 1118-1143).\<close>

definition getRecentFavoriteBonus :: "recipe \<Rightarrow> selector_blueprint \<Rightarrow> rat" where
  "getRecentFavoriteBonus r bp =
     (let recentLoves = filter (\<lambda>x. rating x = Love)
            (case bp_recent_ratings bp of None \<Rightarrow> [] | Some rs \<Rightarrow> rs)
      in if list_ex (\<lambda>x. rating_recipe_id x = r_id r) recentLoves then 13 / 10 else 1)"

definition getSwapPenalty :: "recipe \<Rightarrow> selector_blueprint \<Rightarrow> rat" where
  "getSwapPenalty r bp =
     (if list_ex (\<lambda>s. original_recipe_id s = r_id r)
           (case bp_recent_swaps bp of None \<Rightarrow> [] | Some ss \<Rightarrow> ss)
      then 7 / 10 else 1)"

text \<open>\<open>criteria.premium_bonus\<close> of \<open>buildScoringCriteria\<close> (line 880).\<close>

definition premiumBonus :: "selector_blueprint \<Rightarrow> rat" where
  "premiumBonus bp = (if bp_premium_access bp then 11 / 10 else 1)"

text \<open>\<open>calculateFinalScore\<close> (lines 1002-1029).\<close>

definition calculateFinalScore :: "candidate \<Rightarrow> selector_blueprint \<Rightarrow> rat" where
  "calculateFinalScore c bp =
     (let score = base_score c * (3 / 10) + ai_personalization_score c * (4 / 10);
          score = score * getRecentFavoriteBonus (c_recipe c) bp;
          score = (if r_is_premium (c_recipe c) \<and> bp_premium_access bp then score * premiumBonus bp else score);
          score = score * getSwapPenalty (c_recipe c) bp
      in min (max score 0) 100)"

subsection \<open>Diversity-constrained selection\<close>

text \<open>A falsy \<open>cuisine_type\<close> (missing or empty) counts for no cuisine.\<close>

definition cuisineKey :: "recipe \<Rightarrow> string option" where
  "cuisineKey r = (case r_cuisine r of None \<Rightarrow> None | Some c \<Rightarrow> if c = [] then None else Some c)"

definition targetCount :: nat where
  "targetCount = 30"

definition cuisineLimit :: nat where
  "cuisineLimit = 6"

definition mealTypeLimit :: nat where
  "mealTypeLimit = 10"

text \<open>The loop variables of \<open>selectDiverseSet\<close> (lines 1035-1041); counts default to 0.\<close>

record div_state =
  selected :: "candidate list"
  cuisineCount :: "string \<Rightarrow> nat"
  mealTypeCount :: "string \<Rightarrow> nat"
  difficultyCount :: "string \<Rightarrow> nat"

definition div_init :: div_state where
  "div_init = \<lparr>selected = [], cuisineCount = (\<lambda>_. 0), mealTypeCount = (\<lambda>_. 0),
     difficultyCount = (\<lambda>_. 0)\<rparr>"

text \<open>\<open>skipForDiversity\<close> (lines 1052-1068).\<close>

definition skipForDiversity :: "candidate \<Rightarrow> div_state \<Rightarrow> bool" where
  "skipForDiversity c st \<longleftrightarrow>
     (case cuisineKey (c_recipe c) of None \<Rightarrow> False | Some k \<Rightarrow> cuisineLimit \<le> cuisineCount st k)
     \<or> list_ex (\<lambda>mt. mealTypeLimit \<le> mealTypeCount st mt) (r_meal_types (c_recipe c))"

text \<open>The push and the counter updates (lines 1075-1088).\<close>

definition addCandidate :: "candidate \<Rightarrow> div_state \<Rightarrow> div_state" where
  "addCandidate c st =
     (let r = c_recipe c in
      st\<lparr>selected := selected st @ [c],
         cuisineCount := (case cuisineKey r of None \<Rightarrow> cuisineCount st
           | Some k \<Rightarrow> (cuisineCount st)(k := cuisineCount st k + 1)),
         mealTypeCount := fold (\<lambda>mt f. f(mt := f mt + 1)) (r_meal_types r) (mealTypeCount st),
         difficultyCount := (case r_difficulty r of None \<Rightarrow> difficultyCount st
           | Some d \<Rightarrow> if d = [] then difficultyCount st
                       else (difficultyCount st)(d := difficultyCount st d + 1))\<rparr>)"

text \<open>The \<open>for\<close> loop of lines 1043-1089, with its \<open>break\<close> and \<open>continue\<close>.\<close>

fun selectLoop :: "candidate list \<Rightarrow> div_state \<Rightarrow> div_state" where
  "selectLoop [] st = st"
| "selectLoop (c # cs) st =
     (if targetCount \<le> length (selected st) then st
      else if skipForDiversity c st \<and> 15 < length (selected st) then selectLoop cs st
      else selectLoop cs (addCandidate c st))"

definition selectDiverseSet :: "candidate list \<Rightarrow> candidate list" where
  "selectDiverseSet cs = selected (selectLoop cs div_init)"

text \<open>\<open>rankAndSelectFinalCandidates\<close> (lines 813-830): \<open>Array.prototype.sort\<close> is stable.\<close>

definition rankAndSelectFinalCandidates :: "candidate list \<Rightarrow> selector_blueprint \<Rightarrow> candidate list" where
  "rankAndSelectFinalCandidates cs bp =
     selectDiverseSet (sort_key (\<lambda>c. - final_score c)
       (map (\<lambda>c. c\<lparr>final_score := calculateFinalScore c bp\<rparr>) cs))"

text \<open>\<open>selectCandidates\<close> (lines 604-667).\<close>

definition selectCandidates :: "recipe list \<Rightarrow> ai_reply \<Rightarrow> selector_blueprint \<Rightarrow> preferences \<Rightarrow> selection_result" where
  "selectCandidates db reply bp prefs =
     (let sqlCandidates = performSQLFiltering db bp prefs in
      if sqlCandidates = [] then Selection_failed ''No recipes found matching dietary restrictions and constraints''
      else (case performAIScoring reply sqlCandidates of
              Inl e \<Rightarrow> Selection_failed e
            | Inr scored \<Rightarrow> Selected (rankAndSelectFinalCandidates scored bp)))"

subsection \<open>Views and concrete inputs used by the properties\<close>

text \<open>How many selected candidates have cuisine \<open>k\<close>; the counters agree with the list.\<close>

definition cuisineUses :: "string \<Rightarrow> candidate list \<Rightarrow> nat" where
  "cuisineUses k xs = length (filter (\<lambda>c. cuisineKey (c_recipe c) = Some k) xs)"

definition counts_ok :: "div_state \<Rightarrow> bool" where
  "counts_ok st \<longleftrightarrow> (\<forall>k. cuisineCount st k = cuisineUses k (selected st))"

definition cap_ok :: "string \<Rightarrow> div_state \<Rightarrow> bool" where
  "cap_ok k st \<longleftrightarrow>
     cuisineUses k (selected st) \<le> max (cuisineUses k (take 16 (selected st))) cuisineLimit"

definition italian :: "nat \<Rightarrow> candidate" where
  "italian n = \<lparr>c_recipe = \<lparr>r_id = replicate n (CHR ''a''), r_title = ''Pasta'', r_ingredient_names = [],
     r_prep_time = None, r_cook_time = None, r_difficulty = None, r_dietary_tags = [],
     r_cuisine = Some ''italian'', r_meal_types = [''dinner''], r_status = ''published'',
     r_is_premium = False, r_rating_average = 4, r_rating_count = 1\<rparr>,
     base_score = 80, ai_personalization_score = 50, final_score = 44, match_reasons = [],
     penalty_reasons = []\<rparr>"

text \<open>The user's allergies and dislikes, each of which a selected recipe must avoid.\<close>

definition intakeExclusions :: "selector_blueprint \<Rightarrow> string list" where
  "intakeExclusions bp = (case allergies (bp_intake bp) of None \<Rightarrow> [] | Some a \<Rightarrow> a)
     @ (case dislikes (bp_intake bp) of None \<Rightarrow> [] | Some d \<Rightarrow> d)"

definition demo_recipe :: recipe where
  "demo_recipe = \<lparr>r_id = ''r1'', r_title = ''Green Curry'', r_ingredient_names = [''chicken'', ''basil''],
     r_prep_time = Some 20, r_cook_time = Some 25, r_difficulty = Some ''easy'', r_dietary_tags = [],
     r_cuisine = Some ''thai'', r_meal_types = [''dinner''], r_status = ''published'',
     r_is_premium = False, r_rating_average = 9 / 2, r_rating_count = 12\<rparr>"

definition demo_blueprint :: selector_blueprint where
  "demo_blueprint = \<lparr>bp_intake = \<lparr>diet_type = Some ''omnivore'', allergies = Some [''peanut''],
       dislikes = None, cooking_time_preference = Some 45\<rparr>,
     bp_premium_access = False, bp_recent_ratings = None, bp_recent_swaps = None\<rparr>"

definition demo_prefs :: preferences where
  "demo_prefs = \<lparr>pref_max_prep_time = None, pref_exclude_recipes = None\<rparr>"

definition demo_scores :: "string \<rightharpoonup> score_data" where
  "demo_scores = [''r1'' \<mapsto> \<lparr>sd_score = Some 0, sd_match_reasons = None, sd_penalty_reasons = None\<rparr>]"

definition demo_candidate :: candidate where
  "demo_candidate = \<lparr>c_recipe = demo_recipe, base_score = 90, ai_personalization_score = 50,
     final_score = 47, match_reasons = [], penalty_reasons = []\<rparr>"

subsection \<open>Loop invariants of the diversity pass\<close>

lemma selectLoop_extends:
  "\<exists>ys. selected (selectLoop cs st) = selected st @ ys \<and> subseq ys cs"
proof (induction cs arbitrary: st)
  case Nil then show ?case by simp
next
  case (Cons c cs)
  show ?case
  proof (cases "targetCount \<le> length (selected st)")
    case True then show ?thesis by (intro exI[of _ "[]"]) simp
  next
    case False
    show ?thesis
    proof (cases "skipForDiversity c st \<and> 15 < length (selected st)")
      case True
      with False Cons.IH[of st] show ?thesis by (auto intro: subseq_Cons')
    next
      case skip: False
      from Cons.IH[of "addCandidate c st"] obtain ys where
        "selected (selectLoop cs (addCandidate c st)) = selected (addCandidate c st) @ ys" "subseq ys cs"
        by blast
      moreover have "selected (selectLoop (c # cs) st) = selected (selectLoop cs (addCandidate c st))"
        using False skip by auto
      ultimately show ?thesis
        by (intro exI[of _ "c # ys"]) (simp add: addCandidate_def Let_def)
    qed
  qed
qed

lemma selectLoop_length:
  "length (selected st) \<le> targetCount \<Longrightarrow> length (selected (selectLoop cs st)) \<le> targetCount"
  by (induction cs arbitrary: st) (auto simp: addCandidate_def Let_def)

lemma selectLoop_small:
  "length (selected st) + length cs \<le> 16 \<Longrightarrow> selected (selectLoop cs st) = selected st @ cs"
  by (induction cs arbitrary: st) (auto simp: addCandidate_def Let_def targetCount_def)

lemma selectDiverseSet_subseq: "subseq (selectDiverseSet cs) cs"
  using selectLoop_extends[of cs div_init] by (auto simp: selectDiverseSet_def div_init_def)

lemma selectDiverseSet_length: "length (selectDiverseSet cs) \<le> targetCount"
  using selectLoop_length[of div_init cs] by (simp add: selectDiverseSet_def div_init_def targetCount_def)

lemma selectDiverseSet_small: "length cs \<le> 16 \<Longrightarrow> selectDiverseSet cs = cs"
  using selectLoop_small[of div_init cs] by (simp add: selectDiverseSet_def div_init_def)

lemma selectLoop_full: "targetCount \<le> length (selected st) \<Longrightarrow> selectLoop cs st = st"
  by (cases cs) simp_all

lemma selectLoop_append: "selectLoop (xs @ ys) st = selectLoop ys (selectLoop xs st)"
  by (induction xs arbitrary: st) (auto simp: selectLoop_full)

lemma addCandidate_counts_ok: "counts_ok st \<Longrightarrow> counts_ok (addCandidate c st)"
  by (auto simp: counts_ok_def addCandidate_def Let_def cuisineUses_def split: option.splits)

lemma addCandidate_cap_ok:
  assumes "counts_ok st" "cap_ok k st" "\<not> (skipForDiversity c st \<and> 15 < length (selected st))"
  shows "cap_ok k (addCandidate c st)"
proof (cases "15 < length (selected st)")
  case True
  then have ns: "\<not> skipForDiversity c st" using assms(3) by simp
  have tk: "take 16 (selected st @ [c]) = take 16 (selected st)" using True by simp
  show ?thesis
  proof (cases "cuisineKey (c_recipe c) = Some k")
    case True
    with ns assms(1) have "cuisineUses k (selected st) < cuisineLimit"
      by (auto simp: skipForDiversity_def counts_ok_def)
    with True tk show ?thesis by (simp add: cap_ok_def addCandidate_def Let_def cuisineUses_def)
  next
    case False
    with tk assms(2) show ?thesis by (simp add: cap_ok_def addCandidate_def Let_def cuisineUses_def)
  qed
next
  case False
  then have "take 16 (selected st @ [c]) = selected st @ [c]" by simp
  then show ?thesis by (simp add: cap_ok_def addCandidate_def Let_def)
qed

lemma selectLoop_cap:
  "counts_ok st \<Longrightarrow> cap_ok k st \<Longrightarrow> cap_ok k (selectLoop cs st)"
proof (induction cs arbitrary: st)
  case Nil then show ?case by simp
next
  case (Cons c cs)
  show ?case
    using Cons.prems Cons.IH addCandidate_cap_ok[OF Cons.prems] addCandidate_counts_ok[OF Cons.prems(1)]
    by simp
qed

subsection \<open>Scoring and the whole stage\<close>

lemma calculateFinalScore_range: "0 \<le> calculateFinalScore c bp \<and> calculateFinalScore c bp \<le> 100"
  by (simp add: calculateFinalScore_def Let_def)

lemma rankAndSelect_mem:
  "c \<in> set (rankAndSelectFinalCandidates cs bp) \<Longrightarrow>
     \<exists>c'\<in>set cs. c_recipe c = c_recipe c' \<and> final_score c = calculateFinalScore c' bp"
  using subseq_set [OF selectDiverseSet_subseq] unfolding rankAndSelectFinalCandidates_def by fastforce

lemma performSQLFiltering_mem:
  "r \<in> set (performSQLFiltering db bp prefs) \<Longrightarrow> r \<in> set db \<and> sqlFilter (buildRecipeFilter bp prefs) r"
  unfolding performSQLFiltering_def by (auto dest: in_set_takeD)

lemma sqlFilter_buildRecipeFilter:
  "sqlFilter (buildRecipeFilter bp prefs) r \<Longrightarrow> r_status r = ''published''
     \<and> (\<forall>a\<in>set (intakeExclusions bp). allergenFree a r) \<and> (bp_premium_access bp \<or> \<not> r_is_premium r)"
  by (auto simp: sqlFilter_def buildRecipeFilter_def intakeExclusions_def Let_def list_all_iff)

lemma c_recipe_candidateOf [simp]: "c_recipe (candidateOf sc r) = r"
  by (simp add: candidateOf_def split: option.splits)

subsection \<open>Properties\<close>

text \<open>
  the diversity pass keeps at most 30 candidates, in their input order (a
  subsequence), and a pool of at most 16 candidates is kept whole.
\<close>

theorem selectDiverseSet_bounds:
  "length (selectDiverseSet cs) \<le> targetCount \<and> subseq (selectDiverseSet cs) cs
   \<and> (length cs \<le> 16 \<longrightarrow> selectDiverseSet cs = cs)"
  using selectDiverseSet_length selectDiverseSet_subseq selectDiverseSet_small by blast

text \<open>
  per-cuisine cap. Once 16 candidates are selected, a cuisine gains members only
  while it has fewer than six: its final count is at most the larger of its count among the
  first 16 and the cap.
\<close>

theorem selectDiverseSet_cuisine_cap:
  "cuisineUses k (selectDiverseSet cs) \<le> max (cuisineUses k (take 16 (selectDiverseSet cs))) cuisineLimit"
proof -
  have "counts_ok div_init" "cap_ok k div_init"
    by (simp_all add: counts_ok_def cap_ok_def div_init_def cuisineUses_def)
  then show ?thesis using selectLoop_cap unfolding selectDiverseSet_def cap_ok_def by blast
qed

text \<open>
  C29: the caps are relaxed at the start, not at the end. Whatever the ranked candidates,
  the first 16 are selected whatever their cuisine and meal types, and the caps only
  filter the candidates after them: a ranking whose top 16 are Italian keeps all 16, well
  over the cap of six. The spec enforces the caps until half the target is reached and
  relaxes them after.
\<close>

theorem selectDiverseSet_first_16_uncapped:
  "\<exists>ys. selectDiverseSet cs = take 16 cs @ ys \<and> subseq ys (drop 16 cs)"
proof -
  have "selected (selectLoop (take 16 cs) div_init) = take 16 cs"
    using selectLoop_small [of div_init "take 16 cs"] by (simp add: div_init_def)
  moreover obtain ys where "selected (selectLoop (drop 16 cs) (selectLoop (take 16 cs) div_init))
      = selected (selectLoop (take 16 cs) div_init) @ ys" "subseq ys (drop 16 cs)"
    using selectLoop_extends by blast
  ultimately show ?thesis
    using selectLoop_append [of "take 16 cs" "drop 16 cs" div_init] by (auto simp: selectDiverseSet_def)
qed

text \<open>the ranked candidates come out in non-increasing order of final score.\<close>

theorem rankAndSelect_sorted:
  "sorted_wrt (\<lambda>a b. final_score b \<le> final_score a) (rankAndSelectFinalCandidates cs bp)"
proof -
  let ?s = "sort_key (\<lambda>c. - final_score c) (map (\<lambda>c. c\<lparr>final_score := calculateFinalScore c bp\<rparr>) cs)"
  have "sorted (map (\<lambda>c. - final_score c) ?s)" by (rule sorted_sort_key)
  then have "sorted_wrt (\<lambda>a b. final_score b \<le> final_score a) ?s"
    by (simp add: sorted_map sorted_wrt_map)
  with selectDiverseSet_subseq show ?thesis
    unfolding rankAndSelectFinalCandidates_def by (rule sorted_wrt_subseq)
qed

text \<open>
  C15: hard constraints hold for every selected candidate. Each one's recipe is a row of
  the table that passes the query's filters (time caps and exclusions included); it is
  published, avoids every allergy and dislike of the user in its tags and ingredient names,
  and is not premium unless the user has premium access; its final score lies in [0, 100];
  and at most 30 are returned.
\<close>

theorem selectCandidates_safe:
  assumes "selectCandidates db reply bp prefs = Selected cs" "c \<in> set cs"
  shows "c_recipe c \<in> set db \<and> sqlFilter (buildRecipeFilter bp prefs) (c_recipe c)
    \<and> r_status (c_recipe c) = ''published''
    \<and> (\<forall>a\<in>set (intakeExclusions bp). allergenFree a (c_recipe c))
    \<and> (bp_premium_access bp \<or> \<not> r_is_premium (c_recipe c))
    \<and> 0 \<le> final_score c \<and> final_score c \<le> 100 \<and> length cs \<le> targetCount"
proof -
  from assms(1) obtain sc where
    cs: "cs = rankAndSelectFinalCandidates (map (candidateOf sc) (performSQLFiltering db bp prefs)) bp"
    by (auto simp: selectCandidates_def Let_def performAIScoring_def
        split: if_splits ai_reply.splits option.splits)
  from assms(2) cs obtain c' where c': "c' \<in> set (map (candidateOf sc) (performSQLFiltering db bp prefs))"
    "c_recipe c = c_recipe c'" "final_score c = calculateFinalScore c' bp"
    using rankAndSelect_mem by blast
  then obtain r where r: "r \<in> set (performSQLFiltering db bp prefs)" "c_recipe c = r"
    by auto
  have "r \<in> set db \<and> sqlFilter (buildRecipeFilter bp prefs) r"
    using r(1) by (rule performSQLFiltering_mem)
  then show ?thesis
    using sqlFilter_buildRecipeFilter [of bp prefs r] r(2) c'(3) calculateFinalScore_range cs
      selectDiverseSet_length
    by (auto simp: rankAndSelectFinalCandidates_def)
qed

text \<open>
  partial scorer output never makes selection fail: every recipe of the working set
  becomes a candidate, and one the scorer left out gets personalisation score 50 and the
  penalty reason "No AI score available".
\<close>

theorem performAIScoring_missing_score:
  assumes "sc (r_id r) = None"
  shows "performAIScoring (Reply_scores (Some sc)) rs = Inr (map (candidateOf sc) rs)
     \<and> map c_recipe (map (candidateOf sc) rs) = rs
     \<and> ai_personalization_score (candidateOf sc r) = 50
     \<and> penalty_reasons (candidateOf sc r) = [''No AI score available'']"
  using assms by (simp add: performAIScoring_def comp_def, simp add: candidateOf_def)

text \<open>
  \<open>scoreData.score || 50\<close> treats a score of 0 as missing: a recipe the scorer rates
  0 is given 50, the same as an unscored one.
\<close>

theorem candidateOf_zero_score:
  "sc (r_id r) = Some sd \<Longrightarrow> sd_score sd = Some 0 \<Longrightarrow> ai_personalization_score (candidateOf sc r) = 50"
  by (simp add: candidateOf_def)

text \<open>
  errors of the stage. An empty working set fails with the no-recipes message; a
  failed scorer call fails the whole selection (there is no intrinsic-only fallback).
\<close>

theorem selectCandidates_errors:
  "(performSQLFiltering db bp prefs = [] \<longrightarrow>
      selectCandidates db reply bp prefs =
        Selection_failed ''No recipes found matching dietary restrictions and constraints'')
   \<and> (performSQLFiltering db bp prefs \<noteq> [] \<longrightarrow>
      selectCandidates db (Reply_failed e) bp prefs = Selection_failed (''AI scoring failed: '' @ e))"
  by (simp add: selectCandidates_def performAIScoring_def)

subsection \<open>Witnesses\<close>

theorem selectDiverseSet_bounds_witness:
  "length (selectDiverseSet (map italian [0..<3])) \<le> targetCount
   \<and> subseq (selectDiverseSet (map italian [0..<3])) (map italian [0..<3])
   \<and> selectDiverseSet (map italian [0..<3]) = map italian [0..<3]"
  using selectDiverseSet_bounds [of "map italian [0..<3]"] by (simp add: targetCount_def)

lemma demo_selection:
  "selectCandidates [demo_recipe] (Reply_scores (Some demo_scores)) demo_blueprint demo_prefs
     = Selected [demo_candidate]"
  by code_simp

theorem selectCandidates_safe_witness:
  "demo_recipe \<in> set [demo_recipe] \<and> sqlFilter (buildRecipeFilter demo_blueprint demo_prefs) demo_recipe
   \<and> r_status demo_recipe = ''published''
   \<and> intakeExclusions demo_blueprint = [''peanut''] \<and> allergenFree ''peanut'' demo_recipe
   \<and> (bp_premium_access demo_blueprint \<or> \<not> r_is_premium demo_recipe)
   \<and> 0 \<le> final_score demo_candidate \<and> final_score demo_candidate \<le> 100
   \<and> length [demo_candidate] \<le> targetCount"
  using selectCandidates_safe [OF demo_selection, of demo_candidate]
  by (simp add: demo_candidate_def intakeExclusions_def demo_blueprint_def)

theorem performAIScoring_missing_score_witness:
  "performAIScoring (Reply_scores (Some Map.empty)) [demo_recipe] = Inr [candidateOf Map.empty demo_recipe]
   \<and> ai_personalization_score (candidateOf Map.empty demo_recipe) = 50
   \<and> penalty_reasons (candidateOf Map.empty demo_recipe) = [''No AI score available'']"
  using performAIScoring_missing_score [of Map.empty demo_recipe "[demo_recipe]"] by simp

theorem candidateOf_zero_score_witness:
  "ai_personalization_score (candidateOf demo_scores demo_recipe) = 50"
  by (rule candidateOf_zero_score [of demo_scores demo_recipe
        "\<lparr>sd_score = Some 0, sd_match_reasons = None, sd_penalty_reasons = None\<rparr>"])
     (simp_all add: demo_scores_def demo_recipe_def)

theorem selectCandidates_errors_witness:
  "selectCandidates [] Reply_unparsable demo_blueprint demo_prefs =
     Selection_failed ''No recipes found matching dietary restrictions and constraints''
   \<and> selectCandidates [demo_recipe] (Reply_failed ''503'') demo_blueprint demo_prefs =
     Selection_failed (''AI scoring failed: '' @ ''503'')"
proof -
  have e: "performSQLFiltering [] demo_blueprint demo_prefs = []"
    by (simp add: performSQLFiltering_def)
  have n: "performSQLFiltering [demo_recipe] demo_blueprint demo_prefs \<noteq> []"
    by code_simp
  show ?thesis
    using selectCandidates_errors [of "[]" demo_blueprint demo_prefs Reply_unparsable "''503''"]
      selectCandidates_errors [of "[demo_recipe]" demo_blueprint demo_prefs Reply_unparsable "''503''"] e n
    by simp
qed

end
