(* ===== verification/Nutrition_Council.thy ===== *)
theory Nutrition_Council
  imports Meal_Plan Nutrition_Validator Candidate_Selector
begin

text \<open>
  Stage 3 of the pipeline, class \<open>NutritionCouncil\<close> (agents/nutrition-council.ts):
  \<open>validateAndRefine\<close> assembles a plan from the candidates with one Claude call, then runs
  up to three rounds of nutrition check (\<open>validateNutrition\<close>, over the recipe table and the
  USDA search) and coherence review (a second Claude call, rating 7 or more passes); a failed
  check calls a repair (\<open>fixNutritionalIssues\<close>, \<open>improvePlanCoherence\<close>), both of
  which are stubs that fail. The Claude replies are parameters: the assembly reply as its
  parsed JSON and token counts, the \<open>i\<close>-th coherence reply likewise.
\<close>

subsection \<open>Claude replies and cost\<close>

text \<open>\<open>calculateCost\<close> (lines 743-747): dollars per 1000 tokens, in cents, rounded.\<close>

definition calculateCost :: "rat \<Rightarrow> rat \<Rightarrow> rat" where
  "calculateCost inputTokens outputTokens =
     of_int (js_round (((inputTokens / 1000) * (3 / 1000) + (outputTokens / 1000) * (15 / 1000)) * 100))"

text \<open>The usage of a Claude reply: one request, \<open>input + output || 0\<close> tokens and the cost
  of \<open>input || 0\<close> and \<open>output || 0\<close> tokens (lines 212-214).\<close>

definition replyUsage :: "api_usage \<Rightarrow> usage" where
  "replyUsage u = (case u of
     None \<Rightarrow> \<lparr>claude_requests = Some 1, tokens_used = Some 0, cost_cents = Some (calculateCost 0 0)\<rparr>
   | Some (inp, outp) \<Rightarrow> \<lparr>claude_requests = Some 1, tokens_used = Some (inp + outp),
       cost_cents = Some (calculateCost inp outp)\<rparr>)"

text \<open>The JSON of the assembly reply: a day's \<open>meals\<close> and the \<open>days\<close> array may be missing.\<close>

record aj_meal =
  am_meal_type :: string
  am_recipe_id :: string
  am_servings :: "rat option"

record aj_day =
  ad_day :: string
  ad_date :: int
  ad_meals :: "aj_meal list option"

record assembly_json =
  aj_week_theme :: "string option"
  aj_days :: "aj_day list option"

datatype assembly_reply =
    Assembly_http_error string
  | Assembly_text "assembly_json parsed" api_usage

record coherence_json =
  cj_rating :: "rat option"
  cj_feedback :: "string option"

datatype coherence_reply =
    Coherence_http_error string
  | Coherence_text "coherence_json parsed" api_usage

subsection \<open>Assembly\<close>

text \<open>A day's meals once every day is known to have them.\<close>

definition dayMeals :: "aj_day \<Rightarrow> aj_meal list" where
  "dayMeals d = (case ad_meals d of None \<Rightarrow> [] | Some ms \<Rightarrow> ms)"

definition slotOf :: "aj_meal \<Rightarrow> meal_slot" where
  "slotOf m = \<lparr>ms_meal_type = am_meal_type m, ms_recipe_id = am_recipe_id m,
     ms_servings = am_servings m, ms_completed = False\<rparr>"

text \<open>
  \<open>parseMealPlanResponse\<close> (lines 601-656): the only structural check is that \<open>days\<close>
  is an array; a day without \<open>meals\<close> makes \<open>day.meals.map\<close> throw.
  \<open>total_recipes\<close> counts the slots and \<open>unique_recipes\<close> the distinct ids.
\<close>

definition parseMealPlanResponse ::
  "string \<Rightarrow> gen_context \<Rightarrow> assembly_json parsed \<Rightarrow> string + meal_plan" where
  "parseMealPlanResponse uuid ctx j = (case j of
     No_json_match \<Rightarrow> Inl ''Failed to parse meal plan: No JSON found in response''
   | Json_error e \<Rightarrow> Inl (''Failed to parse meal plan: '' @ e)
   | Parsed pj \<Rightarrow> (case aj_days pj of
       None \<Rightarrow> Inl ''Failed to parse meal plan: Invalid plan structure - missing days array''
     | Some ds \<Rightarrow>
         if \<not> list_all (\<lambda>d. ad_meals d \<noteq> None) ds
         then Inl ''Failed to parse meal plan: Cannot read properties of undefined (reading 'map')''
         else Inr \<lparr>mp_id = uuid, mp_user_id = ctx_user_id ctx, mp_intake_id = Some (ctx_intake_id ctx),
           mp_week_theme = Some (case aj_week_theme pj of None \<Rightarrow> ''Personalized Weekly Plan''
             | Some t \<Rightarrow> if t = [] then ''Personalized Weekly Plan'' else t),
           mp_week_start_date = ctx_week_start_date ctx, mp_status = ''active'',
           mp_plan_data = \<lparr>pd_days = map (\<lambda>d. \<lparr>dp_day = ad_day d, dp_date = ad_date d,
               dp_meals = map slotOf (dayMeals d)\<rparr>) ds,
             pd_total_recipes = of_nat (sum_list (map (\<lambda>d. length (dayMeals d)) ds)),
             pd_unique_recipes = of_nat (length (remdups (concat (map (\<lambda>d. map am_recipe_id (dayMeals d)) ds)))),
             pd_variety_score = 80\<rparr>,
           mp_generated_by = ''claude'', mp_generation_id = ctx_generation_id ctx,
           mp_completion_percentage = 0, mp_is_public = False, mp_clone_count = 0\<rparr>))"

text \<open>\<open>assembleMealPlan\<close> (lines 165-235): a failed call is caught without usage.\<close>

definition assembleMealPlan :: "string \<Rightarrow> gen_context \<Rightarrow> assembly_reply \<Rightarrow> meal_plan stage" where
  "assembleMealPlan uuid ctx reply = (case reply of
     Assembly_http_error e \<Rightarrow> Stage_failed (''Meal assembly failed: '' @ e) no_usage
   | Assembly_text j u \<Rightarrow> (case parseMealPlanResponse uuid ctx j of
       Inl e \<Rightarrow> Stage_failed e (replyUsage u)
     | Inr p \<Rightarrow> Stage_ok p (replyUsage u)))"

subsection \<open>Nutrition check\<close>

text \<open>\<open>isReliableNutrition\<close> of the council (lines 672-674): calories and protein only.\<close>

definition isReliableNutrition_council :: "nutrition_info option \<Rightarrow> bool" where
  "isReliableNutrition_council n = (case n of None \<Rightarrow> False
     | Some i \<Rightarrow> js_gt0 (ni_calories i) \<and> js_ge0 (ni_protein i))"

definition minorIngredients_council :: "string list" where
  "minorIngredients_council = [''salt'', ''pepper'', ''oil'', ''water'', ''vanilla'', ''baking powder'',
     ''garlic powder'']"

definition isMinorIngredient_council :: "string \<Rightarrow> bool" where
  "isMinorIngredient_council name = list_ex (\<lambda>minor. str_includes (to_lower name) minor) minorIngredients_council"

definition standardConversions :: "(string \<times> rat) list" where
  "standardConversions = [(''g'', 1), (''gram'', 1), (''grams'', 1), (''kg'', 1000),
     (''oz'', 2835 / 100), (''pound'', 45359 / 100), (''lb'', 45359 / 100), (''cup'', 240),
     (''tbsp'', 15), (''tsp'', 5)]"

text \<open>\<open>convertToStandardAmount\<close> (lines 681-698): 100 for an unknown unit.\<close>

definition convertToStandardAmount :: "rat \<Rightarrow> string \<Rightarrow> rat" where
  "convertToStandardAmount amount unit = amount * js_or (map_of standardConversions (to_lower unit)) 100"

text \<open>One ingredient's share in \<open>calculateRecipeNutritionFromUSDA\<close> (lines 387-403); fiber
  is not read.\<close>

definition usdaContribution_council :: "usda_lookup \<Rightarrow> ingredient \<Rightarrow> nutrition" where
  "usdaContribution_council usda ing = (case usda (ing_name ing) of
     None \<Rightarrow> 0
   | Some d \<Rightarrow> (let g = convertToStandardAmount (ing_amount ing) (ing_unit ing) in
       if 0 < g then scale_nutrition (g / 100) (Nutrition (js_or (usda_calories d) 0)
         (js_or (usda_protein d) 0) (js_or (usda_fat d) 0) (js_or (usda_carbohydrates d) 0) 0)
       else 0))"

text \<open>
  \<open>calculateRecipeNutritionFromUSDA\<close> (lines 375-421); a recipe without an ingredient list
  throws in \<open>filter\<close> and gives \<open>null\<close>.
\<close>

definition calculateRecipeNutritionFromUSDA :: "usda_lookup \<Rightarrow> recipe_row \<Rightarrow> nutrition option" where
  "calculateRecipeNutritionFromUSDA usda r = (case rr_ingredients r of
     None \<Rightarrow> None
   | Some ings \<Rightarrow> Some (round_nutrition (fold (\<lambda>ing acc. acc + usdaContribution_council usda ing)
       (filter (\<lambda>ing. 0 < ing_amount ing \<and> \<not> isMinorIngredient_council (ing_name ing)) ings) 0)))"

text \<open>The stored nutrients a reliable \<open>nutrition_info\<close> gives (\<open>field || 0\<close>, no fiber).\<close>

definition infoNutrition_council :: "nutrition_info \<Rightarrow> nutrition" where
  "infoNutrition_council i = Nutrition (js_or (ni_calories i) 0) (js_or (ni_protein i) 0)
     (js_or (ni_fat i) 0) (js_or (ni_carbohydrates i) 0) 0"

text \<open>
  The body of the inner loop of \<open>calculatePlanNutrition\<close> (lines 325-353): a recipe
  that cannot be fetched is skipped; otherwise its stored or USDA nutrients, scaled by
  \<open>(meal.servings || 1) / (recipe.servings || 1)\<close>.
\<close>

definition councilMealNutrition :: "recipe_store \<Rightarrow> usda_lookup \<Rightarrow> meal_slot \<Rightarrow> nutrition" where
  "councilMealNutrition store usda meal = (case store (ms_recipe_id meal) of
     None \<Rightarrow> 0
   | Some r \<Rightarrow>
       (let mealNutrition = (case rr_nutrition_info r of
              Some i \<Rightarrow> if isReliableNutrition_council (Some i) then Some (infoNutrition_council i)
                        else calculateRecipeNutritionFromUSDA usda r
            | None \<Rightarrow> calculateRecipeNutritionFromUSDA usda r) in
        case mealNutrition of
          None \<Rightarrow> 0
        | Some n \<Rightarrow> scale_nutrition (js_or (ms_servings meal) 1 / js_or (rr_servings r) 1) n))"

text \<open>\<open>calculatePlanNutrition\<close> (lines 316-373): totals over all slots, each rounded to an
  integer.\<close>

definition calculatePlanNutrition :: "recipe_store \<Rightarrow> usda_lookup \<Rightarrow> meal_plan \<Rightarrow> nutrition" where
  "calculatePlanNutrition store usda p =
     (let t = fold (\<lambda>meal acc. acc + councilMealNutrition store usda meal) (plan_slots p) 0 in
      Nutrition (of_int (js_round (calories t))) (of_int (js_round (protein t)))
        (of_int (js_round (fat t))) (of_int (js_round (carbohydrates t))) 0)"

text \<open>
  \<open>calculateDailyAverage\<close> (lines 663-670); for a plan without days the code divides by
  zero and the model has no average.
\<close>

definition calculateDailyAverage :: "nutrition \<Rightarrow> nat \<Rightarrow> nutrition option" where
  "calculateDailyAverage t days =
     (if days = 0 then None
      else (let k = rat_of_nat days in
            Some (Nutrition (of_int (js_round (calories t / k))) (round1 (protein t / k))
              (round1 (fat t / k)) (round1 (carbohydrates t / k)) 0)))"

text \<open>\<open>generateNutritionSuggestions\<close> of the council (lines 700-718): calories either way,
  protein only when too low.\<close>

definition generateNutritionSuggestions_council :: "deviation_set \<Rightarrow> string list" where
  "generateNutritionSuggestions_council d =
     (if 15 < \<bar>calories_deviation d\<bar> then
        [if 0 < calories_deviation d then ''Reduce portion sizes or choose lighter recipes''
         else ''Add snacks or choose more calorie-dense recipes'']
      else [])
     @ (if 15 < \<bar>protein_deviation d\<bar> \<and> protein_deviation d < 0
        then [''Include more protein-rich foods like lean meats, legumes, or dairy''] else [])"

text \<open>\<open>NutritionValidationResult\<close> as \<open>validateNutrition\<close> fills it.\<close>

record nutrition_validation =
  nv_is_valid :: bool
  nv_total :: nutrition
  nv_daily_average :: "nutrition option"
  nv_deviations :: "deviation_set option"
  nv_within :: bool
  nv_missing :: "string list"
  nv_suggestions :: "string list"

definition councilDeviations :: "nutrition \<Rightarrow> targets \<Rightarrow> deviation_set" where
  "councilDeviations a t =
     \<lparr>calories_deviation = calculateDeviation (calories a) (daily_calories t),
      protein_deviation = calculateDeviation (protein a) (daily_protein t),
      fat_deviation = calculateDeviation (fat a) (daily_fat t),
      carbohydrates_deviation = calculateDeviation (carbohydrates a) (daily_carbohydrates t),
      fiber_deviation = None\<rparr>"

text \<open>
  \<open>validateNutrition\<close> (lines 237-314) against the blueprint's targets (\<open>None\<close>: not
  computed): valid iff all four deviations are within 15 percent.
\<close>

definition validateNutrition ::
  "recipe_store \<Rightarrow> usda_lookup \<Rightarrow> meal_plan \<Rightarrow> targets option \<Rightarrow> nutrition_validation" where
  "validateNutrition store usda p tg =
     (let planTotal = calculatePlanNutrition store usda p;
          avg = calculateDailyAverage planTotal (length (pd_days (mp_plan_data p))) in
      case tg of
        None \<Rightarrow> \<lparr>nv_is_valid = False, nv_total = planTotal, nv_daily_average = avg,
          nv_deviations = Some \<lparr>calories_deviation = 0, protein_deviation = 0, fat_deviation = 0,
            carbohydrates_deviation = 0, fiber_deviation = None\<rparr>,
          nv_within = False, nv_missing = [''User nutritional targets not calculated''],
          nv_suggestions = [''Complete user profile to enable nutritional validation'']\<rparr>
      | Some t \<Rightarrow>
          (let devs = map_option (\<lambda>a. councilDeviations a t) avg;
               within15 = (case devs of None \<Rightarrow> False
                           | Some d \<Rightarrow> list_all (\<lambda>dev. dev \<le> 15) (coreDeviations d));
               sugg = (case devs of None \<Rightarrow> [] | Some d \<Rightarrow> generateNutritionSuggestions_council d) in
           \<lparr>nv_is_valid = within15, nv_total = planTotal, nv_daily_average = avg, nv_deviations = devs,
            nv_within = within15, nv_missing = [], nv_suggestions = (if within15 then [] else sugg)\<rparr>))"

subsection \<open>Coherence review\<close>

text \<open>\<open>parseCoherenceResponse\<close> (lines 584-599).\<close>

definition parseCoherenceResponse :: "coherence_json parsed \<Rightarrow> rat \<times> string" where
  "parseCoherenceResponse j = (case j of
     Parsed cj \<Rightarrow> (js_or (cj_rating cj) 0, (case cj_feedback cj of None \<Rightarrow> ''No feedback provided''
                   | Some f \<Rightarrow> if f = [] then ''No feedback provided'' else f))
   | _ \<Rightarrow> (0, ''Failed to parse coherence response''))"

record coherence_result =
  coh_success :: bool
  coh_rating :: rat
  coh_feedback :: string
  coh_usage :: usage

text \<open>\<open>validateCoherence\<close> (lines 446-503); its result reports tokens and cost only.\<close>

definition validateCoherence :: "coherence_reply \<Rightarrow> coherence_result" where
  "validateCoherence r = (case r of
     Coherence_http_error e \<Rightarrow> \<lparr>coh_success = False, coh_rating = 0,
       coh_feedback = ''Coherence validation failed: '' @ e, coh_usage = no_usage\<rparr>
   | Coherence_text j u \<Rightarrow> (case parseCoherenceResponse j of (rt, fb) \<Rightarrow>
       \<lparr>coh_success = True, coh_rating = rt, coh_feedback = fb,
        coh_usage = (replyUsage u)\<lparr>claude_requests := None\<rparr>\<rparr>))"

subsection \<open>Repairs and the refinement loop\<close>

text \<open>The two repair methods (lines 733-741) are stubs that always fail.\<close>

definition improvePlanCoherence :: "meal_plan \<Rightarrow> candidate list \<Rightarrow> gen_context \<Rightarrow> string \<Rightarrow> meal_plan stage" where
  "improvePlanCoherence plan cands ctx feedback = Stage_failed ''Plan improvement not yet implemented'' no_usage"

definition fixNutritionalIssues ::
  "meal_plan \<Rightarrow> candidate list \<Rightarrow> gen_context \<Rightarrow> nutrition_validation \<Rightarrow> meal_plan stage" where
  "fixNutritionalIssues plan cands ctx issues = Stage_failed ''Nutritional fixing not yet implemented'' no_usage"

text \<open>The locals of \<open>validateAndRefine\<close>: the current plan, the three counters and
  \<open>lastValidationResult\<close>.\<close>

record council_state =
  cs_plan :: meal_plan
  cs_totals :: totals
  cs_last_validation :: "nutrition_validation option"

definition councilMaxRetries :: nat where
  "councilMaxRetries = 3"

definition one_request :: usage where
  "one_request = \<lparr>claude_requests = Some 1, tokens_used = None, cost_cents = None\<rparr>"

text \<open>
  The \<open>while\<close> loop of \<open>validateAndRefine\<close> (lines 79-139); round \<open>retryCount\<close>
  reads the \<open>retryCount\<close>-th coherence reply. \<open>Some\<close> the accepted plan and its
  deviations when it returns.
\<close>

function councilLoop ::
  "recipe_store \<Rightarrow> usda_lookup \<Rightarrow> targets option \<Rightarrow> (nat \<Rightarrow> coherence_reply) \<Rightarrow> candidate list
     \<Rightarrow> gen_context \<Rightarrow> nat \<Rightarrow> council_state \<Rightarrow> (meal_plan \<times> deviation_set option) option \<times> council_state" where
  "councilLoop store usda tg coh cands ctx retryCount st =
     (if retryCount < councilMaxRetries then
        (let nr = validateNutrition store usda (cs_plan st) tg in
         if nv_is_valid nr then
           (let c = validateCoherence (coh retryCount);
                st1 = st\<lparr>cs_totals := add_usage (add_usage (cs_totals st) one_request) (coh_usage c)\<rparr> in
            if coh_success c \<and> 7 \<le> coh_rating c then (Some (cs_plan st1, nv_deviations nr), st1)
            else
              (let imp = improvePlanCoherence (cs_plan st1) cands ctx (coh_feedback c);
                   st2 = st1\<lparr>cs_totals := add_usage (cs_totals st1) (stage_usage imp)\<rparr>;
                   st3 = (case imp of Stage_ok p u \<Rightarrow> st2\<lparr>cs_plan := p\<rparr> | Stage_failed e u \<Rightarrow> st2) in
               councilLoop store usda tg coh cands ctx (Suc retryCount) st3))
         else
           (let fix = fixNutritionalIssues (cs_plan st) cands ctx nr;
                st1 = (case fix of Stage_ok p u \<Rightarrow> st\<lparr>cs_plan := p\<rparr>
                       | Stage_failed e u \<Rightarrow> st\<lparr>cs_last_validation := Some nr\<rparr>) in
            councilLoop store usda tg coh cands ctx (Suc retryCount) st1))
      else (None, st))"
  by pat_completeness auto
termination
  by (relation "measure (\<lambda>(store, usda, tg, coh, cands, ctx, n, st). councilMaxRetries - n)") auto

text \<open>\<open>lastValidationResult?.suggestions?.join(', ') || 'Unknown validation error'\<close>.\<close>

definition lastIssue :: "nutrition_validation option \<Rightarrow> string" where
  "lastIssue v = (case v of
     None \<Rightarrow> ''Unknown validation error''
   | Some r \<Rightarrow> (let s = join_str '', '' (nv_suggestions r) in
       if s = [] then ''Unknown validation error'' else s))"

definition totals_usage :: "totals \<Rightarrow> usage" where
  "totals_usage t = \<lparr>claude_requests = Some (total_requests t), tokens_used = Some (total_tokens t),
     cost_cents = Some (total_cost t)\<rparr>"

text \<open>
  \<open>validateAndRefine\<close> (lines 37-161), as the controller reads its result: the plan on
  success, the error otherwise, and the usage in both cases.
\<close>

definition validateAndRefine ::
  "recipe_store \<Rightarrow> usda_lookup \<Rightarrow> targets option \<Rightarrow> string \<Rightarrow> assembly_reply \<Rightarrow> (nat \<Rightarrow> coherence_reply)
     \<Rightarrow> candidate list \<Rightarrow> gen_context \<Rightarrow> meal_plan stage" where
  "validateAndRefine store usda tg uuid asm coh cands ctx =
     (let a = assembleMealPlan uuid ctx asm;
          t0 = add_usage totals_zero (stage_usage a) in
      case a of
        Stage_failed e u \<Rightarrow> Stage_failed e (totals_usage t0)
      | Stage_ok plan u \<Rightarrow>
          (case councilLoop store usda tg coh cands ctx 0
                  \<lparr>cs_plan = plan, cs_totals = t0, cs_last_validation = None\<rparr> of
             (Some (p, devs), st) \<Rightarrow> Stage_ok p (totals_usage (cs_totals st))
           | (None, st) \<Rightarrow> Stage_failed (''Validation failed after 3 attempts. Last issue: ''
                 @ lastIssue (cs_last_validation st)) (totals_usage (cs_totals st))))"

subsection \<open>Views\<close>

text \<open>Whether a coherence reply lets the plan pass (\<open>success && rating >= 7\<close>).\<close>

definition coherencePasses :: "coherence_reply \<Rightarrow> bool" where
  "coherencePasses r = (let c = validateCoherence r in coh_success c \<and> 7 \<le> coh_rating c)"

text \<open>The usage one coherence review adds: one request, and the reply's tokens and cost.\<close>

definition coherenceUsage :: "coherence_reply \<Rightarrow> usage list" where
  "coherenceUsage r = [one_request, coh_usage (validateCoherence r)]"

subsection \<open>Test data\<close>

definition nc_ctx :: gen_context where
  "nc_ctx = \<lparr>ctx_user_id = ''u1'', ctx_intake_id = ''i1'', ctx_generation_id = ''g1'',
     ctx_week_start_date = 0\<rparr>"

definition aj_slot :: "string \<Rightarrow> string \<Rightarrow> aj_meal" where
  "aj_slot mt rid = \<lparr>am_meal_type = mt, am_recipe_id = rid, am_servings = None\<rparr>"

text \<open>An assembly reply with a single day whose dinner is the recipe \<open>satay\<close>.\<close>

definition one_day_reply :: assembly_reply where
  "one_day_reply = Assembly_text (Parsed \<lparr>aj_week_theme = None,
     aj_days = Some [\<lparr>ad_day = ''monday'', ad_date = 0, ad_meals = Some [aj_slot ''dinner'' ''satay'']\<rparr>]\<rparr>)
     (Some (1000, 500))"

definition coherence_rating :: "rat \<Rightarrow> coherence_reply" where
  "coherence_rating r = Coherence_text (Parsed \<lparr>cj_rating = Some r, cj_feedback = None\<rparr>) (Some (800, 100))"

text \<open>A recipe table where \<open>satay\<close> stores exactly one day's targets.\<close>

definition satay_store :: recipe_store where
  "satay_store = (\<lambda>rid. if rid = ''satay'' then Some \<lparr>rr_title = ''Peanut satay'',
     rr_nutrition_info = Some \<lparr>ni_calories = Some 2000, ni_protein = Some 150, ni_fat = Some 67,
       ni_carbohydrates = Some 250, ni_fiber = None\<rparr>,
     rr_ingredients = None, rr_servings = Some 1\<rparr> else None)"

definition satay_targets :: targets where
  "satay_targets = \<lparr>daily_calories = 2000, daily_protein = 150, daily_fat = 67,
     daily_carbohydrates = 250, daily_fiber = None\<rparr>"

text \<open>A USDA table that knows boiled eggs and bell peppers, and a recipe of both.\<close>

definition egg_usda :: usda_lookup where
  "egg_usda = (\<lambda>n. if n = ''Boiled eggs'' \<or> n = ''Red bell pepper'' then Some \<lparr>usda_calories = Some 155,
     usda_protein = Some 13, usda_fat = Some 11, usda_carbohydrates = Some 1, usda_fiber = None\<rparr> else None)"

definition egg_recipe :: recipe_row where
  "egg_recipe = \<lparr>rr_title = ''Egg and pepper bowl'', rr_nutrition_info = None,
     rr_ingredients = Some [\<lparr>ing_name = ''Boiled eggs'', ing_amount = 200, ing_unit = ''g''\<rparr>,
       \<lparr>ing_name = ''Red bell pepper'', ing_amount = 150, ing_unit = ''g''\<rparr>],
     rr_servings = Some 2\<rparr>"

text \<open>A reply with two days of one dinner each, and the plan it parses to.\<close>

definition two_day_json :: "string \<Rightarrow> string \<Rightarrow> assembly_json parsed" where
  "two_day_json a b = Parsed \<lparr>aj_week_theme = Some ''Comfort'', aj_days = Some
     [\<lparr>ad_day = ''monday'', ad_date = 0, ad_meals = Some [aj_slot ''dinner'' a]\<rparr>,
      \<lparr>ad_day = ''tuesday'', ad_date = 1, ad_meals = Some [aj_slot ''dinner'' b]\<rparr>]\<rparr>"

definition two_day_plan :: "string \<Rightarrow> string \<Rightarrow> meal_plan" where
  "two_day_plan a b = projr (parseMealPlanResponse ''p1'' nc_ctx (two_day_json a b))"

subsection \<open>Lemmas on the loop\<close>

declare councilLoop.simps [simp del]

lemma councilLoop_done:
  "\<not> n < councilMaxRetries \<Longrightarrow> councilLoop store usda tg coh cands ctx n st = (None, st)"
  by (subst councilLoop.simps) simp

lemma councilLoop_invalid:
  assumes "\<not> nv_is_valid (validateNutrition store usda (cs_plan st) tg)" and "n < councilMaxRetries"
  shows "councilLoop store usda tg coh cands ctx n st =
    (None, st\<lparr>cs_last_validation := Some (validateNutrition store usda (cs_plan st) tg)\<rparr>)"
  using assms
proof (induction "councilMaxRetries - n" arbitrary: n st)
  case 0
  then show ?case by simp
next
  case (Suc k)
  let ?st1 = "st\<lparr>cs_last_validation := Some (validateNutrition store usda (cs_plan st) tg)\<rparr>"
  have step: "councilLoop store usda tg coh cands ctx n st = councilLoop store usda tg coh cands ctx (Suc n) ?st1"
    using Suc.prems by (subst councilLoop.simps) (simp add: fixNutritionalIssues_def Let_def)
  show ?case
  proof (cases "Suc n < councilMaxRetries")
    case True
    then show ?thesis using step Suc.hyps(1) [of "Suc n" ?st1] Suc.hyps(2) Suc.prems(1) by simp
  next
    case False
    then show ?thesis using step councilLoop_done by simp
  qed
qed

lemma councilLoop_valid:
  assumes "nv_is_valid (validateNutrition store usda (cs_plan st) tg)" and "n \<le> councilMaxRetries"
  shows "councilLoop store usda tg coh cands ctx n st =
    (case find (\<lambda>i. coherencePasses (coh i)) [n..<councilMaxRetries] of
       Some i \<Rightarrow> (Some (cs_plan st, nv_deviations (validateNutrition store usda (cs_plan st) tg)),
         st\<lparr>cs_totals := foldl add_usage (cs_totals st) (concat (map (\<lambda>j. coherenceUsage (coh j)) [n..<Suc i]))\<rparr>)
     | None \<Rightarrow> (None,
         st\<lparr>cs_totals := foldl add_usage (cs_totals st) (concat (map (\<lambda>j. coherenceUsage (coh j)) [n..<councilMaxRetries]))\<rparr>))"
  using assms
proof (induction "councilMaxRetries - n" arbitrary: n st)
  case 0
  then show ?case by (simp add: councilLoop_done)
next
  case (Suc k)
  have n: "n < councilMaxRetries" using Suc.hyps(2) by arith
  let ?st1 = "st\<lparr>cs_totals := foldl add_usage (cs_totals st) (coherenceUsage (coh n))\<rparr>"
  show ?case
  proof (cases "coherencePasses (coh n)")
    case True
    then show ?thesis using n Suc.prems(1)
      by (subst councilLoop.simps)
         (simp add: upt_conv_Cons coherencePasses_def coherenceUsage_def Let_def)
  next
    case False
    have step: "councilLoop store usda tg coh cands ctx n st = councilLoop store usda tg coh cands ctx (Suc n) ?st1"
      using n Suc.prems(1) False
      by (subst councilLoop.simps)
         (auto simp: coherencePasses_def coherenceUsage_def improvePlanCoherence_def Let_def)
    have k: "k = councilMaxRetries - Suc n" using Suc.hyps(2) by arith
    have p1: "nv_is_valid (validateNutrition store usda (cs_plan ?st1) tg)" using Suc.prems(1) by simp
    have p2: "Suc n \<le> councilMaxRetries" using n by simp
    note IH = Suc.hyps(1) [OF k p1 p2]
    from IH step n False show ?thesis
      by (auto simp: upt_conv_Cons split: option.split dest: find_upt_Some)
  qed
qed

text \<open>A plan the council accepts is the assembled plan, and it passed the nutrition check.\<close>

lemma validateAndRefine_Stage_ok:
  assumes "validateAndRefine store usda tg uuid asm coh cands ctx = Stage_ok p u"
  shows "(\<exists>u'. assembleMealPlan uuid ctx asm = Stage_ok p u') \<and> nv_is_valid (validateNutrition store usda p tg)"
proof (cases "assembleMealPlan uuid ctx asm")
  case (Stage_ok plan u0)
  let ?st = "\<lparr>cs_plan = plan, cs_totals = add_usage totals_zero u0, cs_last_validation = None\<rparr>"
  show ?thesis
  proof (cases "nv_is_valid (validateNutrition store usda plan tg)")
    case True
    then show ?thesis
      using assms Stage_ok councilLoop_valid [of store usda ?st tg 0 coh cands ctx]
      by (auto simp: validateAndRefine_def split: option.splits)
  next
    case False
    then show ?thesis
      using assms Stage_ok councilLoop_invalid [of store usda ?st tg 0 coh cands ctx]
      by (simp add: validateAndRefine_def councilMaxRetries_def)
  qed
next
  case (Stage_failed e u0)
  then show ?thesis using assms by (simp add: validateAndRefine_def)
qed

subsection \<open>Properties of the council\<close>

text \<open>
  C23: closed form of \<open>validateAndRefine\<close>. As the two repairs are stubs, the plan is never
  changed: the council returns the assembled plan unchanged iff it passes the nutrition
  check and one of the three coherence reviews rates it 7 or more, after exactly the reviews
  up to that one; a failed nutrition check fails at once, naming its suggestions, and three
  failed reviews fail with "Unknown validation error".
\<close>

theorem validateAndRefine_closed_form:
  "validateAndRefine store usda tg uuid asm coh cands ctx =
    (case assembleMealPlan uuid ctx asm of
       Stage_failed e u \<Rightarrow> Stage_failed e (totals_usage (add_usage totals_zero u))
     | Stage_ok plan u \<Rightarrow>
         (let nr = validateNutrition store usda plan tg; t0 = add_usage totals_zero u in
          if \<not> nv_is_valid nr then
            Stage_failed (''Validation failed after 3 attempts. Last issue: '' @ lastIssue (Some nr))
              (totals_usage t0)
          else (case find (\<lambda>i. coherencePasses (coh i)) [0..<councilMaxRetries] of
              Some i \<Rightarrow> Stage_ok plan (totals_usage (foldl add_usage t0
                 (concat (map (\<lambda>j. coherenceUsage (coh j)) [0..<Suc i]))))
            | None \<Rightarrow> Stage_failed ''Validation failed after 3 attempts. Last issue: Unknown validation error''
                (totals_usage (foldl add_usage t0
                   (concat (map (\<lambda>j. coherenceUsage (coh j)) [0..<councilMaxRetries])))))))"
proof (cases "assembleMealPlan uuid ctx asm")
  case (Stage_ok plan u)
  let ?st = "\<lparr>cs_plan = plan, cs_totals = add_usage totals_zero u, cs_last_validation = None\<rparr>"
  show ?thesis
  proof (cases "nv_is_valid (validateNutrition store usda plan tg)")
    case True
    then show ?thesis
      using Stage_ok councilLoop_valid [of store usda ?st tg 0 coh cands ctx]
      by (simp add: validateAndRefine_def lastIssue_def split: option.split)
  next
    case False
    then show ?thesis
      using Stage_ok councilLoop_invalid [of store usda ?st tg 0 coh cands ctx]
      by (simp add: validateAndRefine_def councilMaxRetries_def)
  qed
qed (simp add: validateAndRefine_def)

text \<open>
  the coherence gate is \<open>rating >= 7\<close>: the one-day plan of \<open>satay\<close>, exactly on
  target, is accepted after one review rated 7, and rejected after three reviews rated
  6.99, with one assembly and three review requests counted.
\<close>

theorem validateAndRefine_rating_boundary:
  "stage_value (validateAndRefine satay_store (\<lambda>n. None) (Some satay_targets) ''p1'' one_day_reply
       (\<lambda>i. coherence_rating 7) [] nc_ctx) \<noteq> None
   \<and> validateAndRefine satay_store (\<lambda>n. None) (Some satay_targets) ''p1'' one_day_reply
       (\<lambda>i. coherence_rating (699 / 100)) [] nc_ctx =
     Stage_failed ''Validation failed after 3 attempts. Last issue: Unknown validation error''
       \<lparr>claude_requests = Some 4, tokens_used = Some 4200, cost_cents = Some 1\<rparr>"
  by code_simp

text \<open>
  the council's suggestions never look at fat or carbohydrates and never ask to eat less
  protein: a plan 40 percent over on protein and fat and 40 percent under on carbohydrates
  gets no suggestion at all, although it is invalid.
\<close>

theorem generateNutritionSuggestions_council_ignores_fat_carbs:
  "generateNutritionSuggestions_council (d\<lparr>fat_deviation := x, carbohydrates_deviation := y\<rparr>) =
     generateNutritionSuggestions_council d
   \<and> generateNutritionSuggestions_council \<lparr>calories_deviation = 0, protein_deviation = 40,
       fat_deviation = 40, carbohydrates_deviation = -40, fiber_deviation = None\<rparr> = []"
  by (simp add: generateNutritionSuggestions_council_def)

text \<open>
  the council's reliability test checks calories and protein only: stored nutrients
  with a negative fat value are used by the council, while the standalone validator rejects
  them.
\<close>

theorem isReliableNutrition_council_negative_fat:
  "isReliableNutrition_council (Some \<lparr>ni_calories = Some 500, ni_protein = Some 20, ni_fat = Some (-10),
      ni_carbohydrates = Some 60, ni_fiber = None\<rparr>)
   \<and> \<not> isReliableNutrition \<lparr>ni_calories = Some 500, ni_protein = Some 20, ni_fat = Some (-10),
      ni_carbohydrates = Some 60, ni_fiber = None\<rparr>"
  by (simp add: isReliableNutrition_council_def isReliableNutrition_def)

text \<open>
  the assembler's only structural check is the \<open>days\<close> array: a one-day plan whose
  recipe is not among the candidates is accepted as the assembled plan.
\<close>

theorem assembleMealPlan_accepts_short_foreign_plan:
  "(case assembleMealPlan ''p1'' nc_ctx one_day_reply of
      Stage_ok p u \<Rightarrow> length (pd_days (mp_plan_data p)) = 1
        \<and> map ms_recipe_id (plan_slots p) = [''satay'']
    | Stage_failed e u \<Rightarrow> False)"
  by (simp add: assembleMealPlan_def parseMealPlanResponse_def one_day_reply_def plan_slots_def
      dayMeals_def slotOf_def aj_slot_def)

text \<open>
  a parsed plan is consistent: \<open>total_recipes\<close> is its number of slots,
  \<open>unique_recipes\<close> its number of distinct recipe ids, and no slot is completed.
\<close>

theorem parseMealPlanResponse_counts:
  assumes "parseMealPlanResponse uuid ctx j = Inr p"
  shows "pd_total_recipes (mp_plan_data p) = of_nat (length (plan_slots p))
    \<and> pd_unique_recipes (mp_plan_data p) = of_nat (card (ms_recipe_id ` set (plan_slots p)))
    \<and> list_all (\<lambda>s. \<not> ms_completed s) (plan_slots p)"
proof -
  obtain pj ds where pj: "j = Parsed pj" "aj_days pj = Some ds" "list_all (\<lambda>d. ad_meals d \<noteq> None) ds"
    using assms by (auto simp: parseMealPlanResponse_def split: parsed.splits option.splits if_splits)
  have ids: "ms_recipe_id ` set (concat (map (\<lambda>d. map slotOf (dayMeals d)) ds)) =
             set (concat (map (\<lambda>d. map am_recipe_id (dayMeals d)) ds))"
    by (auto simp: slotOf_def image_iff; blast)
  have nn: "(\<exists>d\<in>set ds. ad_meals d = None) = False" using pj(3) by (auto simp: list_all_iff)
  show ?thesis
    using assms pj(1,2) ids
    by (auto simp: parseMealPlanResponse_def plan_slots_def length_concat o_def nn
        length_remdups_card_conv slotOf_def list_all_iff)
qed

text \<open>
  the council's list of minor ingredients matches by substring, so \<open>oil\<close> catches
  "Boiled eggs" and \<open>pepper\<close> catches "Red bell pepper": a recipe of 200 g of eggs and
  150 g of pepper gets no nutrients from the USDA tier.
\<close>

theorem calculateRecipeNutritionFromUSDA_skips_main_ingredients:
  "isMinorIngredient_council ''Boiled eggs'' \<and> isMinorIngredient_council ''Red bell pepper''
   \<and> egg_usda ''Boiled eggs'' \<noteq> None
   \<and> calculateRecipeNutritionFromUSDA egg_usda egg_recipe = Some 0"
  by code_simp

subsection \<open>Witnesses\<close>

theorem parseMealPlanResponse_counts_witness:
  "pd_total_recipes (mp_plan_data (two_day_plan ''a'' ''a'')) = 2
   \<and> pd_unique_recipes (mp_plan_data (two_day_plan ''a'' ''a'')) = of_nat (card (ms_recipe_id ` set (plan_slots (two_day_plan ''a'' ''a''))))
   \<and> list_all (\<lambda>s. \<not> ms_completed s) (plan_slots (two_day_plan ''a'' ''a''))"
proof -
  have h: "parseMealPlanResponse ''p1'' nc_ctx (two_day_json ''a'' ''a'') = Inr (two_day_plan ''a'' ''a'')"
    by code_simp
  have "length (plan_slots (two_day_plan ''a'' ''a'')) = 2"
    by code_simp
  then show ?thesis using parseMealPlanResponse_counts [OF h] by simp
qed

end
