(* ===== verification/Blueprint.thy ===== *)
theory Blueprint
  imports Nutrition_Council
begin

text \<open>
  The user blueprint of the plan generator: its ingestion from the database
  (\<open>ingestUserBlueprint\<close>, unnamed/part\_001 lines 272-379), the Mifflin-St Jeor targets
  (\<open>calculateNutritionalTargets\<close>, lines 546-584) and the completeness check
  (\<open>validateUserBlueprint\<close>, plan-generator/utils/logging.ts lines 201-264). Database
  rows are records with the columns the code reads; \<open>null\<close> and absent columns are
  \<open>None\<close>. JavaScript truthiness is explicit: a string is truthy when non-empty, a number
  when non-zero (\<open>NaN\<close> is not modelled). A date of birth is the ISO string Postgres
  returns and its year is its first four digits; the current year is an argument.
\<close>

subsection \<open>Rows and the blueprint\<close>

record bp_profile =
  pr_id :: string
  pr_weight_kg :: "rat option"
  pr_height_cm :: "rat option"
  pr_date_of_birth :: "string option"
  pr_activity_level :: "string option"

text \<open>A row of \<open>user_intake\<close>: the selector's view \<open>intake\<close> extended by the columns the
  completeness check reads.\<close>

record intake_row = intake +
  ir_id :: string
  ir_cooking_skill_level :: "string option"
  ir_household_size :: "rat option"
  ir_budget_range :: "string option"
  ir_flavor_preferences :: bool
  ir_cultural_preferences :: "string list option"

record subscription_row =
  sub_status :: string
  sub_plan_generation_limit :: rat
  sub_access_to_premium_content :: bool

text \<open>\<open>NutritionalTargets\<close> as \<open>calculateNutritionalTargets\<close> builds them (part\_002 lines
  165-176); every field is a \<open>Math.round\<close> result.\<close>

record nutritional_targets =
  nt_daily_calories :: int
  nt_daily_protein :: int
  nt_daily_fat :: int
  nt_daily_carbohydrates :: int
  nt_bmr :: int
  nt_tdee :: int

record user_blueprint =
  ub_profile :: "bp_profile option"
  ub_intake :: "intake_row option"
  ub_subscription :: "subscription_row option"
  ub_nutritional_targets :: "nutritional_targets option"
  ub_recent_ratings :: "recent_rating list option"
  ub_recent_swaps :: "recent_swap list option"

definition str_truthy :: "string option \<Rightarrow> bool" where
  "str_truthy s \<longleftrightarrow> (case s of None \<Rightarrow> False | Some x \<Rightarrow> x \<noteq> [])"

definition num_truthy :: "rat option \<Rightarrow> bool" where
  "num_truthy v \<longleftrightarrow> (case v of None \<Rightarrow> False | Some x \<Rightarrow> x \<noteq> 0)"

text \<open>\<open>xs?.length\<close> is falsy for an absent or empty list.\<close>

definition list_truthy :: "'a list option \<Rightarrow> bool" where
  "list_truthy xs \<longleftrightarrow> (case xs of None \<Rightarrow> False | Some ys \<Rightarrow> ys \<noteq> [])"

subsection \<open>Nutritional targets\<close>

text \<open>\<open>new Date(s).getFullYear()\<close> of an ISO date: the number its first four digits spell.\<close>

definition yearOf :: "string \<Rightarrow> int" where
  "yearOf s = foldl (\<lambda>acc c. acc * 10 + (of_char c - 48)) 0 (take 4 s)"

text \<open>\<open>activityMultipliers[profile.activity_level] || 1.2\<close>.\<close>

definition activityMultiplier :: "string option \<Rightarrow> rat" where
  "activityMultiplier a =
     (if a = Some ''sedentary'' then 6 / 5
      else if a = Some ''light'' then 1375 / 1000
      else if a = Some ''moderate'' then 155 / 100
      else if a = Some ''active'' then 1725 / 1000
      else if a = Some ''very_active'' then 19 / 10
      else 6 / 5)"

text \<open>\<open>calculateNutritionalTargets\<close> (lines 546-584): \<open>null\<close> unless weight, height and date
  of birth are truthy; the intake is not read.\<close>

definition calculateNutritionalTargets :: "int \<Rightarrow> bp_profile \<Rightarrow> nutritional_targets option" where
  "calculateNutritionalTargets currentYear p =
     (case (pr_weight_kg p, pr_height_cm p, pr_date_of_birth p) of
        (Some w, Some h, Some dob) \<Rightarrow>
          if w = 0 \<or> h = 0 \<or> dob = [] then None
          else
            (let age = of_int (currentYear - yearOf dob);
                 bmr = 10 * w + 25 / 4 * h - 5 * age + 5;
                 tdee = bmr * activityMultiplier (pr_activity_level p) in
             Some \<lparr>nt_daily_calories = js_round tdee,
                   nt_daily_protein = js_round (tdee * (1 / 4) / 4),
                   nt_daily_fat = js_round (tdee * (3 / 10) / 9),
                   nt_daily_carbohydrates = js_round (tdee * (9 / 20) / 4),
                   nt_bmr = js_round bmr, nt_tdee = js_round tdee\<rparr>)
      | _ \<Rightarrow> None)"

text \<open>The targets as the council and the validator read them.\<close>

definition toTargets :: "nutritional_targets \<Rightarrow> targets" where
  "toTargets t = \<lparr>daily_calories = of_int (nt_daily_calories t), daily_protein = of_int (nt_daily_protein t),
     daily_fat = of_int (nt_daily_fat t), daily_carbohydrates = of_int (nt_daily_carbohydrates t),
     daily_fiber = None\<rparr>"

subsection \<open>Completeness check\<close>

text \<open>\<open>can_generate_plan\<close> is \<open>isValid && (calculated || blueprint.nutritional_targets)\<close>:
  \<open>false\<close>, \<open>true\<close>, the targets object, or the absent targets themselves.\<close>

datatype can_generate = Can_bool bool | Can_targets nutritional_targets | Can_absent

definition can_truthy :: "can_generate \<Rightarrow> bool" where
  "can_truthy c = (case c of Can_bool b \<Rightarrow> b | Can_targets t \<Rightarrow> True | Can_absent \<Rightarrow> False)"

record blueprint_validation =
  bv_is_valid :: bool
  bv_missing_fields :: "string list"
  bv_warnings :: "string list"
  bv_nutritional_targets_calculated :: bool
  bv_can_generate_plan :: can_generate

definition intakeMissing :: "intake_row \<Rightarrow> string list" where
  "intakeMissing i =
     (if str_truthy (diet_type i) then [] else [''diet_type''])
     @ (if (case ir_household_size i of None \<Rightarrow> True | Some h \<Rightarrow> h = 0 \<or> h < 1)
        then [''household_size''] else [])"

definition intakeWarnings :: "intake_row \<Rightarrow> string list" where
  "intakeWarnings i =
     (if str_truthy (ir_cooking_skill_level i) then [] else [''cooking_skill_level_missing''])
     @ (if num_truthy (cooking_time_preference i) then [] else [''cooking_time_preference_missing''])"

definition targetsComputable :: "bp_profile \<Rightarrow> bool" where
  "targetsComputable p \<longleftrightarrow> num_truthy (pr_weight_kg p) \<and> num_truthy (pr_height_cm p)
     \<and> str_truthy (pr_date_of_birth p)"

text \<open>\<open>validateUserBlueprint\<close> (logging.ts lines 201-264).\<close>

definition validateUserBlueprint :: "user_blueprint \<Rightarrow> blueprint_validation" where
  "validateUserBlueprint bp =
     (let missing =
            (if ub_profile bp = None then [''user_profile''] else [])
            @ (case ub_intake bp of None \<Rightarrow> [''user_intake''] | Some i \<Rightarrow> intakeMissing i)
            @ (case ub_subscription bp of
                 Some s \<Rightarrow> if sub_status s = ''active'' then [] else [''active_subscription'']
               | None \<Rightarrow> [''active_subscription'']);
          calculated = (case (ub_profile bp, ub_intake bp) of
                          (Some p, Some i) \<Rightarrow> targetsComputable p | _ \<Rightarrow> False);
          warnings =
            (case ub_intake bp of None \<Rightarrow> [] | Some i \<Rightarrow> intakeWarnings i)
            @ (case (ub_profile bp, ub_intake bp) of
                 (Some p, Some i) \<Rightarrow> if targetsComputable p then [] else [''insufficient_data_for_nutritional_targets'']
               | _ \<Rightarrow> [])
            @ (if \<not> list_truthy (ub_recent_ratings bp) \<and> \<not> list_truthy (ub_recent_swaps bp)
               then [''limited_personalization_data''] else []);
          isValid = (missing = []) in
      \<lparr>bv_is_valid = isValid, bv_missing_fields = missing, bv_warnings = warnings,
       bv_nutritional_targets_calculated = calculated,
       bv_can_generate_plan =
         (if \<not> isValid then Can_bool False
          else if calculated then Can_bool True
          else (case ub_nutritional_targets bp of None \<Rightarrow> Can_absent | Some t \<Rightarrow> Can_targets t))\<rparr>)"

text \<open>\<open>calculateBlueprintCompleteness\<close> (logging.ts lines 293-321); \<open>flavor_preferences\<close>
  is an object, truthy when present.\<close>

definition pts :: "bool \<Rightarrow> nat \<Rightarrow> nat" where
  "pts b n = (if b then n else 0)"

definition calculateBlueprintCompleteness :: "user_blueprint \<Rightarrow> nat" where
  "calculateBlueprintCompleteness bp =
     (let p = ub_profile bp; i = ub_intake bp;
          pf = (\<lambda>f. case p of None \<Rightarrow> False | Some x \<Rightarrow> f x);
          inf = (\<lambda>f. case i of None \<Rightarrow> False | Some x \<Rightarrow> f x);
          score = pts (p \<noteq> None) 10 + pts (i \<noteq> None) 10
            + pts (case ub_subscription bp of None \<Rightarrow> False | Some s \<Rightarrow> sub_status s = ''active'') 10
            + pts (inf (\<lambda>x. str_truthy (diet_type x))) 10
            + pts (pf (\<lambda>x. num_truthy (pr_weight_kg x))) 7 + pts (pf (\<lambda>x. num_truthy (pr_height_cm x))) 7
            + pts (pf (\<lambda>x. str_truthy (pr_date_of_birth x))) 6
            + pts (inf (\<lambda>x. str_truthy (ir_cooking_skill_level x))) 5
            + pts (inf (\<lambda>x. num_truthy (cooking_time_preference x))) 5
            + pts (inf (\<lambda>x. str_truthy (ir_budget_range x))) 5
            + pts (inf ir_flavor_preferences) 5
            + pts (inf (\<lambda>x. list_truthy (ir_cultural_preferences x))) 5
            + pts (list_truthy (ub_recent_ratings bp)) 8 + pts (list_truthy (ub_recent_swaps bp)) 4
            + pts (inf (\<lambda>x. list_truthy (allergies x) \<or> list_truthy (dislikes x))) 3 in
      min score 100)"

text \<open>\<open>getBlueprintValidationMessages\<close> (lines 326-385): one message per missing field, and
  a message and a suggestion per known warning.\<close>

definition missingMessage :: "string \<Rightarrow> string" where
  "missingMessage f =
     (if f = ''user_profile'' then ''Your profile information is incomplete''
      else if f = ''user_intake'' then ''Please complete your dietary preferences''
      else if f = ''diet_type'' then ''Please select your dietary preference (vegan, keto, etc.)''
      else if f = ''household_size'' then ''Please specify how many people you're cooking for''
      else if f = ''active_subscription'' then ''An active subscription is required to generate meal plans''
      else ''Missing required field: '' @ f)"

definition warningMessages :: "string \<Rightarrow> (string \<times> string) option" where
  "warningMessages w =
     (if w = ''cooking_skill_level_missing'' then
        Some (''Consider adding your cooking skill level for better recipe recommendations'',
              ''Set your cooking skill level in preferences'')
      else if w = ''cooking_time_preference_missing'' then
        Some (''No cooking time preference set - we'll assume you prefer quick meals'',
              ''Set your preferred cooking time in preferences'')
      else if w = ''insufficient_data_for_nutritional_targets'' then
        Some (''Add your height, weight, and age for personalized nutrition targets'',
              ''Complete your profile for better nutritional matching'')
      else if w = ''limited_personalization_data'' then
        Some (''Rate some recipes to help us learn your preferences'',
              ''Try rating meals as you cook them to improve future recommendations'')
      else None)"

record validation_messages =
  vm_missing_messages :: "string list"
  vm_warning_messages :: "string list"
  vm_suggestions :: "string list"

definition getBlueprintValidationMessages :: "blueprint_validation \<Rightarrow> validation_messages" where
  "getBlueprintValidationMessages v =
     (let ws = concat (map (\<lambda>w. opt_list (warningMessages w)) (bv_warnings v)) in
      \<lparr>vm_missing_messages = map missingMessage (bv_missing_fields v),
       vm_warning_messages = map fst ws, vm_suggestions = map snd ws\<rparr>)"

text \<open>\<open>validateGenerationPreferences\<close> (lines 269-288) on the fields it reads.\<close>

record generation_preferences =
  gp_max_prep_time :: "rat option"
  gp_focus_macros :: "string list option"
  gp_exclude_recipes :: "string list option"

definition validateGenerationPreferences :: "generation_preferences \<Rightarrow> bool \<times> string list" where
  "validateGenerationPreferences p =
     (let errors =
        (if (case gp_max_prep_time p of None \<Rightarrow> False | Some t \<Rightarrow> t \<noteq> 0 \<and> (t < 5 \<or> 180 < t))
         then [''max_prep_time must be between 5 and 180 minutes''] else [])
        @ (case gp_focus_macros p of Some ms \<Rightarrow> if 2 < length ms
             then [''focus_macros can contain at most 2 macronutrients''] else [] | None \<Rightarrow> [])
        @ (case gp_exclude_recipes p of Some xs \<Rightarrow> if 50 < length xs
             then [''exclude_recipes list cannot exceed 50 items''] else [] | None \<Rightarrow> []) in
      (errors = [], errors))"

subsection \<open>Ingestion\<close>

text \<open>The result of a \<open>.single()\<close> query: its error message, or the row.\<close>

type_synonym 'a row_result = "string + 'a"

text \<open>
  \<open>ingestUserBlueprint\<close> (lines 272-379): the three \<open>.single()\<close> queries in order (an
  error is thrown and becomes the result's message), the targets, the blueprint and its
  check. The rating and swap queries' rows are given already mapped (\<open>None\<close> when the
  query failed, \<open>|| []\<close> applies).
\<close>

definition ingestUserBlueprint ::
  "int \<Rightarrow> bp_profile row_result \<Rightarrow> intake_row row_result \<Rightarrow> subscription_row row_result
     \<Rightarrow> recent_rating list option \<Rightarrow> recent_swap list option \<Rightarrow> string + user_blueprint" where
  "ingestUserBlueprint currentYear profileQ intakeQ subQ ratingsQ swapsQ =
     (case profileQ of
        Inl e \<Rightarrow> Inl (''Failed to fetch user profile: '' @ e)
      | Inr profile \<Rightarrow> (case intakeQ of
          Inl e \<Rightarrow> Inl (''Failed to fetch user intake: '' @ e)
        | Inr intake \<Rightarrow> (case subQ of
            Inl e \<Rightarrow> Inl (''Failed to fetch subscription: '' @ e)
          | Inr subscription \<Rightarrow>
              (let bp = \<lparr>ub_profile = Some profile, ub_intake = Some intake,
                         ub_subscription = Some subscription,
                         ub_nutritional_targets = calculateNutritionalTargets currentYear profile,
                         ub_recent_ratings = Some (case ratingsQ of None \<Rightarrow> [] | Some rs \<Rightarrow> rs),
                         ub_recent_swaps = Some (case swapsQ of None \<Rightarrow> [] | Some ss \<Rightarrow> ss)\<rparr>;
                   validation = validateUserBlueprint bp in
               if \<not> can_truthy (bv_can_generate_plan validation)
               then Inl (''Incomplete user profile: '' @ join_str '', '' (bv_missing_fields validation))
               else Inr bp))))"

subsection \<open>Test data\<close>

definition demo_profile :: bp_profile where
  "demo_profile = \<lparr>pr_id = ''u1'', pr_weight_kg = Some 70, pr_height_cm = Some 175, pr_date_of_birth = Some ''1990-05-17'',
     pr_activity_level = Some ''moderate''\<rparr>"

definition demo_intake_row :: intake_row where
  "demo_intake_row = \<lparr>diet_type = Some ''omnivore'', allergies = Some [''peanut''], dislikes = Some [],
     cooking_time_preference = Some 30, ir_id = ''i1'', ir_cooking_skill_level = Some ''beginner'', ir_household_size = Some 2,
     ir_budget_range = None, ir_flavor_preferences = False, ir_cultural_preferences = None\<rparr>"

definition demo_subscription :: subscription_row where
  "demo_subscription = \<lparr>sub_status = ''active'', sub_plan_generation_limit = 4,
     sub_access_to_premium_content = False\<rparr>"

lemma calculateNutritionalTargets_Some:
  "calculateNutritionalTargets y p = Some t \<Longrightarrow> targetsComputable p \<and>
     (\<exists>tdee. nt_daily_calories t = js_round tdee \<and> nt_daily_protein t = js_round (tdee * (1 / 4) / 4)
        \<and> nt_daily_fat t = js_round (tdee * (3 / 10) / 9) \<and> nt_daily_carbohydrates t = js_round (tdee * (9 / 20) / 4))"
  by (auto simp: calculateNutritionalTargets_def targetsComputable_def num_truthy_def str_truthy_def Let_def
      split: option.splits if_splits)

lemma calculateNutritionalTargets_None:
  "calculateNutritionalTargets y p = None \<longleftrightarrow> \<not> targetsComputable p"
  by (auto simp: calculateNutritionalTargets_def targetsComputable_def num_truthy_def str_truthy_def Let_def
      split: option.splits)

text \<open>C30: The energy of the rounded macro targets (4 kcal per gram of protein and of
  carbohydrate, 9 per gram of fat) is within 9 kcal of the rounded calorie target: the
  ratios 0.25, 0.30 and 0.45 add up to 1 and each of the four roundings is off by at most
  half a unit.\<close>

theorem calculateNutritionalTargets_macro_energy:
  assumes "calculateNutritionalTargets y p = Some t"
  shows "\<bar>4 * nt_daily_protein t + 9 * nt_daily_fat t + 4 * nt_daily_carbohydrates t - nt_daily_calories t\<bar> \<le> 9"
proof -
  obtain tdee where
    c: "nt_daily_calories t = js_round tdee" and pr: "nt_daily_protein t = js_round (tdee * (1 / 4) / 4)"
    and f: "nt_daily_fat t = js_round (tdee * (3 / 10) / 9)"
    and cb: "nt_daily_carbohydrates t = js_round (tdee * (9 / 20) / 4)"
    using calculateNutritionalTargets_Some [OF assms] by blast
  let ?e = "4 * nt_daily_protein t + 9 * nt_daily_fat t + 4 * nt_daily_carbohydrates t - nt_daily_calories t"
  have "rat_of_int ?e < 19 / 2" "- (19 / 2) < rat_of_int ?e"
    using js_round_bounds [of tdee] js_round_bounds [of "tdee * (1 / 4) / 4"]
      js_round_bounds [of "tdee * (3 / 10) / 9"] js_round_bounds [of "tdee * (9 / 20) / 4"]
    unfolding c pr f cb by simp_all
  then have "rat_of_int ?e < rat_of_int 10" "rat_of_int (- 10) < rat_of_int ?e" by simp_all
  then have "?e < 10" "- 10 < ?e" by (simp_all only: of_int_less_iff)
  then show ?thesis by simp
qed

theorem calculateNutritionalTargets_macro_energy_witness:
  "\<bar>4 * 157 + 9 * 84 + 4 * 283 - 2517\<bar> \<le> (9 :: int)"
proof -
  have "calculateNutritionalTargets 2025 demo_profile = Some \<lparr>nt_daily_calories = 2517, nt_daily_protein = 157,
      nt_daily_fat = 84, nt_daily_carbohydrates = 283, nt_bmr = 1624, nt_tdee = 2517\<rparr>"
    by code_simp
  from calculateNutritionalTargets_macro_energy [OF this] show ?thesis by simp
qed

lemma intakeMissing_Nil:
  "intakeMissing i = [] \<longleftrightarrow> str_truthy (diet_type i) \<and> (\<exists>h. ir_household_size i = Some h \<and> 1 \<le> h)"
  by (auto simp: intakeMissing_def num_truthy_def split: option.splits)

text \<open>\<open>validateUserBlueprint\<close> reports a blueprint valid exactly when it has a
  profile, an intake with a non-empty diet type and a household size of at least 1, and an
  active subscription.\<close>

theorem validateUserBlueprint_valid_iff:
  "bv_is_valid (validateUserBlueprint bp) \<longleftrightarrow>
     (\<exists>p i s. ub_profile bp = Some p \<and> ub_intake bp = Some i \<and> ub_subscription bp = Some s
        \<and> sub_status s = ''active'' \<and> str_truthy (diet_type i) \<and> (\<exists>h. ir_household_size i = Some h \<and> 1 \<le> h))"
  by (auto simp: validateUserBlueprint_def Let_def intakeMissing_Nil [symmetric] split: option.splits)

lemma validateUserBlueprint_can:
  "can_truthy (bv_can_generate_plan (validateUserBlueprint bp)) \<longleftrightarrow>
     bv_is_valid (validateUserBlueprint bp)
     \<and> ((\<exists>p i. ub_profile bp = Some p \<and> ub_intake bp = Some i \<and> targetsComputable p)
        \<or> ub_nutritional_targets bp \<noteq> None)"
  by (auto simp: validateUserBlueprint_def Let_def can_truthy_def split: option.splits)

text \<open>C6: A blueprint that \<open>ingestUserBlueprint\<close> returns satisfies the specification's
  entry guard: its required fields are present (it passes \<open>validateUserBlueprint\<close>) and its
  nutritional targets were computed from the profile.\<close>

theorem ingestUserBlueprint_ready:
  assumes "ingestUserBlueprint y pq iq sq rq wq = Inr bp"
  shows "bv_is_valid (validateUserBlueprint bp) \<and> (\<exists>t. ub_nutritional_targets bp = Some t
     \<and> calculateNutritionalTargets y (the (ub_profile bp)) = Some t)"
proof -
  obtain profile intake s where q: "pq = Inr profile" "iq = Inr intake" "sq = Inr s"
    using assms by (auto simp: ingestUserBlueprint_def split: sum.splits)
  let ?bp = "\<lparr>ub_profile = Some profile, ub_intake = Some intake, ub_subscription = Some s,
     ub_nutritional_targets = calculateNutritionalTargets y profile,
     ub_recent_ratings = Some (case rq of None \<Rightarrow> [] | Some rs \<Rightarrow> rs),
     ub_recent_swaps = Some (case wq of None \<Rightarrow> [] | Some ss \<Rightarrow> ss)\<rparr>"
  have bp: "bp = ?bp" and can: "can_truthy (bv_can_generate_plan (validateUserBlueprint ?bp))"
    using assms by (auto simp: ingestUserBlueprint_def q Let_def split: if_splits)
  have "calculateNutritionalTargets y profile \<noteq> None"
    using can calculateNutritionalTargets_None [of y profile] unfolding validateUserBlueprint_can by auto
  then show ?thesis using can unfolding validateUserBlueprint_can bp by auto
qed

theorem ingestUserBlueprint_ready_witness:
  "bv_is_valid (validateUserBlueprint \<lparr>ub_profile = Some demo_profile, ub_intake = Some demo_intake_row,
      ub_subscription = Some demo_subscription, ub_nutritional_targets = calculateNutritionalTargets 2025 demo_profile,
      ub_recent_ratings = Some [], ub_recent_swaps = Some []\<rparr>)"
proof -
  have "ingestUserBlueprint 2025 (Inr demo_profile) (Inr demo_intake_row) (Inr demo_subscription) None None
      = Inr \<lparr>ub_profile = Some demo_profile, ub_intake = Some demo_intake_row,
      ub_subscription = Some demo_subscription, ub_nutritional_targets = calculateNutritionalTargets 2025 demo_profile,
      ub_recent_ratings = Some [], ub_recent_swaps = Some []\<rparr>"
    by code_simp
  then show ?thesis using ingestUserBlueprint_ready by blast
qed

text \<open>When the profile lacks its weight, height or date of birth but the intake and
  the subscription are complete, ingestion fails with the message
  \<open>Incomplete user profile: \<close> followed by an empty list: the missing targets are not a
  missing field of \<open>validateUserBlueprint\<close>.\<close>

theorem ingestUserBlueprint_empty_missing_message:
  assumes "\<not> targetsComputable profile" "intakeMissing intake = []" "sub_status s = ''active''"
  shows "ingestUserBlueprint y (Inr profile) (Inr intake) (Inr s) rq wq = Inl ''Incomplete user profile: ''"
proof -
  have "calculateNutritionalTargets y profile = None"
    using assms(1) calculateNutritionalTargets_None by blast
  then show ?thesis
    using assms by (simp add: ingestUserBlueprint_def validateUserBlueprint_def Let_def can_truthy_def)
qed

theorem ingestUserBlueprint_empty_missing_message_witness:
  "ingestUserBlueprint 2025 (Inr (demo_profile\<lparr>pr_weight_kg := None\<rparr>)) (Inr demo_intake_row)
     (Inr demo_subscription) None None = Inl ''Incomplete user profile: ''"
proof -
  have "\<not> targetsComputable (demo_profile\<lparr>pr_weight_kg := None\<rparr>)"
    by (simp add: targetsComputable_def num_truthy_def)
  moreover have "intakeMissing demo_intake_row = []" by code_simp
  moreover have "sub_status demo_subscription = ''active''" by (simp add: demo_subscription_def)
  ultimately show ?thesis by (rule ingestUserBlueprint_empty_missing_message)
qed

lemma validateUserBlueprint_warnings_known:
  "list_all (\<lambda>w. warningMessages w \<noteq> None) (bv_warnings (validateUserBlueprint bp))"
  by (simp add: validateUserBlueprint_def Let_def intakeWarnings_def warningMessages_def
      split: option.splits)

text \<open>Every warning \<open>validateUserBlueprint\<close> can emit has a message and a suggestion
  in \<open>getBlueprintValidationMessages\<close>, and every missing field a message.\<close>

theorem getBlueprintValidationMessages_complete:
  "length (vm_warning_messages (getBlueprintValidationMessages (validateUserBlueprint bp)))
     = length (bv_warnings (validateUserBlueprint bp))
   \<and> length (vm_missing_messages (getBlueprintValidationMessages (validateUserBlueprint bp)))
     = length (bv_missing_fields (validateUserBlueprint bp))"
proof -
  have "length (concat (map (\<lambda>w. opt_list (warningMessages w)) ws)) = length ws"
    if "list_all (\<lambda>w. warningMessages w \<noteq> None) ws" for ws
    using that by (induction ws) (auto simp: opt_list_def)
  then show ?thesis
    using validateUserBlueprint_warnings_known [of bp]
    by (simp add: getBlueprintValidationMessages_def Let_def)
qed

lemma pts_True: "pts True n = n"
  by (simp add: pts_def)

text \<open>A blueprint \<open>validateUserBlueprint\<close> accepts scores at least 40 in
  \<open>calculateBlueprintCompleteness\<close>: the points of the core requirements.\<close>

theorem calculateBlueprintCompleteness_valid:
  assumes "bv_is_valid (validateUserBlueprint bp)"
  shows "40 \<le> calculateBlueprintCompleteness bp"
proof -
  obtain p i s where "ub_profile bp = Some p" "ub_intake bp = Some i" "ub_subscription bp = Some s"
    "sub_status s = ''active''" "str_truthy (diet_type i)"
    using assms unfolding validateUserBlueprint_valid_iff by blast
  then show ?thesis
    by (simp add: calculateBlueprintCompleteness_def Let_def pts_True)
qed

theorem calculateBlueprintCompleteness_valid_witness:
  "40 \<le> calculateBlueprintCompleteness \<lparr>ub_profile = Some demo_profile, ub_intake = Some demo_intake_row,
      ub_subscription = Some demo_subscription, ub_nutritional_targets = None,
      ub_recent_ratings = None, ub_recent_swaps = None\<rparr>"
proof -
  have "bv_is_valid (validateUserBlueprint \<lparr>ub_profile = Some demo_profile, ub_intake = Some demo_intake_row,
      ub_subscription = Some demo_subscription, ub_nutritional_targets = None,
      ub_recent_ratings = None, ub_recent_swaps = None\<rparr>)"
    by code_simp
  then show ?thesis by (rule calculateBlueprintCompleteness_valid)
qed

end
