(* ===== verification/Generation_Controller.thy ===== *)
theory Generation_Controller
  imports Meal_Plan Candidate_Selector
begin

text \<open>
  Stages 2-5 of the plan generator, \<open>generateMealPlanWithRetry\<close> and
  \<open>generateFallbackPlan\<close> (unnamed/part\_001, lines 385-645): up to three rounds of
  candidate selection, nutrition council, enhancement and storage, each failure caught and
  counted, then a fallback plan built from a fixed query. The stages the controller calls
  are given per round by an \<open>attempt_env\<close>: their results as the code reads them
  (\<open>success\<close>, value, \<open>error\<close>, usage) and the error of the \<open>meal_plans\<close> insert. The
  plans the code inserts into \<open>meal_plans\<close> are the list \<open>saved_plans\<close> of the state,
  so that the plans stored by an attempt that later fails remain visible.

  The result literals of the three \<open>return\<close> statements (lines 449-460, 481-492 and
  495-511) use the property shorthand \<open>retry_count\<close>, and no variable of that name is
  declared in the module: evaluating it raises a \<open>ReferenceError\<close>. What the identifier
  evaluates to is the parameter \<open>scope\<close> of the model; the source's binding,
  \<open>source_scope\<close>, has none. Lemmas that hold for every binding are stated over \<open>scope\<close>.
\<close>

subsection \<open>Errors, context and stage environment\<close>

text \<open>The JavaScript errors the controller throws or catches.\<close>

datatype js_error = Error string | Type_error string | Reference_error string

primrec error_message :: "js_error \<Rightarrow> string" where
  "error_message (Error m) = m"
| "error_message (Type_error m) = m"
| "error_message (Reference_error m) = m"

text \<open>
  \<open>lastError\<close>: \<open>null\<close>, a caught error, or the council's \<open>error\<close> field, a string
  (line 463). \<open>lastError?.message\<close> is \<open>undefined\<close> for \<open>null\<close> and for a string.
\<close>

datatype last_error = Null_error | Caught js_error | Error_string string

definition last_error_message :: "last_error \<Rightarrow> string" where
  "last_error_message e = (case e of Caught x \<Rightarrow> error_message x | _ \<Rightarrow> ''undefined'')"

text \<open>
  One round's collaborators: \<open>selectCandidates\<close>, \<open>validateAndRefine\<close> on the
  selected candidates, \<open>enhancePlan\<close> on the council's plan, and the error the
  \<open>meal_plans\<close> insert of \<open>saveMealPlan\<close> reports (\<open>None\<close> when it succeeds).
\<close>

record attempt_env =
  ae_select :: "candidate list stage"
  ae_council :: "candidate list \<Rightarrow> meal_plan stage"
  ae_enhance :: "meal_plan \<Rightarrow> meal_plan stage"
  ae_save_error :: "string option"

text \<open>What the identifier \<open>retry_count\<close> evaluates to when the loop counter is \<open>n\<close>.\<close>

type_synonym scope = "nat \<Rightarrow> nat option"

definition source_scope :: scope where
  "source_scope = (\<lambda>n. None)"

definition evalRetryCount :: "scope \<Rightarrow> nat \<Rightarrow> js_error + nat" where
  "evalRetryCount sc n = (case sc n of
     None \<Rightarrow> Inl (Reference_error ''retry_count is not defined'') | Some k \<Rightarrow> Inr k)"

text \<open>\<open>PlanGenerationResult\<close> (part\_003, lines 240-270), without the timing field and
  the council's \<open>nutritional_accuracy\<close>.\<close>

record plan_generation_result =
  pg_success :: bool
  pg_meal_plan :: "meal_plan option"
  pg_generation_id :: string
  pg_retry_count :: nat
  pg_totals :: totals
  pg_used_fallback :: bool
  pg_fallback_reason :: "string option"
  pg_error_code :: "string option"
  pg_error_message :: "string option"

text \<open>The locals of \<open>generateMealPlanWithRetry\<close> other than \<open>retryCount\<close>, and the
  plans inserted into \<open>meal_plans\<close>.\<close>

record ctl_state =
  last_error :: last_error
  ctl_totals :: totals
  saved_plans :: "meal_plan list"

definition ctl_init :: ctl_state where
  "ctl_init = \<lparr>last_error = Null_error, ctl_totals = totals_zero, saved_plans = []\<rparr>"

definition maxRetries :: nat where
  "maxRetries = 3"

subsection \<open>One round\<close>

text \<open>
  \<open>saveMealPlan\<close> (lines 647-672): reading \<open>mealPlan.id\<close> of \<open>undefined\<close> raises a
  \<open>TypeError\<close>; an insert error raises \<open>Failed to save meal plan\<close>; otherwise the
  stored row, whose columns are the plan's.
\<close>

definition saveMealPlan :: "meal_plan option \<Rightarrow> string option \<Rightarrow> js_error + meal_plan" where
  "saveMealPlan mp err = (case mp of
     None \<Rightarrow> Inl (Type_error ''Cannot read properties of undefined (reading 'id')'')
   | Some p \<Rightarrow> (case err of
       Some m \<Rightarrow> Inl (Error (''Failed to save meal plan: '' @ m))
     | None \<Rightarrow> Inr p))"

text \<open>
  The body of the \<open>while\<close> loop (lines 398-470) in round \<open>retryCount\<close>: \<open>Some\<close> result
  when it returns, \<open>None\<close> when an error was caught or the council failed; the state
  after the round in both cases.
\<close>

definition attemptRound ::
  "scope \<Rightarrow> gen_context \<Rightarrow> attempt_env \<Rightarrow> nat \<Rightarrow> ctl_state \<Rightarrow> plan_generation_result option \<times> ctl_state" where
  "attemptRound sc ctx ae retryCount st =
     (case ae_select ae of
        Stage_failed e u \<Rightarrow>
          (None, st\<lparr>last_error := Caught (Error (''Candidate selection failed: '' @ e))\<rparr>)
      | Stage_ok cands u \<Rightarrow>
          (let st1 = st\<lparr>ctl_totals := add_usage (ctl_totals st) u\<rparr>;
               v = ae_council ae cands;
               st2 = st1\<lparr>ctl_totals := add_usage (ctl_totals st1) (stage_usage v)\<rparr> in
           case v of
             Stage_failed e u2 \<Rightarrow> (None, st2\<lparr>last_error := Error_string e\<rparr>)
           | Stage_ok plan u2 \<Rightarrow>
               (let enh = ae_enhance ae plan;
                    st3 = st2\<lparr>ctl_totals := add_usage (ctl_totals st2) (stage_usage enh)\<rparr> in
                case saveMealPlan (stage_value enh) (ae_save_error ae) of
                  Inl err \<Rightarrow> (None, st3\<lparr>last_error := Caught err\<rparr>)
                | Inr finalPlan \<Rightarrow>
                    (let st4 = st3\<lparr>saved_plans := saved_plans st3 @ [finalPlan]\<rparr> in
                     case evalRetryCount sc retryCount of
                       Inl err \<Rightarrow> (None, st4\<lparr>last_error := Caught err\<rparr>)
                     | Inr k \<Rightarrow>
                         (Some \<lparr>pg_success = True, pg_meal_plan = Some finalPlan,
                            pg_generation_id = ctx_generation_id ctx, pg_retry_count = k,
                            pg_totals = ctl_totals st4, pg_used_fallback = False,
                            pg_fallback_reason = None, pg_error_code = None,
                            pg_error_message = None\<rparr>, st4)))))"

text \<open>
  \<open>while (retryCount < maxRetries)\<close> (lines 397-473): the round, then
  \<open>retryCount++\<close>. The counter at exit is returned with the state.
\<close>

function retryLoop ::
  "scope \<Rightarrow> gen_context \<Rightarrow> (nat \<Rightarrow> attempt_env) \<Rightarrow> nat \<Rightarrow> ctl_state
     \<Rightarrow> plan_generation_result option \<times> nat \<times> ctl_state" where
  "retryLoop sc ctx env retryCount st =
     (if retryCount < maxRetries then
        (case attemptRound sc ctx (env retryCount) retryCount st of
           (Some r, st') \<Rightarrow> (Some r, retryCount, st')
         | (None, st') \<Rightarrow> retryLoop sc ctx env (Suc retryCount) st')
      else (None, retryCount, st))"
  by pat_completeness auto
termination
  by (relation "measure (\<lambda>(sc, ctx, env, n, st). maxRetries - n)") auto

subsection \<open>Fallback plan\<close>

text \<open>
  The query of \<open>generateFallbackPlan\<close> (lines 591-599) on one row: published, rating at
  least 4.0, prep time at most 30 (a \<open>NULL\<close> fails \<open>lte\<close>), and not
  \<open>dietary_tags @> {spicy, very_spicy}\<close>: the tags do not contain both.
\<close>

definition fallbackFilter :: "recipe \<Rightarrow> bool" where
  "fallbackFilter r \<longleftrightarrow> r_status r = ''published'' \<and> 4 \<le> r_rating_average r
     \<and> sql_lte (r_prep_time r) 30
     \<and> \<not> (''spicy'' \<in> set (r_dietary_tags r) \<and> ''very_spicy'' \<in> set (r_dietary_tags r))"

text \<open>\<open>.order('rating_average', {ascending: false}).limit(15)\<close>.\<close>

definition fetchFallbackRecipes :: "recipe list \<Rightarrow> recipe list" where
  "fetchFallbackRecipes db = take 15 (sort_key (\<lambda>r. - r_rating_average r) (filter fallbackFilter db))"

definition fallbackDays :: "string list" where
  "fallbackDays = [''monday'', ''tuesday'', ''wednesday'']"

definition fallbackMealTypes :: "string list" where
  "fallbackMealTypes = [''breakfast'', ''lunch'', ''dinner'']"

text \<open>The meal slot of lines 613-620: recipe \<open>(dayIndex * 3 + mealIndex) % length\<close>.\<close>

definition fallbackSlot :: "recipe list \<Rightarrow> nat \<Rightarrow> nat \<times> string \<Rightarrow> meal_slot" where
  "fallbackSlot pool dayIndex im = (case im of (mealIndex, mealType) \<Rightarrow>
     \<lparr>ms_meal_type = mealType,
      ms_recipe_id = r_id (pool ! ((dayIndex * 3 + mealIndex) mod length pool)),
      ms_servings = None, ms_completed = False\<rparr>)"

definition fallbackDay :: "recipe list \<Rightarrow> int \<Rightarrow> nat \<times> string \<Rightarrow> day_plan" where
  "fallbackDay pool start entry = (case entry of (dayIndex, d) \<Rightarrow>
     \<lparr>dp_day = d, dp_date = start + int dayIndex,
      dp_meals = map (fallbackSlot pool dayIndex) (enumerate 0 fallbackMealTypes)\<rparr>)"

text \<open>
  \<open>generateFallbackPlan\<close> (lines 586-645); \<open>uuid\<close> is the value \<open>uuidv4()\<close>
  returns. An empty result of the query raises \<open>Failed to fetch fallback recipes\<close>.
\<close>

definition generateFallbackPlan :: "recipe list \<Rightarrow> string \<Rightarrow> gen_context \<Rightarrow> js_error + meal_plan" where
  "generateFallbackPlan db uuid ctx =
     (let pool = fetchFallbackRecipes db in
      if pool = [] then Inl (Error ''Failed to fetch fallback recipes'')
      else Inr \<lparr>mp_id = uuid, mp_user_id = ctx_user_id ctx, mp_intake_id = Some (ctx_intake_id ctx),
        mp_week_theme = Some ''Getting Started'', mp_week_start_date = ctx_week_start_date ctx,
        mp_status = ''active'',
        mp_plan_data = \<lparr>pd_days = map (fallbackDay pool (ctx_week_start_date ctx)) (enumerate 0 fallbackDays),
          pd_total_recipes = 9, pd_unique_recipes = of_nat (min 9 (length pool)),
          pd_variety_score = 60\<rparr>,
        mp_generated_by = ''fallback_system'', mp_generation_id = ctx_generation_id ctx,
        mp_completion_percentage = 0, mp_is_public = False, mp_clone_count = 0\<rparr>)"

text \<open>
  After the loop (lines 475-512): the fallback plan in a \<open>try\<close> whose result literal
  reads \<open>retry_count\<close>; the \<open>catch\<close> builds the complete-failure result, whose literal
  reads it again, outside any \<open>try\<close>.
\<close>

definition completeFailure ::
  "scope \<Rightarrow> gen_context \<Rightarrow> nat \<Rightarrow> ctl_state \<Rightarrow> js_error \<Rightarrow> js_error + plan_generation_result" where
  "completeFailure sc ctx retryCount st fallbackError =
     (case evalRetryCount sc retryCount of
        Inl err \<Rightarrow> Inl err
      | Inr k \<Rightarrow> Inr \<lparr>pg_success = False, pg_meal_plan = None,
          pg_generation_id = ctx_generation_id ctx, pg_retry_count = k,
          pg_totals = ctl_totals st, pg_used_fallback = False, pg_fallback_reason = None,
          pg_error_code = Some ''COMPLETE_FAILURE'',
          pg_error_message = Some (''All generation attempts failed. Last error: ''
             @ last_error_message (last_error st) @ ''. Fallback error: ''
             @ error_message fallbackError)\<rparr>)"

definition fallbackStage ::
  "scope \<Rightarrow> recipe list \<Rightarrow> string \<Rightarrow> gen_context \<Rightarrow> nat \<Rightarrow> ctl_state \<Rightarrow> js_error + plan_generation_result" where
  "fallbackStage sc db uuid ctx retryCount st =
     (case generateFallbackPlan db uuid ctx of
        Inl e \<Rightarrow> completeFailure sc ctx retryCount st e
      | Inr fallbackPlan \<Rightarrow>
          (case evalRetryCount sc retryCount of
             Inl e \<Rightarrow> completeFailure sc ctx retryCount st e
           | Inr k \<Rightarrow> Inr \<lparr>pg_success = True, pg_meal_plan = Some fallbackPlan,
               pg_generation_id = ctx_generation_id ctx, pg_retry_count = k,
               pg_totals = ctl_totals st, pg_used_fallback = True,
               pg_fallback_reason = Some (''Generation failed after 3 attempts: ''
                  @ last_error_message (last_error st)),
               pg_error_code = None, pg_error_message = None\<rparr>))"

text \<open>
  \<open>generateMealPlanWithRetry\<close>: the function's outcome (\<open>Inl\<close> the error it rejects
  with) and the plans inserted into \<open>meal_plans\<close>.
\<close>

definition generateMealPlanWithRetry ::
  "scope \<Rightarrow> (nat \<Rightarrow> attempt_env) \<Rightarrow> recipe list \<Rightarrow> string \<Rightarrow> gen_context
     \<Rightarrow> (js_error + plan_generation_result) \<times> meal_plan list" where
  "generateMealPlanWithRetry sc env db uuid ctx =
     (case retryLoop sc ctx env 0 ctl_init of
        (Some r, n, st) \<Rightarrow> (Inr r, saved_plans st)
      | (None, n, st) \<Rightarrow> (fallbackStage sc db uuid ctx n st, saved_plans st))"

subsection \<open>Views of a round\<close>

text \<open>The plan a round inserts into \<open>meal_plans\<close>, if it reaches the insert and it succeeds.\<close>

definition roundSaves :: "attempt_env \<Rightarrow> meal_plan option" where
  "roundSaves ae = (case ae_select ae of
     Stage_failed e u \<Rightarrow> None
   | Stage_ok cands u \<Rightarrow> (case ae_council ae cands of
       Stage_failed e u2 \<Rightarrow> None
     | Stage_ok plan u2 \<Rightarrow>
         (case saveMealPlan (stage_value (ae_enhance ae plan)) (ae_save_error ae) of
            Inl err \<Rightarrow> None | Inr p \<Rightarrow> Some p)))"

text \<open>The usage reports a round adds to the totals, in order.\<close>

definition roundUsage :: "attempt_env \<Rightarrow> usage list" where
  "roundUsage ae = (case ae_select ae of
     Stage_failed e u \<Rightarrow> []
   | Stage_ok cands u \<Rightarrow> (case ae_council ae cands of
       Stage_failed e u2 \<Rightarrow> [u, u2]
     | Stage_ok plan u2 \<Rightarrow> [u, u2, stage_usage (ae_enhance ae plan)]))"

subsection \<open>Test data\<close>

definition fb_recipe :: "string \<Rightarrow> string list \<Rightarrow> bool \<Rightarrow> recipe" where
  "fb_recipe i tags prem = \<lparr>r_id = i, r_title = ''Dish '' @ i, r_ingredient_names = [],
     r_prep_time = Some 15, r_cook_time = Some 20, r_difficulty = Some ''easy'',
     r_dietary_tags = tags, r_cuisine = None, r_meal_types = [], r_status = ''published'',
     r_is_premium = prem, r_rating_average = 9 / 2, r_rating_count = 10\<rparr>"

definition demo_ctx :: gen_context where
  "demo_ctx = \<lparr>ctx_user_id = ''u1'', ctx_intake_id = ''i1'', ctx_generation_id = ''g1'',
     ctx_week_start_date = 0\<rparr>"

definition scorer_usage :: usage where
  "scorer_usage = \<lparr>claude_requests = Some 1, tokens_used = Some 1200, cost_cents = Some 3\<rparr>"

definition demo_plan :: meal_plan where
  "demo_plan = \<lparr>mp_id = ''p1'', mp_user_id = ''u1'', mp_intake_id = Some ''i1'',
     mp_week_theme = Some ''Comfort'', mp_week_start_date = 0, mp_status = ''active'',
     mp_plan_data = \<lparr>pd_days = [], pd_total_recipes = 0, pd_unique_recipes = 0,
       pd_variety_score = 0\<rparr>,
     mp_generated_by = ''claude'', mp_generation_id = ''g1'', mp_completion_percentage = 0,
     mp_is_public = False, mp_clone_count = 0\<rparr>"

text \<open>Every round succeeds.\<close>

definition all_ok_env :: "nat \<Rightarrow> attempt_env" where
  "all_ok_env i = \<lparr>ae_select = Stage_ok [demo_candidate] scorer_usage,
     ae_council = (\<lambda>c. Stage_ok demo_plan scorer_usage), ae_enhance = (\<lambda>p. Stage_ok p no_usage),
     ae_save_error = None\<rparr>"

subsection \<open>Lemmas on a round\<close>

lemma evalRetryCount_simps [simp]:
  "evalRetryCount source_scope n = Inl (Reference_error ''retry_count is not defined'')"
  by (simp add: evalRetryCount_def source_scope_def)

lemma attemptRound_saved:
  "saved_plans (snd (attemptRound sc ctx ae n st)) = saved_plans st @ opt_list (roundSaves ae)"
  by (simp add: attemptRound_def roundSaves_def Let_def
      split: stage.split sum.split)

lemma attemptRound_totals:
  "ctl_totals (snd (attemptRound sc ctx ae n st)) = foldl add_usage (ctl_totals st) (roundUsage ae)"
  by (simp add: attemptRound_def roundUsage_def Let_def
      split: stage.split sum.split)

lemma attemptRound_None:
  "roundSaves ae = None \<Longrightarrow> fst (attemptRound sc ctx ae n st) = None"
  by (simp add: attemptRound_def roundSaves_def Let_def
      split: stage.split sum.split stage.splits sum.splits)

lemma attemptRound_source:
  "fst (attemptRound source_scope ctx ae n st) = None"
  by (simp add: attemptRound_def Let_def split: stage.split sum.split)

subsection \<open>Lemmas on the loop\<close>

declare retryLoop.simps [simp del]

lemma retryLoop_done: "\<not> n < maxRetries \<Longrightarrow> retryLoop sc ctx env n st = (None, n, st)"
  by (subst retryLoop.simps) simp

lemma retryLoop_next:
  "n < maxRetries \<Longrightarrow> fst (attemptRound sc ctx (env n) n st) = None \<Longrightarrow>
   retryLoop sc ctx env n st = retryLoop sc ctx env (Suc n) (snd (attemptRound sc ctx (env n) n st))"
  by (cases "attemptRound sc ctx (env n) n st") (simp add: retryLoop.simps [of sc ctx env n])

lemma retryLoop_return:
  "n < maxRetries \<Longrightarrow> fst (attemptRound sc ctx (env n) n st) = Some r \<Longrightarrow>
   retryLoop sc ctx env n st = (Some r, n, snd (attemptRound sc ctx (env n) n st))"
  by (cases "attemptRound sc ctx (env n) n st") (simp add: retryLoop.simps [of sc ctx env n])

text \<open>A plan the loop stores was stored before it or by one of its rounds.\<close>

lemma retryLoop_saved:
  "p \<in> set (saved_plans (snd (snd (retryLoop sc ctx env n st)))) \<Longrightarrow>
   p \<in> set (saved_plans st) \<or> (\<exists>i. n \<le> i \<and> i < maxRetries \<and> roundSaves (env i) = Some p)"
proof (induction sc ctx env n st rule: retryLoop.induct)
  case (1 sc ctx env n st)
  show ?case
  proof (cases "n < maxRetries")
    case False
    then show ?thesis using "1.prems" by (simp add: retryLoop_done)
  next
    case True
    obtain r st' where a: "attemptRound sc ctx (env n) n st = (r, st')" by fastforce
    have sv: "set (saved_plans st') = set (saved_plans st) \<union> set (opt_list (roundSaves (env n)))"
      using attemptRound_saved [of sc ctx "env n" n st] a by simp
    show ?thesis
    proof (cases r)
      case (Some x)
      then have "retryLoop sc ctx env n st = (Some x, n, st')"
        using True a by (simp add: retryLoop.simps [of sc ctx env n])
      then show ?thesis using "1.prems" sv True by (cases "roundSaves (env n)") auto
    next
      case None
      then have L: "retryLoop sc ctx env n st = retryLoop sc ctx env (Suc n) st'"
        using True a by (simp add: retryLoop.simps [of sc ctx env n])
      have "p \<in> set (saved_plans st') \<or> (\<exists>i. Suc n \<le> i \<and> i < maxRetries \<and> roundSaves (env i) = Some p)"
        using "1.IH" [OF True a [symmetric] None] "1.prems" L by simp
      then show ?thesis using sv True by (cases "roundSaves (env n)") (auto simp: Suc_le_eq)
    qed
  qed
qed

text \<open>Rounds \<open>n\<close> to \<open>i - 1\<close> that do not return are run in turn.\<close>

lemma retryLoop_skip:
  assumes "\<And>j st. n \<le> j \<Longrightarrow> j < i \<Longrightarrow> fst (attemptRound sc ctx (env j) j st) = None"
    and "n \<le> i" and "i \<le> maxRetries"
  shows "\<exists>st'. retryLoop sc ctx env n st = retryLoop sc ctx env i st' \<and>
     saved_plans st' = saved_plans st @ concat (map (\<lambda>j. opt_list (roundSaves (env j))) [n..<i]) \<and>
     ctl_totals st' = foldl add_usage (ctl_totals st) (concat (map (\<lambda>j. roundUsage (env j)) [n..<i]))"
  using assms
proof (induction "i - n" arbitrary: n st)
  case 0
  then show ?case by auto
next
  case (Suc k)
  let ?st1 = "snd (attemptRound sc ctx (env n) n st)"
  have n: "n < i" "n < maxRetries" using Suc.hyps(2) Suc.prems(3) by auto
  have step: "retryLoop sc ctx env n st = retryLoop sc ctx env (Suc n) ?st1"
    using n Suc.prems(1) by (intro retryLoop_next) auto
  have k: "k = i - Suc n" using Suc.hyps(2) by arith
  have pre: "\<And>j st. Suc n \<le> j \<Longrightarrow> j < i \<Longrightarrow> fst (attemptRound sc ctx (env j) j st) = None"
    using Suc.prems(1) by simp
  obtain st' where "retryLoop sc ctx env (Suc n) ?st1 = retryLoop sc ctx env i st'"
    and "saved_plans st' = saved_plans ?st1 @ concat (map (\<lambda>j. opt_list (roundSaves (env j))) [Suc n..<i])"
    and "ctl_totals st' = foldl add_usage (ctl_totals ?st1) (concat (map (\<lambda>j. roundUsage (env j)) [Suc n..<i]))"
    using Suc.hyps(1) [OF k pre Suc_leI [OF n(1)] Suc.prems(3), of ?st1] by blast
  with step n(1) show ?case
    by (intro exI [of _ st']) (simp add: upt_conv_Cons attemptRound_saved attemptRound_totals)
qed

text \<open>Whatever \<open>retry_count\<close> evaluates to, a plan the controller stores is the plan
  stored by one of its rounds.\<close>

lemma generate_saved_rounds:
  "p \<in> set (snd (generateMealPlanWithRetry sc env db uuid ctx)) \<Longrightarrow>
   \<exists>i<maxRetries. roundSaves (env i) = Some p"
  using retryLoop_saved [of p sc ctx env 0 ctl_init]
  by (auto simp: generateMealPlanWithRetry_def ctl_init_def split: prod.splits option.splits)

lemma fallbackStage_source:
  "fallbackStage source_scope db uuid ctx n st = Inl (Reference_error ''retry_count is not defined'')"
  by (simp add: fallbackStage_def completeFailure_def split: sum.split)

lemma retryLoop_source:
  "\<exists>st'. retryLoop source_scope ctx env 0 st = (None, maxRetries, st') \<and>
     saved_plans st' = saved_plans st @ concat (map (\<lambda>j. opt_list (roundSaves (env j))) [0..<maxRetries])"
  using retryLoop_skip [of 0 maxRetries source_scope ctx env st]
  by (auto simp: attemptRound_source retryLoop_done)

lemma generateFallbackPlan_Inl: "(\<exists>e. generateFallbackPlan db uuid ctx = Inl e) \<longleftrightarrow> fetchFallbackRecipes db = []"
  by (simp add: generateFallbackPlan_def Let_def)

lemma upt_nine: "[0..<9] = [0, 1, 2, 3, 4, 5, 6, 7, 8::nat]"
  by (simp add: upt_rec)

lemma fetchFallbackRecipes_props:
  "set (fetchFallbackRecipes db) \<subseteq> set (filter fallbackFilter db)"
  "length (fetchFallbackRecipes db) \<le> 15"
  "sorted_wrt (\<lambda>a b. r_rating_average b \<le> r_rating_average a) (fetchFallbackRecipes db)"
proof -
  let ?s = "sort_key (\<lambda>r. - r_rating_average r) (filter fallbackFilter db)"
  have "sorted (map (\<lambda>r. - r_rating_average r) ?s)" by (rule sorted_sort_key)
  then have "sorted_wrt (\<lambda>a b. r_rating_average b \<le> r_rating_average a) ?s"
    by (simp add: sorted_map)
  then show "sorted_wrt (\<lambda>a b. r_rating_average b \<le> r_rating_average a) (fetchFallbackRecipes db)"
    unfolding fetchFallbackRecipes_def by (rule sorted_wrt_take)
  show "set (fetchFallbackRecipes db) \<subseteq> set (filter fallbackFilter db)"
    unfolding fetchFallbackRecipes_def by (metis set_sort set_take_subset)
  show "length (fetchFallbackRecipes db) \<le> 15"
    by (simp add: fetchFallbackRecipes_def)
qed

subsection \<open>Properties of the controller\<close>

text \<open>
  C1: As written, \<open>generateMealPlanWithRetry\<close> never returns a result: whatever its
  collaborators do, it rejects with the \<open>ReferenceError\<close> of \<open>retry_count\<close>, and every
  round that reached the insert has stored its plan in \<open>meal_plans\<close> (up to three plans
  for one request).
\<close>

theorem generateMealPlanWithRetry_source_throws:
  "generateMealPlanWithRetry source_scope env db uuid ctx =
     (Inl (Reference_error ''retry_count is not defined''),
      concat (map (\<lambda>i. opt_list (roundSaves (env i))) [0..<maxRetries]))"
proof -
  obtain st' where "retryLoop source_scope ctx env 0 ctl_init = (None, maxRetries, st')"
    and "saved_plans st' = concat (map (\<lambda>j. opt_list (roundSaves (env j))) [0..<maxRetries])"
    using retryLoop_source [of ctx env ctl_init] by (auto simp: ctl_init_def)
  then show ?thesis by (simp add: generateMealPlanWithRetry_def fallbackStage_source)
qed

text \<open>
  C12: The fallback plan, when the pool is non-empty, has the three days Monday to
  Wednesday, nine slots (breakfast, lunch, dinner per day) whose recipes cycle through the
  pool as \<open>(3 * dayIndex + mealIndex) mod |pool|\<close>, \<open>total_recipes\<close> equal to its number
  of slots, and only recipes of the table that pass the fallback query.
\<close>

theorem generateFallbackPlan_slots:
  assumes "fetchFallbackRecipes db \<noteq> []"
  shows "\<exists>p. generateFallbackPlan db uuid ctx = Inr p \<and>
     map dp_day (pd_days (mp_plan_data p)) = fallbackDays \<and>
     map (\<lambda>s. (ms_meal_type s, ms_recipe_id s)) (plan_slots p) =
       map (\<lambda>k. (fallbackMealTypes ! (k mod 3),
         r_id (fetchFallbackRecipes db ! (k mod length (fetchFallbackRecipes db))))) [0..<9] \<and>
     pd_total_recipes (mp_plan_data p) = of_nat (length (plan_slots p)) \<and>
     (\<forall>s\<in>set (plan_slots p). \<exists>r\<in>set db. fallbackFilter r \<and> ms_recipe_id s = r_id r)"
proof -
  let ?pool = "fetchFallbackRecipes db"
  let ?f = "\<lambda>k. (fallbackMealTypes ! (k mod 3), r_id (?pool ! (k mod length ?pool)))"
  obtain p where p: "generateFallbackPlan db uuid ctx = Inr p"
    using assms generateFallbackPlan_Inl [of db uuid ctx] by (cases "generateFallbackPlan db uuid ctx") auto
  have days: "map dp_day (pd_days (mp_plan_data p)) = fallbackDays"
    using p assms by (auto simp: generateFallbackPlan_def Let_def fallbackDays_def fallbackDay_def)
  have slots: "map (\<lambda>s. (ms_meal_type s, ms_recipe_id s)) (plan_slots p) = map ?f [0..<9]"
    using p assms
    by (auto simp: generateFallbackPlan_def Let_def plan_slots_def fallbackDays_def
        fallbackMealTypes_def fallbackDay_def fallbackSlot_def upt_nine numeral_2_eq_2 [symmetric])
  have total: "pd_total_recipes (mp_plan_data p) = of_nat (length (plan_slots p))"
    using p assms arg_cong [OF slots, of length]
    by (auto simp: generateFallbackPlan_def Let_def)
  have "ms_recipe_id s \<in> (\<lambda>k. r_id (?pool ! (k mod length ?pool))) ` {0..<9}"
    if "s \<in> set (plan_slots p)" for s
    using arg_cong [OF slots, of "\<lambda>xs. snd ` set xs"] that by (force simp: image_image)
  moreover have "?pool ! (k mod length ?pool) \<in> set db \<and> fallbackFilter (?pool ! (k mod length ?pool))" for k
  proof -
    have "k mod length ?pool < length ?pool" using assms by simp
    then show ?thesis using nth_mem fetchFallbackRecipes_props(1) [of db] by fastforce
  qed
  ultimately have "\<forall>s\<in>set (plan_slots p). \<exists>r\<in>set db. fallbackFilter r \<and> ms_recipe_id s = r_id r"
    by fastforce
  with p days slots total show ?thesis by blast
qed

text \<open>
  The fallback query excludes only recipes tagged both \<open>spicy\<close> and
  \<open>very_spicy\<close> and does not look at \<open>is_premium\<close>: a premium recipe tagged
  \<open>spicy\<close> is in the fallback pool.
\<close>

theorem fetchFallbackRecipes_admits_spicy_premium:
  "fetchFallbackRecipes [fb_recipe ''s1'' [''spicy''] True] = [fb_recipe ''s1'' [''spicy''] True]
   \<and> r_is_premium (fb_recipe ''s1'' [''spicy''] True)"
  by code_simp

subsection \<open>Witnesses\<close>

theorem generateMealPlanWithRetry_source_throws_witness:
  "generateMealPlanWithRetry source_scope all_ok_env [] ''p0'' demo_ctx =
     (Inl (Reference_error ''retry_count is not defined''), [demo_plan, demo_plan, demo_plan])"
proof -
  have "roundSaves (all_ok_env i) = Some demo_plan" for i
    by (simp add: roundSaves_def all_ok_env_def saveMealPlan_def)
  then show ?thesis
    using generateMealPlanWithRetry_source_throws [of all_ok_env "[]" "''p0''" demo_ctx]
    by (simp add: maxRetries_def numeral_eq_Suc)
qed

theorem generateFallbackPlan_slots_witness:
  "fetchFallbackRecipes [fb_recipe ''a'' [] False, fb_recipe ''b'' [] False] \<noteq> [] \<and>
   (\<exists>p. generateFallbackPlan [fb_recipe ''a'' [] False, fb_recipe ''b'' [] False] ''p0'' demo_ctx = Inr p \<and>
     map dp_day (pd_days (mp_plan_data p)) = fallbackDays \<and>
     map (\<lambda>s. (ms_meal_type s, ms_recipe_id s)) (plan_slots p) =
       map (\<lambda>k. (fallbackMealTypes ! (k mod 3),
         r_id (fetchFallbackRecipes [fb_recipe ''a'' [] False, fb_recipe ''b'' [] False] !
           (k mod length (fetchFallbackRecipes [fb_recipe ''a'' [] False, fb_recipe ''b'' [] False]))))) [0..<9] \<and>
     pd_total_recipes (mp_plan_data p) = of_nat (length (plan_slots p)) \<and>
     (\<forall>s\<in>set (plan_slots p). \<exists>r\<in>set [fb_recipe ''a'' [] False, fb_recipe ''b'' [] False].
        fallbackFilter r \<and> ms_recipe_id s = r_id r))"
proof -
  have h: "fetchFallbackRecipes [fb_recipe ''a'' [] False, fb_recipe ''b'' [] False] \<noteq> []"
    by code_simp
  show ?thesis using generateFallbackPlan_slots [OF h, of "''p0''" demo_ctx] h by blast
qed

end
