(* ===== verification/Plan_Generator.thy ===== *)
theory Plan_Generator
  imports Blueprint Generation_Controller "HOL-Library.AList"
begin

text \<open>
  The plan generator's edge function (unnamed/part\_001 lines 32-266): the
  request schema, \<open>validateRequest\<close> (authentication, body, subscription, monthly limit),
  blueprint ingestion, the generation log (\<open>logGenerationEvent\<close>, plan-generator/utils/
  logging.ts lines 34-69) and the \<open>serve\<close> callback that composes them with
  \<open>generateMealPlanWithRetry\<close>. The queries' results are inputs of a request; the state is
  the rows the function inserts into \<open>plan_generation_logs\<close> and \<open>meal_plans\<close>. Dates are
  day numbers counted from 1970-01-01 (a Thursday), in UTC.
\<close>

subsection \<open>Dates and the request schema\<close>

text \<open>\<open>Date.prototype.getDay\<close> of a day number (0 is Sunday).\<close>

definition weekday :: "int \<Rightarrow> int" where
  "weekday d = (d + 4) mod 7"

text \<open>\<open>getNextMonday\<close> (lines 536-544).\<close>

definition getNextMonday :: "int \<Rightarrow> int" where
  "getNextMonday today =
     (let dayOfWeek = weekday today;
          daysUntilMonday = (if dayOfWeek = 0 then 1 else 8 - dayOfWeek) in
      today + daysUntilMonday)"

record raw_plan_preferences =
  rpp_enforce_variety :: "bool option"
  rpp_max_prep_time :: "rat option"
  rpp_focus_macros :: "string list option"
  rpp_mood_override :: "string option"
  rpp_exclude_recipes :: "string list option"

record raw_plan_request =
  rp_week_start_date :: "string option"
  rp_special_requests :: "string list option"
  rp_force_regenerate :: "bool option"
  rp_preferences :: "raw_plan_preferences option"

record plan_preferences =
  pp_enforce_variety :: bool
  pp_max_prep_time :: "rat option"
  pp_focus_macros :: "string list option"
  pp_mood_override :: "string option"
  pp_exclude_recipes :: "string list"

record plan_request =
  preq_week_start_date :: int
  preq_special_requests :: "string list"
  preq_force_regenerate :: bool
  preq_preferences :: plan_preferences

text \<open>\<open>PlanGenerationRequestSchema.parse\<close> (lines 32-44) on a body whose fields have the
  expected JSON types: defaults filled in, \<open>None\<close> for a macro outside the enum. A
  non-empty \<open>week_start_date\<close> is read by \<open>parseDate\<close> (\<open>new Date(str)\<close>), an absent or
  empty one gives next Monday.\<close>

definition parsePlanRequest :: "(string \<Rightarrow> int) \<Rightarrow> int \<Rightarrow> raw_plan_request \<Rightarrow> plan_request option" where
  "parsePlanRequest parseDate today r =
     (let p = (case rp_preferences r of None \<Rightarrow> \<lparr>rpp_enforce_variety = None, rpp_max_prep_time = None,
                 rpp_focus_macros = None, rpp_mood_override = None, rpp_exclude_recipes = None\<rparr>
               | Some q \<Rightarrow> q) in
      if list_all (\<lambda>m. m \<in> set [''protein'', ''carbs'', ''fat''])
           (case rpp_focus_macros p of None \<Rightarrow> [] | Some ms \<Rightarrow> ms)
      then Some \<lparr>preq_week_start_date = (case rp_week_start_date r of
                   Some str \<Rightarrow> if str \<noteq> [] then parseDate str else getNextMonday today
                 | None \<Rightarrow> getNextMonday today),
                 preq_special_requests = (case rp_special_requests r of None \<Rightarrow> [] | Some xs \<Rightarrow> xs),
                 preq_force_regenerate = (case rp_force_regenerate r of None \<Rightarrow> False | Some b \<Rightarrow> b),
                 preq_preferences = \<lparr>pp_enforce_variety = (case rpp_enforce_variety p of None \<Rightarrow> True | Some b \<Rightarrow> b),
                   pp_max_prep_time = rpp_max_prep_time p, pp_focus_macros = rpp_focus_macros p,
                   pp_mood_override = rpp_mood_override p,
                   pp_exclude_recipes = (case rpp_exclude_recipes p of None \<Rightarrow> [] | Some xs \<Rightarrow> xs)\<rparr>\<rparr>
      else None)"

subsection \<open>Request validation\<close>

text \<open>The failures of \<open>validateRequest\<close>: a status and a message, or the schema's error
  (422, with zod's message).\<close>

datatype request_error = Request_error nat string | Invalid_request_format

text \<open>
  \<open>validateRequest\<close> (lines 174-266): the authenticated user, the body (\<open>None\<close> when
  \<open>JSON.parse\<close> throws; an empty body is \<open>{}\<close>), the active subscription with its plan's
  limit (\<open>None\<close> on an error or no row) and the count of this month's plans (\<open>null\<close> when
  the count query fails, which \<open>>=\<close> reads as 0). Limits are whole numbers.
\<close>

definition validateRequest ::
  "(string \<Rightarrow> int) \<Rightarrow> int \<Rightarrow> string option \<Rightarrow> raw_plan_request option \<Rightarrow> subscription_row option
     \<Rightarrow> rat option \<Rightarrow> request_error + string \<times> plan_request \<times> subscription_row" where
  "validateRequest parseDate today user body subscription monthlyPlans =
     (case user of
        None \<Rightarrow> Inl (Request_error 401 ''Unauthorized: Invalid or missing authentication'')
      | Some u \<Rightarrow>
          (case (case body of None \<Rightarrow> None | Some b \<Rightarrow> parsePlanRequest parseDate today b) of
             None \<Rightarrow> Inl Invalid_request_format
           | Some req \<Rightarrow>
               (case subscription of
                  None \<Rightarrow> Inl (Request_error 403 ''No active subscription found'')
                | Some s \<Rightarrow>
                    (let planLimit = sub_plan_generation_limit s in
                     if planLimit \<noteq> -1 \<and> planLimit \<le> js_or monthlyPlans 0
                     then Inl (Request_error 429 (''Monthly plan generation limit reached (''
                                @ nat_text (nat \<lfloor>planLimit\<rfloor>) @ '' plans)''))
                     else Inr (u, req, s)))))"

subsection \<open>Generation log\<close>

text \<open>\<open>GenerationLogData\<close> (logging.ts lines 10-29) without \<open>nutritional_accuracy\<close>, which
  the model's results do not carry.\<close>

record gen_log_data =
  gl_user_id :: string
  gl_generation_id :: string
  gl_status :: string
  gl_stage :: "string option"
  gl_duration_ms :: "rat option"
  gl_claude_requests :: "rat option"
  gl_claude_tokens_used :: "rat option"
  gl_claude_cost_cents :: "rat option"
  gl_retry_count :: "nat option"
  gl_error_message :: "string option"
  gl_fallback_reason :: "string option"
  gl_recipes_selected :: "rat option"

text \<open>The \<open>insertData\<close> row: a field is present when \<open>logGenerationEvent\<close> copies it
  (lines 36-55); \<open>completed_at\<close> accompanies a duration.\<close>

record gen_log_row =
  glr_user_id :: string
  glr_generation_id :: string
  glr_status :: string
  glr_stage :: "string option"
  glr_duration_ms :: "rat option"
  glr_completed_at :: "int option"
  glr_claude_requests :: "rat option"
  glr_claude_tokens_used :: "rat option"
  glr_claude_cost_cents :: "rat option"
  glr_retry_count :: "nat option"
  glr_error_message :: "string option"
  glr_fallback_reason :: "string option"
  glr_recipes_selected :: "rat option"

definition truthy_str_opt :: "string option \<Rightarrow> string option" where
  "truthy_str_opt s = (if str_truthy s then s else None)"

text \<open>The \<open>insertData\<close> object \<open>logGenerationEvent\<close> builds at time \<open>now\<close> (lines 36-55).\<close>

definition logRow :: "int \<Rightarrow> gen_log_data \<Rightarrow> gen_log_row" where
  "logRow now d = \<lparr>glr_user_id = gl_user_id d, glr_generation_id = gl_generation_id d,
     glr_status = gl_status d, glr_stage = truthy_str_opt (gl_stage d),
     glr_duration_ms = gl_duration_ms d,
     glr_completed_at = (case gl_duration_ms d of None \<Rightarrow> None | Some _ \<Rightarrow> Some now),
     glr_claude_requests = gl_claude_requests d, glr_claude_tokens_used = gl_claude_tokens_used d,
     glr_claude_cost_cents = gl_claude_cost_cents d, glr_retry_count = gl_retry_count d,
     glr_error_message = truthy_str_opt (gl_error_message d),
     glr_fallback_reason = truthy_str_opt (gl_fallback_reason d),
     glr_recipes_selected = gl_recipes_selected d\<rparr>"

text \<open>\<open>logGenerationEvent\<close> (lines 34-69): the insert into \<open>plan_generation_logs\<close>, which
  the database accepts or refuses (\<open>accepts row logs\<close>, the table's constraints and the
  client's rights, as \<^theory_text>\<open>Generation_Logs_DB\<close> models them); a refused insert is only
  printed.\<close>

definition logGenerationEvent ::
  "int \<Rightarrow> (gen_log_row \<Rightarrow> gen_log_row list \<Rightarrow> bool) \<Rightarrow> gen_log_data \<Rightarrow> gen_log_row list \<Rightarrow> gen_log_row list" where
  "logGenerationEvent now accepts d logs =
     (let row = logRow now d in if accepts row logs then logs @ [row] else logs)"

definition no_log_data :: "string \<Rightarrow> string \<Rightarrow> string \<Rightarrow> gen_log_data" where
  "no_log_data u g status = \<lparr>gl_user_id = u, gl_generation_id = g, gl_status = status, gl_stage = None,
     gl_duration_ms = None, gl_claude_requests = None, gl_claude_tokens_used = None,
     gl_claude_cost_cents = None, gl_retry_count = None, gl_error_message = None,
     gl_fallback_reason = None, gl_recipes_selected = None\<rparr>"

text \<open>\<open>calculateClaudeCost\<close> (logging.ts lines 114-122).\<close>

definition calculateClaudeCost :: "rat \<Rightarrow> rat \<Rightarrow> rat" where
  "calculateClaudeCost inputTokens outputTokens =
     of_int (js_round ((inputTokens / 1000 * (3 / 1000) + outputTokens / 1000 * (15 / 1000)) * 100))"

text \<open>\<open>PerformanceTimer\<close> (logging.ts lines 127-161): the start time and the stages in insertion
  order (the order of a JavaScript object's string keys), each with its start and, once
  ended, its duration.\<close>

record perf_timer =
  pt_start_time :: int
  pt_stages :: "(string \<times> int \<times> int option) list"

definition newPerformanceTimer :: "int \<Rightarrow> perf_timer" where
  "newPerformanceTimer now = \<lparr>pt_start_time = now, pt_stages = []\<rparr>"

definition startStage :: "int \<Rightarrow> string \<Rightarrow> perf_timer \<Rightarrow> perf_timer" where
  "startStage now stage t = t\<lparr>pt_stages := AList.update stage (now, None) (pt_stages t)\<rparr>"

definition endStage :: "int \<Rightarrow> string \<Rightarrow> perf_timer \<Rightarrow> int \<times> perf_timer" where
  "endStage now stage t = (case map_of (pt_stages t) stage of
     None \<Rightarrow> (0, t)
   | Some (start, _) \<Rightarrow> (now - start, t\<lparr>pt_stages := AList.update stage (start, Some (now - start)) (pt_stages t)\<rparr>))"

definition getTotalDuration :: "int \<Rightarrow> perf_timer \<Rightarrow> int" where
  "getTotalDuration now t = now - pt_start_time t"

definition getStageBreakdown :: "perf_timer \<Rightarrow> (string \<times> int) list" where
  "getStageBreakdown t = concat (map (\<lambda>(s, start, d). case d of None \<Rightarrow> [] | Some x \<Rightarrow> [(s, x)]) (pt_stages t))"

subsection \<open>The serve callback\<close>

text \<open>The inputs of one request: the method, what \<open>validateRequest\<close> and
  \<open>ingestUserBlueprint\<close> read, the database's answer to a log insert (of a row into the
  current table), the elapsed time and the moment of the completion log.\<close>

record pg_request =
  pq_method :: http_method
  pq_user :: "string option"
  pq_body :: "raw_plan_request option"
  pq_subscription :: "subscription_row option"
  pq_monthly_plans :: "rat option"
  pq_profile :: "bp_profile row_result"
  pq_intake :: "intake_row row_result"
  pq_blueprint_subscription :: "subscription_row row_result"
  pq_ratings :: "recent_rating list option"
  pq_swaps :: "recent_swap list option"
  pq_log_ok :: "gen_log_row \<Rightarrow> gen_log_row list \<Rightarrow> bool"
  pq_duration_ms :: rat
  pq_now :: int

record pg_state =
  pgs_logs :: "gen_log_row list"
  pgs_meal_plans :: "meal_plan list"

text \<open>The JSON body of the final response (lines 129-148).\<close>

record pg_body =
  pb_success :: bool
  pb_generation_id :: string
  pb_plan_id :: "string option"
  pb_status :: string
  pb_message :: string
  pb_duration_ms :: rat
  pb_total_recipes :: "rat option"
  pb_week_theme :: "string option"
  pb_error :: "(string option \<times> string option) option"

datatype pg_outcome =
    Pg_preflight
  | Pg_error nat string
  | Pg_invalid_format
  | Pg_response nat pg_body
  | Pg_uncaught js_error

definition completionLog :: "string \<Rightarrow> string \<Rightarrow> rat \<Rightarrow> plan_generation_result \<Rightarrow> gen_log_data" where
  "completionLog u g duration r =
     (no_log_data u g (if pg_success r then ''completed'' else ''failed''))
       \<lparr>gl_duration_ms := Some duration,
        gl_claude_requests := Some (total_requests (pg_totals r)),
        gl_claude_tokens_used := Some (total_tokens (pg_totals r)),
        gl_claude_cost_cents := Some (total_cost (pg_totals r)),
        gl_error_message := pg_error_message r, gl_fallback_reason := pg_fallback_reason r,
        gl_recipes_selected := map_option (\<lambda>p. pd_total_recipes (mp_plan_data p)) (pg_meal_plan r)\<rparr>"

definition responseBody :: "string \<Rightarrow> rat \<Rightarrow> plan_generation_result \<Rightarrow> pg_body" where
  "responseBody g duration r =
     \<lparr>pb_success = pg_success r, pb_generation_id = g, pb_plan_id = map_option mp_id (pg_meal_plan r),
      pb_status = (if pg_used_fallback r then ''generated_with_fallback'' else ''generated''),
      pb_message = (if pg_used_fallback r
        then ''We've created a starter plan for you! Our AI council is performing a deeper review to perfect your next plan.''
        else ''Your personalized meal plan is ready!''),
      pb_duration_ms = duration,
      pb_total_recipes = map_option (\<lambda>p. pd_total_recipes (mp_plan_data p)) (pg_meal_plan r),
      pb_week_theme = (case pg_meal_plan r of None \<Rightarrow> None | Some p \<Rightarrow> mp_week_theme p),
      pb_error = (if pg_error_code r = None \<and> pg_error_message r = None then None
                  else Some (pg_error_code r, pg_error_message r))\<rparr>"

text \<open>
  The \<open>serve\<close> callback (lines 51-168) for the generation id \<open>g\<close>. A value thrown inside
  its \<open>try\<close> reaches the \<open>catch\<close>, whose first statement passes \<open>supabase\<close> to
  \<open>logGenerationEvent\<close>; \<open>supabase\<close> is a \<open>const\<close> of the \<open>try\<close> block, so the \<open>catch\<close>
  throws a \<open>ReferenceError\<close> out of the callback.
\<close>

definition servePlanGenerator ::
  "scope \<Rightarrow> (string \<Rightarrow> int) \<Rightarrow> int \<Rightarrow> int \<Rightarrow> string \<Rightarrow> (nat \<Rightarrow> attempt_env) \<Rightarrow> recipe list \<Rightarrow> string
     \<Rightarrow> pg_request \<Rightarrow> pg_state \<Rightarrow> pg_outcome \<times> pg_state" where
  "servePlanGenerator sc parseDate today year g env db uuid rq st =
     (case pq_method rq of
        OPTIONS \<Rightarrow> (Pg_preflight, st)
      | Other_method \<Rightarrow> (Pg_error 405 ''Method not allowed'', st)
      | POST \<Rightarrow>
          (case validateRequest parseDate today (pq_user rq) (pq_body rq) (pq_subscription rq) (pq_monthly_plans rq) of
             Inl (Request_error status msg) \<Rightarrow> (Pg_error status msg, st)
           | Inl Invalid_request_format \<Rightarrow> (Pg_invalid_format, st)
           | Inr (u, req, s) \<Rightarrow>
               (case ingestUserBlueprint year (pq_profile rq) (pq_intake rq) (pq_blueprint_subscription rq)
                       (pq_ratings rq) (pq_swaps rq) of
                  Inl e \<Rightarrow> (Pg_error 400 e, st)
                | Inr bp \<Rightarrow>
                    (let ctx = \<lparr>ctx_user_id = (case ub_profile bp of None \<Rightarrow> u | Some p \<Rightarrow> pr_id p),
                                ctx_intake_id = (case ub_intake bp of None \<Rightarrow> [] | Some i \<Rightarrow> ir_id i),
                                ctx_generation_id = g, ctx_week_start_date = preq_week_start_date req\<rparr>;
                         st1 = st\<lparr>pgs_logs := logGenerationEvent (pq_now rq) (pq_log_ok rq)
                                 ((no_log_data u g ''started'')\<lparr>gl_stage := Some ''validation''\<rparr>) (pgs_logs st)\<rparr>;
                         (res, saved) = generateMealPlanWithRetry sc env db uuid ctx;
                         st2 = st1\<lparr>pgs_meal_plans := pgs_meal_plans st1 @ saved\<rparr> in
                     case res of
                       Inl err \<Rightarrow> (Pg_uncaught (Reference_error ''supabase is not defined''), st2)
                     | Inr r \<Rightarrow>
                         (Pg_response (if pg_success r then 200 else 500) (responseBody g (pq_duration_ms rq) r),
                          st2\<lparr>pgs_logs := logGenerationEvent (pq_now rq) (pq_log_ok rq)
                                 (completionLog u g (pq_duration_ms rq) r) (pgs_logs st2)\<rparr>)))))"

subsection \<open>Test data\<close>

definition empty_body :: raw_plan_request where
  "empty_body = \<lparr>rp_week_start_date = None, rp_special_requests = None, rp_force_regenerate = None,
     rp_preferences = None\<rparr>"

text \<open>A POST by a user with a complete blueprint and one plan this month, on day 20000
  (2024-10-04, a Friday).\<close>

definition demo_request :: pg_request where
  "demo_request = \<lparr>pq_method = POST, pq_user = Some ''u1'', pq_body = Some empty_body,
     pq_subscription = Some demo_subscription, pq_monthly_plans = Some 1,
     pq_profile = Inr demo_profile, pq_intake = Inr demo_intake_row,
     pq_blueprint_subscription = Inr demo_subscription, pq_ratings = None, pq_swaps = None,
     pq_log_ok = (\<lambda>row logs. True), pq_duration_ms = 1500, pq_now = 20000\<rparr>"

definition pg_init :: pg_state where
  "pg_init = \<lparr>pgs_logs = [], pgs_meal_plans = []\<rparr>"

definition demo_parseDate :: "string \<Rightarrow> int" where
  "demo_parseDate s = 0"

subsection \<open>Lemmas\<close>

text \<open>C27: A request \<open>validateRequest\<close> lets through has an active subscription whose
  plan is unlimited (-1) or whose limit exceeds this month's count, where a failed count
  query (\<open>null\<close>) counts as 0.\<close>

theorem validateRequest_monthly_limit:
  assumes "validateRequest parseDate today user body sub cnt = Inr (u, req, s)"
  shows "sub = Some s \<and> (sub_plan_generation_limit s = -1 \<or> js_or cnt 0 < sub_plan_generation_limit s)"
  using assms by (auto simp: validateRequest_def Let_def split: option.splits if_splits)

text \<open>\<open>getNextMonday\<close> gives a Monday strictly after today and at most seven days
  later (a Monday gives the following Monday).\<close>

theorem getNextMonday_is_next_monday:
  "weekday (getNextMonday d) = 1 \<and> d < getNextMonday d \<and> getNextMonday d \<le> d + 7"
proof -
  have w: "0 \<le> weekday d" "weekday d < 7" by (simp_all add: weekday_def)
  have "weekday (d + k) = (weekday d + k) mod 7" for k
    unfolding weekday_def by (metis add.commute add.left_commute mod_add_right_eq)
  then show ?thesis using w by (auto simp: getNextMonday_def Let_def)
qed

theorem validateRequest_monthly_limit_witness:
  "js_or (Some 1) 0 < sub_plan_generation_limit demo_subscription"
proof -
  let ?v = "validateRequest demo_parseDate 20000 (Some ''u1'') (Some empty_body) (Some demo_subscription) (Some 1)"
  have v: "?v = Inr (fst (projr ?v), fst (snd (projr ?v)), snd (snd (projr ?v)))" by code_simp
  have "snd (snd (projr ?v)) = demo_subscription" by code_simp
  then show ?thesis using validateRequest_monthly_limit [OF v] by (simp add: demo_subscription_def)
qed

lemma calculateClaudeCost_council: "calculateClaudeCost = calculateCost"
  by (simp add: fun_eq_iff calculateClaudeCost_def calculateCost_def)

lemma performanceTimer_keys_distinct:
  "distinct (map fst (pt_stages t)) \<Longrightarrow> distinct (map fst (pt_stages (startStage now s t)))
     \<and> distinct (map fst (pt_stages (snd (endStage now s t))))"
  by (auto simp: startStage_def endStage_def distinct_update split: option.splits)

lemma performanceTimer_stage_duration:
  assumes "distinct (map fst (pt_stages t))"
  shows "endStage t2 s (startStage t1 s t) = (t2 - t1, startStage t1 s t\<lparr>pt_stages :=
           AList.update s (t1, Some (t2 - t1)) (pt_stages t)\<rparr>)
     \<and> (s, t2 - t1) \<in> set (getStageBreakdown (snd (endStage t2 s (startStage t1 s t))))"
proof -
  have "map_of (AList.update s (t1, None) (pt_stages t)) s = Some (t1, None)"
    by (simp add: update_conv')
  moreover have "(s, t1, Some (t2 - t1)) \<in> set (AList.update s (t1, Some (t2 - t1)) (pt_stages t))"
    by (metis map_of_SomeD fun_upd_same update_conv')
  ultimately show ?thesis
    by (force simp: startStage_def endStage_def getStageBreakdown_def)
qed

end
