(* ===== verification/AI_Gateway.thy ===== *)
theory AI_Gateway
  imports Prelude "HOL-Library.Code_Target_Nat"
begin

text \<open>
  The AI gateway edge function (supabase/functions/ai-gateway/index.ts): request validation
  with a zod schema, a per-user sliding-window \<open>RateLimiter\<close> (100 requests per hour), a
  \<open>ResponseCache\<close> with a 30 minute time-to-live keyed by a truncated base64 of the
  request, prompt sanitisation, the Claude call and the request log. The two process-wide
  objects and the log table are the state \<open>gw_state\<close>; time is an explicit argument in
  milliseconds, one value per request. JavaScript strings are lists of UTF-16 code units
  (\<open>js_string\<close>), so that \<open>btoa\<close>'s rejection of units above 255 is visible. The Claude
  reply and the rendering of a number as text (\<open>Number.prototype.toString\<close>) are
  parameters.
\<close>

type_synonym js_string = "nat list"

text \<open>A string literal of the source as code units.\<close>

definition units :: "string \<Rightarrow> js_string" where
  "units s = map of_char s"

subsection \<open>Request validation\<close>

definition validModels :: "string list" where
  "validModels = [''claude-3-5-sonnet-20241022'', ''claude-3-haiku-20240307'']"

definition validOperations :: "string list" where
  "validOperations = [''recipe_scoring'', ''meal_assembly'', ''coherence_review'', ''mood_analysis'',
     ''plan_improvement'', ''general'']"

text \<open>The request body as \<open>JSON.parse\<close> gives it: each field absent or present with
  the type the schema expects (other JSON types are not modelled).\<close>

record raw_request =
  rq_model :: "string option"
  rq_prompt :: "js_string option"
  rq_max_tokens :: "rat option"
  rq_temperature :: "rat option"
  rq_user_id :: "string option"
  rq_operation :: "string option"
  rq_generation_id :: "string option"
  rq_cache_key :: "js_string option"
  rq_enable_cache :: "bool option"

record ai_request =
  ar_model :: string
  ar_prompt :: js_string
  ar_max_tokens :: rat
  ar_temperature :: rat
  ar_user_id :: string
  ar_operation :: string
  ar_generation_id :: "string option"
  ar_cache_key :: "js_string option"
  ar_enable_cache :: bool

text \<open>\<open>AIRequestSchema.parse\<close> (lines 17-36): defaults filled in, \<open>None\<close> on a
  validation error.\<close>

definition parseAIRequest :: "raw_request \<Rightarrow> ai_request option" where
  "parseAIRequest r =
     (let model = (case rq_model r of None \<Rightarrow> ''claude-3-5-sonnet-20241022'' | Some m \<Rightarrow> m);
          maxTokens = (case rq_max_tokens r of None \<Rightarrow> 1000 | Some n \<Rightarrow> n);
          temperature = (case rq_temperature r of None \<Rightarrow> 3 / 10 | Some t \<Rightarrow> t) in
      case (rq_prompt r, rq_user_id r, rq_operation r) of
        (Some p, Some u, Some op) \<Rightarrow>
          if model \<in> set validModels \<and> 1 \<le> length p \<and> length p \<le> 50000
             \<and> 1 \<le> maxTokens \<and> maxTokens \<le> 4000 \<and> 0 \<le> temperature \<and> temperature \<le> 1
             \<and> is_uuid u \<and> op \<in> set validOperations
             \<and> (case rq_generation_id r of None \<Rightarrow> True | Some g \<Rightarrow> is_uuid g)
          then Some \<lparr>ar_model = model, ar_prompt = p, ar_max_tokens = maxTokens,
            ar_temperature = temperature, ar_user_id = u, ar_operation = op,
            ar_generation_id = rq_generation_id r, ar_cache_key = rq_cache_key r,
            ar_enable_cache = (case rq_enable_cache r of None \<Rightarrow> True | Some b \<Rightarrow> b)\<rparr>
          else None
      | _ \<Rightarrow> None)"

subsection \<open>Rate limiter\<close>

text \<open>\<open>RateLimiter\<close> (lines 44-71): the request times of each user.\<close>

type_synonym rate_state = "string \<Rightarrow> int list option"

definition windowMs :: int where
  "windowMs = 60 * 60 * 1000"

definition maxRequests :: nat where
  "maxRequests = 100"

definition validRequests :: "int \<Rightarrow> int list \<Rightarrow> int list" where
  "validRequests now ts = filter (\<lambda>t. now - t < windowMs) ts"

definition userRequests :: "rate_state \<Rightarrow> string \<Rightarrow> int list" where
  "userRequests m u = (case m u of None \<Rightarrow> [] | Some ts \<Rightarrow> ts)"

text \<open>\<open>isAllowed\<close> (lines 49-63): a rejected request leaves the map unchanged.\<close>

definition isAllowed :: "int \<Rightarrow> string \<Rightarrow> rate_state \<Rightarrow> bool \<times> rate_state" where
  "isAllowed now u m =
     (let valid = validRequests now (userRequests m u) in
      if maxRequests \<le> length valid then (False, m)
      else (True, m(u \<mapsto> valid @ [now])))"

text \<open>\<open>getRemainingRequests\<close> (lines 65-70).\<close>

definition getRemainingRequests :: "int \<Rightarrow> string \<Rightarrow> rate_state \<Rightarrow> nat" where
  "getRemainingRequests now u m = maxRequests - length (validRequests now (userRequests m u))"

text \<open>A sequence of \<open>isAllowed\<close> calls, with the history of (time, user, verdict).\<close>

definition limiterStep ::
  "(int \<times> string \<times> bool) list \<times> rate_state \<Rightarrow> int \<times> string \<Rightarrow> (int \<times> string \<times> bool) list \<times> rate_state" where
  "limiterStep hs e = (case hs of (hist, m) \<Rightarrow> (case e of (now, u) \<Rightarrow>
     (case isAllowed now u m of (ok, m') \<Rightarrow> (hist @ [(now, u, ok)], m'))))"

definition limiterRun :: "(int \<times> string) list \<Rightarrow> (int \<times> string \<times> bool) list \<times> rate_state" where
  "limiterRun es = foldl limiterStep ([], Map.empty) es"

text \<open>The times of the allowed requests of a user in a history.\<close>

definition allowedTimes :: "(int \<times> string \<times> bool) list \<Rightarrow> string \<Rightarrow> int list" where
  "allowedTimes hist u = map fst (filter (\<lambda>(t, v, ok). ok \<and> v = u) hist)"

subsection \<open>Response cache\<close>

record cache_entry =
  ce_response :: js_string
  ce_timestamp :: int
  ce_cost_cents :: rat

type_synonym response_cache = "js_string \<Rightarrow> cache_entry option"

definition ttlMs :: int where
  "ttlMs = 30 * 60 * 1000"

text \<open>\<open>ResponseCache.get\<close> (lines 81-91): an expired entry is deleted on read.\<close>

definition cacheGet :: "int \<Rightarrow> js_string \<Rightarrow> response_cache \<Rightarrow> (js_string \<times> rat) option \<times> response_cache" where
  "cacheGet now key c = (case c key of
     None \<Rightarrow> (None, c)
   | Some e \<Rightarrow> if ttlMs < now - ce_timestamp e then (None, c(key := None))
              else (Some (ce_response e, ce_cost_cents e), c))"

text \<open>\<open>ResponseCache.set\<close> (lines 93-99).\<close>

definition cacheSet :: "int \<Rightarrow> js_string \<Rightarrow> js_string \<Rightarrow> rat \<Rightarrow> response_cache \<Rightarrow> response_cache" where
  "cacheSet now key response costCents c =
     c(key \<mapsto> \<lparr>ce_response = response, ce_timestamp = now, ce_cost_cents = costCents\<rparr>)"

text \<open>\<open>btoa\<close>: base64 of a string whose code units are bytes; an
  \<open>InvalidCharacterError\<close> for a unit above 255.\<close>

definition b64_alphabet :: string where
  "b64_alphabet = ''ABCDEFGHIJKLMNOPQRSTUVWXYZabcdefghijklmnopqrstuvwxyz0123456789+/''"

definition b64_char :: "nat \<Rightarrow> char" where
  "b64_char n = b64_alphabet ! n"

fun b64_encode :: "nat list \<Rightarrow> string" where
  "b64_encode (a # b # c # rest) =
     b64_char (a div 4) # b64_char ((a mod 4) * 16 + b div 16) # b64_char ((b mod 16) * 4 + c div 64)
     # b64_char (c mod 64) # b64_encode rest"
| "b64_encode [a, b] =
     [b64_char (a div 4), b64_char ((a mod 4) * 16 + b div 16), b64_char ((b mod 16) * 4), CHR ''='']"
| "b64_encode [a] = [b64_char (a div 4), b64_char ((a mod 4) * 16), CHR ''='', CHR ''='']"
| "b64_encode [] = []"

definition btoa :: "js_string \<Rightarrow> string + string" where
  "btoa s = (if list_all (\<lambda>c. c < 256) s then Inr (b64_encode s)
             else Inl ''InvalidCharacterError: The string to be encoded contains characters outside of the Latin1 range.'')"

text \<open>
  \<open>generateKey\<close> (lines 101-105): \<open>btoa(`${model}:${temperature}:${prompt}`).slice(0, 32)\<close>;
  \<open>numText\<close> renders the temperature.
\<close>

definition generateKey :: "(rat \<Rightarrow> js_string) \<Rightarrow> js_string \<Rightarrow> string \<Rightarrow> rat \<Rightarrow> string + js_string" where
  "generateKey numText prompt model temperature =
     (case btoa (units model @ units '':'' @ numText temperature @ units '':'' @ prompt) of
        Inl e \<Rightarrow> Inl e
      | Inr k \<Rightarrow> Inr (units (take 32 k)))"

subsection \<open>Prompt sanitisation\<close>

text \<open>A code unit equal to an ASCII character under the \<open>i\<close> flag.\<close>

definition unit_ci :: "nat \<Rightarrow> char \<Rightarrow> bool" where
  "unit_ci u c \<longleftrightarrow> u = of_char c \<or> u = of_char (lower_char c)
     \<or> (97 \<le> (of_char c :: nat) \<and> (of_char c :: nat) \<le> 122 \<and> u = of_char c - 32)"

definition prefix_ci :: "string \<Rightarrow> js_string \<Rightarrow> bool" where
  "prefix_ci pat s \<longleftrightarrow> length pat \<le> length s \<and> list_all2 (\<lambda>ch cu. unit_ci cu ch) pat (take (length pat) s)"

text \<open>The first position from which \<open>pat\<close> matches case-insensitively, if any.\<close>

fun find_ci :: "string \<Rightarrow> js_string \<Rightarrow> nat option" where
  "find_ci pat [] = (if pat = [] then Some 0 else None)"
| "find_ci pat (u # s) = (if prefix_ci pat (u # s) then Some 0
     else map_option Suc (find_ci pat s))"

text \<open>The removal of the control characters 0-31 and 127 (line 356).\<close>

definition stripControls :: "js_string \<Rightarrow> js_string" where
  "stripControls s = filter (\<lambda>u. \<not> (u \<le> 31 \<or> u = 127)) s"

text \<open>
  The script-tag replacement (line 357, case-insensitive, global, lazy), scanning left to
  right: at a position where \<open><script\<close> starts, the match runs to the first
  closing angle bracket and then to the first \<open></script>\<close> after it; without both,
  the unit is kept.
\<close>

function stripScripts :: "js_string \<Rightarrow> js_string" where
  "stripScripts [] = []"
| "stripScripts (u # s) =
     (if prefix_ci ''<script'' (u # s) then
        (case find_ci ''>'' (drop 7 (u # s)) of
           None \<Rightarrow> u # stripScripts s
         | Some i \<Rightarrow> (case find_ci ''</script>'' (drop (8 + i) (u # s)) of
             None \<Rightarrow> u # stripScripts s
           | Some j \<Rightarrow> stripScripts (drop (8 + i + j + 9) (u # s))))
      else u # stripScripts s)"
  by pat_completeness auto
termination
  by (relation "measure length") auto

text \<open>The case-insensitive removal of \<open>javascript:\<close> (line 358).\<close>

function stripJavascript :: "js_string \<Rightarrow> js_string" where
  "stripJavascript [] = []"
| "stripJavascript (u # s) =
     (if prefix_ci ''javascript:'' (u # s) then stripJavascript (drop 11 (u # s))
      else u # stripJavascript s)"
  by pat_completeness auto
termination
  by (relation "measure length") auto

text \<open>The code units \<open>String.prototype.trim\<close> removes that survive the control filter.\<close>

definition js_space :: "nat \<Rightarrow> bool" where
  "js_space u \<longleftrightarrow> u \<in> {9, 10, 11, 12, 13, 32, 160, 5760, 8232, 8233, 8239, 8287, 12288, 65279}
     \<or> (8192 \<le> u \<and> u \<le> 8202)"

definition js_trim :: "js_string \<Rightarrow> js_string" where
  "js_trim s = rev (dropWhile js_space (rev (dropWhile js_space s)))"

text \<open>\<open>sanitizePrompt\<close> (lines 353-363).\<close>

definition sanitizePrompt :: "js_string \<Rightarrow> js_string" where
  "sanitizePrompt p = take 50000 (js_trim (stripJavascript (stripScripts (stripControls p))))"

subsection \<open>Claude call, log and handler\<close>

text \<open>\<open>calculateCost\<close> of the gateway (lines 365-374).\<close>

definition calculateCost_gateway :: "rat \<Rightarrow> rat \<Rightarrow> rat" where
  "calculateCost_gateway inputTokens outputTokens =
     of_int (js_round ((inputTokens / 1000 * (3 / 1000) + outputTokens / 1000 * (15 / 1000)) * 100))"

text \<open>What \<open>fetch\<close> gives: a thrown error with its message, a response that is not ok
  with its status and body, or the text of \<open>data.content[0]\<close> (\<open>None\<close> if absent) and the
  token counts of \<open>data.usage\<close> (\<open>None\<close> if absent).\<close>

datatype claude_reply =
    Claude_fetch_error string
  | Claude_http_error nat string
  | Claude_text "js_string option" "rat option" "rat option"

record claude_result =
  cr_success :: bool
  cr_response :: js_string
  cr_tokens_used :: rat
  cr_cost_cents :: rat
  cr_error :: string

text \<open>\<open>callClaudeAPI\<close> (lines 289-347).\<close>

definition callClaudeAPI :: "claude_reply \<Rightarrow> claude_result" where
  "callClaudeAPI r = (case r of
     Claude_fetch_error msg \<Rightarrow> \<lparr>cr_success = False, cr_response = [], cr_tokens_used = 0,
       cr_cost_cents = 0, cr_error = ''Claude API request failed: '' @ msg\<rparr>
   | Claude_http_error status body \<Rightarrow> \<lparr>cr_success = False, cr_response = [], cr_tokens_used = 0,
       cr_cost_cents = 0, cr_error = ''Claude API error: '' @ nat_text status @ '' '' @ body\<rparr>
   | Claude_text txt inp outp \<Rightarrow>
       (let i = js_or inp 0; o' = js_or outp 0 in
        \<lparr>cr_success = True, cr_response = (case txt of None \<Rightarrow> [] | Some t \<Rightarrow> t),
         cr_tokens_used = i + o', cr_cost_cents = calculateCost_gateway i o', cr_error = []\<rparr>))"

text \<open>A row of \<open>ai_request_logs\<close> (\<open>logAIRequest\<close>, lines 393-428); durations are not
  modelled.\<close>

record log_row =
  lg_user_id :: string
  lg_operation :: string
  lg_generation_id :: "string option"
  lg_model :: string
  lg_tokens_used :: rat
  lg_cost_cents :: rat
  lg_cached :: bool
  lg_success :: bool
  lg_error_message :: "string option"

record gw_state =
  gw_requests :: rate_state
  gw_cache :: response_cache
  gw_logs :: "log_row list"

text \<open>The handler's responses: \<open>createErrorResponse\<close> (lines 376-391) with its status, the
  zod failure (422), and the success body.\<close>

datatype gw_response =
    Gw_preflight
  | Gw_error nat string
  | Gw_invalid_request
  | Gw_ok js_string rat rat string bool nat

definition logRow :: "string \<Rightarrow> ai_request \<Rightarrow> rat \<Rightarrow> rat \<Rightarrow> bool \<Rightarrow> bool \<Rightarrow> string option \<Rightarrow> log_row" where
  "logRow u rq tokens cost cached success err = \<lparr>lg_user_id = u, lg_operation = ar_operation rq,
     lg_generation_id = ar_generation_id rq, lg_model = ar_model rq, lg_tokens_used = tokens,
     lg_cost_cents = cost, lg_cached = cached, lg_success = success, lg_error_message = err\<rparr>"

text \<open>The cache key of lines 189-190: \<open>None\<close> when caching is off, the client's
  \<open>cache_key\<close> when it is a non-empty string, else \<open>generateKey\<close>, whose error propagates.\<close>

definition requestCacheKey :: "(rat \<Rightarrow> js_string) \<Rightarrow> ai_request \<Rightarrow> string + js_string option" where
  "requestCacheKey numText rq =
     (if \<not> ar_enable_cache rq then Inr None
      else (case ar_cache_key rq of
              Some k \<Rightarrow> if k \<noteq> [] then Inr (Some k)
                        else map_sum id Some (generateKey numText (ar_prompt rq) (ar_model rq) (ar_temperature rq))
            | None \<Rightarrow> map_sum id Some (generateKey numText (ar_prompt rq) (ar_model rq) (ar_temperature rq))))"

definition appendLog :: "log_row \<Rightarrow> gw_state \<Rightarrow> gw_state" where
  "appendLog r st = st\<lparr>gw_logs := gw_logs st @ [r]\<rparr>"

text \<open>Lines 222-283 after a cache miss: sanitise, call Claude, on success cache the reply
  (when there is a key) and log; on failure log and answer 500.\<close>

definition callAndCache ::
  "(js_string \<Rightarrow> claude_reply) \<Rightarrow> int \<Rightarrow> string \<Rightarrow> ai_request \<Rightarrow> js_string option \<Rightarrow> gw_state
     \<Rightarrow> gw_response \<times> gw_state" where
  "callAndCache claude now u rq cacheKey st =
     (let res = callClaudeAPI (claude (sanitizePrompt (ar_prompt rq))) in
      if \<not> cr_success res then
        (Gw_error 500 (cr_error res), appendLog (logRow u rq 0 0 False False (Some (cr_error res))) st)
      else
        (let st' = appendLog (logRow u rq (cr_tokens_used res) (cr_cost_cents res) False True None)
                     (st\<lparr>gw_cache := (case cacheKey of None \<Rightarrow> gw_cache st
                          | Some k \<Rightarrow> cacheSet now k (cr_response res) (cr_cost_cents res) (gw_cache st))\<rparr>) in
         (Gw_ok (cr_response res) (cr_tokens_used res) (cr_cost_cents res) (ar_model rq) False
            (getRemainingRequests now u (gw_requests st')), st')))"

text \<open>Lines 189-220 once the key is known: a cache hit is logged and answered with zero
  tokens and cost and \<open>cached: true\<close>.\<close>

definition serveRequest ::
  "(js_string \<Rightarrow> claude_reply) \<Rightarrow> int \<Rightarrow> string \<Rightarrow> ai_request \<Rightarrow> js_string option \<Rightarrow> gw_state
     \<Rightarrow> gw_response \<times> gw_state" where
  "serveRequest claude now u rq cacheKey st =
     (case (case cacheKey of None \<Rightarrow> (None, gw_cache st) | Some k \<Rightarrow> cacheGet now k (gw_cache st)) of
        (cached, c1) \<Rightarrow>
          (case cached of
             Some (resp, cost) \<Rightarrow>
               (Gw_ok resp 0 0 (ar_model rq) True (getRemainingRequests now u (gw_requests st)),
                appendLog (logRow u rq 0 0 True True None) (st\<lparr>gw_cache := c1\<rparr>))
           | None \<Rightarrow> callAndCache claude now u rq cacheKey (st\<lparr>gw_cache := c1\<rparr>)))"

text \<open>
  The handler after authentication (lines 152-283) for the authenticated user \<open>u\<close>: body
  validation, the rate limit, the cache key, then \<open>serveRequest\<close>. An error thrown by
  \<open>btoa\<close> reaches the outer \<open>catch\<close>: status 500.
\<close>

definition handleAIRequest ::
  "(rat \<Rightarrow> js_string) \<Rightarrow> (js_string \<Rightarrow> claude_reply) \<Rightarrow> int \<Rightarrow> string \<Rightarrow> raw_request \<Rightarrow> gw_state
     \<Rightarrow> gw_response \<times> gw_state" where
  "handleAIRequest numText claude now u raw st =
     (case parseAIRequest raw of
        None \<Rightarrow> (Gw_invalid_request, st)
      | Some rq \<Rightarrow>
          (case isAllowed now u (gw_requests st) of
             (False, rl) \<Rightarrow>
               (Gw_error 429 (''Rate limit exceeded. '' @ nat_text (getRemainingRequests now u rl)
                  @ '' requests remaining this hour.''), st\<lparr>gw_requests := rl\<rparr>)
           | (True, rl) \<Rightarrow>
               (case requestCacheKey numText rq of
                  Inl e \<Rightarrow> (Gw_error 500 ''Internal server error'', st\<lparr>gw_requests := rl\<rparr>)
                | Inr cacheKey \<Rightarrow> serveRequest claude now u rq cacheKey (st\<lparr>gw_requests := rl\<rparr>))))"

text \<open>The whole edge function (lines 115-283): the CORS preflight, the method check,
  authentication (\<open>None\<close> when \<open>auth.getUser\<close> gives no user) and \<open>JSON.parse\<close> of the
  body (\<open>None\<close> when it throws, answered like a schema error) before the handler.\<close>

definition serveGateway ::
  "(rat \<Rightarrow> js_string) \<Rightarrow> (js_string \<Rightarrow> claude_reply) \<Rightarrow> int \<Rightarrow> http_method \<Rightarrow> string option
     \<Rightarrow> raw_request option \<Rightarrow> gw_state \<Rightarrow> gw_response \<times> gw_state" where
  "serveGateway numText claude now method user body st =
     (case method of
        OPTIONS \<Rightarrow> (Gw_preflight, st)
      | Other_method \<Rightarrow> (Gw_error 405 ''Method not allowed'', st)
      | POST \<Rightarrow> (case user of
          None \<Rightarrow> (Gw_error 401 ''Unauthorized'', st)
        | Some u \<Rightarrow> (case body of
            None \<Rightarrow> (Gw_invalid_request, st)
          | Some raw \<Rightarrow> handleAIRequest numText claude now u raw st)))"

subsection \<open>Test data\<close>

definition gw_init :: gw_state where
  "gw_init = \<lparr>gw_requests = Map.empty, gw_cache = Map.empty, gw_logs = []\<rparr>"

definition demo_uuid :: string where
  "demo_uuid = ''123e4567-e89b-12d3-a456-426614174000''"

text \<open>A request with the given prompt and temperature, the schema's defaults otherwise.\<close>

definition demo_raw :: "js_string \<Rightarrow> rat option \<Rightarrow> raw_request" where
  "demo_raw p t = \<lparr>rq_model = None, rq_prompt = Some p, rq_max_tokens = None, rq_temperature = t,
     rq_user_id = Some demo_uuid, rq_operation = Some ''general'', rq_generation_id = None,
     rq_cache_key = None, rq_enable_cache = None\<rparr>"

definition demo_numText :: "rat \<Rightarrow> js_string" where
  "demo_numText t = (if t = 3 / 10 then units ''0.3'' else units ''0.7'')"

definition prompt_a :: js_string where
  "prompt_a = units ''What should I cook tonight?''"

definition prompt_b :: js_string where
  "prompt_b = units ''Which of my recipes contain peanuts?''"

definition demo_claude :: "js_string \<Rightarrow> claude_reply" where
  "demo_claude p = (if p = prompt_a
     then Claude_text (Some (units ''Try the lentil curry.'')) (Some 20) (Some 10)
     else Claude_text (Some (units ''Your recipes with peanuts: satay.'')) (Some 20) (Some 10))"

subsection \<open>Base64 and the cache key\<close>

lemma take_b64_encode: "3 * n \<le> length xs \<Longrightarrow> take (4 * n) (b64_encode xs) = b64_encode (take (3 * n) xs)"
proof (induction n arbitrary: xs)
  case (Suc n)
  then obtain a b c rest where "xs = a # b # c # rest" "3 * n \<le> length rest"
    by (cases xs rule: b64_encode.cases) auto
  then show ?case using Suc.IH [of rest] by (simp add: take_Cons')
qed simp

lemma generateKey_Inr:
  "generateKey nt p m t = Inr k \<Longrightarrow>
     k = units (take 32 (b64_encode (units m @ units '':'' @ nt t @ units '':'' @ p)))"
  by (simp add: generateKey_def btoa_def split: sum.splits if_splits)

lemma generateKey_key:
  assumes "generateKey nt p m t = Inr k" "24 \<le> length m + 1"
  shows "k = units (b64_encode (take 24 (units m @ units '':'')))"
proof -
  let ?kd = "units m @ units '':'' @ nt t @ units '':'' @ p"
  have "take 32 (b64_encode ?kd) = b64_encode (take 24 ?kd)"
    using take_b64_encode [of 8 ?kd] assms(2) by (simp add: units_def)
  moreover have "take 24 ?kd = take 24 (units m @ units '':'')"
    using assms(2) by (cases "length m = 23") (simp_all add: units_def)
  ultimately show ?thesis using generateKey_Inr [OF assms(1)] by metis
qed

text \<open>C4: The cache key of a request that gives no \<open>cache_key\<close> does not depend on
  its prompt or its temperature: \<open>btoa(...).slice(0, 32)\<close> keeps the encoding of the first
  24 characters only, and \<open>model:\<close> already has at least 24 characters for both models the
  schema allows.\<close>

theorem generateKey_ignores_prompt:
  assumes "m \<in> set validModels"
    and "generateKey nt p1 m t1 = Inr k1" and "generateKey nt p2 m t2 = Inr k2"
  shows "k1 = k2"
proof -
  have "24 \<le> length m + 1" using assms(1) by (auto simp: validModels_def)
  then show ?thesis using generateKey_key [OF assms(2)] generateKey_key [OF assms(3)] by simp
qed

theorem generateKey_ignores_prompt_witness:
  "generateKey demo_numText prompt_a ''claude-3-5-sonnet-20241022'' (3 / 10)
     = generateKey demo_numText prompt_b ''claude-3-5-sonnet-20241022'' (7 / 10)"
proof -
  have hm: "''claude-3-5-sonnet-20241022'' \<in> set validModels" by (simp add: validModels_def)
  have h1: "generateKey demo_numText prompt_a ''claude-3-5-sonnet-20241022'' (3 / 10)
      = Inr (units (take 32 (b64_encode (units ''claude-3-5-sonnet-20241022:0.3:What should I cook tonight?''))))"
    by code_simp
  have h2: "generateKey demo_numText prompt_b ''claude-3-5-sonnet-20241022'' (7 / 10)
      = Inr (units (take 32 (b64_encode (units ''claude-3-5-sonnet-20241022:0.7:Which of my recipes contain peanuts?''))))"
    by code_simp
  show ?thesis using generateKey_ignores_prompt [OF hm h1 h2] h1 h2 by simp
qed

subsection \<open>Response cache\<close>

text \<open>A reply stored by \<open>ResponseCache.set\<close> is what \<open>get\<close> returns for its key as
  long as no more than the time-to-live has passed, and the read leaves the cache as it was.\<close>

theorem cacheSet_cacheGet:
  "now - t \<le> ttlMs \<Longrightarrow> cacheGet now k (cacheSet t k r cost c) = (Some (r, cost), cacheSet t k r cost c)"
  by (simp add: cacheGet_def cacheSet_def)

theorem cacheSet_cacheGet_witness:
  "cacheGet 1800000 (units ''k'') (cacheSet 0 (units ''k'') (units ''reply'') 2 Map.empty)
     = (Some (units ''reply'', 2), cacheSet 0 (units ''k'') (units ''reply'') 2 Map.empty)"
  using cacheSet_cacheGet [of 1800000 0 "units ''k''" "units ''reply''" 2 Map.empty] by (simp add: ttlMs_def)

lemma cacheSet_cacheGet_expired:
  "ttlMs < now - t \<Longrightarrow> cacheGet now k (cacheSet t k r cost c) = (None, c(k := None))"
  by (simp add: cacheGet_def cacheSet_def)

subsection \<open>Rate limiter\<close>

lemma isAllowed_cases:
  "isAllowed now u m = (ok, m') \<Longrightarrow>
     (ok \<and> m' = m(u \<mapsto> validRequests now (userRequests m u) @ [now])) \<or> (\<not> ok \<and> m' = m)"
  by (auto simp: isAllowed_def Let_def split: if_splits)

lemma limiterRun_snoc:
  "limiterRun (es @ [(now, u)]) =
     (fst (limiterRun es) @ [(now, u, fst (isAllowed now u (snd (limiterRun es))))],
      snd (isAllowed now u (snd (limiterRun es))))"
  by (simp add: limiterRun_def limiterStep_def split: prod.splits)

lemma limiterRun_append:
  "\<exists>h. fst (limiterRun (xs @ ys)) = fst (limiterRun xs) @ h \<and> length h = length ys"
proof (induction ys rule: rev_induct)
  case (snoc y ys)
  then obtain h where "fst (limiterRun (xs @ ys)) = fst (limiterRun xs) @ h" "length h = length ys"
    by blast
  then show ?case
    using limiterRun_snoc [of "xs @ ys" "fst y" "snd y"] by (cases y) auto
qed simp

lemma length_limiterRun: "length (fst (limiterRun es)) = length es"
  using limiterRun_append [of "[]" es] by (simp add: limiterRun_def)

lemma take_limiterRun: "take k (fst (limiterRun es)) = fst (limiterRun (take k es))"
proof -
  obtain h where "fst (limiterRun es) = fst (limiterRun (take k es)) @ h" "length h = length (drop k es)"
    using limiterRun_append [of "take k es" "drop k es"] by auto
  then show ?thesis by (cases "k \<le> length es") (simp_all add: length_limiterRun)
qed

lemma allowedTimes_snoc:
  "allowedTimes (hist @ [(now, v, ok)]) u = allowedTimes hist u @ (if ok \<and> v = u then [now] else [])"
  by (simp add: allowedTimes_def)

lemma mset_filter_weaker:
  "(\<And>x. P x \<Longrightarrow> Q x) \<Longrightarrow> mset (filter P xs) \<subseteq># mset (filter Q xs)"
  by (induction xs) (auto intro: subset_mset.trans)

lemma mset_filter_into:
  assumes "mset xs \<subseteq># mset ys" "list_all P xs"
  shows "mset xs \<subseteq># mset (filter P ys)"
proof -
  have "filter_mset P (mset xs) \<subseteq># filter_mset P (mset ys)"
    using assms(1) by (rule multiset_filter_mono)
  moreover have "filter_mset P (mset xs) = mset xs"
  proof -
    have "filter P xs = xs" using assms(2) by (simp add: list_all_iff filter_id_conv)
    then show ?thesis by (metis mset_filter)
  qed
  ultimately show ?thesis by simp
qed

lemma limiterRun_inv:
  assumes "sorted (map fst es)" "\<forall>e\<in>set es. fst e \<le> T"
  shows "mset (filter (\<lambda>s. T - s < windowMs) (allowedTimes (fst (limiterRun es)) u))
           \<subseteq># mset (userRequests (snd (limiterRun es)) u)"
  using assms
proof (induction es arbitrary: T rule: rev_induct)
  case Nil
  then show ?case by (simp add: limiterRun_def allowedTimes_def)
next
  case (snoc e es)
  obtain now v where e: "e = (now, v)" by (cases e)
  obtain hist m where run: "limiterRun es = (hist, m)" by (cases "limiterRun es")
  obtain ok m' where step: "isAllowed now v m = (ok, m')" by (cases "isAllowed now v m")
  have sorted: "sorted (map fst es)" and le_now: "\<forall>e\<in>set es. fst e \<le> now"
    using snoc.prems(1) by (auto simp: e sorted_append)
  have T: "now \<le> T" "\<forall>e\<in>set es. fst e \<le> T" using snoc.prems(2) by (auto simp: e)
  have IH_T: "mset (filter (\<lambda>s. T - s < windowMs) (allowedTimes hist u)) \<subseteq># mset (userRequests m u)"
    using snoc.IH [OF sorted T(2)] by (simp add: run)
  have IH_now: "mset (filter (\<lambda>s. now - s < windowMs) (allowedTimes hist u)) \<subseteq># mset (userRequests m u)"
    using snoc.IH [OF sorted le_now] by (simp add: run)
  have res: "limiterRun (es @ [e]) = (hist @ [(now, v, ok)], m')"
    using limiterRun_snoc [of es now v] by (simp add: e run step)
  show ?case
  proof (cases "ok \<and> v = u")
    case True
    let ?valid = "validRequests now (userRequests m u)"
    have m': "m' = m(u \<mapsto> ?valid @ [now])" using isAllowed_cases [OF step] True by auto
    have "mset (filter (\<lambda>s. T - s < windowMs) (allowedTimes hist u))
            \<subseteq># mset (filter (\<lambda>s. now - s < windowMs) (allowedTimes hist u))"
      using T(1) by (intro mset_filter_weaker) simp
    also have "\<dots> \<subseteq># mset ?valid"
      unfolding validRequests_def by (rule mset_filter_into [OF IH_now]) (simp add: list_all_iff)
    finally have F: "mset (filter (\<lambda>s. T - s < windowMs) (allowedTimes hist u)) \<subseteq># mset ?valid" .
    then have "mset (filter (\<lambda>s. T - s < windowMs) (allowedTimes hist u)) \<subseteq># add_mset now (mset ?valid)"
      by (metis add_mset_add_single mset_subset_eq_add_left subset_mset.trans)
    with F show ?thesis
      using True by (simp add: res m' allowedTimes_snoc userRequests_def)
  next
    case False
    then have "userRequests m' u = userRequests m u"
      using isAllowed_cases [OF step] by (auto simp: userRequests_def)
    then show ?thesis using IH_T False by (auto simp: res allowedTimes_snoc)
  qed
qed

text \<open>C5: In any run of \<open>isAllowed\<close> calls in time order, a request is allowed only
  when fewer than \<open>maxRequests\<close> (100) requests of the same user were allowed in the hour
  before it: the sliding window holds although expired times are only dropped when the
  user calls again and a rejected call does not record its time.\<close>

theorem limiterRun_at_most_maxRequests:
  assumes "sorted (map fst es)" and "k < length es" and "fst (limiterRun es) ! k = (now, u, True)"
  shows "length (filter (\<lambda>s. now - s < windowMs) (allowedTimes (take k (fst (limiterRun es))) u))
           < maxRequests"
proof -
  let ?pre = "take k es"
  have split: "take (Suc k) es = ?pre @ [es ! k]" using assms(2) by (simp add: take_Suc_conv_app_nth)
  have "fst (limiterRun es) ! k = fst (limiterRun (take (Suc k) es)) ! k"
    by (metis lessI nth_take take_limiterRun)
  then have at_k: "fst (limiterRun (?pre @ [es ! k])) ! k = (now, u, True)"
    using assms(3) split by simp
  have ek': "es ! k = (now, u)"
    using at_k limiterRun_snoc [of ?pre "fst (es ! k)" "snd (es ! k)"] assms(2)
    by (simp add: length_limiterRun nth_append prod_eq_iff)
  have ok: "fst (isAllowed now u (snd (limiterRun ?pre)))"
    using at_k limiterRun_snoc [of ?pre now u] assms(2) ek'
    by (simp add: length_limiterRun nth_append)
  have sorted_pre: "sorted (map fst ?pre)" using assms(1) by (metis append_take_drop_id sorted_append take_map)
  have le: "\<forall>e\<in>set ?pre. fst e \<le> now"
  proof
    fix e assume "e \<in> set ?pre"
    then obtain i where "i < k" "i < length es" "e = es ! i" by (auto simp: in_set_conv_nth)
    then show "fst e \<le> now"
      using assms(1) assms(2) ek' sorted_nth_mono [of "map fst es" i k] by simp
  qed
  let ?valid = "validRequests now (userRequests (snd (limiterRun ?pre)) u)"
  have "mset (filter (\<lambda>s. now - s < windowMs) (allowedTimes (fst (limiterRun ?pre)) u)) \<subseteq># mset ?valid"
    unfolding validRequests_def
    by (rule mset_filter_into [OF limiterRun_inv [OF sorted_pre le]]) (simp add: list_all_iff)
  then have "length (filter (\<lambda>s. now - s < windowMs) (allowedTimes (fst (limiterRun ?pre)) u))
               \<le> length ?valid"
    by (metis size_mset size_mset_mono)
  moreover have "length ?valid < maxRequests"
    using ok by (simp add: isAllowed_def Let_def split: if_splits)
  ultimately show ?thesis by (simp add: take_limiterRun)
qed

theorem limiterRun_at_most_maxRequests_witness:
  "length (filter (\<lambda>s. 1 - s < windowMs)
     (allowedTimes (take 1 (fst (limiterRun [(0, ''alice''), (1, ''alice'')]))) ''alice'')) < maxRequests"
proof -
  have "sorted (map fst [(0::int, ''alice''), (1, ''alice'')])" by simp
  moreover have "fst (limiterRun [(0, ''alice''), (1, ''alice'')]) ! 1 = (1, ''alice'', True)"
    by code_simp
  ultimately show ?thesis using limiterRun_at_most_maxRequests [of _ 1] by simp
qed

text \<open>C31: A user none of whose recorded requests lies within the last hour is allowed
  again, and its history restarts with this request alone.\<close>

theorem isAllowed_quiet:
  assumes "\<forall>t\<in>set (userRequests m u). windowMs \<le> now - t"
  shows "isAllowed now u m = (True, m(u \<mapsto> [now]))"
proof -
  have "validRequests now (userRequests m u) = []"
    using assms by (auto simp: validRequests_def filter_empty_conv)
  then show ?thesis by (simp add: isAllowed_def maxRequests_def)
qed

theorem isAllowed_quiet_witness:
  "isAllowed 3600000 ''alice'' [''alice'' \<mapsto> replicate 100 0] = (True, [''alice'' \<mapsto> [3600000]])"
proof -
  have "\<forall>t\<in>set (userRequests [''alice'' \<mapsto> replicate 100 0] ''alice''). windowMs \<le> 3600000 - t"
    by (simp add: userRequests_def windowMs_def)
  then show ?thesis using isAllowed_quiet by simp
qed

lemma isAllowed_False:
  "isAllowed now u m = (False, rl) \<Longrightarrow> rl = m \<and> getRemainingRequests now u rl = 0"
  by (auto simp: isAllowed_def getRemainingRequests_def Let_def split: if_splits)

text \<open>A request refused by the rate limiter (status 429) leaves the gateway's state
  unchanged, and its message always reports 0 remaining requests.\<close>

theorem handleAIRequest_rate_limited:
  assumes "handleAIRequest nt claude now u raw st = (Gw_error 429 msg, st')"
  shows "st' = st \<and> msg = ''Rate limit exceeded. 0 requests remaining this hour.''"
proof -
  obtain rq where rq: "parseAIRequest raw = Some rq"
    using assms by (cases "parseAIRequest raw") (simp_all add: handleAIRequest_def)
  obtain ok rl where al: "isAllowed now u (gw_requests st) = (ok, rl)" by fastforce
  show ?thesis
  proof (cases ok)
    case True
    have "serveRequest claude now u rq k st1 \<noteq> (Gw_error 429 msg, st')" for k st1
      by (auto simp: serveRequest_def callAndCache_def Let_def split: option.splits prod.splits)
    then show ?thesis using assms True
      by (auto simp: handleAIRequest_def rq al split: sum.splits)
  next
    case False
    then show ?thesis using assms isAllowed_False [of now u "gw_requests st" rl] al
      by (simp add: handleAIRequest_def rq)
  qed
qed

theorem handleAIRequest_rate_limited_witness:
  "handleAIRequest demo_numText demo_claude 1000 ''dave'' (demo_raw prompt_a None)
     (gw_init\<lparr>gw_requests := [''dave'' \<mapsto> replicate 100 0]\<rparr>)
   = (Gw_error 429 ''Rate limit exceeded. 0 requests remaining this hour.'',
      gw_init\<lparr>gw_requests := [''dave'' \<mapsto> replicate 100 0]\<rparr>)"
proof -
  have h: "fst (handleAIRequest demo_numText demo_claude 1000 ''dave'' (demo_raw prompt_a None)
     (gw_init\<lparr>gw_requests := [''dave'' \<mapsto> replicate 100 0]\<rparr>))
     = Gw_error 429 ''Rate limit exceeded. 0 requests remaining this hour.''"
    by code_simp
  show ?thesis
    using handleAIRequest_rate_limited [of demo_numText demo_claude 1000 "''dave''" "demo_raw prompt_a None"
        "gw_init\<lparr>gw_requests := [''dave'' \<mapsto> replicate 100 0]\<rparr>"] h
    by (metis prod.collapse)
qed

subsection \<open>The handler\<close>

lemma units_bytes: "list_all (\<lambda>c. c < 256) (units s)"
  by (simp add: units_def list_all_iff)

lemma parseAIRequest_model: "parseAIRequest r = Some rq \<Longrightarrow> ar_model rq \<in> set validModels"
  by (auto simp: parseAIRequest_def Let_def split: option.splits if_splits)

lemma map_sum_Some_Inr [simp]:
  "map_sum id Some x = Inr (Some k) \<longleftrightarrow> x = Inr k" "map_sum id Some x \<noteq> Inr None"
  by (cases x; simp)+

lemma requestCacheKey_generated:
  assumes "ar_enable_cache rq" "ar_cache_key rq = None"
    and "list_all (\<lambda>c. c < 256) (nt (ar_temperature rq) @ ar_prompt rq)"
  shows "requestCacheKey nt rq =
     Inr (Some (units (take 32 (b64_encode (units (ar_model rq) @ units '':'' @ nt (ar_temperature rq)
        @ units '':'' @ ar_prompt rq)))))"
  using assms units_bytes [of "ar_model rq"] units_bytes [of "'':''"]
  by (simp add: requestCacheKey_def generateKey_def btoa_def)

lemma handleAIRequest_fresh:
  assumes "handleAIRequest nt claude now u raw st = (Gw_ok resp tok cost m False rem, st')"
  shows "\<exists>rq. parseAIRequest raw = Some rq \<and> ar_model rq = m \<and>
     (case requestCacheKey nt rq of
        Inr (Some k) \<Rightarrow> gw_cache st' k = Some \<lparr>ce_response = resp, ce_timestamp = now, ce_cost_cents = cost\<rparr>
      | Inr None \<Rightarrow> True
      | Inl e \<Rightarrow> False)"
  using assms
  by (auto simp: handleAIRequest_def serveRequest_def callAndCache_def cacheSet_def appendLog_def Let_def
      split: option.splits prod.splits sum.splits if_splits bool.splits)

text \<open>C3: Once a request was answered by Claude with caching on and no \<open>cache_key\<close>,
  any later request for the same model (any user, any prompt, any temperature) with caching
  on and no \<open>cache_key\<close> is answered within the time-to-live with that reply, as a cache
  hit, provided the rate limiter lets it through and \<open>btoa\<close> accepts its text.\<close>

theorem handleAIRequest_serves_cached_reply_to_other_prompt:
  assumes A: "handleAIRequest nt claude t1 a rawA st = (Gw_ok resp tok cost m False rem, st1)"
    and pA: "parseAIRequest rawA = Some rqA" and pB: "parseAIRequest rawB = Some rqB"
    and mB: "ar_model rqB = m"
    and cA: "ar_enable_cache rqA" "ar_cache_key rqA = None"
    and cB: "ar_enable_cache rqB" "ar_cache_key rqB = None"
    and bytes: "list_all (\<lambda>c. c < 256) (nt (ar_temperature rqB) @ ar_prompt rqB)"
    and time: "t1 \<le> t2" "t2 - t1 \<le> ttlMs"
    and allowed: "isAllowed t2 b (gw_requests st1) = (True, rl)"
  shows "\<exists>r. fst (handleAIRequest nt claude t2 b rawB st1) = Gw_ok resp 0 0 m True r"
proof -
  have mA: "ar_model rqA = m"
    and fresh: "case requestCacheKey nt rqA of
        Inr (Some k) \<Rightarrow> gw_cache st1 k = Some \<lparr>ce_response = resp, ce_timestamp = t1, ce_cost_cents = cost\<rparr>
      | Inr None \<Rightarrow> True | Inl e \<Rightarrow> False"
    using handleAIRequest_fresh [OF A] pA by auto
  obtain kA where kA: "requestCacheKey nt rqA = Inr (Some kA)"
    and hit: "gw_cache st1 kA = Some \<lparr>ce_response = resp, ce_timestamp = t1, ce_cost_cents = cost\<rparr>"
    using fresh cA by (auto simp: requestCacheKey_def split: sum.splits option.splits)
  have valid: "24 \<le> length m + 1"
    using parseAIRequest_model [OF pB] mB by (auto simp: validModels_def)
  have "generateKey nt (ar_prompt rqA) m (ar_temperature rqA) = Inr kA"
    using kA cA mA by (auto simp: requestCacheKey_def split: sum.splits)
  then have kA': "kA = units (b64_encode (take 24 (units m @ units '':'')))"
    using generateKey_key valid by blast
  have "generateKey nt (ar_prompt rqB) m (ar_temperature rqB) = Inr kA"
    using requestCacheKey_generated [where rq = rqB and nt = nt, OF cB bytes] mB generateKey_key [OF _ valid] kA'
    by (auto simp: requestCacheKey_def cB split: sum.splits)
  then have kB: "requestCacheKey nt rqB = Inr (Some kA)"
    using cB mB by (simp add: requestCacheKey_def)
  show ?thesis
    using time hit by (simp add: handleAIRequest_def pB allowed kB serveRequest_def cacheGet_def mB)
qed

theorem handleAIRequest_serves_cached_reply_to_other_prompt_witness:
  "fst (handleAIRequest demo_numText demo_claude 60000 ''bob'' (demo_raw prompt_b (Some (7 / 10)))
      (snd (handleAIRequest demo_numText demo_claude 0 ''alice'' (demo_raw prompt_a None) gw_init)))
   = Gw_ok (units ''Try the lentil curry.'') 0 0 ''claude-3-5-sonnet-20241022'' True 99"
proof -
  let ?st1 = "snd (handleAIRequest demo_numText demo_claude 0 ''alice'' (demo_raw prompt_a None) gw_init)"
  have A: "handleAIRequest demo_numText demo_claude 0 ''alice'' (demo_raw prompt_a None) gw_init
      = (Gw_ok (units ''Try the lentil curry.'') 30 0 ''claude-3-5-sonnet-20241022'' False 99, ?st1)"
  proof -
    have "fst (handleAIRequest demo_numText demo_claude 0 ''alice'' (demo_raw prompt_a None) gw_init)
        = Gw_ok (units ''Try the lentil curry.'') 30 0 ''claude-3-5-sonnet-20241022'' False 99"
      by code_simp
    then show ?thesis by (metis prod.collapse)
  qed
  have pA: "parseAIRequest (demo_raw prompt_a None) = Some (the (parseAIRequest (demo_raw prompt_a None)))"
    by code_simp
  have pB: "parseAIRequest (demo_raw prompt_b (Some (7 / 10)))
      = Some (the (parseAIRequest (demo_raw prompt_b (Some (7 / 10)))))"
    by code_simp
  have facts:
    "ar_model (the (parseAIRequest (demo_raw prompt_b (Some (7 / 10))))) = ''claude-3-5-sonnet-20241022''"
    "ar_enable_cache (the (parseAIRequest (demo_raw prompt_a None)))"
    "ar_cache_key (the (parseAIRequest (demo_raw prompt_a None))) = None"
    "ar_enable_cache (the (parseAIRequest (demo_raw prompt_b (Some (7 / 10)))))"
    "ar_cache_key (the (parseAIRequest (demo_raw prompt_b (Some (7 / 10))))) = None"
    "list_all (\<lambda>c. c < 256) (demo_numText (ar_temperature (the (parseAIRequest (demo_raw prompt_b (Some (7 / 10))))))
        @ ar_prompt (the (parseAIRequest (demo_raw prompt_b (Some (7 / 10))))))"
    by code_simp+
  have allowed: "isAllowed 60000 ''bob'' (gw_requests ?st1) = (True, snd (isAllowed 60000 ''bob'' (gw_requests ?st1)))"
  proof -
    have "fst (isAllowed 60000 ''bob'' (gw_requests ?st1))" by code_simp
    then show ?thesis by (metis prod.collapse)
  qed
  obtain r where r: "fst (handleAIRequest demo_numText demo_claude 60000 ''bob'' (demo_raw prompt_b (Some (7 / 10))) ?st1)
      = Gw_ok (units ''Try the lentil curry.'') 0 0 ''claude-3-5-sonnet-20241022'' True r"
    using handleAIRequest_serves_cached_reply_to_other_prompt [OF A pA pB facts(1) facts(2,3) facts(4,5) facts(6)
        _ _ allowed]
    by (auto simp: ttlMs_def)
  have "r = 99"
  proof -
    have "fst (handleAIRequest demo_numText demo_claude 60000 ''bob'' (demo_raw prompt_b (Some (7 / 10))) ?st1)
        = Gw_ok (units ''Try the lentil curry.'') 0 0 ''claude-3-5-sonnet-20241022'' True 99"
      by code_simp
    then show ?thesis using r by simp
  qed
  then show ?thesis using r by simp
qed

text \<open>A prompt with a code unit above 255 (an em dash, a curly quote, any emoji),
  sent with caching on and no \<open>cache_key\<close>, makes \<open>btoa\<close> throw: the request is answered
  500 \<open>Internal server error\<close> after it has used up one request of the user's hourly
  allowance.\<close>

theorem handleAIRequest_non_latin1_prompt:
  assumes "parseAIRequest raw = Some rq" "ar_enable_cache rq" "ar_cache_key rq = None"
    and "\<not> list_all (\<lambda>c. c < 256) (ar_prompt rq)"
    and "isAllowed now u (gw_requests st) = (True, rl)"
  shows "handleAIRequest nt claude now u raw st = (Gw_error 500 ''Internal server error'', st\<lparr>gw_requests := rl\<rparr>)"
  using assms by (simp add: handleAIRequest_def requestCacheKey_def generateKey_def btoa_def)

theorem handleAIRequest_non_latin1_prompt_witness:
  "handleAIRequest demo_numText demo_claude 0 ''carol'' (demo_raw (units ''Make it spicy '' @ [8212]) None) gw_init
     = (Gw_error 500 ''Internal server error'', gw_init\<lparr>gw_requests := snd (isAllowed 0 ''carol'' Map.empty)\<rparr>)"
proof -
  have p: "parseAIRequest (demo_raw (units ''Make it spicy '' @ [8212]) None)
      = Some (the (parseAIRequest (demo_raw (units ''Make it spicy '' @ [8212]) None)))"
    by code_simp
  have f: "ar_enable_cache (the (parseAIRequest (demo_raw (units ''Make it spicy '' @ [8212]) None)))"
    "ar_cache_key (the (parseAIRequest (demo_raw (units ''Make it spicy '' @ [8212]) None))) = None"
    "\<not> list_all (\<lambda>c. c < 256) (ar_prompt (the (parseAIRequest (demo_raw (units ''Make it spicy '' @ [8212]) None))))"
    by code_simp+
  have "fst (isAllowed 0 ''carol'' (gw_requests gw_init))"
    by code_simp
  then have a: "isAllowed 0 ''carol'' (gw_requests gw_init) = (True, snd (isAllowed 0 ''carol'' Map.empty))"
    by (simp add: gw_init_def prod_eq_iff)
  show ?thesis using handleAIRequest_non_latin1_prompt [OF p f a] .
qed

text \<open>A request the schema accepts has a model of the enum, a prompt of 1 to 50000
  code units, \<open>max_tokens\<close> in [1, 4000], a temperature in [0, 1], a user id of uuid shape
  and an operation of the enum, defaults included.\<close>

theorem parseAIRequest_bounds:
  assumes "parseAIRequest r = Some rq"
  shows "ar_model rq \<in> set validModels \<and> 1 \<le> length (ar_prompt rq) \<and> length (ar_prompt rq) \<le> 50000
    \<and> 1 \<le> ar_max_tokens rq \<and> ar_max_tokens rq \<le> 4000 \<and> 0 \<le> ar_temperature rq \<and> ar_temperature rq \<le> 1
    \<and> is_uuid (ar_user_id rq) \<and> ar_operation rq \<in> set validOperations"
  using assms by (auto simp: parseAIRequest_def Let_def split: option.splits if_splits)

theorem parseAIRequest_bounds_witness:
  "ar_max_tokens (the (parseAIRequest (demo_raw prompt_a None))) \<le> 4000"
proof -
  have "parseAIRequest (demo_raw prompt_a None) = Some (the (parseAIRequest (demo_raw prompt_a None)))"
    by code_simp
  then show ?thesis using parseAIRequest_bounds by blast
qed

subsection \<open>Prompt sanitisation\<close>

lemma stripScripts_subset: "set (stripScripts s) \<subseteq> set s"
proof (induction s rule: stripScripts.induct)
  case (2 u s)
  have "set (drop n (u # s)) \<subseteq> set (u # s)" for n by (rule set_drop_subset)
  with 2 show ?case by (auto split: option.splits) blast
qed simp

lemma stripJavascript_subset: "set (stripJavascript s) \<subseteq> set s"
  by (induction s rule: stripJavascript.induct) (auto dest!: in_set_dropD)

lemma js_trim_subset: "set (js_trim s) \<subseteq> set s"
  by (auto simp: js_trim_def dest!: set_dropWhileD)

text \<open>A sanitised prompt has at most 50000 code units and no control character.\<close>

theorem sanitizePrompt_bounds:
  "length (sanitizePrompt p) \<le> 50000 \<and> (\<forall>c\<in>set (sanitizePrompt p). 31 < c \<and> c \<noteq> 127)"
proof -
  have "set (sanitizePrompt p) \<subseteq> set (stripControls p)"
    using stripScripts_subset stripJavascript_subset js_trim_subset
    by (fastforce simp: sanitizePrompt_def dest: in_set_takeD)
  then show ?thesis by (auto simp: sanitizePrompt_def stripControls_def)
qed

theorem sanitizePrompt_bounds_witness:
  "length (sanitizePrompt (units ''line one'' @ [10] @ units ''line two'')) \<le> 50000
   \<and> 10 \<notin> set (sanitizePrompt (units ''line one'' @ [10] @ units ''line two''))"
  using sanitizePrompt_bounds [of "units ''line one'' @ [10] @ units ''line two''"] by auto

text \<open>The removals of \<open>sanitizePrompt\<close> are single passes: removing an inner
  \<open>javascript:\<close> can join the text around it into a new \<open>javascript:\<close>, which the sanitised
  prompt then contains.\<close>

theorem sanitizePrompt_reintroduces_javascript:
  "sanitizePrompt (units ''javajavascript:script:alert(1)'') = units ''javascript:alert(1)''"
  by code_simp

end
