(* ===== verification/Row_Security.thy ===== *)
theory Row_Security
  imports Prelude
begin

text \<open>
  The row-level security of the engine's tables (database/policies.sql, lines 1-214) over
  the relations that database/schema-additions.sql creates. The script is a list of
  statements; \<open>psql -f\<close> (the \<open>db:policies\<close> script of package.json) runs them in order
  and, without \<open>ON_ERROR_STOP\<close>, reports a failing statement and continues, so that
  running the script is a fold of a statement step over a catalog, the errors collected
  on the side. A request of a Supabase client is a role (\<open>anon\<close>, \<open>authenticated\<close> with the
  user's id as \<open>auth.uid()\<close>, or \<open>service_role\<close>, which bypasses row-level security) and
  reaches a row when the role holds the table privilege and, on a table with row-level
  security, some permissive policy for the command and the role admits the row. The
  policy expressions are the four forms the script writes; \<open>LIKE\<close> is PostgreSQL's
  pattern match with \<open>%\<close>, \<open>_\<close> and the default escape \<open>\\\<close>.
\<close>

subsection \<open>SQL \<open>LIKE\<close>\<close>

text \<open>\<open>s LIKE p\<close>: \<open>%\<close> matches any sequence, \<open>_\<close> any one character, \<open>\\c\<close> the character
  \<open>c\<close>. A pattern ending with the escape is an error in PostgreSQL; no pattern of the
  script has one, and the model lets it match nothing.\<close>

fun sql_like :: "string \<Rightarrow> string \<Rightarrow> bool" where
  "sql_like [] [] = True"
| "sql_like (c # s) [] = False"
| "sql_like [] (d # p) = (d = CHR ''%'' \<and> sql_like [] p)"
| "sql_like (c # s) (d # p) =
     (if d = CHR ''%'' then sql_like (c # s) p \<or> sql_like s (d # p)
      else if d = CHR ''_'' then sql_like s p
      else if d = CHR 0x5C then (case p of [] \<Rightarrow> False | e # p' \<Rightarrow> c = e \<and> sql_like s p')
      else c = d \<and> sql_like s p)"

definition like_plain :: "string \<Rightarrow> bool" where
  "like_plain t = (CHR ''%'' \<notin> set t \<and> CHR ''_'' \<notin> set t \<and> CHR 0x5C \<notin> set t)"

subsection \<open>Roles, relations and policies\<close>

datatype pg_role = Anon | Authenticated | Service_role

datatype pg_cmd = Select | Insert | Update | Delete

datatype relkind = Table | View

text \<open>The expressions of the policies' \<open>USING\<close> and \<open>WITH CHECK\<close> clauses:
  \<^item> \<open>true\<close>;
  \<^item> \<open>auth.uid() = c\<close> for a column \<open>c\<close>;
  \<^item> \<open>EXISTS (SELECT 1 FROM public.users WHERE id = auth.uid() AND (email LIKE p OR email IN l))\<close>,
    the \<open>IN\<close> list empty when the clause has none;
  \<^item> \<open>EXISTS (SELECT 1 FROM public.meal_plans mp WHERE mp.id = meal_plan_id AND mp.user_id = auth.uid())\<close>.\<close>

datatype pol_expr = Pol_true | Uid_eq string | Admin_email string "string list" | Owns_meal_plan

record policy =
  pol_name :: string
  pol_rel :: string
  pol_cmd :: "pg_cmd option"
  pol_role :: pg_role
  pol_using :: pol_expr
  pol_check :: "pol_expr option"

text \<open>The statements of the script: \<open>ALTER TABLE t ENABLE ROW LEVEL SECURITY\<close>,
  \<open>CREATE POLICY n ON t FOR cmd TO role USING e WITH CHECK e'\<close> (\<open>None\<close> for \<open>FOR ALL\<close>),
  \<open>GRANT\<close> and \<open>REVOKE\<close> of table privileges, \<open>GRANT EXECUTE ON FUNCTION\<close> and
  \<open>COMMENT ON POLICY\<close>.\<close>

datatype stmt =
    Enable_rls string
  | Create_policy string string "pg_cmd option" pg_role pol_expr "pol_expr option"
  | Grant_rel "pg_cmd list" string pg_role
  | Revoke_rel "pg_cmd list" string pg_role
  | Grant_execute string pg_role
  | Comment_policy string string

datatype sql_error =
    Undefined_table string
  | Not_a_table string
  | Duplicate_policy string string
  | Undefined_policy string string
  | Undefined_function string
  | Check_on_select_or_delete string

record catalog =
  cat_rels :: "(string \<times> relkind) list"
  cat_rls :: "string list"
  cat_policies :: "policy list"
  cat_grants :: "(pg_role \<times> string \<times> pg_cmd) list"
  cat_funcs :: "string list"
  cat_exec :: "(pg_role \<times> string) list"

definition all_cmds :: "pg_cmd list" where
  "all_cmds = [Select, Insert, Update, Delete]"

definition all_roles :: "pg_role list" where
  "all_roles = [Anon, Authenticated, Service_role]"

subsection \<open>Running the script\<close>

definition has_policy :: "catalog \<Rightarrow> string \<Rightarrow> string \<Rightarrow> bool" where
  "has_policy c n t = list_ex (\<lambda>p. pol_name p = n \<and> pol_rel p = t) (cat_policies c)"

text \<open>One statement on the catalog: its error, or the catalog it leaves.\<close>

fun exec_stmt :: "catalog \<Rightarrow> stmt \<Rightarrow> sql_error + catalog" where
  "exec_stmt c (Enable_rls t) =
     (case map_of (cat_rels c) t of
        None \<Rightarrow> Inl (Undefined_table t)
      | Some View \<Rightarrow> Inl (Not_a_table t)
      | Some Table \<Rightarrow> Inr (c\<lparr>cat_rls := (if t \<in> set (cat_rls c) then cat_rls c else cat_rls c @ [t])\<rparr>))"
| "exec_stmt c (Create_policy n t cmd r e chk) =
     (case map_of (cat_rels c) t of
        None \<Rightarrow> Inl (Undefined_table t)
      | Some View \<Rightarrow> Inl (Not_a_table t)
      | Some Table \<Rightarrow>
          if has_policy c n t then Inl (Duplicate_policy n t)
          else if chk \<noteq> None \<and> (cmd = Some Select \<or> cmd = Some Delete) then Inl (Check_on_select_or_delete n)
          else Inr (c\<lparr>cat_policies := cat_policies c @
                 [\<lparr>pol_name = n, pol_rel = t, pol_cmd = cmd, pol_role = r, pol_using = e, pol_check = chk\<rparr>]\<rparr>))"
| "exec_stmt c (Grant_rel cmds t r) =
     (if t \<notin> fst ` set (cat_rels c) then Inl (Undefined_table t)
      else Inr (c\<lparr>cat_grants := cat_grants c @ filter (\<lambda>g. g \<notin> set (cat_grants c)) (map (\<lambda>m. (r, t, m)) cmds)\<rparr>))"
| "exec_stmt c (Revoke_rel cmds t r) =
     (if t \<notin> fst ` set (cat_rels c) then Inl (Undefined_table t)
      else Inr (c\<lparr>cat_grants := filter (\<lambda>(r', t', m). \<not> (r' = r \<and> t' = t \<and> m \<in> set cmds)) (cat_grants c)\<rparr>))"
| "exec_stmt c (Grant_execute f r) =
     (if f \<notin> set (cat_funcs c) then Inl (Undefined_function f)
      else Inr (c\<lparr>cat_exec := (if (r, f) \<in> set (cat_exec c) then cat_exec c else cat_exec c @ [(r, f)])\<rparr>))"
| "exec_stmt c (Comment_policy n t) =
     (if has_policy c n t then Inr c else Inl (Undefined_policy n t))"

text \<open>\<open>psql -f\<close> without \<open>ON_ERROR_STOP\<close>: a failing statement leaves the catalog as it was.\<close>

fun run_script :: "catalog \<Rightarrow> stmt list \<Rightarrow> catalog \<times> sql_error list" where
  "run_script c [] = (c, [])"
| "run_script c (s # ss) =
     (case exec_stmt c s of
        Inl e \<Rightarrow> (let (c', es) = run_script c ss in (c', e # es))
      | Inr c' \<Rightarrow> run_script c' ss)"

subsection \<open>The relations and the script\<close>

text \<open>The relations the script names: the five tables and two views of
  schema-additions.sql (lines 13-35, 51-79, 93-117, 124-146, 153-171, 288-301, 304-321), the
  main schema's \<open>users\<close> and \<open>meal_plans\<close>, and its three functions (lines 178-210, 213-263,
  270-276). Supabase's default privileges give \<open>anon\<close>, \<open>authenticated\<close> and
  \<open>service_role\<close> every privilege on what is created in \<open>public\<close>, and PostgreSQL lets
  \<open>PUBLIC\<close> execute a new function.\<close>

definition engine_tables :: "string list" where
  "engine_tables = [''usda_nutrition_data'', ''plan_generation_logs'', ''failed_plans'',
     ''mood_jam_assignments'', ''grocery_lists'']"

definition engine_views :: "string list" where
  "engine_views = [''plan_generation_analytics'', ''nutrition_accuracy_stats'']"

definition schema_catalog :: catalog where
  "schema_catalog =
     (let rels = map (\<lambda>t. (t, Table)) (engine_tables @ [''users'', ''meal_plans''])
                 @ map (\<lambda>v. (v, View)) engine_views;
          funcs = [''search_nutrition_data'', ''calculate_plan_nutrition'', ''update_grocery_list_timestamp''] in
      \<lparr>cat_rels = rels, cat_rls = [], cat_policies = [],
       cat_grants = concat (map (\<lambda>r. concat (map (\<lambda>(t, k). map (\<lambda>m. (r, t, m)) all_cmds) rels)) all_roles),
       cat_funcs = funcs, cat_exec = concat (map (\<lambda>r. map (\<lambda>f. (r, f)) funcs) all_roles)\<rparr>)"

definition admin_pattern :: string where
  "admin_pattern = ''%@mealwise.app''"

text \<open>policies.sql, statement by statement (lines 7-205; the three \<open>COMMENT ON POLICY\<close>
  statements of lines 207-214 check only that their policy exists).\<close>

definition policies_sql :: "stmt list" where
  "policies_sql =
     [Enable_rls ''usda_nutrition_data'', Enable_rls ''plan_generation_logs'', Enable_rls ''failed_plans'',
      Enable_rls ''mood_jam_assignments'', Enable_rls ''grocery_lists'',
      Create_policy ''Allow authenticated users to read nutrition data'' ''usda_nutrition_data''
        (Some Select) Authenticated Pol_true None,
      Create_policy ''Only service role can modify nutrition data'' ''usda_nutrition_data''
        None Service_role Pol_true (Some Pol_true),
      Create_policy ''Users can view own generation logs'' ''plan_generation_logs''
        (Some Select) Authenticated (Uid_eq ''user_id'') None,
      Create_policy ''Service role can manage generation logs'' ''plan_generation_logs''
        None Service_role Pol_true (Some Pol_true),
      Create_policy ''Admins can view all generation logs'' ''plan_generation_logs''
        (Some Select) Authenticated (Admin_email admin_pattern [''admin@example.com'']) None,
      Create_policy ''Only service role can manage failed plans'' ''failed_plans''
        None Service_role Pol_true (Some Pol_true),
      Create_policy ''Admins can view failed plans for debugging'' ''failed_plans''
        (Some Select) Authenticated (Admin_email admin_pattern []) None,
      Create_policy ''Users can view own mood jam assignments'' ''mood_jam_assignments''
        (Some Select) Authenticated Owns_meal_plan None,
      Create_policy ''Users can rate own mood jam assignments'' ''mood_jam_assignments''
        (Some Update) Authenticated Owns_meal_plan (Some Owns_meal_plan),
      Create_policy ''Service role can manage mood jam assignments'' ''mood_jam_assignments''
        None Service_role Pol_true (Some Pol_true),
      Create_policy ''Users can manage own grocery lists'' ''grocery_lists''
        None Authenticated (Uid_eq ''user_id'') (Some (Uid_eq ''user_id'')),
      Create_policy ''Service role can manage all grocery lists'' ''grocery_lists''
        None Service_role Pol_true (Some Pol_true),
      Create_policy ''Admins can access plan generation analytics'' ''plan_generation_analytics''
        (Some Select) Authenticated (Admin_email admin_pattern []) None,
      Create_policy ''Admins can access nutrition accuracy stats'' ''nutrition_accuracy_stats''
        (Some Select) Authenticated (Admin_email admin_pattern []) None,
      Grant_execute ''search_nutrition_data'' Authenticated, Grant_execute ''search_nutrition_data'' Service_role,
      Grant_execute ''calculate_plan_nutrition'' Authenticated, Grant_execute ''calculate_plan_nutrition'' Service_role,
      Revoke_rel all_cmds ''failed_plans'' Authenticated,
      Grant_rel [Select] ''failed_plans'' Service_role,
      Revoke_rel [Insert, Update, Delete] ''usda_nutrition_data'' Authenticated,
      Grant_rel all_cmds ''usda_nutrition_data'' Service_role,
      Comment_policy ''Allow authenticated users to read nutrition data'' ''usda_nutrition_data'',
      Comment_policy ''Users can manage own grocery lists'' ''grocery_lists'',
      Comment_policy ''Only service role can manage failed plans'' ''failed_plans'']"

definition deployed_catalog :: catalog where
  "deployed_catalog = fst (run_script schema_catalog policies_sql)"

definition deploy_errors :: "sql_error list" where
  "deploy_errors = snd (run_script schema_catalog policies_sql)"

subsection \<open>Access\<close>

text \<open>The rows the policies' subqueries read: \<open>public.users\<close> (id, email) and
  \<open>public.meal_plans\<close> (id, user_id). A row is its columns' values; an absent column
  is \<open>NULL\<close>.\<close>

record pg_db =
  db_users :: "(string \<times> string option) list"
  db_meal_plans :: "(string \<times> string) list"

type_synonym pg_row = "(string \<times> string) list"

text \<open>A policy expression on a row, for \<open>auth.uid()\<close> = \<open>uid\<close> (\<open>NULL\<close> for the anon
  and service keys); a comparison with \<open>NULL\<close> is not true.\<close>

fun pol_eval :: "pg_db \<Rightarrow> string option \<Rightarrow> pg_row \<Rightarrow> pol_expr \<Rightarrow> bool" where
  "pol_eval d uid r Pol_true = True"
| "pol_eval d uid r (Uid_eq col) = (uid \<noteq> None \<and> map_of r col = uid)"
| "pol_eval d uid r (Admin_email pat ins) =
     list_ex (\<lambda>(i, e). Some i = uid \<and> (case e of None \<Rightarrow> False | Some em \<Rightarrow> sql_like em pat \<or> em \<in> set ins))
       (db_users d)"
| "pol_eval d uid r Owns_meal_plan =
     list_ex (\<lambda>(m, u). Some m = map_of r ''meal_plan_id'' \<and> Some u = uid) (db_meal_plans d)"

definition bypass_rls :: "pg_role \<Rightarrow> bool" where
  "bypass_rls r = (r = Service_role)"

definition applies :: "pg_cmd \<Rightarrow> pg_role \<Rightarrow> string \<Rightarrow> policy \<Rightarrow> bool" where
  "applies m r t p = (pol_rel p = t \<and> (pol_cmd p = None \<or> pol_cmd p = Some m) \<and> pol_role p = r)"

text \<open>\<open>WITH CHECK\<close> of a policy; a policy without one checks new rows with \<open>USING\<close>.\<close>

definition check_expr :: "policy \<Rightarrow> pol_expr" where
  "check_expr p = (case pol_check p of None \<Rightarrow> pol_using p | Some e \<Rightarrow> e)"

definition privileged :: "catalog \<Rightarrow> pg_role \<Rightarrow> pg_cmd \<Rightarrow> string \<Rightarrow> bool" where
  "privileged c r m t = ((r, t, m) \<in> set (cat_grants c))"

definition rls_applies :: "catalog \<Rightarrow> pg_role \<Rightarrow> string \<Rightarrow> bool" where
  "rls_applies c r t = (t \<in> set (cat_rls c) \<and> \<not> bypass_rls r)"

text \<open>A \<open>SELECT\<close> (or the old row of an \<open>UPDATE\<close> or \<open>DELETE\<close>) reaches a row when some
  applicable policy's \<open>USING\<close> admits it; an \<open>INSERT\<close> or the new row of an \<open>UPDATE\<close>
  when some applicable policy's check admits it. Policies are permissive and combine by
  \<open>OR\<close>; with none, row-level security denies. A view has no row-level security of its
  own: it reads its tables with its owner's rights.\<close>

definition row_visible :: "catalog \<Rightarrow> pg_db \<Rightarrow> pg_role \<Rightarrow> string option \<Rightarrow> pg_cmd \<Rightarrow> string \<Rightarrow> pg_row \<Rightarrow> bool" where
  "row_visible c d r uid m t row =
     (privileged c r m t \<and>
      (\<not> rls_applies c r t \<or> list_ex (\<lambda>p. applies m r t p \<and> pol_eval d uid row (pol_using p)) (cat_policies c)))"

definition row_insertable :: "catalog \<Rightarrow> pg_db \<Rightarrow> pg_role \<Rightarrow> string option \<Rightarrow> string \<Rightarrow> pg_row \<Rightarrow> bool" where
  "row_insertable c d r uid t row =
     (privileged c r Insert t \<and>
      (\<not> rls_applies c r t \<or> list_ex (\<lambda>p. applies Insert r t p \<and> pol_eval d uid row (check_expr p)) (cat_policies c)))"

definition row_updatable :: "catalog \<Rightarrow> pg_db \<Rightarrow> pg_role \<Rightarrow> string option \<Rightarrow> string \<Rightarrow> pg_row \<Rightarrow> pg_row \<Rightarrow> bool" where
  "row_updatable c d r uid t old new =
     (row_visible c d r uid Update t old \<and>
      (\<not> rls_applies c r t \<or> list_ex (\<lambda>p. applies Update r t p \<and> pol_eval d uid new (check_expr p)) (cat_policies c)))"

text \<open>The clients of the sources: the edge functions' \<open>createClient\<close> with the anon key
  and the caller's \<open>Authorization\<close> header acts as \<open>authenticated\<close> with the caller's id;
  the scripts' service-role key acts as \<open>service_role\<close>.\<close>

record pg_client =
  cl_role :: pg_role
  cl_uid :: "string option"

definition user_client :: "string \<Rightarrow> pg_client" where
  "user_client u = \<lparr>cl_role = Authenticated, cl_uid = Some u\<rparr>"

definition anon_client :: pg_client where
  "anon_client = \<lparr>cl_role = Anon, cl_uid = None\<rparr>"

definition service_client :: pg_client where
  "service_client = \<lparr>cl_role = Service_role, cl_uid = None\<rparr>"

definition client_inserts :: "pg_db \<Rightarrow> pg_client \<Rightarrow> string \<Rightarrow> pg_row \<Rightarrow> bool" where
  "client_inserts d cl t row = row_insertable deployed_catalog d (cl_role cl) (cl_uid cl) t row"

definition client_reads :: "pg_db \<Rightarrow> pg_client \<Rightarrow> string \<Rightarrow> pg_row \<Rightarrow> bool" where
  "client_reads d cl t row = row_visible deployed_catalog d (cl_role cl) (cl_uid cl) Select t row"

subsection \<open>Lemmas\<close>

lemma sql_like_plain: "like_plain t \<Longrightarrow> sql_like s t = (s = t)"
proof (induction t arbitrary: s)
  case Nil
  then show ?case by (cases s) auto
next
  case (Cons d t)
  then show ?case by (cases s) (auto simp: like_plain_def)
qed

text \<open>A pattern \<open>%t\<close> with \<open>t\<close> free of wildcards and escapes matches exactly the strings
  ending with \<open>t\<close>.\<close>

lemma sql_like_percent: "like_plain t \<Longrightarrow> sql_like s (CHR ''%'' # t) = suffix t s"
proof (induction s)
  case Nil
  then show ?case by (auto simp: sql_like_plain)
next
  case (Cons c s)
  then show ?case by (auto simp: sql_like_plain suffix_Cons)
qed

lemma sql_like_admin_pattern: "sql_like em admin_pattern = suffix ''@mealwise.app'' em"
  unfolding admin_pattern_def by (rule sql_like_percent) (simp add: like_plain_def)

lemma list_ex_applies:
  "list_ex (\<lambda>p. applies m r t p \<and> P p) ps = list_ex P (filter (applies m r t) ps)"
  by (induct ps) auto

text \<open>The catalog after the script, as far as the statements below read it.\<close>

lemma deployed_rls: "cat_rls deployed_catalog = engine_tables"
  by code_simp

lemma deployed_select_logs:
  "filter (applies Select Authenticated ''plan_generation_logs'') (cat_policies deployed_catalog) =
   [\<lparr>pol_name = ''Users can view own generation logs'', pol_rel = ''plan_generation_logs'',
      pol_cmd = Some Select, pol_role = Authenticated, pol_using = Uid_eq ''user_id'', pol_check = None\<rparr>,
    \<lparr>pol_name = ''Admins can view all generation logs'', pol_rel = ''plan_generation_logs'',
      pol_cmd = Some Select, pol_role = Authenticated,
      pol_using = Admin_email admin_pattern [''admin@example.com''], pol_check = None\<rparr>]"
  by code_simp

lemma deployed_select_jam:
  "filter (applies Select Authenticated ''mood_jam_assignments'') (cat_policies deployed_catalog) =
   [\<lparr>pol_name = ''Users can view own mood jam assignments'', pol_rel = ''mood_jam_assignments'',
      pol_cmd = Some Select, pol_role = Authenticated, pol_using = Owns_meal_plan, pol_check = None\<rparr>]"
  "privileged deployed_catalog Authenticated Select ''mood_jam_assignments''"
  by code_simp+

lemma deployed_no_user_log_insert:
  "filter (applies Insert Authenticated ''plan_generation_logs'') (cat_policies deployed_catalog) = []"
  by code_simp

lemma deployed_no_user_jam_insert:
  "filter (applies Insert Authenticated ''mood_jam_assignments'') (cat_policies deployed_catalog) = []"
  by code_simp

lemma deployed_failed_plans_policy:
  "has_policy deployed_catalog ''Admins can view failed plans for debugging'' ''failed_plans''"
  by code_simp

lemma deployed_errors:
  "deploy_errors = [Not_a_table ''plan_generation_analytics'', Not_a_table ''nutrition_accuracy_stats'']"
  by code_simp

lemma deployed_grants:
  "privileged deployed_catalog Authenticated Select ''plan_generation_logs''"
  "\<not> privileged deployed_catalog Authenticated Select ''failed_plans''"
  "\<not> privileged deployed_catalog Authenticated Insert ''failed_plans''"
  by code_simp+

lemma deployed_view_grants:
  "privileged deployed_catalog r Select ''plan_generation_analytics''"
  "privileged deployed_catalog r Select ''nutrition_accuracy_stats''"
  by (induct r; code_simp)+

lemma deployed_usda_select:
  "filter (applies Select Authenticated ''usda_nutrition_data'') (cat_policies deployed_catalog) =
   [\<lparr>pol_name = ''Allow authenticated users to read nutrition data'', pol_rel = ''usda_nutrition_data'',
      pol_cmd = Some Select, pol_role = Authenticated, pol_using = Pol_true, pol_check = None\<rparr>]"
  "filter (applies Select Anon ''usda_nutrition_data'') (cat_policies deployed_catalog) = []"
  "privileged deployed_catalog Authenticated Select ''usda_nutrition_data''"
  by code_simp+

lemmas deployed_facts = deployed_rls deployed_select_logs deployed_failed_plans_policy deployed_usda_select
  deployed_no_user_log_insert deployed_grants
  deployed_view_grants

lemmas access_defs = client_reads_def client_inserts_def row_visible_def row_insertable_def
  rls_applies_def user_client_def anon_client_def service_client_def

text \<open>The USDA table: every signed-in user reads every row; the anonymous role none.\<close>

lemma user_reads_usda: "client_reads d (user_client u) ''usda_nutrition_data'' row"
  by (simp add: access_defs deployed_facts list_ex_applies)

lemma anon_reads_no_usda: "\<not> client_reads d anon_client ''usda_nutrition_data'' row"
  by (simp add: access_defs deployed_facts list_ex_applies engine_tables_def bypass_rls_def)

lemma user_client_no_failed_plan_insert: "\<not> client_inserts d (user_client u) ''failed_plans'' row"
  by (simp add: access_defs deployed_facts)

lemma user_client_no_log_insert: "\<not> client_inserts d (user_client u) ''plan_generation_logs'' row"
  by (simp add: access_defs deployed_facts list_ex_applies engine_tables_def bypass_rls_def)

lemma deployed_no_anon_policy: "filter (\<lambda>p. pol_role p = Anon) (cat_policies deployed_catalog) = []"
  by code_simp

lemma anon_no_policy: "\<not> list_ex (\<lambda>p. applies m Anon t p \<and> P p) (cat_policies deployed_catalog)"
  using deployed_no_anon_policy by (auto simp: list_ex_iff filter_empty_conv applies_def)

lemma user_client_no_jam_insert: "\<not> client_inserts d (user_client u) ''mood_jam_assignments'' row"
  by (simp add: access_defs deployed_rls deployed_no_user_jam_insert list_ex_applies engine_tables_def bypass_rls_def)

subsection \<open>Properties of the deployed policies\<close>

text \<open>C19: a signed-in user reads a row of \<open>plan_generation_logs\<close> exactly when it is the
  user's own or the user's email ends with \<open>@mealwise.app\<close> or is
  \<open>admin@example.com\<close>.\<close>

theorem user_reads_generation_log_iff:
  "client_reads d (user_client u) ''plan_generation_logs'' row \<longleftrightarrow>
     map_of row ''user_id'' = Some u \<or>
     list_ex (\<lambda>(i, e). i = u \<and> (case e of None \<Rightarrow> False
        | Some em \<Rightarrow> suffix ''@mealwise.app'' em \<or> em = ''admin@example.com'')) (db_users d)"
  by (simp add: access_defs deployed_facts list_ex_applies sql_like_admin_pattern engine_tables_def
      bypass_rls_def cong: option.case_cong)

text \<open>C7: a signed-in user reads the mood jam rows of the meal plans the user owns, and no
  policy lets a signed-in user insert one: the mood jam agent, whose client acts as the
  caller, cannot save its assignment.\<close>

theorem user_client_mood_jam_rights:
  "\<not> client_inserts d (user_client u) ''mood_jam_assignments'' row \<and>
   (client_reads d (user_client u) ''mood_jam_assignments'' row \<longleftrightarrow>
      list_ex (\<lambda>(m, owner). Some m = map_of row ''meal_plan_id'' \<and> owner = u) (db_meal_plans d))"
  by (simp add: access_defs deployed_rls deployed_select_jam deployed_no_user_jam_insert list_ex_applies
      engine_tables_def bypass_rls_def cong: prod.case_cong)

text \<open>C16: the policy "Admins can view failed plans for debugging" is created, but the
  \<open>REVOKE ALL ON failed_plans FROM authenticated\<close> of line 200 leaves no signed-in user,
  admin or not, able to read a row of \<open>failed_plans\<close>.\<close>

theorem failed_plans_admin_policy_unreachable:
  "has_policy deployed_catalog ''Admins can view failed plans for debugging'' ''failed_plans'' \<and>
   \<not> client_reads d (user_client u) ''failed_plans'' row"
  by (simp add: access_defs deployed_facts)

text \<open>C18: the two \<open>CREATE POLICY\<close> statements on the analytics views are the script's
  only failures (a policy needs a table), and every client, the anonymous one included,
  reads both views.\<close>

theorem analytics_view_policies_fail:
  "deploy_errors = [Not_a_table ''plan_generation_analytics'', Not_a_table ''nutrition_accuracy_stats''] \<and>
   client_reads d cl ''plan_generation_analytics'' row \<and> client_reads d cl ''nutrition_accuracy_stats'' row"
  by (simp add: access_defs deployed_errors deployed_view_grants deployed_rls engine_tables_def)

text \<open>C20: the anonymous client (the anon key without a user's JWT) reads, inserts and
  updates no row of the five tables the engine adds, whatever the database holds: each has
  row-level security enabled and every policy of policies.sql is for \<open>authenticated\<close>
  or \<open>service_role\<close>, so the table privileges Supabase grants \<open>anon\<close> by default
  reach no row.\<close>

theorem anon_client_no_engine_rows:
  assumes "t \<in> set engine_tables"
  shows "\<not> client_reads d anon_client t row \<and> \<not> client_inserts d anon_client t row
    \<and> \<not> row_updatable deployed_catalog d Anon None t old new"
  using assms by (simp add: access_defs row_updatable_def deployed_rls anon_no_policy bypass_rls_def)

theorem anon_client_no_engine_rows_witness:
  "\<not> client_reads \<lparr>db_users = [(''u1'', None)], db_meal_plans = []\<rparr> anon_client ''grocery_lists'' [(''user_id'', ''u1'')]
   \<and> \<not> client_inserts \<lparr>db_users = [(''u1'', None)], db_meal_plans = []\<rparr> anon_client ''grocery_lists'' [(''user_id'', ''u1'')]
   \<and> \<not> row_updatable deployed_catalog \<lparr>db_users = [(''u1'', None)], db_meal_plans = []\<rparr> Anon None ''grocery_lists''
        [(''user_id'', ''u1'')] [(''user_id'', ''u2'')]"
  using anon_client_no_engine_rows [of "''grocery_lists''"] by (simp add: engine_tables_def)

end
