(* ===== verification/Mood_Jam.thy ===== *)
theory Mood_Jam
  imports Meal_Plan Row_Security "HOL-Library.Code_Target_Nat"
begin

text \<open>
  The Mood Jam agent (agents/mood-jam.ts): \<open>assignMoodJam\<close> asks Claude for the mood of a
  plan, parses the reply, authenticates with Spotify, asks Spotify for recommendations and
  records the assignment in \<open>mood_jam_assignments\<close>. The three HTTP calls are values of the
  model: the Claude reply, the token reply, and the recommendations reply as a function of
  the access token and the query sent. \<open>JSON.parse\<close> is a parameter giving a JSON value or
  the message of its \<open>SyntaxError\<close>. A thrown \<open>TypeError\<close> is the engine's message.
\<close>

subsection \<open>JSON values as JavaScript sees them\<close>

text \<open>The value of \<open>JSON.parse\<close>. A number is kept as its JavaScript text
  (\<open>String(n)\<close>), which is all the agent does with numbers besides testing them.\<close>

datatype json = JNull | JBool bool | JNum string | JStr string | JArr "json list"
  | JObj "(string \<times> json) list"

text \<open>Truthiness of a value that may be \<open>undefined\<close> (\<open>None\<close>); \<open>JSON.parse\<close> never gives
  \<open>NaN\<close>, and both zeros print as \<open>0\<close>.\<close>

fun json_truthy :: "json \<Rightarrow> bool" where
  "json_truthy JNull = False"
| "json_truthy (JBool b) = b"
| "json_truthy (JNum t) = (t \<noteq> ''0'')"
| "json_truthy (JStr s) = (s \<noteq> [])"
| "json_truthy (JArr xs) = True"
| "json_truthy (JObj kvs) = True"

definition js_truthy :: "json option \<Rightarrow> bool" where
  "js_truthy v = (case v of None \<Rightarrow> False | Some x \<Rightarrow> json_truthy x)"

text \<open>\<open>v || d\<close>.\<close>

definition json_or :: "json option \<Rightarrow> json \<Rightarrow> json" where
  "json_or v d = (case v of Some x \<Rightarrow> if json_truthy x then x else d | None \<Rightarrow> d)"

text \<open>\<open>String(v)\<close> for a parsed value (an array joins its elements with commas, \<open>null\<close>
  elements giving the empty string); it is also the property key of \<open>obj[v]\<close> and the text
  of \<open>v.toString()\<close> and of \<open>`${v}`\<close>.\<close>

fun js_to_string :: "json \<Rightarrow> string" where
  "js_to_string JNull = ''null''"
| "js_to_string (JBool b) = (if b then ''true'' else ''false'')"
| "js_to_string (JNum t) = t"
| "js_to_string (JStr s) = s"
| "js_to_string (JArr xs) = join_str '','' (map (\<lambda>x. if x = JNull then [] else js_to_string x) xs)"
| "js_to_string (JObj kvs) = ''[object Object]''"

text \<open>Reading a property that no built-in prototype has (\<open>mood\<close>, \<open>energy\<close>, ...): an
  object's last field of that name, \<open>undefined\<close> on any other non-null value, and a
  \<open>TypeError\<close> on \<open>null\<close>.\<close>

definition js_quote :: string where
  "js_quote = [char_of (39 :: nat)]"

definition read_error :: "string \<Rightarrow> string \<Rightarrow> string" where
  "read_error base k = ''Cannot read properties of '' @ base @ '' (reading '' @ js_quote @ k @ js_quote @ '')''"

definition get_prop :: "json \<Rightarrow> string \<Rightarrow> string + json option" where
  "get_prop v k = (case v of
     JNull \<Rightarrow> Inl (read_error ''null'' k)
   | JObj kvs \<Rightarrow> Inr (map_of (rev kvs) k)
   | _ \<Rightarrow> Inr None)"

text \<open>A dictionary written as an object literal: an own key, a member of
  \<open>Object.prototype\<close> (a function or the prototype itself), or absent.\<close>

definition js_object_proto_keys :: "string list" where
  "js_object_proto_keys = [''constructor'', ''__defineGetter__'', ''__defineSetter__'', ''hasOwnProperty'',
     ''__lookupGetter__'', ''__lookupSetter__'', ''isPrototypeOf'', ''propertyIsEnumerable'',
     ''toString'', ''valueOf'', ''__proto__'', ''toLocaleString'']"

datatype 'a js_lookup = Own 'a | Inherited | Absent

definition dict_lookup :: "(string \<times> 'a) list \<Rightarrow> string \<Rightarrow> 'a js_lookup" where
  "dict_lookup d k = (case map_of d k of
     Some v \<Rightarrow> Own v
   | None \<Rightarrow> if k \<in> set js_object_proto_keys then Inherited else Absent)"

subsection \<open>Parsing the mood analysis\<close>

text \<open>\<open>response.match\<close> with the pattern "a brace, any characters, a brace": the
  leftmost \<open>{\<close> that has a \<open>}\<close> after it, up to the last \<open>}\<close> (the star is greedy).\<close>

fun jsonMatch :: "string \<Rightarrow> string option" where
  "jsonMatch [] = None"
| "jsonMatch (c # cs) =
     (if c = CHR ''{'' \<and> CHR ''}'' \<in> set cs then Some (c # rev (dropWhile (\<lambda>x. x \<noteq> CHR ''}'') (rev cs)))
      else jsonMatch cs)"

record mood_analysis =
  ma_mood :: json
  ma_confidence :: json
  ma_explanation :: json
  ma_genres :: json
  ma_audio_features :: json

definition parse_error :: "string \<Rightarrow> string" where
  "parse_error m = ''Failed to parse mood analysis: '' @ m"

text \<open>\<open>parseMoodAnalysisResponse\<close> (lines 378-414) of \<open>data.content[0].text\<close>, which may be
  \<open>undefined\<close> or not a string. The guard tests \<open>mood\<close>, \<open>confidence\<close> and
  \<open>audio_features\<close> for truthiness, in that order.\<close>

definition parseMoodAnalysisResponse :: "(string \<Rightarrow> string + json) \<Rightarrow> json option \<Rightarrow> string + mood_analysis" where
  "parseMoodAnalysisResponse jparse response = (case response of
     None \<Rightarrow> Inl (parse_error (read_error ''undefined'' ''match''))
   | Some JNull \<Rightarrow> Inl (parse_error (read_error ''null'' ''match''))
   | Some (JStr r) \<Rightarrow> (case jsonMatch r of
       None \<Rightarrow> Inl (parse_error ''No JSON found in response'')
     | Some m \<Rightarrow> (case jparse m of
         Inl e \<Rightarrow> Inl (parse_error e)
       | Inr parsed \<Rightarrow> (case (get_prop parsed ''mood'', get_prop parsed ''confidence'',
                               get_prop parsed ''explanation'', get_prop parsed ''genres'',
                               get_prop parsed ''audio_features'') of
           (Inr mood, Inr conf, Inr expl, Inr genres, Inr audio) \<Rightarrow>
             if \<not> js_truthy mood \<or> \<not> js_truthy conf \<or> \<not> js_truthy audio
             then Inl (parse_error ''Missing required fields in mood analysis'')
             else Inr \<lparr>ma_mood = the mood, ma_confidence = the conf,
                       ma_explanation = json_or expl (JStr []), ma_genres = json_or genres (JArr []),
                       ma_audio_features = the audio\<rparr>
         | (Inl e, _) \<Rightarrow> Inl (parse_error e)
         | (_, Inl e, _) \<Rightarrow> Inl (parse_error e)
         | (_, _, Inl e, _) \<Rightarrow> Inl (parse_error e)
         | (_, _, _, Inl e, _) \<Rightarrow> Inl (parse_error e)
         | (_, _, _, _, Inl e) \<Rightarrow> Inl (parse_error e))))
   | Some v \<Rightarrow> Inl (parse_error ''response.match is not a function''))"

subsection \<open>The Claude call\<close>

text \<open>What the Claude \<open>fetch\<close> gives: a thrown error's message, a status that is not ok,
  or the body: the \<open>text\<close> of each element of \<open>content\<close> (\<open>None\<close> if absent) and the
  token counts of \<open>usage\<close> (\<open>None\<close> if absent).\<close>

datatype claude_call = Call_threw string | Call_status nat
  | Call_ok "json option list" "rat option" "rat option"

text \<open>\<open>calculateCost\<close> (lines 464-468): dollars per 1000 tokens, in cents, rounded.\<close>

definition calculateCost_mood :: "rat \<Rightarrow> rat \<Rightarrow> rat" where
  "calculateCost_mood inputTokens outputTokens =
     of_int (js_round (((inputTokens / 1000) * (3 / 1000) + (outputTokens / 1000) * (15 / 1000)) * 100))"

text \<open>\<open>input_tokens + output_tokens || 0\<close>: \<open>NaN\<close> when a count is missing.\<close>

definition mood_tokens :: "rat option \<Rightarrow> rat option \<Rightarrow> rat" where
  "mood_tokens i out = (case (i, out) of (Some a, Some b) \<Rightarrow> a + b | _ \<Rightarrow> 0)"

record mood_usage =
  mu_tokens :: "rat option"
  mu_cost :: "rat option"

definition no_mood_usage :: mood_usage where
  "no_mood_usage = \<lparr>mu_tokens = None, mu_cost = None\<rparr>"

text \<open>\<open>analyzeMealPlanMood\<close> (lines 132-203): the error and usage, or the analysis and
  usage. The prompt is not modelled: the reply is a value of the model.\<close>

definition analyzeMealPlanMood ::
  "(string \<Rightarrow> string + json) \<Rightarrow> claude_call \<Rightarrow> (string \<times> mood_usage) + (mood_analysis \<times> mood_usage)" where
  "analyzeMealPlanMood jparse call = (case call of
     Call_threw m \<Rightarrow> Inl (''Mood analysis failed: '' @ m, no_mood_usage)
   | Call_status st \<Rightarrow> Inl (''Mood analysis failed: Claude API error: '' @ nat_text st, no_mood_usage)
   | Call_ok content i out \<Rightarrow> (case content of
       [] \<Rightarrow> Inl (''Mood analysis failed: '' @ read_error ''undefined'' ''text'', no_mood_usage)
     | t # _ \<Rightarrow>
         (let u = \<lparr>mu_tokens = Some (mood_tokens i out),
                   mu_cost = Some (calculateCost_mood (js_or i 0) (js_or out 0))\<rparr> in
          case parseMoodAnalysisResponse jparse t of
            Inl e \<Rightarrow> Inl (e, u)
          | Inr a \<Rightarrow> Inr (a, u))))"

subsection \<open>Spotify\<close>

text \<open>What the token request gives: a thrown error, a status that is not ok, or the
  body's \<open>access_token\<close>. \<open>getSpotifyAccessToken\<close> (lines 208-233) returns \<open>null\<close> on
  the first two.\<close>

datatype auth_call = Auth_threw | Auth_status nat | Auth_ok "json option"

definition getSpotifyAccessToken :: "auth_call \<Rightarrow> json option" where
  "getSpotifyAccessToken a = (case a of Auth_ok t \<Rightarrow> t | _ \<Rightarrow> None)"

text \<open>\<open>mapMoodToGenres\<close> (lines 416-427): \<open>None\<close> is an inherited member of
  \<open>Object.prototype\<close>, which is truthy but no array.\<close>

definition moodGenreMap :: "(string \<times> string list) list" where
  "moodGenreMap =
     [(''focus'', [''ambient'', ''electronic'', ''minimal-techno'', ''study'', ''chill'']),
      (''comfort'', [''folk'', ''acoustic'', ''indie-folk'', ''singer-songwriter'', ''country'']),
      (''energy'', [''pop'', ''rock'', ''hip-hop'', ''electronic'', ''dance'']),
      (''family'', [''pop'', ''folk'', ''classic-rock'', ''soul'', ''r-n-b'']),
      (''adventure'', [''world-music'', ''latin'', ''afrobeat'', ''reggae'', ''jazz'']),
      (''zen'', [''ambient'', ''new-age'', ''meditation'', ''acoustic'', ''classical''])]"

definition mapMoodToGenres :: "string \<Rightarrow> string list option" where
  "mapMoodToGenres mood = (case dict_lookup moodGenreMap mood of
     Own gs \<Rightarrow> Some gs | Inherited \<Rightarrow> None | Absent \<Rightarrow> Some [''pop'', ''acoustic'', ''chill''])"

text \<open>\<open>generatePlaylistName\<close> (lines 429-441); \<open>r\<close> is \<open>Math.random()\<close>. An inherited
  member has no element at any index (\<open>undefined\<close>, \<open>None\<close>).\<close>

definition playlistNames :: "(string \<times> string list) list" where
  "playlistNames =
     [(''focus'', [''Mindful Meals'', ''Kitchen Focus'', ''Prep Zone'', ''Cooking Flow'']),
      (''comfort'', [''Cozy Kitchen'', ''Comfort Cooking'', ''Home & Hearth'', ''Soul Food Vibes'']),
      (''energy'', [''Kitchen Energy'', ''Cooking Beats'', ''Meal Prep Power'', ''Kitchen Dance'']),
      (''family'', [''Family Feast'', ''Dinner Together'', ''Kitchen Gathering'', ''Shared Meals'']),
      (''adventure'', [''Culinary Journey'', ''Global Kitchen'', ''Flavor Adventure'', ''World Cuisine'']),
      (''zen'', [''Peaceful Prep'', ''Mindful Kitchen'', ''Zen Cooking'', ''Calm Cuisine''])]"

definition pick_random :: "string list \<Rightarrow> rat \<Rightarrow> string option" where
  "pick_random names r =
     (let i = \<lfloor>r * of_nat (length names)\<rfloor> in
      if 0 \<le> i \<and> i < int (length names) then Some (names ! nat i) else None)"

definition generatePlaylistName :: "string \<Rightarrow> rat \<Rightarrow> string option" where
  "generatePlaylistName mood r = (case dict_lookup playlistNames mood of
     Own names \<Rightarrow> pick_random names r
   | Inherited \<Rightarrow> None
   | Absent \<Rightarrow> pick_random [''Your Meal Soundtrack''] r)"

text \<open>\<open>audioFeatures.k.toString()\<close> for the four features in the order of the query.\<close>

definition feature_text :: "json \<Rightarrow> string \<Rightarrow> string + string" where
  "feature_text audio k = (case get_prop audio k of
     Inl e \<Rightarrow> Inl e
   | Inr None \<Rightarrow> Inl (read_error ''undefined'' ''toString'')
   | Inr (Some JNull) \<Rightarrow> Inl (read_error ''null'' ''toString'')
   | Inr (Some v) \<Rightarrow> Inr (js_to_string v))"

fun feature_texts :: "json \<Rightarrow> string list \<Rightarrow> string + string list" where
  "feature_texts audio [] = Inr []"
| "feature_texts audio (k # ks) = (case feature_text audio k of
     Inl e \<Rightarrow> Inl e
   | Inr t \<Rightarrow> (case feature_texts audio ks of Inl e \<Rightarrow> Inl e | Inr ts \<Rightarrow> Inr (t # ts)))"

definition audio_keys :: "string list" where
  "audio_keys = [''energy'', ''valence'', ''acousticness'', ''danceability'']"

text \<open>What the recommendations request gives: a thrown error, a status that is not ok, or
  the body's \<open>tracks\<close>.\<close>

datatype rec_call = Rec_threw string | Rec_status nat | Rec_ok "json option"

record playlist =
  pl_id :: string
  pl_url :: string
  pl_name :: "string option"

text \<open>\<open>getSpotifyPlaylist\<close> (lines 238-296): the query of \<open>URLSearchParams\<close>, the call
  (a function of the token and the query), the track check and the virtual playlist;
  \<open>now\<close> is \<open>Date.now()\<close>. Every throw becomes the error of the \<open>catch\<close>.\<close>

definition spotifyQuery :: "string list \<Rightarrow> string list \<Rightarrow> (string \<times> string) list" where
  "spotifyQuery genres feats =
     [(''seed_genres'', join_str '','' (take 5 genres))]
     @ zip [''target_energy'', ''target_valence'', ''target_acousticness'', ''target_danceability''] feats
     @ [(''limit'', ''20'')]"

definition getSpotifyPlaylist ::
  "(string \<Rightarrow> (string \<times> string) list \<Rightarrow> rec_call) \<Rightarrow> string \<Rightarrow> json \<Rightarrow> json \<Rightarrow> rat \<Rightarrow> nat \<Rightarrow> string + playlist" where
  "getSpotifyPlaylist recs token mood audio r now =
     (let key = js_to_string mood;
          fail = (\<lambda>m. Inl (''Spotify playlist creation failed: '' @ m)) in
      case mapMoodToGenres key of
        None \<Rightarrow> fail ''genreSeeds.slice is not a function''
      | Some genres \<Rightarrow> (case feature_texts audio audio_keys of
          Inl e \<Rightarrow> fail e
        | Inr feats \<Rightarrow> (case recs token (spotifyQuery genres feats) of
            Rec_threw m \<Rightarrow> fail m
          | Rec_status st \<Rightarrow> fail (''Spotify recommendations failed: '' @ nat_text st)
          | Rec_ok tracks \<Rightarrow>
              if \<not> js_truthy tracks \<or> tracks = Some (JArr []) then fail ''No tracks found for mood''
              else Inr \<lparr>pl_id = ''mealwise_'' @ key @ ''_'' @ nat_text now,
                        pl_url = ''https://open.spotify.com/playlist/mealwise_'' @ key,
                        pl_name = generatePlaylistName key r\<rparr>)))"

subsection \<open>The assignment and its table\<close>

record mood_jam =
  jam_id :: string
  jam_meal_plan_id :: string
  jam_detected_mood :: json
  jam_mood_confidence :: json
  jam_mood_explanation :: json
  jam_spotify_playlist_id :: string
  jam_spotify_playlist_url :: string
  jam_playlist_name :: "string option"
  jam_genres :: json
  jam_audio_features :: json
  jam_play_count :: nat

text \<open>A row of \<open>mood_jam_assignments\<close> as \<open>saveMoodJamAssignment\<close> inserts it (lines 301-324):
  there is no column for the explanation.\<close>

record mood_jam_row =
  row_id :: string
  row_meal_plan_id :: string
  row_detected_mood :: json
  row_mood_confidence :: json
  row_spotify_playlist_id :: string
  row_spotify_playlist_url :: string
  row_playlist_name :: "string option"
  row_genres :: json
  row_audio_features :: json
  row_play_count :: nat

text \<open>The tables the insert sees: the users and the \<open>meal_plans\<close> rows with their owners
  that the row-security policies read, and the rows of \<open>mood_jam_assignments\<close>
  (database/schema-additions.sql lines 124-145).\<close>

record mood_db =
  md_db :: pg_db
  md_jams :: "mood_jam_row list"

text \<open>The text columns of an inserted row, as the policies of policies.sql read them.\<close>

definition jamPgRow :: "mood_jam_row \<Rightarrow> pg_row" where
  "jamPgRow r = [(''id'', row_id r), (''meal_plan_id'', row_meal_plan_id r),
     (''spotify_playlist_id'', row_spotify_playlist_id r), (''spotify_playlist_url'', row_spotify_playlist_url r)]"

definition jamRow :: "mood_jam \<Rightarrow> mood_jam_row" where
  "jamRow j = \<lparr>row_id = jam_id j, row_meal_plan_id = jam_meal_plan_id j,
     row_detected_mood = jam_detected_mood j, row_mood_confidence = jam_mood_confidence j,
     row_spotify_playlist_id = jam_spotify_playlist_id j, row_spotify_playlist_url = jam_spotify_playlist_url j,
     row_playlist_name = jam_playlist_name j, row_genres = jam_genres j,
     row_audio_features = jam_audio_features j, row_play_count = jam_play_count j\<rparr>"

text \<open>\<open>saveMoodJamAssignment\<close> (lines 301-324) with the agent's client \<open>cl\<close>: the insert
  is refused when the row-security policies give the client no INSERT of the row, when
  \<open>meal_plan_id\<close> references no plan (foreign key) or when the id exists (primary key);
  the method logs the error and returns.\<close>

definition saveMoodJamAssignment :: "pg_client \<Rightarrow> mood_jam \<Rightarrow> mood_db \<Rightarrow> mood_db" where
  "saveMoodJamAssignment cl j db =
     (if client_inserts (md_db db) cl ''mood_jam_assignments'' (jamPgRow (jamRow j))
         \<and> jam_meal_plan_id j \<in> set (map fst (db_meal_plans (md_db db)))
         \<and> jam_id j \<notin> set (map row_id (md_jams db))
      then db\<lparr>md_jams := md_jams db @ [jamRow j]\<rparr> else db)"

record mood_jam_outcome =
  mo_success :: bool
  mo_mood_jam :: "mood_jam option"
  mo_error :: "string option"
  mo_usage :: usage

text \<open>The inputs of one assignment: the three replies, \<open>JSON.parse\<close>, \<open>Math.random()\<close>,
  \<open>Date.now()\<close>, \<open>uuidv4()\<close>, and the Supabase client the agent was constructed with
  (the wow layer passes its own, wow-layer.ts line 39).\<close>

record mood_env =
  me_call :: claude_call
  me_parse :: "string \<Rightarrow> string + json"
  me_auth :: auth_call
  me_recs :: "string \<Rightarrow> (string \<times> string) list \<Rightarrow> rec_call"
  me_random :: rat
  me_now :: nat
  me_uuid :: string
  me_client :: pg_client

definition moodUsage :: "mood_usage \<Rightarrow> usage" where
  "moodUsage mu = \<lparr>claude_requests = Some 1, tokens_used = Some (js_or (mu_tokens mu) 0),
     cost_cents = Some (js_or (mu_cost mu) 0)\<rparr>"

definition moodFailure :: "string \<Rightarrow> mood_usage \<Rightarrow> mood_jam_outcome" where
  "moodFailure e mu = \<lparr>mo_success = False, mo_mood_jam = None, mo_error = Some e, mo_usage = moodUsage mu\<rparr>"

text \<open>\<open>assignMoodJam\<close> (lines 35-127). Its outer \<open>catch\<close> is unreachable: every call it
  makes catches its own errors.\<close>

definition assignMoodJam :: "mood_env \<Rightarrow> meal_plan \<Rightarrow> mood_db \<Rightarrow> mood_jam_outcome \<times> mood_db" where
  "assignMoodJam env plan db = (case analyzeMealPlanMood (me_parse env) (me_call env) of
     Inl (e, mu) \<Rightarrow> (moodFailure e mu, db)
   | Inr (a, mu) \<Rightarrow>
       (let token = getSpotifyAccessToken (me_auth env) in
        if \<not> js_truthy token then (moodFailure ''Failed to authenticate with Spotify'' mu, db)
        else (case getSpotifyPlaylist (me_recs env) (js_to_string (the token)) (ma_mood a)
                     (ma_audio_features a) (me_random env) (me_now env) of
          Inl e \<Rightarrow> (moodFailure e mu, db)
        | Inr pl \<Rightarrow>
            (let jam = \<lparr>jam_id = me_uuid env, jam_meal_plan_id = mp_id plan,
                        jam_detected_mood = ma_mood a, jam_mood_confidence = ma_confidence a,
                        jam_mood_explanation = ma_explanation a, jam_spotify_playlist_id = pl_id pl,
                        jam_spotify_playlist_url = pl_url pl, jam_playlist_name = pl_name pl,
                        jam_genres = ma_genres a, jam_audio_features = ma_audio_features a,
                        jam_play_count = 0\<rparr> in
             (\<lparr>mo_success = True, mo_mood_jam = Some jam, mo_error = None, mo_usage = moodUsage mu\<rparr>,
              saveMoodJamAssignment (me_client env) jam db)))))"

text \<open>The usage a Claude call reports: its counts when the reply has content, else none.\<close>

definition callUsage :: "claude_call \<Rightarrow> mood_usage" where
  "callUsage c = (case c of
     Call_ok (t # ts) i out \<Rightarrow> \<lparr>mu_tokens = Some (mood_tokens i out),
        mu_cost = Some (calculateCost_mood (js_or i 0) (js_or out 0))\<rparr>
   | _ \<Rightarrow> no_mood_usage)"

text \<open>The table invariant the constraints keep: every row references a plan, and the ids
  are distinct.\<close>

definition mood_db_ok :: "mood_db \<Rightarrow> bool" where
  "mood_db_ok db \<longleftrightarrow> list_all (\<lambda>r. row_meal_plan_id r \<in> set (map fst (db_meal_plans (md_db db)))) (md_jams db)
     \<and> distinct (map row_id (md_jams db))"

subsection \<open>Demo data\<close>

text \<open>A reply whose object text \<open>JSON.parse\<close> reads as \<open>demo_mood_json\<close>, a working
  Spotify, the plan generator's client for the user \<open>u1\<close>, and a plan of \<open>u1\<close> that is
  (\<open>p-saved\<close>) or is not yet (\<open>p-new\<close>) in \<open>meal_plans\<close>.\<close>

definition demo_audio :: json where
  "demo_audio = JObj [(''energy'', JNum ''0.4''), (''valence'', JNum ''0.7''), (''acousticness'', JNum ''0.3''),
     (''danceability'', JNum ''0.5'')]"

definition demo_mood_json :: "string \<Rightarrow> string \<Rightarrow> json" where
  "demo_mood_json mood conf = JObj [(''mood'', JStr mood), (''confidence'', JNum conf),
     (''explanation'', JStr ''Light, balanced meals''), (''genres'', JArr [JStr ''ambient'']),
     (''audio_features'', demo_audio)]"

definition demo_reply :: string where
  "demo_reply = ''Here is the analysis: {mood, confidence, audio_features} Enjoy!''"

definition demo_mood_env :: "string \<Rightarrow> string \<Rightarrow> mood_env" where
  "demo_mood_env mood conf = \<lparr>me_call = Call_ok [Some (JStr demo_reply)] (Some 1200) (Some 300),
     me_parse = (\<lambda>m. if m = ''{mood, confidence, audio_features}'' then Inr (demo_mood_json mood conf)
                      else Inl ''Unexpected token''),
     me_auth = Auth_ok (Some (JStr ''token'')),
     me_recs = (\<lambda>t q. Rec_ok (Some (JArr [JStr ''track'']))),
     me_random = 1 / 2, me_now = 1700000000000, me_uuid = ''j1'', me_client = user_client ''u1''\<rparr>"

definition demo_mood_plan :: "string \<Rightarrow> meal_plan" where
  "demo_mood_plan pid = \<lparr>mp_id = pid, mp_user_id = ''u1'', mp_intake_id = Some ''i1'',
     mp_week_theme = None, mp_week_start_date = 0, mp_status = ''active'',
     mp_plan_data = \<lparr>pd_days = [], pd_total_recipes = 0, pd_unique_recipes = 0, pd_variety_score = 0\<rparr>,
     mp_generated_by = ''claude'', mp_generation_id = ''g1'', mp_completion_percentage = 0,
     mp_is_public = False, mp_clone_count = 0\<rparr>"

definition demo_mood_db :: mood_db where
  "demo_mood_db = \<lparr>md_db = \<lparr>db_users = [(''u1'', None)], db_meal_plans = [(''p-saved'', ''u1'')]\<rparr>,
     md_jams = []\<rparr>"

subsection \<open>Properties\<close>

lemma last_brace_split:
  assumes "xs = a @ b" "a \<noteq> []" "last a = x" "x \<notin> set b"
  shows "a = rev (dropWhile (\<lambda>y. y \<noteq> x) (rev xs))"
proof -
  obtain a' where a: "a = a' @ [x]" using assms(2,3) by (metis append_butlast_last_id)
  have "dropWhile (\<lambda>y. y \<noteq> x) (rev b @ x # rev a') = x # rev a'"
    using assms(4) by (induction b rule: rev_induct) auto
  then show ?thesis using assms(1) a by simp
qed

lemma last_brace_props:
  assumes "x \<in> set xs"
  shows "\<exists>post. xs = rev (dropWhile (\<lambda>y. y \<noteq> x) (rev xs)) @ post \<and> x \<notin> set post
           \<and> rev (dropWhile (\<lambda>y. y \<noteq> x) (rev xs)) \<noteq> [] \<and> last (rev (dropWhile (\<lambda>y. y \<noteq> x) (rev xs))) = x"
proof -
  have r: "x \<in> set (rev xs)" using assms by simp
  define post where "post = rev (takeWhile (\<lambda>y. y \<noteq> x) (rev xs))"
  have "rev xs = takeWhile (\<lambda>y. y \<noteq> x) (rev xs) @ dropWhile (\<lambda>y. y \<noteq> x) (rev xs)" by simp
  then have "xs = rev (dropWhile (\<lambda>y. y \<noteq> x) (rev xs)) @ post"
    unfolding post_def by (metis rev_append rev_rev_ident)
  moreover have "x \<notin> set post" unfolding post_def by (auto dest: set_takeWhileD)
  moreover obtain t where "dropWhile (\<lambda>y. y \<noteq> x) (rev xs) = x # t"
    using r by (metis (mono_tags, lifting) dropWhile_eq_Nil_conv hd_dropWhile list.collapse)
  ultimately show ?thesis by auto
qed

text \<open>the regex match of the reply is exactly the infix that starts at the first
  \<open>{\<close> and ends at the last \<open>}\<close>, when there is a \<open>}\<close> after the first \<open>{\<close>; so
  a reply with a remark in braces after the JSON object is matched together with it.\<close>

theorem jsonMatch_first_to_last:
  "jsonMatch s = Some m \<longleftrightarrow> (\<exists>pre post. s = pre @ m @ post \<and> CHR ''{'' \<notin> set pre \<and> CHR ''}'' \<notin> set post
     \<and> 2 \<le> length m \<and> hd m = CHR ''{'' \<and> last m = CHR ''}'')"
proof (induction s arbitrary: m)
  case Nil
  then show ?case by auto
next
  case (Cons c cs)
  show ?case
  proof (cases "c = CHR ''{'' \<and> CHR ''}'' \<in> set cs")
    case True
    let ?t = "rev (dropWhile (\<lambda>y. y \<noteq> CHR ''}'') (rev cs))"
    obtain post where p: "cs = ?t @ post" "CHR ''}'' \<notin> set post" "?t \<noteq> []" "last ?t = CHR ''}''"
      using last_brace_props [of "CHR ''}''" cs] True by blast
    show ?thesis
    proof
      assume "jsonMatch (c # cs) = Some m"
      then have "m = c # ?t" using True by simp
      then show "\<exists>pre post. c # cs = pre @ m @ post \<and> CHR ''{'' \<notin> set pre \<and> CHR ''}'' \<notin> set post
          \<and> 2 \<le> length m \<and> hd m = CHR ''{'' \<and> last m = CHR ''}''"
        using p True by (intro exI [of _ "[]"] exI [of _ post]) (auto simp: Suc_le_eq)
    next
      assume "\<exists>pre post. c # cs = pre @ m @ post \<and> CHR ''{'' \<notin> set pre \<and> CHR ''}'' \<notin> set post
          \<and> 2 \<le> length m \<and> hd m = CHR ''{'' \<and> last m = CHR ''}''"
      then obtain pre post' where d: "c # cs = pre @ m @ post'" "CHR ''{'' \<notin> set pre" "CHR ''}'' \<notin> set post'"
          "2 \<le> length m" "hd m = CHR ''{''" "last m = CHR ''}''" by blast
      have "pre = []" using d(1,2) True by (cases pre) auto
      then obtain m' where m: "m = c # m'" "cs = m' @ post'" using d(1,4) by (cases m) auto
      have ne: "m' \<noteq> []" using m(1) d(4) by auto
      then have "last m' = CHR ''}''" using m(1) d(6) by simp
      then have "m' = ?t"
        using last_brace_split [of cs m' post' "CHR ''}''"] m(2) d(3) ne by blast
      then show "jsonMatch (c # cs) = Some m" using True m by simp
    qed
  next
    case False
    have rhs: "(\<exists>pre post. c # cs = pre @ m @ post \<and> CHR ''{'' \<notin> set pre \<and> CHR ''}'' \<notin> set post
          \<and> 2 \<le> length m \<and> hd m = CHR ''{'' \<and> last m = CHR ''}'')
       \<longleftrightarrow> (\<exists>pre post. cs = pre @ m @ post \<and> CHR ''{'' \<notin> set pre \<and> CHR ''}'' \<notin> set post
          \<and> 2 \<le> length m \<and> hd m = CHR ''{'' \<and> last m = CHR ''}'')"
    proof
      assume "\<exists>pre post. c # cs = pre @ m @ post \<and> CHR ''{'' \<notin> set pre \<and> CHR ''}'' \<notin> set post
          \<and> 2 \<le> length m \<and> hd m = CHR ''{'' \<and> last m = CHR ''}''"
      then obtain pre post where d: "c # cs = pre @ m @ post" "CHR ''{'' \<notin> set pre" "CHR ''}'' \<notin> set post"
          "2 \<le> length m" "hd m = CHR ''{''" "last m = CHR ''}''" by blast
      show "\<exists>pre post. cs = pre @ m @ post \<and> CHR ''{'' \<notin> set pre \<and> CHR ''}'' \<notin> set post
          \<and> 2 \<le> length m \<and> hd m = CHR ''{'' \<and> last m = CHR ''}''"
      proof (cases pre)
        case Nil
        then obtain m' where mm: "m = c # m'" "cs = m' @ post" using d(1,4) by (cases m) auto
        moreover have "m' \<noteq> []" using mm(1) d(4) by auto
        ultimately have "c = CHR ''{''" "last m' = CHR ''}''" "m' \<noteq> []" "cs = m' @ post"
          using d(5,6) by auto
        then have "CHR ''}'' \<in> set cs" "c = CHR ''{''" by (metis Un_iff last_in_set set_append)+
        then show ?thesis using False by blast
      next
        case (Cons p pre')
        then show ?thesis using d by auto
      qed
    next
      assume "\<exists>pre post. cs = pre @ m @ post \<and> CHR ''{'' \<notin> set pre \<and> CHR ''}'' \<notin> set post
          \<and> 2 \<le> length m \<and> hd m = CHR ''{'' \<and> last m = CHR ''}''"
      then obtain pre post where d: "cs = pre @ m @ post" "CHR ''{'' \<notin> set pre" "CHR ''}'' \<notin> set post"
          "2 \<le> length m" "hd m = CHR ''{''" "last m = CHR ''}''" by blast
      have "CHR ''}'' \<in> set cs" using d(1,4,6) by (cases m rule: rev_cases) auto
      then have "c \<noteq> CHR ''{''" using False by blast
      then show "\<exists>pre post. c # cs = pre @ m @ post \<and> CHR ''{'' \<notin> set pre \<and> CHR ''}'' \<notin> set post
          \<and> 2 \<le> length m \<and> hd m = CHR ''{'' \<and> last m = CHR ''}''"
        using d by (intro exI [of _ "c # pre"] exI [of _ post]) auto
    qed
    have j: "jsonMatch (c # cs) = jsonMatch cs" unfolding jsonMatch.simps(2) using False by (rule if_not_P)
    show ?thesis unfolding j using Cons.IH [of m] rhs by blast
  qed
qed

lemma parse_object:
  assumes "jsonMatch r = Some m" "jparse m = Inr (JObj kvs)"
  shows "parseMoodAnalysisResponse jparse (Some (JStr r)) =
     (if \<not> js_truthy (map_of (rev kvs) ''mood'') \<or> \<not> js_truthy (map_of (rev kvs) ''confidence'')
         \<or> \<not> js_truthy (map_of (rev kvs) ''audio_features'')
      then Inl (parse_error ''Missing required fields in mood analysis'')
      else Inr \<lparr>ma_mood = the (map_of (rev kvs) ''mood''), ma_confidence = the (map_of (rev kvs) ''confidence''),
                ma_explanation = json_or (map_of (rev kvs) ''explanation'') (JStr []),
                ma_genres = json_or (map_of (rev kvs) ''genres'') (JArr []),
                ma_audio_features = the (map_of (rev kvs) ''audio_features'')\<rparr>)"
  using assms by (simp add: parseMoodAnalysisResponse_def get_prop_def)

text \<open>for a reply whose object has a truthy mood and audio features, the parse fails
  exactly when the confidence is falsy, so a confidence of 0 (inside the documented range
  0-1) is refused while any other number is accepted.\<close>

theorem parseMoodAnalysisResponse_confidence_truthy:
  assumes "jsonMatch r = Some m" "jparse m = Inr (JObj kvs)"
    "js_truthy (map_of (rev kvs) ''mood'')" "js_truthy (map_of (rev kvs) ''audio_features'')"
  shows "isl (parseMoodAnalysisResponse jparse (Some (JStr r))) \<longleftrightarrow> \<not> js_truthy (map_of (rev kvs) ''confidence'')"
  using parse_object [of r m jparse kvs] assms by simp

lemma moodGenreMap_own_not_inherited: "k \<in> set js_object_proto_keys \<Longrightarrow> map_of moodGenreMap k = None"
  by (auto simp: js_object_proto_keys_def moodGenreMap_def)

text \<open>a mood that names a member of \<open>Object.prototype\<close> (such as
  \<open>constructor\<close>) makes the Spotify step fail with a \<open>TypeError\<close>: the genre lookup
  finds the inherited member, which has no \<open>slice\<close>.\<close>

theorem getSpotifyPlaylist_inherited_mood:
  assumes "js_to_string mood \<in> set js_object_proto_keys"
  shows "getSpotifyPlaylist recs token mood audio r now
           = Inl ''Spotify playlist creation failed: genreSeeds.slice is not a function''"
  using assms moodGenreMap_own_not_inherited [OF assms]
  by (simp add: getSpotifyPlaylist_def mapMoodToGenres_def dict_lookup_def)

lemma pick_random_in:
  assumes "names \<noteq> []" "0 \<le> r" "r < 1"
  shows "\<exists>n. pick_random names r = Some n \<and> n \<in> set names"
proof -
  define i where "i = \<lfloor>r * of_nat (length names)\<rfloor>"
  have "0 \<le> r * of_nat (length names)" using assms(2) by simp
  then have lo: "0 \<le> i" unfolding i_def by simp
  have "r * of_nat (length names) < of_nat (length names)"
    using assms(1,3) by simp
  then have hi: "i < int (length names)" unfolding i_def by (simp add: floor_less_iff)
  then have "names ! nat i \<in> set names" using lo by (simp add: nat_less_iff)
  then show ?thesis using lo hi by (simp add: pick_random_def Let_def i_def)
qed

text \<open>for \<open>Math.random()\<close> in [0, 1) and a mood that is not an inherited member, the
  playlist name is defined and is one of the mood's names (or the default name).\<close>

theorem generatePlaylistName_from_list:
  assumes "0 \<le> r" "r < 1" "mood \<notin> set js_object_proto_keys"
  shows "\<exists>n. generatePlaylistName mood r = Some n
           \<and> n \<in> set (case map_of playlistNames mood of Some ns \<Rightarrow> ns | None \<Rightarrow> [''Your Meal Soundtrack''])"
proof (cases "map_of playlistNames mood")
  case None
  then show ?thesis using assms pick_random_in [of "[''Your Meal Soundtrack'']" r]
    by (simp add: generatePlaylistName_def dict_lookup_def)
next
  case (Some ns)
  then have "ns \<noteq> []" by (auto simp: playlistNames_def split: if_splits)
  then show ?thesis using Some assms pick_random_in [of ns r]
    by (simp add: generatePlaylistName_def dict_lookup_def)
qed

lemma analyzeMealPlanMood_usage:
  "(analyzeMealPlanMood p c = Inl (e, mu) \<longrightarrow> mu = callUsage c)
   \<and> (analyzeMealPlanMood p c = Inr (a, mu) \<longrightarrow> mu = callUsage c)"
  by (auto simp: analyzeMealPlanMood_def callUsage_def Let_def
      split: claude_call.splits list.splits sum.splits)

lemma assignMoodJam_shape:
  "\<exists>mu. mo_usage (fst (assignMoodJam env plan db)) = moodUsage mu \<and> mu = callUsage (me_call env)
     \<and> (snd (assignMoodJam env plan db) = db
        \<or> (\<exists>j. jam_meal_plan_id j = mp_id plan \<and> jam_id j = me_uuid env
               \<and> snd (assignMoodJam env plan db) = saveMoodJamAssignment (me_client env) j db))"
  using analyzeMealPlanMood_usage [of "me_parse env" "me_call env"]
  by (auto simp: assignMoodJam_def moodFailure_def Let_def split: sum.splits prod.splits)
    (metis mood_jam.select_convs(1,2))

text \<open>every assignment reports one Claude request and the tokens and cost of the
  Claude reply (zero when the call failed), whatever Spotify does.\<close>

theorem assignMoodJam_usage:
  "mo_usage (fst (assignMoodJam env plan db)) = moodUsage (callUsage (me_call env))"
  using assignMoodJam_shape by metis

lemma assignMoodJam_success:
  assumes "mo_success (fst (assignMoodJam env plan db))"
  shows "\<exists>j. mo_mood_jam (fst (assignMoodJam env plan db)) = Some j \<and> jam_meal_plan_id j = mp_id plan
     \<and> snd (assignMoodJam env plan db) = saveMoodJamAssignment (me_client env) j db"
  using assms by (auto simp: assignMoodJam_def moodFailure_def Let_def split: sum.splits prod.splits if_splits)

text \<open>C8: with the client the plan generator hands the agent (the anon key with the caller's
  JWT, role \<open>authenticated\<close>), an assignment never stores its row, whatever the tables
  hold: policies.sql gives \<open>authenticated\<close> no INSERT policy on
  \<open>mood_jam_assignments\<close> and the agent only logs the refusal. Yet whenever it reports
  success it returns a mood jam for the plan, which the wow layer attaches to the plan.\<close>

theorem assignMoodJam_user_client_stores_nothing:
  assumes "me_client env = user_client u"
  shows "snd (assignMoodJam env plan db) = db
    \<and> (mo_success (fst (assignMoodJam env plan db))
        \<longrightarrow> (\<exists>j. mo_mood_jam (fst (assignMoodJam env plan db)) = Some j \<and> jam_meal_plan_id j = mp_id plan))"
proof -
  have save: "saveMoodJamAssignment (me_client env) j db = db" for j
    using user_client_no_jam_insert [of "md_db db" u] assms by (simp add: saveMoodJamAssignment_def)
  have "snd (assignMoodJam env plan db) = db"
    using assignMoodJam_shape [of env plan db] save by auto
  then show ?thesis using assignMoodJam_success [of env plan db] by blast
qed

text \<open>every assignment keeps the table invariant: each row references a saved plan
  and the row ids are distinct.\<close>

theorem assignMoodJam_db_ok:
  assumes "mood_db_ok db"
  shows "mood_db_ok (snd (assignMoodJam env plan db))"
  using assignMoodJam_shape [of env plan db] assms
  by (auto simp: saveMoodJamAssignment_def mood_db_ok_def jamRow_def)

theorem parseMoodAnalysisResponse_confidence_truthy_witness:
  "isl (parseMoodAnalysisResponse (me_parse (demo_mood_env ''zen'' ''0'')) (Some (JStr demo_reply)))
   \<and> \<not> isl (parseMoodAnalysisResponse (me_parse (demo_mood_env ''zen'' ''85'')) (Some (JStr demo_reply)))"
proof -
  have m: "jsonMatch demo_reply = Some ''{mood, confidence, audio_features}''" by code_simp
  have "me_parse (demo_mood_env ''zen'' c) ''{mood, confidence, audio_features}'' = Inr (demo_mood_json ''zen'' c)" for c
    by (simp add: demo_mood_env_def)
  note p = this [unfolded demo_mood_json_def]
  show ?thesis
    using parseMoodAnalysisResponse_confidence_truthy [where jparse = "me_parse (demo_mood_env ''zen'' ''0'')", OF m p [of "''0''"]]
          parseMoodAnalysisResponse_confidence_truthy [where jparse = "me_parse (demo_mood_env ''zen'' ''85'')", OF m p [of "''85''"]]
    by (simp add: js_truthy_def demo_audio_def)
qed

theorem getSpotifyPlaylist_inherited_mood_witness:
  "getSpotifyPlaylist (me_recs (demo_mood_env ''constructor'' ''0.85'')) ''token'' (JStr ''constructor'') demo_audio (1 / 2) 0
     = Inl ''Spotify playlist creation failed: genreSeeds.slice is not a function''"
  using getSpotifyPlaylist_inherited_mood [of "JStr ''constructor''"] by (simp add: js_object_proto_keys_def)

theorem generatePlaylistName_from_list_witness:
  "\<exists>n. generatePlaylistName ''zen'' (1 / 2) = Some n
     \<and> n \<in> set [''Peaceful Prep'', ''Mindful Kitchen'', ''Zen Cooking'', ''Calm Cuisine'']"
  using generatePlaylistName_from_list [of "1 / 2" "''zen''"]
  by (simp add: js_object_proto_keys_def playlistNames_def)

theorem assignMoodJam_user_client_stores_nothing_witness:
  "snd (assignMoodJam (demo_mood_env ''zen'' ''0.85'') (demo_mood_plan ''p-saved'') demo_mood_db) = demo_mood_db
   \<and> mo_success (fst (assignMoodJam (demo_mood_env ''zen'' ''0.85'') (demo_mood_plan ''p-saved'') demo_mood_db))
   \<and> (\<exists>j. mo_mood_jam (fst (assignMoodJam (demo_mood_env ''zen'' ''0.85'') (demo_mood_plan ''p-saved'') demo_mood_db))
          = Some j \<and> jam_meal_plan_id j = ''p-saved'')"
proof -
  have c: "me_client (demo_mood_env ''zen'' ''0.85'') = user_client ''u1''" by (simp add: demo_mood_env_def)
  have ok: "mo_success (fst (assignMoodJam (demo_mood_env ''zen'' ''0.85'') (demo_mood_plan ''p-saved'') demo_mood_db))"
    by code_simp
  show ?thesis
    using assignMoodJam_user_client_stores_nothing [OF c, of "demo_mood_plan ''p-saved''" demo_mood_db] ok
    by (simp add: demo_mood_plan_def)
qed

theorem assignMoodJam_db_ok_witness:
  "mood_db_ok (snd (assignMoodJam ((demo_mood_env ''zen'' ''0.85'')\<lparr>me_client := service_client\<rparr>)
                       (demo_mood_plan ''p-saved'') demo_mood_db))
   \<and> length (md_jams (snd (assignMoodJam ((demo_mood_env ''zen'' ''0.85'')\<lparr>me_client := service_client\<rparr>)
                       (demo_mood_plan ''p-saved'') demo_mood_db))) = 1"
proof
  show "mood_db_ok (snd (assignMoodJam ((demo_mood_env ''zen'' ''0.85'')\<lparr>me_client := service_client\<rparr>)
                       (demo_mood_plan ''p-saved'') demo_mood_db))"
    by (rule assignMoodJam_db_ok) (simp add: mood_db_ok_def demo_mood_db_def)
  show "length (md_jams (snd (assignMoodJam ((demo_mood_env ''zen'' ''0.85'')\<lparr>me_client := service_client\<rparr>)
                       (demo_mood_plan ''p-saved'') demo_mood_db))) = 1"
    by code_simp
qed

lemma jsonMatch_spans_trailing_remark:
  \<open>jsonMatch ''Result: {"mood": "zen"} (or maybe {"mood": "energy"})''
     = Some ''{"mood": "zen"} (or maybe {"mood": "energy"}''\<close>
  by code_simp

end
