(* ===== verification/Wow_Layer.thy ===== *)
theory Wow_Layer
  imports Nutrient_Resolver Mood_Jam "HOL-Library.AList" "HOL-Library.List_Lexorder" "HOL-Library.Char_ord"
    "HOL-Library.Product_Lexorder"
begin

text \<open>
  The wow layer (agents/wow-layer.ts lines 33-574): \<open>enhancePlan\<close> and its helpers, the
  grocery list with quantity aggregation, the prep-ahead schedule, the XP challenges and
  the cooking tips. Each recipe query is the lookup \<open>recipe_store\<close> of the resolver (its row
  carries the ingredients); the cuisine, difficulty and mood-jam results are parameters. A
  JavaScript object used as a dictionary is an association list in insertion order (no
  ingredient name is an array index). Ids (\<open>uuidv4\<close>) and timestamps are not modelled.
\<close>

subsection \<open>Ingredient names and categories\<close>

datatype grocery_category =
  Produce | Meat_seafood | Dairy_eggs | Pantry | Frozen | Bakery | Beverages | Condiments | Spices

text \<open>The white space of \<open>\s\<close> among 8-bit characters.\<close>

definition js_ws :: "char \<Rightarrow> bool" where
  "js_ws c \<longleftrightarrow> of_char c \<in> {9, 10, 11, 12, 13, 32, 160 :: nat}"

function (domintros) collapse_ws :: "string \<Rightarrow> string" where
  "collapse_ws [] = []"
| "collapse_ws (c # cs) = (if js_ws c then CHR '' '' # collapse_ws (dropWhile js_ws cs) else c # collapse_ws cs)"
  by pat_completeness auto
termination
  by (relation "measure length") (auto simp: le_imp_less_Suc length_dropWhile_le)

text \<open>\<open>normalizeIngredientName\<close> (lines 444-449): lower case, keep \<open>[a-z0-9\s]\<close>, collapse
  white space, trim.\<close>

definition normalizeIngredientName :: "string \<Rightarrow> string" where
  "normalizeIngredientName name =
     (let kept = filter (\<lambda>c. c \<in> set ''abcdefghijklmnopqrstuvwxyz0123456789'' \<or> js_ws c) (to_lower name);
          collapsed = collapse_ws kept in
      rev (dropWhile js_ws (rev (dropWhile js_ws collapsed))))"

text \<open>The \<open>categories\<close> table of \<open>categorizeIngredient\<close> in its insertion order.\<close>

definition categoryTable :: "(string \<times> grocery_category) list" where
  "categoryTable =
     [(''onion'', Produce), (''garlic'', Produce), (''tomato'', Produce), (''lettuce'', Produce),
      (''carrot'', Produce), (''potato'', Produce), (''bell pepper'', Produce), (''spinach'', Produce),
      (''apple'', Produce), (''banana'', Produce), (''lemon'', Produce), (''lime'', Produce),
      (''chicken'', Meat_seafood), (''beef'', Meat_seafood), (''pork'', Meat_seafood), (''fish'', Meat_seafood),
      (''salmon'', Meat_seafood), (''shrimp'', Meat_seafood), (''turkey'', Meat_seafood),
      (''milk'', Dairy_eggs), (''cheese'', Dairy_eggs), (''butter'', Dairy_eggs), (''egg'', Dairy_eggs),
      (''yogurt'', Dairy_eggs), (''cream'', Dairy_eggs),
      (''rice'', Pantry), (''pasta'', Pantry), (''flour'', Pantry), (''sugar'', Pantry),
      (''oil'', Pantry), (''vinegar'', Pantry), (''beans'', Pantry), (''lentils'', Pantry),
      (''salt'', Spices), (''pepper'', Spices), (''garlic powder'', Spices), (''paprika'', Spices),
      (''soy sauce'', Condiments), (''olive oil'', Condiments), (''ketchup'', Condiments)]"

text \<open>\<open>categorizeIngredient\<close> (lines 451-495): the first table entry the lower-cased name
  contains, else the default rules.\<close>

definition categorizeIngredient :: "string \<Rightarrow> grocery_category" where
  "categorizeIngredient name =
     (let n = to_lower name in
      case find (\<lambda>(k, c). str_includes n k) categoryTable of
        Some (k, c) \<Rightarrow> c
      | None \<Rightarrow>
          if str_includes n ''cheese'' \<or> str_includes n ''milk'' \<or> str_includes n ''butter'' then Dairy_eggs
          else if str_includes n ''chicken'' \<or> str_includes n ''beef'' \<or> str_includes n ''fish'' then Meat_seafood
          else if str_includes n ''oil'' \<or> str_includes n ''sauce'' \<or> str_includes n ''dressing'' then Condiments
          else Pantry)"

subsection \<open>Grocery list\<close>

record grocery_entry =
  ge_amount :: rat
  ge_unit :: string
  ge_category :: grocery_category
  ge_source_recipes :: "string list"

type_synonym grocery_acc = "(string \<times> grocery_entry) list"

text \<open>One ingredient of the recipe \<open>rid\<close> into \<open>allIngredients\<close> (lines 168-186): a known
  name adds the amount only when the unit is the same, and records the recipe either way.\<close>

definition addIngredient :: "string \<Rightarrow> grocery_acc \<Rightarrow> ingredient \<Rightarrow> grocery_acc" where
  "addIngredient rid acc ing =
     (let n = normalizeIngredientName (ing_name ing) in
      case map_of acc n of
        Some e \<Rightarrow> AList.update n (e\<lparr>ge_amount := (if ge_unit e = ing_unit ing then ge_amount e + ing_amount ing
                                                 else ge_amount e),
                                   ge_source_recipes := ge_source_recipes e @ [rid]\<rparr>) acc
      | None \<Rightarrow> AList.update n \<lparr>ge_amount = ing_amount ing, ge_unit = ing_unit ing,
                   ge_category = categorizeIngredient (ing_name ing), ge_source_recipes = [rid]\<rparr> acc)"

text \<open>The loop over the plan's meals (lines 153-188): a missing recipe is skipped; a recipe
  whose \<open>ingredients\<close> is \<open>null\<close> makes \<open>for ... of\<close> throw, which the function's \<open>catch\<close>
  turns into \<open>null\<close> for the whole list.\<close>

fun groceryMeals :: "recipe_store \<Rightarrow> string list \<Rightarrow> grocery_acc \<Rightarrow> grocery_acc option" where
  "groceryMeals store [] acc = Some acc"
| "groceryMeals store (rid # rids) acc = (case store rid of
     None \<Rightarrow> groceryMeals store rids acc
   | Some r \<Rightarrow> (case rr_ingredients r of
       None \<Rightarrow> None
     | Some ings \<Rightarrow> groceryMeals store rids (foldl (addIngredient rid) acc ings)))"

record grocery_item =
  gi_name :: string
  gi_amount :: rat
  gi_unit :: string
  gi_category :: grocery_category
  gi_source_recipes :: "string list"
  gi_checked_off :: bool

record grocery_list =
  gl_meal_plan_id :: string
  gl_user_id :: string
  gl_items_by_category :: "(grocery_category \<times> grocery_item list) list"
  gl_total_items :: nat
  gl_completion_percentage :: rat

definition groceryItem :: "string \<times> grocery_entry \<Rightarrow> grocery_item" where
  "groceryItem ne = (case ne of (n, e) \<Rightarrow> \<lparr>gi_name = n, gi_amount = ge_amount e, gi_unit = ge_unit e,
     gi_category = ge_category e, gi_source_recipes = ge_source_recipes e, gi_checked_off = False\<rparr>)"

text \<open>\<open>itemsByCategory\<close> (lines 190-212): categories in the order of their first item, each
  category's items sorted by name (\<open>localeCompare\<close>, which on names made of
  \<open>[a-z0-9 ]\<close> is the code-point order).\<close>

definition itemsByCategory :: "grocery_acc \<Rightarrow> (grocery_category \<times> grocery_item list) list" where
  "itemsByCategory acc =
     map (\<lambda>c. (c, sort_key gi_name (filter (\<lambda>i. gi_category i = c) (map groceryItem acc))))
       (remdups_first (map (\<lambda>(n, e). ge_category e) acc))"

definition generateSmartGroceryList :: "recipe_store \<Rightarrow> meal_plan \<Rightarrow> grocery_list option" where
  "generateSmartGroceryList store plan =
     (case groceryMeals store (map ms_recipe_id (plan_slots plan)) [] of
        None \<Rightarrow> None
      | Some acc \<Rightarrow> Some \<lparr>gl_meal_plan_id = mp_id plan, gl_user_id = mp_user_id plan,
          gl_items_by_category = itemsByCategory acc, gl_total_items = length acc,
          gl_completion_percentage = 0\<rparr>)"

subsection \<open>Prep-ahead schedule\<close>

datatype prep_priority = High | Medium | Low

definition priorityOrder :: "prep_priority \<Rightarrow> nat" where
  "priorityOrder p = (case p of High \<Rightarrow> 3 | Medium \<Rightarrow> 2 | Low \<Rightarrow> 1)"

record prep_task =
  pt_description :: string
  pt_estimated_time_minutes :: rat
  pt_suggested_day :: string
  pt_priority :: prep_priority
  pt_enables_recipes :: "string list"
  pt_requires_equipment :: "string list"
  pt_storage_instructions :: string

definition ing_includes :: "string \<Rightarrow> ingredient \<Rightarrow> bool" where
  "ing_includes k i \<longleftrightarrow> str_includes (to_lower (ing_name i)) k"

text \<open>\<open>identifyPrepTasks\<close> (lines 497-541) for the recipe \<open>rid\<close>; \<open>ingredients || []\<close>.\<close>

definition identifyPrepTasks :: "string \<Rightarrow> ingredient list option \<Rightarrow> prep_task list" where
  "identifyPrepTasks rid ingsOpt =
     (let ings = (case ingsOpt of None \<Rightarrow> [] | Some is \<Rightarrow> is);
          grains = filter (\<lambda>i. ing_includes ''rice'' i \<or> ing_includes ''quinoa'' i \<or> ing_includes ''pasta'' i) ings;
          vegetables = filter (\<lambda>i. ing_includes ''onion'' i \<or> ing_includes ''pepper'' i \<or> ing_includes ''carrot'' i) ings in
      (if grains \<noteq> [] then
         [\<lparr>pt_description = ''Cook '' @ join_str '', '' (map ing_name grains) @ '' in bulk'',
           pt_estimated_time_minutes = 25, pt_suggested_day = ''sunday'', pt_priority = Medium,
           pt_enables_recipes = [rid], pt_requires_equipment = [''pot'', ''stove''],
           pt_storage_instructions = ''Store in refrigerator for up to 5 days''\<rparr>]
       else [])
      @ (if 2 \<le> length vegetables then
         [\<lparr>pt_description = ''Chop vegetables for the week'', pt_estimated_time_minutes = 15,
           pt_suggested_day = ''sunday'', pt_priority = High, pt_enables_recipes = [rid],
           pt_requires_equipment = [''knife'', ''cutting board''],
           pt_storage_instructions = ''Store chopped vegetables in airtight containers''\<rparr>]
       else []))"

text \<open>One task into \<open>prepTasks\<close> (lines 258-272): a new key
  \<open>`${description}_${suggested_day}`\<close> appends it; a known key merges its recipes into the
  task with the same description and day, if there is one.\<close>

definition taskKey :: "prep_task \<Rightarrow> string" where
  "taskKey t = pt_description t @ ''_'' @ pt_suggested_day t"

definition addPrepTask :: "prep_task list \<times> string list \<Rightarrow> prep_task \<Rightarrow> prep_task list \<times> string list" where
  "addPrepTask acc task = (case acc of (tasks, keys) \<Rightarrow>
     if taskKey task \<notin> set keys then (tasks @ [task], keys @ [taskKey task])
     else (map (\<lambda>t. if pt_description t = pt_description task \<and> pt_suggested_day t = pt_suggested_day task
                     then t\<lparr>pt_enables_recipes := remdups_first (pt_enables_recipes t @ pt_enables_recipes task)\<rparr>
                     else t)
             tasks, keys))"

text \<open>The loop over the meals (lines 245-274): a missing recipe is skipped. With a unique
  match, \<open>find\<close> and this \<open>map\<close> agree.\<close>

fun prepMeals :: "recipe_store \<Rightarrow> (string \<times> string) list \<Rightarrow> prep_task list \<times> string list \<Rightarrow> prep_task list \<times> string list" where
  "prepMeals store [] acc = acc"
| "prepMeals store ((rid, day) # ms) acc = (case store rid of
     None \<Rightarrow> prepMeals store ms acc
   | Some r \<Rightarrow> prepMeals store ms (foldl addPrepTask acc (identifyPrepTasks rid (rr_ingredients r))))"

record prep_schedule =
  ps_meal_plan_id :: string
  ps_tasks :: "prep_task list"
  ps_total_prep_time_minutes :: rat
  ps_recommended_prep_days :: "string list"

text \<open>\<open>generatePrepSchedule\<close> (lines 236-299): the comparator sorts by priority, then time,
  both descending; \<open>Array.prototype.sort\<close> is stable, as \<open>sort_key\<close> is.\<close>

definition prep_sort_key :: "prep_task \<Rightarrow> int \<times> rat" where
  "prep_sort_key t = (- int (priorityOrder (pt_priority t)), - pt_estimated_time_minutes t)"

definition planMeals :: "meal_plan \<Rightarrow> (string \<times> string) list" where
  "planMeals plan = concat (map (\<lambda>d. map (\<lambda>m. (ms_recipe_id m, dp_day d)) (dp_meals d)) (pd_days (mp_plan_data plan)))"

definition generatePrepSchedule :: "recipe_store \<Rightarrow> meal_plan \<Rightarrow> prep_schedule" where
  "generatePrepSchedule store plan =
     (let meals = planMeals plan;
          tasks = fst (prepMeals store meals ([], []));
          sorted = sort_key prep_sort_key tasks in
      \<lparr>ps_meal_plan_id = mp_id plan, ps_tasks = sorted,
       ps_total_prep_time_minutes = sum_list (map pt_estimated_time_minutes sorted),
       ps_recommended_prep_days = [''sunday'', ''wednesday'']\<rparr>)"

text \<open>Reference view of the loop: the tasks of every meal whose recipe is found, in
  order, and the invariant of the accumulator (the key list is the task keys, distinct,
  and every task's recipe list is distinct).\<close>

definition prepOccurrences :: "recipe_store \<Rightarrow> (string \<times> string) list \<Rightarrow> prep_task list" where
  "prepOccurrences store meals =
     concat (map (\<lambda>(rid, day). case store rid of None \<Rightarrow> [] | Some r \<Rightarrow> identifyPrepTasks rid (rr_ingredients r)) meals)"

definition prep_acc_ok :: "prep_task list \<times> string list \<Rightarrow> bool" where
  "prep_acc_ok acc \<longleftrightarrow> snd acc = map taskKey (fst acc) \<and> distinct (snd acc)
     \<and> list_all (\<lambda>t. distinct (pt_enables_recipes t)) (fst acc)"

subsection \<open>XP challenges and cooking tips\<close>

record xp_challenge =
  xc_type :: string
  xc_title :: string
  xc_description :: string
  xc_xp_reward :: rat
  xc_target_value :: rat
  xc_current_progress :: rat
  xc_completed :: bool

definition challenge :: "string \<Rightarrow> string \<Rightarrow> string \<Rightarrow> rat \<Rightarrow> rat \<Rightarrow> rat \<Rightarrow> xp_challenge" where
  "challenge ty title descr xp target progress = \<lparr>xc_type = ty, xc_title = title, xc_description = descr,
     xc_xp_reward = xp, xc_target_value = target, xc_current_progress = progress, xc_completed = False\<rparr>"

text \<open>\<open>generateXPChallenges\<close> (lines 304-404): the profile's \<open>streak_days\<close> (a whole number
  or \<open>undefined\<close>), whether the plan handed in already has prep tasks, and the
  \<open>cuisine_type\<close> of each meal's recipe (\<open>None\<close> when absent or the recipe is missing).\<close>

definition generateXPChallenges :: "rat option \<Rightarrow> bool \<Rightarrow> string option list \<Rightarrow> xp_challenge list" where
  "generateXPChallenges streak hasPrepTasks cuisines =
     (let uniqueCuisines = remdups_first (concat (map (\<lambda>c. case c of Some x \<Rightarrow> if x \<noteq> [] then [x] else [] | None \<Rightarrow> []) cuisines));
          n = length uniqueCuisines in
      [challenge ''plan_completion'' ''Weekly Warrior'' ''Complete all 7 days of your meal plan'' 150 7 0]
      @ (case streak of
           Some s \<Rightarrow> if 3 \<le> s then [challenge ''streak_maintenance'' ''Streak Keeper''
               (''Maintain your '' @ nat_text (nat \<lfloor>s\<rfloor>) @ ''-day streak'') (min (s * 10) 200) (s + 7) s] else []
         | None \<Rightarrow> [])
      @ [challenge ''recipe_rating'' ''Food Critic'' ''Rate 5 meals this week'' 75 5 0]
      @ (if hasPrepTasks then [challenge ''prep_efficiency'' ''Prep Master'' ''Complete 3 prep-ahead tasks'' 100 3 0] else [])
      @ (if 3 \<le> n then [challenge ''variety_exploration'' ''Global Explorer''
            (''Try '' @ nat_text n @ '' different cuisines this week'') (of_nat n * 25) (of_nat n) 0] else []))"

record cooking_tip =
  ct_recipe_id :: string
  ct_tip :: string
  ct_category :: string

text \<open>\<open>generateRecipeTips\<close> (lines 543-573) for a recipe's id, difficulty and ingredients.\<close>

definition generateRecipeTips :: "string option \<Rightarrow> string \<Rightarrow> string option \<Rightarrow> ingredient list option \<Rightarrow> cooking_tip list" where
  "generateRecipeTips userSkill rid difficulty ings =
     (if userSkill = Some ''beginner'' \<and> (difficulty = Some ''medium'' \<or> difficulty = Some ''hard'') then
        [\<lparr>ct_recipe_id = rid, ct_tip = ''Read through the entire recipe before starting and prep all ingredients first'',
          ct_category = ''technique''\<rparr>] else [])
     @ (if (case ings of None \<Rightarrow> False | Some is \<Rightarrow> list_ex (ing_includes ''garlic'') is) then
        [\<lparr>ct_recipe_id = rid, ct_tip = ''Crush garlic with the flat side of your knife before mincing for easier prep'',
          ct_category = ''efficiency''\<rparr>] else [])"

text \<open>\<open>generateCookingTips\<close> (lines 409-441): the first five tips of the plan's meals in
  order; \<open>difficulty\<close> gives a recipe's \<open>difficulty_level\<close>.\<close>

definition generateCookingTips ::
  "recipe_store \<Rightarrow> (string \<Rightarrow> string option) \<Rightarrow> string option \<Rightarrow> meal_plan \<Rightarrow> cooking_tip list" where
  "generateCookingTips store difficulty userSkill plan =
     take 5 (concat (map (\<lambda>rid. case store rid of None \<Rightarrow> []
                           | Some r \<Rightarrow> generateRecipeTips userSkill rid (difficulty rid) (rr_ingredients r))
                      (map ms_recipe_id (plan_slots plan))))"

subsection \<open>The enhancement\<close>

record wow_layers =
  wl_grocery_list :: "grocery_list option"
  wl_prep_schedule :: "prep_schedule option"
  wl_mood_jam :: "mood_jam option"
  wl_xp_challenges :: "xp_challenge list option"
  wl_cooking_tips :: "cooking_tip list option"

text \<open>The inputs \<open>enhancePlan\<close> reads besides the plan: the recipe table and the cuisine and
  difficulty columns, the profile's streak, the intake's skill level, whether the plan's
  subscription has \<open>advanced_wow_layers\<close>, and the inputs of the mood jam agent.\<close>

record wow_env =
  we_store :: recipe_store
  we_cuisine :: "string \<Rightarrow> string option"
  we_difficulty :: "string \<Rightarrow> string option"
  we_streak :: "rat option"
  we_skill :: "string option"
  we_advanced :: bool
  we_mood :: mood_env

text \<open>
  \<open>enhancePlan\<close> (lines 45-135). The plan comes from the council, whose \<open>plan_data\<close> has no
  \<open>wow_layers\<close>, so the challenges see no prep tasks. The helpers catch their own errors;
  the mood jam's usage is added with \<open>|| 0\<close>.
\<close>

definition enhancePlan :: "wow_env \<Rightarrow> meal_plan \<Rightarrow> mood_db \<Rightarrow> (meal_plan \<times> wow_layers) stage \<times> mood_db" where
  "enhancePlan env plan db =
     (let grocery = generateSmartGroceryList (we_store env) plan;
          prep = generatePrepSchedule (we_store env) plan;
          (mood, db') = assignMoodJam (we_mood env) plan db;
          xp = generateXPChallenges (we_streak env) False
                 (map (\<lambda>m. we_cuisine env (ms_recipe_id m)) (plan_slots plan));
          tips = (if we_advanced env then
                    (let ts = generateCookingTips (we_store env) (we_difficulty env) (we_skill env) plan in
                     if ts \<noteq> [] then Some ts else None)
                  else None);
          u = mo_usage mood in
      (Stage_ok (plan, \<lparr>wl_grocery_list = grocery, wl_prep_schedule = Some prep,
                       wl_mood_jam = (if mo_success mood then mo_mood_jam mood else None),
                       wl_xp_challenges = (if xp \<noteq> [] then Some xp else None),
                       wl_cooking_tips = tips\<rparr>)
         \<lparr>claude_requests = Some (js_or (claude_requests u) 0), tokens_used = Some (js_or (tokens_used u) 0),
          cost_cents = Some (js_or (cost_cents u) 0)\<rparr>,
       db'))"

subsection \<open>Reference views and demo data\<close>

text \<open>The grocery loop as one list of (recipe, ingredient) occurrences, and its reference
  result: per normalised name the first occurrence's unit and category, the sum of the
  amounts given in that unit, and every recipe the name occurs in.\<close>
definition groceryOccurrences :: "recipe_store \<Rightarrow> string list \<Rightarrow> (string \<times> ingredient) list" where
  "groceryOccurrences store rids = concat (map (\<lambda>rid. case store rid of None \<Rightarrow> []
     | Some r \<Rightarrow> map (Pair rid) (case rr_ingredients r of None \<Rightarrow> [] | Some xs \<Rightarrow> xs)) rids)"

definition groceryRef :: "(string \<times> ingredient) list \<Rightarrow> string \<Rightarrow> grocery_entry option" where
  "groceryRef occs n = (case filter (\<lambda>(r, i). normalizeIngredientName (ing_name i) = n) occs of
     [] \<Rightarrow> None
   | (r0, i0) # rest \<Rightarrow> Some \<lparr>ge_amount = sum_list (map (\<lambda>(r, i). ing_amount i)
         (filter (\<lambda>(r, i). ing_unit i = ing_unit i0) ((r0, i0) # rest))),
       ge_unit = ing_unit i0, ge_category = categorizeIngredient (ing_name i0),
       ge_source_recipes = map fst ((r0, i0) # rest)\<rparr>)"

definition groceryStep :: "grocery_acc \<Rightarrow> string \<times> ingredient \<Rightarrow> grocery_acc" where
  "groceryStep acc ri = (case ri of (r, i) \<Rightarrow> addIngredient r acc i)"

text \<open>A two-recipe demo week: rice in cups and in grams, onion and bell pepper.\<close>

definition wow_ing :: "string \<Rightarrow> rat \<Rightarrow> string \<Rightarrow> ingredient" where
  "wow_ing n a u = \<lparr>ing_name = n, ing_amount = a, ing_unit = u\<rparr>"

definition wow_recipe :: "ingredient list \<Rightarrow> recipe_row" where
  "wow_recipe is = \<lparr>rr_title = ''demo'', rr_nutrition_info = None, rr_ingredients = Some is, rr_servings = Some 2\<rparr>"

definition wow_store :: recipe_store where
  "wow_store = [''r1'' \<mapsto> wow_recipe [wow_ing ''Rice'' 1 ''cup'', wow_ing ''Onion'' 1 ''whole'',
                                       wow_ing ''Bell Pepper'' 2 ''whole''],
                ''r2'' \<mapsto> wow_recipe [wow_ing ''rice'' 200 ''g'', wow_ing ''Garlic powder'' 1 ''tsp'']]"

definition wow_plan :: meal_plan where
  "wow_plan = \<lparr>mp_id = ''p1'', mp_user_id = ''u1'', mp_intake_id = Some ''i1'',
     mp_week_theme = None, mp_week_start_date = 0, mp_status = ''active'',
     mp_plan_data = \<lparr>pd_days = [\<lparr>dp_day = ''monday'', dp_date = 0,
         dp_meals = [\<lparr>ms_meal_type = ''lunch'', ms_recipe_id = ''r1'', ms_servings = Some 2, ms_completed = False\<rparr>,
                     \<lparr>ms_meal_type = ''dinner'', ms_recipe_id = ''r2'', ms_servings = Some 2, ms_completed = False\<rparr>]\<rparr>],
       pd_total_recipes = 2, pd_unique_recipes = 2, pd_variety_score = 1\<rparr>,
     mp_generated_by = ''claude'', mp_generation_id = ''g1'', mp_completion_percentage = 0,
     mp_is_public = False, mp_clone_count = 0\<rparr>"

subsection \<open>Properties\<close>

lemma groceryMeals_foldl:
  "groceryMeals store rids acc = Some acc' \<Longrightarrow> acc' = foldl groceryStep acc (groceryOccurrences store rids)"
proof (induction store rids acc rule: groceryMeals.induct)
  case (2 store rid rids acc)
  have "foldl (addIngredient rid) acc xs = foldl groceryStep acc (map (Pair rid) xs)" for xs
    by (induction xs arbitrary: acc) (simp_all add: groceryStep_def)
  with 2 show ?case by (auto simp: groceryOccurrences_def split: option.splits)
qed (simp add: groceryOccurrences_def)

lemma groceryRef_snoc:
  "groceryRef (occs @ [(r, i)]) n =
     (if normalizeIngredientName (ing_name i) = n then
        Some (case groceryRef occs n of
                None \<Rightarrow> \<lparr>ge_amount = ing_amount i, ge_unit = ing_unit i,
                          ge_category = categorizeIngredient (ing_name i), ge_source_recipes = [r]\<rparr>
              | Some e \<Rightarrow> e\<lparr>ge_amount := (if ge_unit e = ing_unit i then ge_amount e + ing_amount i else ge_amount e),
                            ge_source_recipes := ge_source_recipes e @ [r]\<rparr>)
      else groceryRef occs n)"
  by (auto simp: groceryRef_def split: list.splits prod.splits)

text \<open>C10: the grocery loop computes, per normalised ingredient name, the reference entry:
  the first occurrence's unit and category, the sum of the amounts given in that unit (an
  amount in another unit is dropped), and every recipe the name occurs in; the names are
  distinct.\<close>

theorem groceryMeals_aggregates:
  assumes "groceryMeals store rids [] = Some acc"
  shows "map_of acc = groceryRef (groceryOccurrences store rids) \<and> distinct (map fst acc)"
proof -
  have "map_of (foldl groceryStep [] occs) = groceryRef occs \<and> distinct (map fst (foldl groceryStep [] occs))"
    for occs
  proof (induction occs rule: rev_induct)
    case Nil
    then show ?case by (simp add: groceryRef_def fun_eq_iff)
  next
    case (snoc ri occs)
    obtain r i where ri: "ri = (r, i)" by (cases ri)
    define acc where "acc = foldl groceryStep [] occs"
    have IH: "map_of acc = groceryRef occs" "distinct (map fst acc)"
      using snoc by (simp_all add: acc_def)
    have step: "foldl groceryStep [] (occs @ [ri]) = addIngredient r acc i"
      by (simp add: acc_def ri groceryStep_def)
    have m: "map_of (addIngredient r acc i) = groceryRef (occs @ [(r, i)])"
      by (auto simp: fun_eq_iff addIngredient_def Let_def update_conv' groceryRef_snoc IH(1) [symmetric]
          split: option.splits)
    have d: "distinct (map fst (addIngredient r acc i))"
      using IH(2) by (simp add: addIngredient_def Let_def distinct_update split: option.splits)
    show ?case using m d step ri by simp
  qed
  then show ?thesis using groceryMeals_foldl [OF assms] by simp
qed

lemma find_prefix:
  "j < length xs \<Longrightarrow> P (xs ! j) \<Longrightarrow> \<exists>y. find P xs = Some y \<and> y \<in> set (take (Suc j) xs)"
proof (induction xs arbitrary: j)
  case (Cons x xs)
  show ?case
  proof (cases j)
    case 0
    then show ?thesis using Cons.prems by simp
  next
    case (Suc k)
    then show ?thesis using Cons by (cases "P x") (auto simp: take_Suc_conv_app_nth)
  qed
qed simp

lemma categorize_by_prefix:
  assumes "j < length categoryTable" "str_includes (to_lower name) (fst (categoryTable ! j))"
  shows "categorizeIngredient name \<in> snd ` set (take (Suc j) categoryTable)"
proof -
  obtain y where "find (\<lambda>(k, c). str_includes (to_lower name) k) categoryTable = Some y"
    "y \<in> set (take (Suc j) categoryTable)"
    using find_prefix [of j categoryTable "\<lambda>(k, c). str_includes (to_lower name) k"] assms
    by (auto simp: case_prod_beta)
  then show ?thesis by (force simp: categorizeIngredient_def Let_def split: prod.splits)
qed

text \<open>the first table entry wins, so the entries \<open>garlic powder\<close> (Spices) and
  \<open>olive oil\<close> (Condiments) are never used: every name containing \<open>garlic\<close> is Produce and
  no name containing \<open>oil\<close> is a condiment or a spice.\<close>

theorem categorizeIngredient_shadowed:
  "(str_includes (to_lower name) ''garlic'' \<longrightarrow> categorizeIngredient name = Produce)
   \<and> (str_includes (to_lower name) ''oil'' \<longrightarrow> categorizeIngredient name \<notin> {Condiments, Spices})"
proof (intro conjI impI)
  assume "str_includes (to_lower name) ''garlic''"
  then show "categorizeIngredient name = Produce"
    using categorize_by_prefix [of 1 name] by (simp add: categoryTable_def)
next
  assume "str_includes (to_lower name) ''oil''"
  then show "categorizeIngredient name \<notin> {Condiments, Spices}"
    using categorize_by_prefix [of 29 name] by (auto simp: categoryTable_def)
qed

lemma prepMeals_foldl: "prepMeals store ms acc = foldl addPrepTask acc (prepOccurrences store ms)"
  by (induction store ms acc rule: prepMeals.induct) (auto simp: prepOccurrences_def split: option.splits)

lemma identifyPrepTasks_recipes: "t \<in> set (identifyPrepTasks rid ings) \<Longrightarrow> pt_enables_recipes t = [rid]"
  by (auto simp: identifyPrepTasks_def Let_def split: if_splits)

lemma addPrepTask_ok:
  assumes "prep_acc_ok acc" "distinct (pt_enables_recipes t)"
  shows "prep_acc_ok (addPrepTask acc t) \<and> set (snd (addPrepTask acc t)) = insert (taskKey t) (set (snd acc))"
proof -
  obtain ts ks where acc: "acc = (ts, ks)" by fastforce
  have keys: "map taskKey (map (\<lambda>u. if pt_description u = pt_description t \<and> pt_suggested_day u = pt_suggested_day t
        then u\<lparr>pt_enables_recipes := remdups_first (pt_enables_recipes u @ pt_enables_recipes t)\<rparr> else u) ts)
      = map taskKey ts"
    by (auto simp: taskKey_def)
  show ?thesis
    using assms keys
    by (auto simp: acc addPrepTask_def prep_acc_ok_def list_all_iff remdups_first_def
             intro: taskKey_def)
qed

lemma prep_fold_ok:
  assumes "prep_acc_ok acc" "list_all (\<lambda>t. distinct (pt_enables_recipes t)) occs"
  shows "prep_acc_ok (foldl addPrepTask acc occs)
         \<and> set (snd (foldl addPrepTask acc occs)) = set (snd acc) \<union> taskKey ` set occs"
  using assms
proof (induction occs arbitrary: acc)
  case (Cons t occs)
  then show ?case using addPrepTask_ok [of acc t] by auto
qed simp

lemma prepOccurrences_recipes: "list_all (\<lambda>t. distinct (pt_enables_recipes t)) (prepOccurrences store ms)"
  by (auto simp: prepOccurrences_def list_all_iff identifyPrepTasks_recipes split: option.splits)

text \<open>C21: the prep schedule holds one task per distinct (description, day) key of the tasks
  of the plan's found recipes, sorted by priority and then time, both descending, and
  every task's recipe list has no duplicates.\<close>

theorem generatePrepSchedule_tasks:
  "distinct (map taskKey (ps_tasks (generatePrepSchedule store plan)))
   \<and> taskKey ` set (ps_tasks (generatePrepSchedule store plan)) = taskKey ` set (prepOccurrences store (planMeals plan))
   \<and> sorted (map prep_sort_key (ps_tasks (generatePrepSchedule store plan)))
   \<and> list_all (\<lambda>t. distinct (pt_enables_recipes t)) (ps_tasks (generatePrepSchedule store plan))"
proof -
  let ?r = "prepMeals store (planMeals plan) ([], [])"
  have "prep_acc_ok ([], [])" by (simp add: prep_acc_ok_def)
  from prep_fold_ok [OF this prepOccurrences_recipes]
  have ok: "prep_acc_ok ?r" and ks: "set (snd ?r) = taskKey ` set (prepOccurrences store (planMeals plan))"
    by (simp_all add: prepMeals_foldl)
  have perm: "mset (ps_tasks (generatePrepSchedule store plan)) = mset (fst ?r)"
    by (simp add: generatePrepSchedule_def Let_def)
  then have st: "set (ps_tasks (generatePrepSchedule store plan)) = set (fst ?r)"
    by (metis set_mset_mset)
  show ?thesis
  proof (intro conjI)
    show "distinct (map taskKey (ps_tasks (generatePrepSchedule store plan)))"
      using ok perm by (metis mset_eq_imp_distinct_iff mset_map prep_acc_ok_def)
    show "taskKey ` set (ps_tasks (generatePrepSchedule store plan)) = taskKey ` set (prepOccurrences store (planMeals plan))"
      using ok ks st by (simp add: prep_acc_ok_def)
    show "sorted (map prep_sort_key (ps_tasks (generatePrepSchedule store plan)))"
      by (simp add: generatePrepSchedule_def Let_def)
    show "list_all (\<lambda>t. distinct (pt_enables_recipes t)) (ps_tasks (generatePrepSchedule store plan))"
      using ok st by (simp add: prep_acc_ok_def list_all_iff)
  qed
qed

lemma xc_type_challenge [simp]: "xc_type (challenge ty title descr xp target progress) = ty"
  by (simp add: challenge_def)

lemma generateXPChallenges_no_prep:
  "generateXPChallenges streak False cuisines \<noteq> []
   \<and> ''prep_efficiency'' \<notin> xc_type ` set (generateXPChallenges streak False cuisines)"
  by (auto simp: generateXPChallenges_def Let_def simp del: nat_text.simps split: option.split)

text \<open>\<open>enhancePlan\<close> always succeeds with the plan's prep schedule attached, yet its
  XP challenges never include the \<open>prep_efficiency\<close> challenge, because it passes a
  plan without \<open>wow_layers\<close> to \<open>generateXPChallenges\<close>.\<close>

theorem enhancePlan_never_offers_prep_challenge:
  "\<exists>wl u cs. fst (enhancePlan env plan db) = Stage_ok (plan, wl) u
     \<and> wl_prep_schedule wl = Some (generatePrepSchedule (we_store env) plan)
     \<and> wl_xp_challenges wl = Some cs \<and> ''prep_efficiency'' \<notin> xc_type ` set cs"
  using generateXPChallenges_no_prep
  by (simp add: enhancePlan_def Let_def split_def del: nat_text.simps)

text \<open>the wow layer calls the mood jam agent once: its usage is exactly the usage of
  the mood analysis's Claude call, and its effect on \<open>mood_jam_assignments\<close> is the
  assignment's.\<close>

theorem enhancePlan_mood_jam:
  "stage_usage (fst (enhancePlan env plan db)) = moodUsage (callUsage (me_call (we_mood env)))
   \<and> snd (enhancePlan env plan db) = snd (assignMoodJam (we_mood env) plan db)"
proof -
  obtain mo db' where a: "assignMoodJam (we_mood env) plan db = (mo, db')" by fastforce
  have "mo_usage mo = moodUsage (callUsage (me_call (we_mood env)))"
    using assignMoodJam_shape [of "we_mood env" plan db] a by auto
  then show ?thesis using a
    by (simp add: enhancePlan_def Let_def moodUsage_def js_or_def del: nat_text.simps)
qed

theorem groceryMeals_aggregates_witness:
  "map_of (the (groceryMeals wow_store [''r1'', ''r2''] [])) ''rice''
     = Some \<lparr>ge_amount = 1, ge_unit = ''cup'', ge_category = Pantry, ge_source_recipes = [''r1'', ''r2'']\<rparr>"
proof -
  have h: "groceryMeals wow_store [''r1'', ''r2''] [] = Some (the (groceryMeals wow_store [''r1'', ''r2''] []))"
    by code_simp
  have r: "groceryRef (groceryOccurrences wow_store [''r1'', ''r2'']) ''rice''
     = Some \<lparr>ge_amount = 1, ge_unit = ''cup'', ge_category = Pantry, ge_source_recipes = [''r1'', ''r2'']\<rparr>"
    by code_simp
  show ?thesis using groceryMeals_aggregates [OF h] r by simp
qed

theorem categorizeIngredient_shadowed_witness:
  "categorizeIngredient ''Garlic powder'' = Produce \<and> categorizeIngredient ''Extra virgin olive oil'' \<notin> {Condiments, Spices}"
proof -
  have g: "str_includes (to_lower ''Garlic powder'') ''garlic''" by code_simp
  have o: "str_includes (to_lower ''Extra virgin olive oil'') ''oil''" by code_simp
  show ?thesis
    using categorizeIngredient_shadowed [of "''Garlic powder''"] categorizeIngredient_shadowed [of "''Extra virgin olive oil''"] g o
    by blast
qed

text \<open>task descriptions use the ingredient name as written, so \<open>Rice\<close> in one recipe
  and \<open>rice\<close> in another give two separate bulk-cooking tasks.\<close>

theorem generatePrepSchedule_case_split_tasks:
  "map pt_description (ps_tasks (generatePrepSchedule wow_store wow_plan))
     = [''Chop vegetables for the week'', ''Cook Rice in bulk'', ''Cook rice in bulk'']"
  by code_simp

end
