(* ===== verification/Plan_Tester.thy ===== *)
theory Plan_Tester
  imports Plan_Generator
begin

text \<open>
  The end-to-end tester (scripts/test-generation.js): for each of four test users it
  inserts the user's rows, calls the plan generator's edge function over HTTP, checks the
  stored plan and deletes the rows. The tester's database is the rows it creates and the
  plans in \<open>meal_plans\<close>; the edge function's answer and the plans it inserted are an
  input of each test, so that \<open>servePlanGenerator\<close> can supply them. Durations, ids and the
  console output are not modelled.
\<close>

subsection \<open>Test users and the tester's rows\<close>

record test_user =
  tu_full_name :: string
  tu_date_of_birth :: string
  tu_height_cm :: rat
  tu_weight_kg :: rat
  tu_activity_level :: string
  tu_diet_type :: string
  tu_allergies :: "string list"
  tu_dislikes :: "string list"
  tu_health_goals :: "string list"
  tu_budget_range :: string
  tu_cooking_time_preference :: rat
  tu_cooking_skill_level :: string
  tu_household_size :: rat
  tu_kitchen_equipment :: "string list"
  tu_flavor_preferences :: "(string \<times> rat) list"
  tu_cultural_preferences :: "string list"
  tu_plan_id :: string

text \<open>\<open>createTestUsers\<close> (lines 230-364), in the order of \<open>Object.entries\<close>.\<close>

definition createTestUsers :: "(string \<times> test_user) list" where
  "createTestUsers =
    [(''Keto Beginner'', \<lparr>tu_full_name = ''Alice Keto'', tu_date_of_birth = ''1990-05-15'', tu_height_cm = 165, tu_weight_kg = 70,
       tu_activity_level = ''moderate'', tu_diet_type = ''keto'', tu_allergies = [], tu_dislikes = [''mushrooms''],
       tu_health_goals = [''weight_loss''], tu_budget_range = ''medium'', tu_cooking_time_preference = 30,
       tu_cooking_skill_level = ''beginner'', tu_household_size = 1, tu_kitchen_equipment = [''oven'', ''stovetop'', ''microwave''],
       tu_flavor_preferences = [(''spicy'', 3), (''sweet'', 2), (''savory'', 8), (''umami'', 6), (''bitter'', 2), (''sour'', 4)],
       tu_cultural_preferences = [''american''], tu_plan_id = ''pro''\<rparr>),
    (''Vegan Athlete'', \<lparr>tu_full_name = ''Bob Plant'', tu_date_of_birth = ''1985-08-22'', tu_height_cm = 180, tu_weight_kg = 75,
       tu_activity_level = ''very_active'', tu_diet_type = ''vegan'', tu_allergies = [''nuts''], tu_dislikes = [],
       tu_health_goals = [''muscle_gain'', ''energy_boost''], tu_budget_range = ''high'', tu_cooking_time_preference = 45,
       tu_cooking_skill_level = ''intermediate'', tu_household_size = 2, tu_kitchen_equipment = [''oven'', ''stovetop'', ''blender'', ''food_processor''],
       tu_flavor_preferences = [(''spicy'', 7), (''sweet'', 4), (''savory'', 8), (''umami'', 9), (''bitter'', 5), (''sour'', 6)],
       tu_cultural_preferences = [''mediterranean'', ''asian''], tu_plan_id = ''family''\<rparr>),
    (''Busy Family'', \<lparr>tu_full_name = ''Carol Family'', tu_date_of_birth = ''1982-12-03'', tu_height_cm = 168, tu_weight_kg = 65,
       tu_activity_level = ''light'', tu_diet_type = ''omnivore'', tu_allergies = [''shellfish''], tu_dislikes = [''liver'', ''organ_meat''],
       tu_health_goals = [''maintenance''], tu_budget_range = ''medium'', tu_cooking_time_preference = 20,
       tu_cooking_skill_level = ''intermediate'', tu_household_size = 4, tu_kitchen_equipment = [''oven'', ''stovetop'', ''microwave'', ''slow_cooker''],
       tu_flavor_preferences = [(''spicy'', 4), (''sweet'', 6), (''savory'', 7), (''umami'', 5), (''bitter'', 3), (''sour'', 4)],
       tu_cultural_preferences = [''american'', ''italian''], tu_plan_id = ''family''\<rparr>),
    (''PCOS Health Focus'', \<lparr>tu_full_name = ''Diana Health'', tu_date_of_birth = ''1993-03-18'', tu_height_cm = 162, tu_weight_kg = 68,
       tu_activity_level = ''moderate'', tu_diet_type = ''pcos'', tu_allergies = [''dairy''], tu_dislikes = [''cilantro''],
       tu_health_goals = [''weight_loss'', ''digestive_health''], tu_budget_range = ''medium'', tu_cooking_time_preference = 35,
       tu_cooking_skill_level = ''advanced'', tu_household_size = 1, tu_kitchen_equipment = [''oven'', ''stovetop'', ''air_fryer'', ''instant_pot''],
       tu_flavor_preferences = [(''spicy'', 6), (''sweet'', 3), (''savory'', 8), (''umami'', 7), (''bitter'', 4), (''sour'', 5)],
       tu_cultural_preferences = [''mediterranean'', ''middle_eastern''], tu_plan_id = ''pro''\<rparr>)]"

record tester_db =
  tdb_users :: "string list"
  tdb_intakes :: "string list"
  tdb_subscriptions :: "string list"
  tdb_meal_plans :: "meal_plan list"

text \<open>Which insert of \<open>createTestUser\<close> fails, with the error's message.\<close>

datatype insert_fault = Users_insert_fails string | Intake_insert_fails string | Subscription_insert_fails string

text \<open>\<open>createTestUser\<close> (lines 100-147): three inserts, each throwing on an error; the rows
  already inserted stay.\<close>

definition createTestUser :: "string \<Rightarrow> insert_fault option \<Rightarrow> tester_db \<Rightarrow> (string + string) \<times> tester_db" where
  "createTestUser uid fault db =
     (case fault of
        Some (Users_insert_fails m) \<Rightarrow> (Inl (''User creation failed: '' @ m), db)
      | _ \<Rightarrow>
          (let db1 = db\<lparr>tdb_users := tdb_users db @ [uid]\<rparr> in
           case fault of
             Some (Intake_insert_fails m) \<Rightarrow> (Inl (''Intake creation failed: '' @ m), db1)
           | _ \<Rightarrow>
               (let db2 = db1\<lparr>tdb_intakes := tdb_intakes db1 @ [uid]\<rparr> in
                case fault of
                  Some (Subscription_insert_fails m) \<Rightarrow> (Inl (''Subscription creation failed: '' @ m), db2)
                | _ \<Rightarrow> (Inr uid, db2\<lparr>tdb_subscriptions := tdb_subscriptions db2 @ [uid]\<rparr>))))"

subsection \<open>The call to the edge function\<close>

text \<open>The request \<open>callPlanGenerator\<close> (lines 149-169) sends: a POST whose
  \<open>Authorization\<close> is the project's anon key and whose body has the next Monday and
  \<open>force_regenerate\<close>. The anon key carries no user, so \<open>auth.getUser()\<close> finds none.\<close>

definition anonKeyUser :: "string option" where
  "anonKeyUser = None"

definition testerRequest :: "string \<Rightarrow> pg_request \<Rightarrow> pg_request" where
  "testerRequest mondayIso rq = rq\<lparr>pq_method := POST, pq_user := anonKeyUser,
     pq_body := Some \<lparr>rp_week_start_date = Some mondayIso, rp_special_requests = None,
                      rp_force_regenerate = Some True, rp_preferences = None\<rparr>\<rparr>"

text \<open>The status of each answer of the edge function, and the text of the error bodies of
  \<open>createErrorResponse\<close> (part\_001 lines 519-534) and of an uncaught error (Deno's
  \<open>serve\<close> answers 500). The text of the other bodies is a parameter.\<close>

definition responseStatus :: "pg_outcome \<Rightarrow> nat" where
  "responseStatus out = (case out of
     Pg_preflight \<Rightarrow> 200 | Pg_error st m \<Rightarrow> st | Pg_invalid_format \<Rightarrow> 422
   | Pg_response st b \<Rightarrow> st | Pg_uncaught e \<Rightarrow> 500)"

definition errorResponseText :: "string \<Rightarrow> nat \<Rightarrow> string" where
  \<open>errorResponseText msg st = ''{"success":false,"error":"'' @ msg @ ''","status":'' @ nat_text st @ ''}''\<close>

definition responseText :: "(pg_outcome \<Rightarrow> string) \<Rightarrow> pg_outcome \<Rightarrow> string" where
  "responseText other out = (case out of
     Pg_error st m \<Rightarrow> errorResponseText m st
   | Pg_uncaught e \<Rightarrow> ''Internal Server Error''
   | _ \<Rightarrow> other out)"

definition callPlanGenerator :: "(pg_outcome \<Rightarrow> string) \<Rightarrow> pg_outcome \<Rightarrow> string + pg_body" where
  "callPlanGenerator other out =
     (if 200 \<le> responseStatus out \<and> responseStatus out < 300 then
        (case out of Pg_response st body \<Rightarrow> Inr body | _ \<Rightarrow> Inl ''Unexpected end of JSON input'')
      else Inl (''Plan generation failed: '' @ nat_text (responseStatus out) @ '' '' @ responseText other out))"

subsection \<open>Checking the plan and cleaning up\<close>

text \<open>\<open>validateGeneratedPlan\<close> (lines 171-216): the plan id (falsy when absent or empty),
  the stored plan with that id, a non-zero recipe count, seven days, and meals on every day.\<close>

definition validateGeneratedPlan :: "string option \<Rightarrow> meal_plan list \<Rightarrow> string + rat \<times> rat" where
  "validateGeneratedPlan planId plans =
     (case planId of
        None \<Rightarrow> Inl ''No plan ID returned from generation''
      | Some pid \<Rightarrow>
          if pid = [] then Inl ''No plan ID returned from generation''
          else (case find (\<lambda>p. mp_id p = pid) plans of
            None \<Rightarrow> Inl ''Generated plan not found in database''
          | Some plan \<Rightarrow>
              (let pd = mp_plan_data plan; totalRecipes = pd_total_recipes pd;
                   uniqueRecipes = pd_unique_recipes pd in
               if totalRecipes = 0 then Inl ''Plan has no recipes''
               else if length (pd_days pd) \<noteq> 7 then Inl (''Expected 7 days, got '' @ nat_text (length (pd_days pd)))
               else (case find (\<lambda>d. dp_meals d = []) (pd_days pd) of
                 Some d \<Rightarrow> Inl (''Day '' @ dp_day d @ '' has no meals'')
               | None \<Rightarrow> Inr (totalRecipes, uniqueRecipes)))))"

text \<open>\<open>cleanupTestUser\<close> (lines 218-228): the four deletes by user id.\<close>

definition cleanupTestUser :: "string \<Rightarrow> tester_db \<Rightarrow> tester_db" where
  "cleanupTestUser uid db = \<lparr>tdb_users = filter (\<lambda>u. u \<noteq> uid) (tdb_users db),
     tdb_intakes = filter (\<lambda>u. u \<noteq> uid) (tdb_intakes db),
     tdb_subscriptions = filter (\<lambda>u. u \<noteq> uid) (tdb_subscriptions db),
     tdb_meal_plans = filter (\<lambda>p. mp_user_id p \<noteq> uid) (tdb_meal_plans db)\<rparr>"

subsection \<open>One test and the run\<close>

record test_result =
  tr_test_name :: string
  tr_success :: bool
  tr_error :: "string option"
  tr_plan_id :: "string option"
  tr_total_recipes :: "rat option"
  tr_unique_recipes :: "rat option"
  tr_cost_cents :: "rat option"

definition failedTest :: "string \<Rightarrow> string \<Rightarrow> test_result" where
  "failedTest name e = \<lparr>tr_test_name = name, tr_success = False, tr_error = Some e, tr_plan_id = None,
     tr_total_recipes = None, tr_unique_recipes = None, tr_cost_cents = None\<rparr>"

text \<open>\<open>testUserPlanGeneration\<close> (lines 62-98); \<open>edge\<close> is the edge function's answer and the
  plans it inserted. The body has no \<open>cost_cents\<close>, so \<open>cost_cents || 0\<close> is 0.\<close>

definition testUserPlanGeneration ::
  "string \<Rightarrow> string \<Rightarrow> insert_fault option \<Rightarrow> pg_outcome \<times> meal_plan list \<Rightarrow> (pg_outcome \<Rightarrow> string)
     \<Rightarrow> tester_db \<Rightarrow> test_result \<times> tester_db" where
  "testUserPlanGeneration name uid fault edge other db =
     (case createTestUser uid fault db of
        (Inl e, db1) \<Rightarrow> (failedTest name e, db1)
      | (Inr u, db1) \<Rightarrow>
          (let db2 = db1\<lparr>tdb_meal_plans := tdb_meal_plans db1 @ snd edge\<rparr> in
           case callPlanGenerator other (fst edge) of
             Inl e \<Rightarrow> (failedTest name e, db2)
           | Inr body \<Rightarrow>
               (case validateGeneratedPlan (pb_plan_id body) (tdb_meal_plans db2) of
                  Inl e \<Rightarrow> (failedTest name e, db2)
                | Inr (tot, uniq) \<Rightarrow>
                    (\<lparr>tr_test_name = name, tr_success = True, tr_error = None, tr_plan_id = pb_plan_id body,
                      tr_total_recipes = Some tot, tr_unique_recipes = Some uniq, tr_cost_cents = Some 0\<rparr>,
                     cleanupTestUser u db2))))"

text \<open>\<open>runAllTests\<close> (lines 28-60) over the test users in order; test \<open>i\<close> gets the user id
  \<open>uid i\<close>, the insert fault \<open>fault i\<close> and the edge function's answer \<open>edge i\<close>.\<close>

fun runTests ::
  "nat \<Rightarrow> (string \<times> test_user) list \<Rightarrow> (nat \<Rightarrow> string) \<Rightarrow> (nat \<Rightarrow> insert_fault option)
     \<Rightarrow> (nat \<Rightarrow> pg_outcome \<times> meal_plan list) \<Rightarrow> (pg_outcome \<Rightarrow> string) \<Rightarrow> tester_db \<Rightarrow> test_result list \<times> tester_db" where
  "runTests i [] uid fault edge other db = ([], db)"
| "runTests i ((name, u) # us) uid fault edge other db =
     (case testUserPlanGeneration name (uid i) (fault i) (edge i) other db of
        (r, db1) \<Rightarrow> (case runTests (Suc i) us uid fault edge other db1 of (rs, db2) \<Rightarrow> (r # rs, db2)))"

definition runAllTests ::
  "(nat \<Rightarrow> string) \<Rightarrow> (nat \<Rightarrow> insert_fault option) \<Rightarrow> (nat \<Rightarrow> pg_outcome \<times> meal_plan list)
     \<Rightarrow> (pg_outcome \<Rightarrow> string) \<Rightarrow> tester_db \<Rightarrow> test_result list \<times> tester_db" where
  "runAllTests uid fault edge other db = runTests 0 createTestUsers uid fault edge other db"

text \<open>The edge function as the tester reaches it: the answer of \<open>servePlanGenerator\<close> to the
  tester's request, and the plans it inserted.\<close>

definition edgeCall ::
  "(pg_request \<Rightarrow> pg_state \<Rightarrow> pg_outcome \<times> pg_state) \<Rightarrow> string \<Rightarrow> pg_request \<Rightarrow> pg_state \<Rightarrow> pg_outcome \<times> meal_plan list" where
  "edgeCall serve mondayIso rq st =
     (case serve (testerRequest mondayIso rq) st of
        (out, st') \<Rightarrow> (out, drop (length (pgs_meal_plans st)) (pgs_meal_plans st')))"

text \<open>The error every test reports when the edge function answers 401.\<close>

definition unauthorizedFailure :: string where
  "unauthorizedFailure = ''Plan generation failed: '' @ nat_text 401 @ '' ''
     @ errorResponseText ''Unauthorized: Invalid or missing authentication'' 401"

subsection \<open>Properties\<close>

lemma generateFallbackPlan_shape:
  assumes "generateFallbackPlan recipes uuid ctx = Inr p"
  shows "mp_id p = uuid \<and> length (pd_days (mp_plan_data p)) = 3 \<and> pd_total_recipes (mp_plan_data p) = 9"
proof -
  have "fetchFallbackRecipes recipes \<noteq> []" using assms by (auto simp: generateFallbackPlan_def Let_def)
  then show ?thesis using assms
    by (auto simp: generateFallbackPlan_def Let_def fallbackDays_def simp del: nat_text.simps)
qed

text \<open>C28: the tester's plan check refuses every fallback plan of the controller: it
  expects seven days, and the fallback plan has three.\<close>

theorem validateGeneratedPlan_rejects_fallback:
  assumes "generateFallbackPlan recipes uuid ctx = Inr p" "uuid \<noteq> []"
  shows "validateGeneratedPlan (Some (mp_id p)) (p # plans) = Inl ''Expected 7 days, got 3''"
proof -
  have s: "mp_id p = uuid" "length (pd_days (mp_plan_data p)) = 3" "pd_total_recipes (mp_plan_data p) = 9"
    using generateFallbackPlan_shape [OF assms(1)] by auto
  have "nat_text 3 = ''3''" by simp
  then show ?thesis using s assms(2) by (simp add: validateGeneratedPlan_def Let_def del: nat_text.simps)
qed

lemma edgeCall_tester_401:
  "edgeCall (servePlanGenerator sc parseDate today year g env recipes uuid) mondayIso rq st
     = (Pg_error 401 ''Unauthorized: Invalid or missing authentication'', [])"
  by (simp add: edgeCall_def servePlanGenerator_def testerRequest_def anonKeyUser_def validateRequest_def)

lemma testUser_401:
  "testUserPlanGeneration name uid None (Pg_error 401 ''Unauthorized: Invalid or missing authentication'', []) other db
     = (failedTest name unauthorizedFailure,
        db\<lparr>tdb_users := tdb_users db @ [uid], tdb_intakes := tdb_intakes db @ [uid],
           tdb_subscriptions := tdb_subscriptions db @ [uid]\<rparr>)"
  by (simp add: testUserPlanGeneration_def createTestUser_def callPlanGenerator_def responseStatus_def
      responseText_def unauthorizedFailure_def del: nat_text.simps)

lemma runTests_401:
  "runTests i us uid (\<lambda>j. None) (\<lambda>j. (Pg_error 401 ''Unauthorized: Invalid or missing authentication'', [])) other db
     = (map (\<lambda>nu. failedTest (fst nu) unauthorizedFailure) us,
        db\<lparr>tdb_users := tdb_users db @ map uid [i..<i + length us],
           tdb_intakes := tdb_intakes db @ map uid [i..<i + length us],
           tdb_subscriptions := tdb_subscriptions db @ map uid [i..<i + length us]\<rparr>)"
proof (induction us arbitrary: i db)
  case (Cons nu us)
  obtain n u where nu: "nu = (n, u)" by fastforce
  have r: "[i..<i + length (nu # us)] = i # [Suc i..<Suc i + length us]"
    by (simp add: upt_rec del: upt_Suc)
  show ?case using Cons.IH [of "Suc i"] by (simp add: nu testUser_401 upt_conv_Cons del: upt_Suc)
qed simp

lemma length_createTestUsers: "length createTestUsers = 4"
  by (simp add: createTestUsers_def)

text \<open>C14: run against the edge function, every test fails: the tester authenticates with
  the anon key, which \<open>validateRequest\<close> refuses with 401 before anything else, so all
  four tests report the 401 error, and the test users' rows stay in \<open>users\<close>,
  \<open>user_intake\<close> and \<open>subscriptions\<close> because the cleanup runs only after a success.\<close>

theorem runAllTests_all_unauthorized:
  assumes "runAllTests uid (\<lambda>i. None)
             (\<lambda>i. edgeCall (servePlanGenerator sc parseDate today year g env recipes uuid) mondayIso (rq i) (st i))
             other db = (rs, db')"
  shows "length rs = 4 \<and> list_all (\<lambda>r. \<not> tr_success r \<and> tr_error r = Some unauthorizedFailure) rs
         \<and> tdb_users db' = tdb_users db @ map uid [0..<4]
         \<and> tdb_subscriptions db' = tdb_subscriptions db @ map uid [0..<4]"
proof -
  have "rs = map (\<lambda>nu. failedTest (fst nu) unauthorizedFailure) createTestUsers"
       "db' = db\<lparr>tdb_users := tdb_users db @ map uid [0..<4], tdb_intakes := tdb_intakes db @ map uid [0..<4],
                 tdb_subscriptions := tdb_subscriptions db @ map uid [0..<4]\<rparr>"
    using assms runTests_401 [of 0 createTestUsers uid other db]
    by (simp_all add: runAllTests_def edgeCall_tester_401 length_createTestUsers)
  then show ?thesis by (simp add: length_createTestUsers list_all_iff failedTest_def)
qed

theorem runAllTests_all_unauthorized_witness:
  "length (fst (runAllTests (\<lambda>i. ''t'' @ nat_text i) (\<lambda>i. None)
      (\<lambda>i. edgeCall (servePlanGenerator source_scope demo_parseDate 20000 2025 ''g1'' all_ok_env [] ''p0'')
             ''2024-10-07'' demo_request pg_init)
      (\<lambda>out. []) \<lparr>tdb_users = [], tdb_intakes = [], tdb_subscriptions = [], tdb_meal_plans = []\<rparr>)) = 4
   \<and> list_all (\<lambda>r. \<not> tr_success r) (fst (runAllTests (\<lambda>i. ''t'' @ nat_text i) (\<lambda>i. None)
      (\<lambda>i. edgeCall (servePlanGenerator source_scope demo_parseDate 20000 2025 ''g1'' all_ok_env [] ''p0'')
             ''2024-10-07'' demo_request pg_init)
      (\<lambda>out. []) \<lparr>tdb_users = [], tdb_intakes = [], tdb_subscriptions = [], tdb_meal_plans = []\<rparr>))"
proof -
  let ?r = "runAllTests (\<lambda>i. ''t'' @ nat_text i) (\<lambda>i. None)
      (\<lambda>i. edgeCall (servePlanGenerator source_scope demo_parseDate 20000 2025 ''g1'' all_ok_env [] ''p0'')
             ''2024-10-07'' demo_request pg_init)
      (\<lambda>out. []) \<lparr>tdb_users = [], tdb_intakes = [], tdb_subscriptions = [], tdb_meal_plans = []\<rparr>"
  have h: "?r = (fst ?r, snd ?r)" by simp
  show ?thesis using runAllTests_all_unauthorized [OF h] by (simp add: list_all_iff)
qed

theorem validateGeneratedPlan_rejects_fallback_witness:
  "validateGeneratedPlan (Some (mp_id (projr (generateFallbackPlan [fb_recipe ''a'' [] False] ''p0'' demo_ctx))))
     [projr (generateFallbackPlan [fb_recipe ''a'' [] False] ''p0'' demo_ctx)] = Inl ''Expected 7 days, got 3''"
proof -
  have h: "generateFallbackPlan [fb_recipe ''a'' [] False] ''p0'' demo_ctx
             = Inr (projr (generateFallbackPlan [fb_recipe ''a'' [] False] ''p0'' demo_ctx))"
    by code_simp
  show ?thesis using validateGeneratedPlan_rejects_fallback [OF h, of "[]"] by simp
qed

end
