(* ===== verification/USDA_Seeder.thy ===== *)
theory USDA_Seeder
  imports Prelude "HOL-Library.Code_Target_Nat"
begin

text \<open>
  The USDA seeding script (scripts/seed-usda-data.js): \<open>USDASeeder.run\<close> asks for
  confirmation when \<open>usda_nutrition_data\<close> already has rows, then inserts the Foundation
  sample and the SR Legacy sample in slices of \<open>batchSize = 100\<close>; one slice is one
  \<open>insert\<close> statement, which Postgres applies entirely or not at all. The table's only
  constraint that the samples can violate is the primary key \<open>fdc_id\<close>
  (database/schema-additions.sql lines 13-35). The state is the pair of the seeder's two
  counters and the table's rows; the console output is not modelled.
\<close>

subsection \<open>Foods, rows and the seeder's state\<close>

record usda_food =
  food_fdc_id :: nat
  food_description :: string
  food_calories :: rat
  food_protein :: rat
  food_fat :: rat
  food_carbohydrates :: rat
  food_fiber :: rat
  food_sugar :: rat
  food_publication_date :: "string option"

definition food :: "nat \<Rightarrow> string \<Rightarrow> rat \<Rightarrow> rat \<Rightarrow> rat \<Rightarrow> rat \<Rightarrow> rat \<Rightarrow> rat \<Rightarrow> string option \<Rightarrow> usda_food" where
  "food i d cal p f c fi su pd = \<lparr>food_fdc_id = i, food_description = d, food_calories = cal, food_protein = p,
     food_fat = f, food_carbohydrates = c, food_fiber = fi, food_sugar = su, food_publication_date = pd\<rparr>"

text \<open>A row of \<open>usda_nutrition_data\<close> as \<open>insertBatch\<close> builds it (lines 115-127); no sample
  food has \<open>nutrients\<close>, so the column is always the empty object, and the publication
  date is kept as the ISO text \<open>new Date\<close> reads.\<close>

record usda_row =
  ur_fdc_id :: nat
  ur_description :: string
  ur_calories :: rat
  ur_protein :: rat
  ur_fat :: rat
  ur_carbohydrates :: rat
  ur_fiber :: rat
  ur_sugar :: rat
  ur_data_type :: string
  ur_publication_date :: "string option"

definition foodRow :: "string \<Rightarrow> usda_food \<Rightarrow> usda_row" where
  "foodRow dataType f = \<lparr>ur_fdc_id = food_fdc_id f, ur_description = food_description f,
     ur_calories = food_calories f, ur_protein = food_protein f, ur_fat = food_fat f,
     ur_carbohydrates = food_carbohydrates f, ur_fiber = food_fiber f, ur_sugar = food_sugar f,
     ur_data_type = dataType, ur_publication_date = food_publication_date f\<rparr>"

record seeder =
  processedCount :: nat
  errorCount :: nat

type_synonym seed_state = "seeder \<times> usda_row list"

definition usdaBatchSize :: nat where
  "usdaBatchSize = 100"

definition newSeeder :: seeder where
  "newSeeder = \<lparr>processedCount = 0, errorCount = 0\<rparr>"

subsection \<open>The sample data\<close>

text \<open>\<open>getFoundationFoodsSample\<close> (lines 143-366).\<close>

definition foundationFoodsSample :: "usda_food list" where
  \<open>foundationFoodsSample =
    [food 746773 ''Chicken, broiler or fryers, breast, skinless, boneless, meat only, raw'' 165 31 3.6 0 0 0 (Some ''2019-04-01''),
     food 342522 ''Beef, chuck, arm pot roast, separable lean only, trimmed to 0" fat, choice, raw'' 124 20.2 4.3 0 0 0 (Some ''2019-04-01''),
     food 747447 ''Rice, white, long-grain, regular, raw, unenriched'' 365 7.1 0.7 80 1.3 0.1 (Some ''2019-04-01''),
     food 170426 ''Onions, raw'' 40 1.1 0.1 9.3 1.7 4.2 (Some ''2019-04-01''),
     food 170457 ''Garlic, raw'' 149 6.4 0.5 33 2.1 1 (Some ''2019-04-01''),
     food 170765 ''Tomatoes, red, ripe, raw, year round average'' 18 0.9 0.2 3.9 1.2 2.6 (Some ''2019-04-01''),
     food 170417 ''Carrots, raw'' 41 0.9 0.2 9.6 2.8 4.7 (Some ''2019-04-01''),
     food 168462 ''Salmon, Atlantic, farmed, raw'' 208 20.4 12.4 0 0 0 (Some ''2019-04-01''),
     food 171287 ''Milk, reduced fat, fluid, 2% milkfat, with added vitamin A and vitamin D'' 50 3.3 2 4.8 0 4.8 (Some ''2019-04-01''),
     food 173410 ''Eggs, Grade A, Large, egg whole'' 155 13 11 1.1 0 1.1 (Some ''2019-04-01''),
     food 170890 ''Spinach, raw'' 23 2.9 0.4 3.6 2.2 0.4 (Some ''2019-04-01''),
     food 168409 ''Sweet potato, raw, unprepared'' 86 1.6 0.1 20.1 3 4.2 (Some ''2019-04-01''),
     food 170178 ''Broccoli, raw'' 34 2.8 0.4 6.6 2.6 1.5 (Some ''2019-04-01''),
     food 169962 ''Avocados, raw, all commercial varieties'' 160 2 14.7 8.5 6.7 0.7 (Some ''2019-04-01''),
     food 175167 ''Quinoa, uncooked'' 368 14.1 6.1 64.2 7 4.6 (Some ''2019-04-01''),
     food 170567 ''Beans, black, mature seeds, raw'' 341 21.6 1.4 62.4 15.5 2.1 (Some ''2019-04-01''),
     food 167762 ''Almonds, raw'' 579 21.2 49.9 21.6 12.5 4.4 (Some ''2019-04-01''),
     food 170419 ''Bell peppers, red, raw'' 31 1 0.3 7.3 2.5 4.2 (Some ''2019-04-01''),
     food 171330 ''Cheese, cheddar'' 403 24.9 33.1 1.3 0 0.5 (Some ''2019-04-01''),
     food 168917 ''Olive oil, extra virgin'' 884 0 100 0 0 0 (Some ''2019-04-01'')]\<close>

text \<open>\<open>getSRLegacyFoodsSample\<close> (lines 369-427).\<close>

definition srLegacyFoodsSample :: "usda_food list" where
  \<open>srLegacyFoodsSample =
    [food 168462 ''Fish, salmon, Atlantic, farmed, cooked, dry heat'' 231 25.4 13.4 0 0 0 (Some ''2019-04-01''),
     food 169094 ''Pasta, cooked, unenriched, without added salt'' 131 5 1.1 25 1.8 0.6 (Some ''2019-04-01''),
     food 170073 ''Potatoes, flesh and skin, raw'' 77 2 0.1 17.5 2.2 0.8 (Some ''2019-04-01''),
     food 172421 ''Yogurt, plain, low fat, 12 grams protein per 8 ounce'' 63 5.3 1.6 7 0 7 (Some ''2019-04-01''),
     food 169417 ''Bananas, raw'' 89 1.1 0.3 22.8 2.6 12.2 (Some ''2019-04-01'')]\<close>

subsection \<open>Inserting and the batch loop\<close>

text \<open>\<open>insertBatch\<close> (lines 112-140): the insert is refused as a whole when a row's
  \<open>fdc_id\<close> is already in the table or occurs twice in the batch; the error is counted,
  not raised.\<close>

definition insertBatch :: "usda_food list \<Rightarrow> string \<Rightarrow> seed_state \<Rightarrow> seed_state" where
  "insertBatch foods dataType st = (case st of (s, rows) \<Rightarrow>
     (let new = map (foodRow dataType) foods; ids = map ur_fdc_id new in
      if distinct ids \<and> set ids \<inter> set (map ur_fdc_id rows) = {}
      then (s\<lparr>processedCount := processedCount s + length foods\<rparr>, rows @ new)
      else (s\<lparr>errorCount := errorCount s + length foods\<rparr>, rows)))"

text \<open>The loops of \<open>processFoundationFoods\<close> and \<open>processSRLegacyFoods\<close> (lines 84-110):
  \<open>for (i = 0; i < length; i += batchSize)\<close> over \<open>foods.slice(i, i + batchSize)\<close>.\<close>

function processLoop :: "usda_food list \<Rightarrow> string \<Rightarrow> nat \<Rightarrow> seed_state \<Rightarrow> seed_state" where
  "processLoop foods dataType i st =
     (if i < length foods
      then processLoop foods dataType (i + usdaBatchSize) (insertBatch (take usdaBatchSize (drop i foods)) dataType st)
      else st)"
  by pat_completeness auto
termination
  by (relation "measure (\<lambda>(foods, dataType, i, st). length foods - i)") (auto simp: usdaBatchSize_def)

definition processFoundationFoods :: "seed_state \<Rightarrow> seed_state" where
  "processFoundationFoods st = processLoop foundationFoodsSample ''foundation'' 0 st"

definition processSRLegacyFoods :: "seed_state \<Rightarrow> seed_state" where
  "processSRLegacyFoods st = processLoop srLegacyFoodsSample ''sr_legacy'' 0 st"

subsection \<open>The run\<close>

datatype seed_outcome = Seeding_cancelled | Seeding_completed seeder

text \<open>\<open>run\<close> (lines 38-82): the count of existing rows, the confirmation line typed by the
  user when there are rows, then the two samples in order.\<close>

definition run :: "string \<Rightarrow> usda_row list \<Rightarrow> seed_outcome \<times> usda_row list" where
  "run answer rows =
     (if 0 < length rows \<and> to_lower answer \<noteq> ''y'' then (Seeding_cancelled, rows)
      else (let st = processSRLegacyFoods (processFoundationFoods (newSeeder, rows)) in
            (Seeding_completed (fst st), snd st)))"

declare processLoop.simps [simp del]

text \<open>Reference view of the loop: the slices of \<open>n\<close> elements.\<close>

function chunks :: "nat \<Rightarrow> 'a list \<Rightarrow> 'a list list" where
  "chunks n xs = (if xs = [] \<or> n = 0 then [] else take n xs # chunks n (drop n xs))"
  by pat_completeness auto
termination
  by (relation "measure (\<lambda>(n, xs). length xs)") auto

declare chunks.simps [simp del]

text \<open>What one run does to the state: the primary key holds, the rows added are the
  foods counted as processed, and \<open>k\<close> foods were counted.\<close>

definition seed_inv :: "nat \<Rightarrow> seed_state \<Rightarrow> seed_state \<Rightarrow> bool" where
  "seed_inv k st0 st \<longleftrightarrow> distinct (map ur_fdc_id (snd st))
     \<and> length (snd st) + processedCount (fst st0) = length (snd st0) + processedCount (fst st)
     \<and> processedCount (fst st) + errorCount (fst st) = processedCount (fst st0) + errorCount (fst st0) + k"

subsection \<open>Properties\<close>

lemma chunks_Nil [simp]: "chunks n [] = []"
  by (simp add: chunks.simps)

lemma chunks_step: "0 < n \<Longrightarrow> xs \<noteq> [] \<Longrightarrow> chunks n xs = take n xs # chunks n (drop n xs)"
  by (simp add: chunks.simps)

lemma chunks_props:
  assumes "0 < n"
  shows "concat (chunks n xs) = xs \<and> list_all (\<lambda>b. b \<noteq> [] \<and> length b \<le> n) (chunks n xs)"
  using assms
proof (induction n xs rule: chunks.induct)
  case (1 n xs)
  then show ?case by (cases "xs = []") (auto simp: chunks_step)
qed

lemma processLoop_foldl:
  "processLoop foods dt i st = foldl (\<lambda>st b. insertBatch b dt st) st (chunks usdaBatchSize (drop i foods))"
proof (induction foods dt i st rule: processLoop.induct)
  case (1 foods dt i st)
  show ?case
  proof (cases "i < length foods")
    case True
    have "chunks usdaBatchSize (drop i foods)
            = take usdaBatchSize (drop i foods) # chunks usdaBatchSize (drop (i + usdaBatchSize) foods)"
      using True by (simp add: chunks_step usdaBatchSize_def add.commute)
    then show ?thesis using 1 True by (subst processLoop.simps) simp
  next
    case False
    then show ?thesis by (subst processLoop.simps) simp
  qed
qed

text \<open>the batch loop inserts the slices of at most 100 foods in order; the slices are
  non-empty and together are the whole list.\<close>

theorem processLoop_slices:
  "processLoop foods dt 0 st = foldl (\<lambda>st b. insertBatch b dt st) st (chunks usdaBatchSize foods)
   \<and> concat (chunks usdaBatchSize foods) = foods
   \<and> list_all (\<lambda>b. b \<noteq> [] \<and> length b \<le> usdaBatchSize) (chunks usdaBatchSize foods)"
  using processLoop_foldl [of foods dt 0 st] chunks_props [of usdaBatchSize foods]
  by (simp add: usdaBatchSize_def)

lemma foodRow_id [simp]: "ur_fdc_id (foodRow dt f) = food_fdc_id f"
  by (simp add: foodRow_def)

lemma foodRow_ids [simp]: "map ur_fdc_id (map (foodRow dt) foods) = map food_fdc_id foods"
  by (simp add: foodRow_def)

lemma insertBatch_inv:
  assumes "distinct (map ur_fdc_id (snd st))"
  shows "seed_inv (length foods) st (insertBatch foods dt st)"
  using assms by (cases st) (auto simp: seed_inv_def insertBatch_def Let_def image_image comp_def)

lemma seed_inv_trans:
  "seed_inv k st0 st1 \<Longrightarrow> seed_inv l st1 st2 \<Longrightarrow> seed_inv (k + l) st0 st2"
  by (simp add: seed_inv_def)

lemma fold_inv:
  assumes "distinct (map ur_fdc_id (snd st))"
  shows "seed_inv (length (concat bs)) st (foldl (\<lambda>st b. insertBatch b dt st) st bs)"
  using assms
proof (induction bs arbitrary: st)
  case Nil
  then show ?case by (simp add: seed_inv_def)
next
  case (Cons b bs)
  have h: "seed_inv (length b) st (insertBatch b dt st)" using insertBatch_inv [OF Cons.prems] .
  then have "distinct (map ur_fdc_id (snd (insertBatch b dt st)))" by (simp add: seed_inv_def)
  then show ?case using seed_inv_trans [OF h Cons.IH] by simp
qed

lemma processLoop_inv:
  assumes "distinct (map ur_fdc_id (snd st))"
  shows "seed_inv (length foods) st (processLoop foods dt 0 st)"
  using fold_inv [OF assms, of "chunks usdaBatchSize foods" dt] processLoop_foldl [of foods dt 0 st]
    chunks_props [of usdaBatchSize foods]
  by (simp add: usdaBatchSize_def)

text \<open>a completed run keeps the primary key, adds exactly as many rows as it counts as
  processed, and counts every sample food once, as processed or as an error.\<close>

theorem run_keeps_key_and_counts:
  assumes "run answer rows = (Seeding_completed s, rows')" "distinct (map ur_fdc_id rows)"
  shows "distinct (map ur_fdc_id rows') \<and> length rows' = length rows + processedCount s
         \<and> processedCount s + errorCount s = length foundationFoodsSample + length srLegacyFoodsSample"
proof -
  let ?st1 = "processFoundationFoods (newSeeder, rows)"
  have i1: "seed_inv (length foundationFoodsSample) (newSeeder, rows) ?st1"
    using processLoop_inv [of "(newSeeder, rows)"] assms(2) by (simp add: processFoundationFoods_def)
  then have "distinct (map ur_fdc_id (snd ?st1))" by (simp add: seed_inv_def)
  then have i2: "seed_inv (length srLegacyFoodsSample) ?st1 (processSRLegacyFoods ?st1)"
    using processLoop_inv [of ?st1] by (simp add: processSRLegacyFoods_def)
  have "seed_inv (length foundationFoodsSample + length srLegacyFoodsSample) (newSeeder, rows) (processSRLegacyFoods ?st1)"
    using seed_inv_trans [OF i1 i2] .
  moreover have "s = fst (processSRLegacyFoods ?st1)" "rows' = snd (processSRLegacyFoods ?st1)"
    using assms(1) by (auto simp: run_def Let_def split: if_splits)
  ultimately show ?thesis by (simp add: seed_inv_def newSeeder_def)
qed

lemma insertBatch_refused:
  assumes "a \<in> set (map food_fdc_id foods)" "a \<in> set (map ur_fdc_id rows)"
  shows "insertBatch foods dt (s, rows) = (s\<lparr>errorCount := errorCount s + length foods\<rparr>, rows)"
  using assms by (auto simp: insertBatch_def Let_def image_image comp_def)

lemma insertBatch_accepted:
  assumes "distinct (map food_fdc_id foods)" "set (map food_fdc_id foods) \<inter> set (map ur_fdc_id rows) = {}"
  shows "insertBatch foods dt (s, rows) =
           (s\<lparr>processedCount := processedCount s + length foods\<rparr>, rows @ map (foodRow dt) foods)"
  using assms by (simp add: insertBatch_def Let_def comp_def image_image)

lemma sample_chunks:
  "chunks usdaBatchSize foundationFoodsSample = [foundationFoodsSample]"
  "chunks usdaBatchSize srLegacyFoodsSample = [srLegacyFoodsSample]"
  by code_simp+

lemma sample_facts:
  "746773 \<in> set (map food_fdc_id foundationFoodsSample)"
  "168462 \<in> set (map food_fdc_id foundationFoodsSample)"
  "168462 \<in> set (map food_fdc_id srLegacyFoodsSample)"
  "length foundationFoodsSample = 20" "length srLegacyFoodsSample = 5"
  "distinct (map food_fdc_id foundationFoodsSample)"
  by code_simp+

text \<open>once the Foundation foods are in the table, confirming a rerun stores nothing and
  counts all 25 foods as errors: each slice is one insert and contains a key already there.\<close>

theorem run_rerun_refused:
  assumes "set (map food_fdc_id foundationFoodsSample) \<subseteq> set (map ur_fdc_id rows)"
  shows "run ''y'' rows = (Seeding_completed \<lparr>processedCount = 0, errorCount = 25\<rparr>, rows)"
proof -
  have in1: "746773 \<in> set (map ur_fdc_id rows)" "168462 \<in> set (map ur_fdc_id rows)"
    using assms sample_facts(1,2) by blast+
  have "rows \<noteq> []" using in1 by auto
  have f: "processFoundationFoods (newSeeder, rows) = (\<lparr>processedCount = 0, errorCount = 20\<rparr>, rows)"
    using insertBatch_refused [OF sample_facts(1) in1(1)]
    by (simp add: processFoundationFoods_def processLoop_foldl sample_chunks sample_facts newSeeder_def)
  have s: "processSRLegacyFoods (\<lparr>processedCount = 0, errorCount = 20\<rparr>, rows) = (\<lparr>processedCount = 0, errorCount = 25\<rparr>, rows)"
    using insertBatch_refused [OF sample_facts(3) in1(2)]
    by (simp add: processSRLegacyFoods_def processLoop_foldl sample_chunks sample_facts)
  show ?thesis using f s by (simp add: run_def Let_def to_lower_def lower_char_def)
qed

theorem run_rerun_refused_witness:
  "run ''y'' (snd (run ''y'' [])) = (Seeding_completed \<lparr>processedCount = 0, errorCount = 25\<rparr>, snd (run ''y'' []))"
proof (rule run_rerun_refused)
  show "set (map food_fdc_id foundationFoodsSample) \<subseteq> set (map ur_fdc_id (snd (run ''y'' [])))"
    by code_simp
qed

text \<open>C17: on every table that holds none of the Foundation sample's \<open>fdc_id\<close>s, the
  empty one included, a run that goes ahead stores the 20 Foundation foods and none of the
  SR Legacy foods: the SR Legacy sample reuses the \<open>fdc_id\<close> 168462 of the Foundation
  salmon, so its only batch, one insert, violates the primary key and is refused whole.\<close>

theorem run_refuses_sr_legacy:
  assumes "set (map ur_fdc_id rows) \<inter> set (map food_fdc_id foundationFoodsSample) = {}"
    and "rows = [] \<or> to_lower answer = ''y''"
  shows "run answer rows = (Seeding_completed \<lparr>processedCount = 20, errorCount = 5\<rparr>,
                            rows @ map (foodRow ''foundation'') foundationFoodsSample)"
proof -
  let ?rows1 = "rows @ map (foodRow ''foundation'') foundationFoodsSample"
  have f: "processFoundationFoods (newSeeder, rows) = (\<lparr>processedCount = 20, errorCount = 0\<rparr>, ?rows1)"
    using insertBatch_accepted [OF sample_facts(6), of rows "''foundation''" newSeeder] assms(1)
    by (simp add: processFoundationFoods_def processLoop_foldl sample_chunks sample_facts newSeeder_def Int_commute)
  have in2: "168462 \<in> set (map ur_fdc_id ?rows1)" using sample_facts(2) by simp
  have s: "processSRLegacyFoods (\<lparr>processedCount = 20, errorCount = 0\<rparr>, ?rows1)
                  = (\<lparr>processedCount = 20, errorCount = 5\<rparr>, ?rows1)"
    using insertBatch_refused [OF sample_facts(3) in2, of "''sr_legacy''" "\<lparr>processedCount = 20, errorCount = 0\<rparr>"]
    by (simp add: processSRLegacyFoods_def processLoop_foldl sample_chunks sample_facts)
  have "\<not> (0 < length rows \<and> to_lower answer \<noteq> ''y'')" using assms(2) by auto
  then show ?thesis using f s by (simp add: run_def Let_def)
qed

theorem run_keeps_key_and_counts_witness:
  "distinct (map ur_fdc_id (snd (run ''y'' [])))
   \<and> length (snd (run ''y'' [])) = 0 + processedCount \<lparr>processedCount = 20, errorCount = 5\<rparr>"
proof -
  have r: "run ''y'' [] = (Seeding_completed \<lparr>processedCount = 20, errorCount = 5\<rparr>, snd (run ''y'' []))"
    by code_simp
  show ?thesis using run_keeps_key_and_counts [OF r] by simp
qed

theorem run_refuses_sr_legacy_witness:
  "run ''Y'' [foodRow ''survey'' (food 999 ''Test food'' 1 1 1 1 1 1 None)]
     = (Seeding_completed \<lparr>processedCount = 20, errorCount = 5\<rparr>,
        [foodRow ''survey'' (food 999 ''Test food'' 1 1 1 1 1 1 None)] @ map (foodRow ''foundation'') foundationFoodsSample)"
proof (rule run_refuses_sr_legacy)
  show "set (map ur_fdc_id [foodRow ''survey'' (food 999 ''Test food'' 1 1 1 1 1 1 None)])
          \<inter> set (map food_fdc_id foundationFoodsSample) = {}"
    by code_simp
  show "[foodRow ''survey'' (food 999 ''Test food'' 1 1 1 1 1 1 None)] = [] \<or> to_lower ''Y'' = ''y''"
    by code_simp
qed

end
