(* ===== verification/Nutrition_DB.thy ===== *)
theory Nutrition_DB
  imports Nutrition_Council USDA_Seeder Row_Security Mood_Jam
begin

text \<open>
  The database functions of database/schema-additions.sql and their callers:
  \<^item> \<open>search_nutrition_data\<close> (lines 178-210), the fuzzy search of the USDA table, and the
    two copies of \<open>lookupUSDANutrition\<close> that call it through \<open>supabase.rpc\<close>
    (nutrition-validator/index.ts lines 432-449, agents/nutrition-council.ts lines 423-443).
    Composed, they are the \<open>usda_lookup\<close> that \<^theory_text>\<open>Nutrient_Resolver\<close> and
    \<^theory_text>\<open>Nutrition_Council\<close> take as a parameter, over the rows the seeder of
    \<^theory_text>\<open>USDA_Seeder\<close> writes and that the caller's role may read under
    \<^theory_text>\<open>Row_Security\<close>. The trigram similarity, the \<open>%\<close> operator, full-text match and
    \<open>ts_rank\<close> are the pg_trgm and text-search library's; they are parameters.
  \<^item> \<open>calculate_plan_nutrition\<close> (lines 212-263), a PL/pgSQL loop over a plan's JSON,
    with SQL's \<open>NULL\<close> propagation and PostgreSQL's resolution of \<open>jsonb_set\<close>;
  \<^item> the trigger function \<open>update_grocery_list_timestamp\<close> (lines 270-281).
\<close>

subsection \<open>\<open>search_nutrition_data\<close>\<close>

record text_search =
  ts_similarity :: "string \<Rightarrow> string \<Rightarrow> rat"
  ts_trgm_match :: "string \<Rightarrow> string \<Rightarrow> bool"
  ts_fts_match :: "string \<Rightarrow> string \<Rightarrow> bool"
  ts_rank :: "string \<Rightarrow> string \<Rightarrow> rat"

text \<open>A row of the function's \<open>RETURNS TABLE\<close> (lines 182-190): no fiber, no sugar.\<close>

record search_row =
  sr_fdc_id :: nat
  sr_description :: string
  sr_calories :: "rat option"
  sr_protein :: "rat option"
  sr_fat :: "rat option"
  sr_carbohydrates :: "rat option"
  sr_similarity_score :: rat

definition usda_match :: "text_search \<Rightarrow> string \<Rightarrow> USDA_Seeder.usda_row \<Rightarrow> bool" where
  "usda_match ts name u = (ts_trgm_match ts (ur_description u) name \<or> ts_fts_match ts (ur_description u) name)"

definition searchRow :: "text_search \<Rightarrow> string \<Rightarrow> USDA_Seeder.usda_row \<Rightarrow> search_row" where
  "searchRow ts name u = \<lparr>sr_fdc_id = ur_fdc_id u, sr_description = ur_description u,
     sr_calories = Some (ur_calories u), sr_protein = Some (ur_protein u), sr_fat = Some (ur_fat u),
     sr_carbohydrates = Some (ur_carbohydrates u), sr_similarity_score = ts_similarity ts (ur_description u) name\<rparr>"

text \<open>The query of lines 192-208: the matching rows by similarity, then rank, both
  descending, at most \<open>max_results\<close> of them. Rows equal in both keys, which SQL leaves
  in no particular order, keep the table's order.\<close>

definition search_key :: "text_search \<Rightarrow> string \<Rightarrow> USDA_Seeder.usda_row \<Rightarrow> rat \<times> rat" where
  "search_key ts name u = (- ts_similarity ts (ur_description u) name, - ts_rank ts (ur_description u) name)"

definition search_nutrition_data ::
  "text_search \<Rightarrow> USDA_Seeder.usda_row list \<Rightarrow> string \<Rightarrow> nat \<Rightarrow> search_row list" where
  "search_nutrition_data ts tbl name max_results =
     map (searchRow ts name) (take max_results (sort_key (search_key ts name) (filter (usda_match ts name) tbl)))"

text \<open>The rows of \<open>usda_nutrition_data\<close> a client sees: the function runs with its caller's
  rights, so row-level security filters the table.\<close>

definition usda_pg_row :: "USDA_Seeder.usda_row \<Rightarrow> pg_row" where
  "usda_pg_row u = [(''fdc_id'', nat_text (ur_fdc_id u)), (''description'', ur_description u)]"

definition visible_usda :: "pg_db \<Rightarrow> pg_client \<Rightarrow> USDA_Seeder.usda_row list \<Rightarrow> USDA_Seeder.usda_row list" where
  "visible_usda d cl tbl = filter (\<lambda>u. client_reads d cl ''usda_nutrition_data'' (usda_pg_row u)) tbl"

subsection \<open>\<open>lookupUSDANutrition\<close>\<close>

text \<open>The outcome of \<open>supabase.rpc\<close>: it throws, returns an error, or returns \<open>data\<close>
  (\<open>null\<close> or an array).\<close>

datatype 'a rpc_result = Rpc_threw | Rpc_error | Rpc_data "'a list option"

text \<open>The validator's \<open>lookupUSDANutrition\<close> (lines 432-449): the first row, or \<open>null\<close> on
  an error, no data, an empty array or an exception.\<close>

definition lookupUSDANutrition :: "search_row rpc_result \<Rightarrow> search_row option" where
  "lookupUSDANutrition res = (case res of
      Rpc_threw \<Rightarrow> None
    | Rpc_error \<Rightarrow> None
    | Rpc_data None \<Rightarrow> None
    | Rpc_data (Some []) \<Rightarrow> None
    | Rpc_data (Some (x # _)) \<Rightarrow> Some x)"

text \<open>The council's copy (nutrition-council.ts lines 423-443), which also prints a warning.\<close>

definition lookupUSDANutrition_council :: "search_row rpc_result \<Rightarrow> search_row option" where
  "lookupUSDANutrition_council res = (case res of
      Rpc_threw \<Rightarrow> None
    | Rpc_error \<Rightarrow> None
    | Rpc_data None \<Rightarrow> None
    | Rpc_data (Some []) \<Rightarrow> None
    | Rpc_data (Some (x # _)) \<Rightarrow> Some x)"

text \<open>The callers read \<open>usdaData.calories\<close>, \<open>.protein\<close>, \<open>.fat\<close>, \<open>.carbohydrates\<close> and
  (the validator) \<open>.fiber\<close> of the returned object; a column the function does not return
  is \<open>undefined\<close>.\<close>

definition usda_of_search :: "search_row \<Rightarrow> Nutrient_Resolver.usda_row" where
  "usda_of_search r = \<lparr>usda_calories = sr_calories r, usda_protein = sr_protein r, usda_fat = sr_fat r,
     usda_carbohydrates = sr_carbohydrates r, usda_fiber = None\<rparr>"

text \<open>The call \<open>rpc('search_nutrition_data', {ingredient_name, max_results: 1})\<close> by a client.\<close>

definition rpc_search :: "pg_db \<Rightarrow> pg_client \<Rightarrow> text_search \<Rightarrow> USDA_Seeder.usda_row list \<Rightarrow> string \<Rightarrow> search_row rpc_result" where
  "rpc_search d cl ts tbl name = Rpc_data (Some (search_nutrition_data ts (visible_usda d cl tbl) name 1))"

definition usdaLookup_db :: "pg_db \<Rightarrow> pg_client \<Rightarrow> text_search \<Rightarrow> USDA_Seeder.usda_row list \<Rightarrow> usda_lookup" where
  "usdaLookup_db d cl ts tbl name = map_option usda_of_search (lookupUSDANutrition (rpc_search d cl ts tbl name))"

definition usdaLookup_db_council :: "pg_db \<Rightarrow> pg_client \<Rightarrow> text_search \<Rightarrow> USDA_Seeder.usda_row list \<Rightarrow> usda_lookup" where
  "usdaLookup_db_council d cl ts tbl name =
     map_option usda_of_search (lookupUSDANutrition_council (rpc_search d cl ts tbl name))"

subsection \<open>\<open>calculate_plan_nutrition\<close>\<close>

text \<open>The function's \<open>result\<close> object (line 218, and the averages of lines 250-259);
  \<open>None\<close> is SQL \<open>NULL\<close>.\<close>

record plan_nutrition_json =
  pn_total_calories :: rat
  pn_total_protein :: rat
  pn_total_fat :: rat
  pn_total_carbs :: rat
  pn_days :: int
  pn_avg_daily :: "(rat \<times> rat \<times> rat \<times> rat) option"

definition pn_init :: plan_nutrition_json where
  "pn_init = \<lparr>pn_total_calories = 0, pn_total_protein = 0, pn_total_fat = 0, pn_total_carbs = 0,
     pn_days = 0, pn_avg_daily = None\<rparr>"

datatype plpgsql_error = Undefined_function_call string | Cannot_extract_elements

text \<open>\<open>jsonb_array_elements(x)\<close>: no rows for \<open>NULL\<close>, the elements of an array, an error
  for any other value.\<close>

definition jsonb_array_elements :: "json option \<Rightarrow> plpgsql_error + json list" where
  "jsonb_array_elements v = (case v of
      None \<Rightarrow> Inr []
    | Some (JArr xs) \<Rightarrow> Inr xs
    | Some _ \<Rightarrow> Inl Cannot_extract_elements)"

text \<open>\<open>x -> k\<close> on a \<open>jsonb\<close> object (the last of duplicate keys), \<open>NULL\<close> otherwise.\<close>

definition jsonb_get :: "json \<Rightarrow> string \<Rightarrow> json option" where
  "jsonb_get v k = (case v of JObj kvs \<Rightarrow> map_of (rev kvs) k | _ \<Rightarrow> None)"

text \<open>\<open>x ->> k\<close>: the text of a string or number member, \<open>NULL\<close> for \<open>null\<close> or absent;
  a member of another kind is never a recipe id below, and is kept as \<open>None\<close>.\<close>

definition jsonb_get_text :: "json \<Rightarrow> string \<Rightarrow> string option" where
  "jsonb_get_text v k = (case jsonb_get v k of
      Some (JStr s) \<Rightarrow> Some s
    | Some (JNum t) \<Rightarrow> Some t
    | _ \<Rightarrow> None)"

text \<open>The recipes' \<open>nutrition_info\<close> as the function reads it: \<open>recipe_nutrition->>'k'\<close> cast
  to \<open>REAL\<close>, \<open>NULL\<close> for an absent key.\<close>

record sql_nutrition =
  sn_calories :: "rat option"
  sn_protein :: "rat option"
  sn_fat :: "rat option"
  sn_carbohydrates :: "rat option"

text \<open>The outcome of \<open>SELECT nutrition_info INTO recipe_nutrition FROM recipes WHERE id =
  (text)::UUID\<close> for a recipe id text: the cast's error, or the column (\<open>None\<close> when no row
  is found or the column is \<open>NULL\<close>).\<close>

type_synonym recipe_query = "string \<Rightarrow> plpgsql_error + sql_nutrition option"

text \<open>\<open>result := jsonb_set(result, '{k}', ((result->>'k')::REAL + v)::TEXT::JSONB)\<close>:
  \<open>jsonb_set\<close> is strict, so a \<open>NULL\<close> sum (an absent nutrient) makes \<open>result\<close> \<open>NULL\<close>,
  and so does a \<open>NULL\<close> \<open>result\<close>.\<close>

definition add_total ::
  "(plan_nutrition_json \<Rightarrow> rat) \<Rightarrow> (rat \<Rightarrow> plan_nutrition_json \<Rightarrow> plan_nutrition_json) \<Rightarrow> rat option
     \<Rightarrow> plan_nutrition_json option \<Rightarrow> plan_nutrition_json option" where
  "add_total get put v r = (case (r, v) of (Some x, Some y) \<Rightarrow> Some (put (get x + y) x) | _ \<Rightarrow> None)"

text \<open>The body of the meal loop (lines 231-245); a \<open>NULL\<close> recipe id selects no row.\<close>

definition pn_meal :: "recipe_query \<Rightarrow> json \<Rightarrow> plan_nutrition_json option \<Rightarrow> plpgsql_error + plan_nutrition_json option" where
  "pn_meal recipes meal r =
     (case (case jsonb_get_text meal ''recipe_id'' of None \<Rightarrow> Inr None | Some rid \<Rightarrow> recipes rid) of
        Inl e \<Rightarrow> Inl e
      | Inr None \<Rightarrow> Inr r
      | Inr (Some n) \<Rightarrow>
          Inr (add_total pn_total_carbs (\<lambda>x j. j\<lparr>pn_total_carbs := x\<rparr>) (sn_carbohydrates n)
           (add_total pn_total_fat (\<lambda>x j. j\<lparr>pn_total_fat := x\<rparr>) (sn_fat n)
             (add_total pn_total_protein (\<lambda>x j. j\<lparr>pn_total_protein := x\<rparr>) (sn_protein n)
               (add_total pn_total_calories (\<lambda>x j. j\<lparr>pn_total_calories := x\<rparr>) (sn_calories n) r)))))"

fun pn_meals_loop :: "recipe_query \<Rightarrow> json list \<Rightarrow> plan_nutrition_json option \<Rightarrow> plpgsql_error + plan_nutrition_json option" where
  "pn_meals_loop recipes [] r = Inr r"
| "pn_meals_loop recipes (m # ms) r = (case pn_meal recipes m r of Inl e \<Rightarrow> Inl e | Inr r' \<Rightarrow> pn_meals_loop recipes ms r')"

text \<open>Line 226, \<open>jsonb_set(result, '{days}', (result->>'days')::INT + 1)\<close>: the third
  argument is an \<open>integer\<close>; PostgreSQL has no \<open>jsonb_set(jsonb, text[], integer)\<close> and no
  implicit cast from \<open>integer\<close> to \<open>jsonb\<close>, so the call fails to resolve when it is first
  executed, whatever the value.\<close>

definition jsonb_set_int :: "plan_nutrition_json option \<Rightarrow> int option \<Rightarrow> plpgsql_error + plan_nutrition_json option" where
  "jsonb_set_int r v = Inl (Undefined_function_call ''jsonb_set(jsonb, unknown, integer)'')"

text \<open>The body of the day loop (lines 226-246).\<close>

definition pn_day ::
  "recipe_query \<Rightarrow> json \<Rightarrow> plan_nutrition_json option \<Rightarrow> plpgsql_error + plan_nutrition_json option" where
  "pn_day recipes day r =
     (case jsonb_set_int r (map_option (\<lambda>x. pn_days x + 1) r) of
        Inl e \<Rightarrow> Inl e
      | Inr r1 \<Rightarrow>
          (case jsonb_array_elements (jsonb_get day ''meals'') of
             Inl e \<Rightarrow> Inl e
           | Inr meals \<Rightarrow> pn_meals_loop recipes meals r1))"

fun pn_days_loop ::
  "recipe_query \<Rightarrow> json list \<Rightarrow> plan_nutrition_json option \<Rightarrow> plpgsql_error + plan_nutrition_json option" where
  "pn_days_loop recipes [] r = Inr r"
| "pn_days_loop recipes (d # ds) r = (case pn_day recipes d r of Inl e \<Rightarrow> Inl e | Inr r' \<Rightarrow> pn_days_loop recipes ds r')"

text \<open>Lines 250-259: the averages, when \<open>days > 0\<close> (a \<open>NULL\<close> test is not true).\<close>

definition pn_averages :: "plan_nutrition_json option \<Rightarrow> plan_nutrition_json option" where
  "pn_averages r = (case r of
      None \<Rightarrow> None
    | Some x \<Rightarrow> if 0 < pn_days x
        then Some (x\<lparr>pn_avg_daily := Some (pn_total_calories x / of_int (pn_days x),
               pn_total_protein x / of_int (pn_days x), pn_total_fat x / of_int (pn_days x),
               pn_total_carbs x / of_int (pn_days x))\<rparr>)
        else r)"

definition calculate_plan_nutrition ::
  "recipe_query \<Rightarrow> json \<Rightarrow> plpgsql_error + plan_nutrition_json option" where
  "calculate_plan_nutrition recipes plan_data =
     (case jsonb_array_elements (jsonb_get plan_data ''days'') of
        Inl e \<Rightarrow> Inl e
      | Inr days \<Rightarrow>
          (case pn_days_loop recipes days (Some pn_init) of
             Inl e \<Rightarrow> Inl e
           | Inr r \<Rightarrow> Inr (pn_averages r)))"

subsection \<open>The \<open>grocery_lists\<close> trigger\<close>

text \<open>A row of \<open>grocery_lists\<close> (lines 153-171), its JSON columns as text.\<close>

record grocery_list_row =
  glst_id :: string
  glst_meal_plan_id :: string
  glst_user_id :: string
  glst_items :: string
  glst_items_checked_off :: string
  glst_completion_percentage :: rat
  glst_created_at :: int
  glst_updated_at :: int

text \<open>\<open>update_grocery_list_timestamp\<close>, run \<open>BEFORE UPDATE\<close> for each row (lines 270-281):
  the new row, its \<open>updated_at\<close> set to \<open>NOW()\<close>.\<close>

definition update_grocery_list_timestamp :: "int \<Rightarrow> grocery_list_row \<Rightarrow> grocery_list_row" where
  "update_grocery_list_timestamp now new = new\<lparr>glst_updated_at := now\<rparr>"

subsection \<open>Test data\<close>

text \<open>A text search matching a description exactly, and an empty set of users and plans.\<close>

definition exact_search :: text_search where
  "exact_search = \<lparr>ts_similarity = (\<lambda>a b. if a = b then 1 else 0), ts_trgm_match = (\<lambda>a b. a = b),
     ts_fts_match = (\<lambda>a b. False), ts_rank = (\<lambda>a b. 0)\<rparr>"

definition demo_pg_db :: pg_db where
  "demo_pg_db = \<lparr>db_users = [], db_meal_plans = []\<rparr>"

subsection \<open>Lemmas\<close>

lemma visible_usda_user: "visible_usda d (user_client u) tbl = tbl"
  by (simp add: visible_usda_def user_reads_usda)

lemma visible_usda_anon: "visible_usda d anon_client tbl = []"
  by (simp add: visible_usda_def anon_reads_no_usda)

lemma search_nutrition_data_one:
  "search_nutrition_data ts tbl name (Suc 0) =
     (case sort_key (search_key ts name) (filter (usda_match ts name) tbl) of
        [] \<Rightarrow> [] | u # _ \<Rightarrow> [searchRow ts name u])"
  by (simp add: search_nutrition_data_def split: list.split)

lemma usdaLookup_db_user:
  "usdaLookup_db d (user_client uid) ts tbl name =
     (case sort_key (search_key ts name) (filter (usda_match ts name) tbl) of
        [] \<Rightarrow> None | u # _ \<Rightarrow> Some (usda_of_search (searchRow ts name u)))"
  by (simp add: usdaLookup_db_def rpc_search_def visible_usda_user search_nutrition_data_one
      lookupUSDANutrition_def split: list.split)

lemma usdaContribution_db_fiber: "fiber (usdaContribution (usdaLookup_db d cl ts tbl) ing) = 0"
  by (simp add: usdaContribution_def usdaLookup_db_def usdaNutrition_def scale_nutrition_def
      usda_of_search_def Let_def split: option.split)

subsection \<open>Properties\<close>

text \<open>C22: for a signed-in caller, the USDA lookup finds nothing exactly when no row of the
  table matches the ingredient name (trigram or full-text), and otherwise returns the
  nutrients of a matching row whose (similarity, rank) is the greatest among the matches.\<close>

theorem usdaLookup_db_best_match:
  "(usdaLookup_db d (user_client uid) ts tbl name = None \<longleftrightarrow> \<not> list_ex (usda_match ts name) tbl) \<and>
   (usdaLookup_db d (user_client uid) ts tbl name = Some r \<longrightarrow>
      (\<exists>u\<in>set tbl. usda_match ts name u \<and> r = usda_of_search (searchRow ts name u) \<and>
         (\<forall>v\<in>set tbl. usda_match ts name v \<longrightarrow> search_key ts name u \<le> search_key ts name v)))"
proof (cases "sort_key (search_key ts name) (filter (usda_match ts name) tbl)")
  case Nil
  then show ?thesis
    by (simp add: usdaLookup_db_user sort_key_Nil_iff filter_empty_conv list_ex_iff)
next
  case (Cons u us)
  then have "u \<in> set (filter (usda_match ts name) tbl)"
    and "\<forall>v\<in>set (filter (usda_match ts name) tbl). search_key ts name u \<le> search_key ts name v"
    using sort_key_head_min [OF Cons] by blast+
  moreover have "list_ex (usda_match ts name) tbl"
    using calculation(1) by (auto simp: list_ex_iff)
  ultimately show ?thesis
    using Cons by (auto simp: usdaLookup_db_user)
qed

theorem usdaLookup_db_best_match_witness:
  "\<exists>u\<in>set (snd (run ''y'' [])). usda_match exact_search ''Garlic, raw'' u \<and>
     usdaLookup_db demo_pg_db (user_client ''u1'') exact_search (snd (run ''y'' [])) ''Garlic, raw''
       = Some (usda_of_search (searchRow exact_search ''Garlic, raw'' u))"
proof -
  have h: "usdaLookup_db demo_pg_db (user_client ''u1'') exact_search (snd (run ''y'' [])) ''Garlic, raw''
      = Some \<lparr>usda_calories = Some 149, usda_protein = Some (64 / 10), usda_fat = Some (5 / 10),
               usda_carbohydrates = Some 33, usda_fiber = None\<rparr>"
    by code_simp
  show ?thesis
    using usdaLookup_db_best_match [of demo_pg_db "''u1''" exact_search "snd (run ''y'' [])" "''Garlic, raw''"] h
    by auto
qed

text \<open>C11: whatever the table holds and whoever calls, the standalone validator's USDA tier
  computes zero fiber: \<open>search_nutrition_data\<close> returns no \<open>fiber\<close> column, so
  \<open>usdaData.fiber\<close> is \<open>undefined\<close> for every ingredient.\<close>

theorem calculateFromUSDA_db_no_fiber:
  "\<exists>n. calculateFromUSDA (usdaLookup_db d cl ts tbl) ings = Some n \<and> fiber n = 0"
  by (simp add: calculateFromUSDA_def round_nutrition_def fold_fiber usdaContribution_db_fiber round1_def)

text \<open>C13: \<open>calculate_plan_nutrition\<close> fails on every plan with at least one day (its
  first statement in the day loop calls a \<open>jsonb_set\<close> that does not exist); a plan
  without days gives the zero totals and no averages.\<close>

theorem calculate_plan_nutrition_result:
  "calculate_plan_nutrition recipes plan_data =
     (case jsonb_array_elements (jsonb_get plan_data ''days'') of
        Inl e \<Rightarrow> Inl e
      | Inr [] \<Rightarrow> Inr (Some pn_init)
      | Inr (_ # _) \<Rightarrow> Inl (Undefined_function_call ''jsonb_set(jsonb, unknown, integer)''))"
  by (simp add: calculate_plan_nutrition_def pn_day_def jsonb_set_int_def pn_averages_def pn_init_def
      split: sum.split list.split)

end
