(* ===== verification/Validator_Handler.thy ===== *)
theory Validator_Handler
  imports Nutrition_DB
begin

text \<open>
  The HTTP handler of the nutrition-validator edge function
  (supabase/functions/nutrition-validator/index.ts): the request schema
  \<open>ValidationRequestSchema\<close> (lines 17-44) as zod parses it, the \<open>serve\<close> callback
  (lines 94-189) and \<open>createErrorResponse\<close> (lines 542-557). The callback authenticates
  the caller, parses the body, takes the plan from the caller's stored \<open>meal_plans\<close> row
  or from the body, and runs \<open>validatePlan\<close> of \<^theory_text>\<open>Nutrition_Validator\<close> with the
  caller's client, whose USDA lookups are the \<open>usdaLookup_db\<close> of
  \<^theory_text>\<open>Nutrition_DB\<close> for the \<open>authenticated\<close> role of \<^theory_text>\<open>Row_Security\<close>. As for the
  plan generator, the body is given with the JSON types the schema expects; a body
  \<open>JSON.parse\<close> rejects is \<open>None\<close>.
\<close>

subsection \<open>The request schema\<close>

text \<open>The body as \<open>JSON.parse\<close> returns it: a day may carry a \<open>day\<close> name, which the
  schema does not declare.\<close>

record raw_meal =
  rm_recipe_id :: string
  rm_servings :: "rat option"

record raw_day =
  rd_day :: "string option"
  rd_meals :: "raw_meal list"

record raw_targets =
  rt_daily_calories :: rat
  rt_daily_protein :: rat
  rt_daily_fat :: rat
  rt_daily_carbohydrates :: rat
  rt_daily_fiber :: "rat option"

record raw_options =
  ro_deviation_threshold :: "rat option"
  ro_require_all_recipes :: "bool option"
  ro_use_usda_fallback :: "bool option"
  ro_detailed_breakdown :: "bool option"

record raw_validation_request =
  rv_meal_plan_id :: "string option"
  rv_plan_data :: "raw_day list option"
  rv_targets :: "raw_targets option"
  rv_options :: "raw_options option"

record validation_request =
  vr_meal_plan_id :: "string option"
  vr_plan_data :: "day_in list option"
  vr_targets :: targets
  vr_options :: validation_options

text \<open>\<open>recipe_id: z.string().uuid(), servings: z.number().positive().optional().default(1)\<close>.\<close>

definition parseMeal :: "raw_meal \<Rightarrow> meal_in option" where
  "parseMeal m =
     (if is_uuid (rm_recipe_id m) \<and> (case rm_servings m of None \<Rightarrow> True | Some x \<Rightarrow> 0 < x)
      then Some \<lparr>meal_recipe_id = rm_recipe_id m,
                 meal_servings = Some (case rm_servings m of None \<Rightarrow> 1 | Some x \<Rightarrow> x)\<rparr>
      else None)"

text \<open>A day object of the schema declares only \<open>meals\<close>; zod's \<open>z.object\<close> drops every
  other key, the day's name included.\<close>

definition parseDay :: "raw_day \<Rightarrow> day_in option" where
  "parseDay d =
     (let ms = map parseMeal (rd_meals d) in
      if list_all (\<lambda>m. m \<noteq> None) ms then Some \<lparr>day_label = None, day_meals = map the ms\<rparr> else None)"

definition parseTargets :: "raw_targets \<Rightarrow> targets option" where
  "parseTargets t =
     (if 0 < rt_daily_calories t \<and> 0 < rt_daily_protein t \<and> 0 < rt_daily_fat t \<and> 0 < rt_daily_carbohydrates t
         \<and> (case rt_daily_fiber t of None \<Rightarrow> True | Some f \<Rightarrow> 0 < f)
      then Some \<lparr>daily_calories = rt_daily_calories t, daily_protein = rt_daily_protein t,
                 daily_fat = rt_daily_fat t, daily_carbohydrates = rt_daily_carbohydrates t,
                 daily_fiber = rt_daily_fiber t\<rparr>
      else None)"

text \<open>\<open>options\<close> with its defaults (15, \<open>true\<close>, \<open>true\<close>, \<open>false\<close>; \<open>{}\<close> when absent) and
  the bounds \<open>min(1).max(50)\<close> of the threshold.\<close>

definition parseOptions :: "raw_options option \<Rightarrow> validation_options option" where
  "parseOptions opt_in =
     (let r = (case opt_in of None \<Rightarrow> \<lparr>ro_deviation_threshold = None, ro_require_all_recipes = None,
                  ro_use_usda_fallback = None, ro_detailed_breakdown = None\<rparr> | Some r \<Rightarrow> r);
          th = (case ro_deviation_threshold r of None \<Rightarrow> 15 | Some x \<Rightarrow> x) in
      if 1 \<le> th \<and> th \<le> 50
      then Some \<lparr>deviation_threshold = th,
                 require_all_recipes = (case ro_require_all_recipes r of None \<Rightarrow> True | Some b \<Rightarrow> b),
                 use_usda_fallback = (case ro_use_usda_fallback r of None \<Rightarrow> True | Some b \<Rightarrow> b),
                 detailed_breakdown = (case ro_detailed_breakdown r of None \<Rightarrow> False | Some b \<Rightarrow> b)\<rparr>
      else None)"

text \<open>\<open>ValidationRequestSchema.parse\<close> (lines 17-44).\<close>

definition parseValidationRequest :: "raw_validation_request \<Rightarrow> validation_request option" where
  "parseValidationRequest b =
     (let days = map_option (map parseDay) (rv_plan_data b) in
      if (case rv_meal_plan_id b of None \<Rightarrow> True | Some s \<Rightarrow> is_uuid s)
         \<and> (case days of None \<Rightarrow> True | Some ds \<Rightarrow> list_all (\<lambda>d. d \<noteq> None) ds)
      then (case (rv_targets b, parseOptions (rv_options b)) of
              (Some rt, Some opts) \<Rightarrow>
                (case parseTargets rt of
                   None \<Rightarrow> None
                 | Some t \<Rightarrow> Some \<lparr>vr_meal_plan_id = rv_meal_plan_id b, vr_plan_data = map_option (map the) days,
                                   vr_targets = t, vr_options = opts\<rparr>)
            | _ \<Rightarrow> None)
      else None)"

subsection \<open>The handler\<close>

text \<open>A row of \<open>meal_plans\<close> as \<open>select('plan_data, user_id')\<close> returns it; a stored
  \<open>plan_data\<close> without a \<open>days\<close> array is \<open>None\<close>.\<close>

record stored_plan =
  sp_id :: string
  sp_user_id :: string
  sp_plan_data :: "day_in list option"

record vh_request =
  vh_method :: http_method
  vh_user :: "string option"
  vh_body :: "raw_validation_request option"

datatype vh_json = Error_body string nat | Validation_body validation_result

datatype vh_outcome = Vh_preflight | Vh_invalid_request | Vh_response nat vh_json

text \<open>\<open>createErrorResponse\<close> (lines 542-557): \<open>{success: false, error, status}\<close> with that status.\<close>

definition createErrorResponse :: "string \<Rightarrow> nat \<Rightarrow> vh_outcome" where
  "createErrorResponse message status = Vh_response status (Error_body message status)"

text \<open>The plan query of lines 145-155: \<open>.eq('id', id).eq('user_id', user.id).single()\<close>
  errors unless exactly one row matches.\<close>

definition fetchPlan :: "stored_plan list \<Rightarrow> string \<Rightarrow> string \<Rightarrow> stored_plan option" where
  "fetchPlan plans pid u =
     (case filter (\<lambda>p. sp_id p = pid \<and> sp_user_id p = u) plans of [p] \<Rightarrow> Some p | _ \<Rightarrow> None)"

text \<open>The \<open>serve\<close> callback (lines 94-189): the recipes query of \<open>calculateMealNutrition\<close>
  is the parameter \<open>store\<close>; the USDA lookups go through the caller's client. A stored
  plan without a \<open>days\<close> array throws in \<open>validatePlan\<close>'s loop and reaches the
  \<open>catch\<close> (500).\<close>

definition validatorServe ::
  "recipe_store \<Rightarrow> text_search \<Rightarrow> USDA_Seeder.usda_row list \<Rightarrow> pg_db \<Rightarrow> stored_plan list \<Rightarrow> vh_request \<Rightarrow> vh_outcome" where
  "validatorServe store ts tbl d plans rq =
     (case vh_method rq of
        OPTIONS \<Rightarrow> Vh_preflight
      | Other_method \<Rightarrow> createErrorResponse ''Method not allowed'' 405
      | POST \<Rightarrow>
          (case vh_user rq of
             None \<Rightarrow> createErrorResponse ''Unauthorized'' 401
           | Some u \<Rightarrow>
               (case (case vh_body rq of None \<Rightarrow> None | Some b \<Rightarrow> parseValidationRequest b) of
                  None \<Rightarrow> Vh_invalid_request
                | Some req \<Rightarrow>
                    (let planData = (case vr_meal_plan_id req of
                            Some pid \<Rightarrow> (case fetchPlan plans pid u of
                                          None \<Rightarrow> Inl (createErrorResponse ''Meal plan not found'' 404)
                                        | Some p \<Rightarrow> Inr (sp_plan_data p))
                          | None \<Rightarrow> (case vr_plan_data req of
                                       Some pd \<Rightarrow> Inr (Some pd)
                                     | None \<Rightarrow> Inl (createErrorResponse
                                                 ''Either meal_plan_id or plan_data must be provided'' 422))) in
                     case planData of
                       Inl resp \<Rightarrow> resp
                     | Inr None \<Rightarrow> createErrorResponse ''Internal server error'' 500
                     | Inr (Some days) \<Rightarrow>
                         Vh_response 200 (Validation_body
                           (validatePlan store (usdaLookup_db d (user_client u) ts tbl) days
                              (vr_targets req) (vr_options req)))))))"

subsection \<open>Test data\<close>

definition empty_store :: recipe_store where
  "empty_store r = None"

definition demo_recipe_uuid :: string where
  "demo_recipe_uuid = ''00000000-0000-0000-0000-000000000001''"

definition demo_plan_uuid :: string where
  "demo_plan_uuid = ''00000000-0000-0000-0000-0000000000aa''"

definition demo_body :: raw_validation_request where
  "demo_body = \<lparr>rv_meal_plan_id = None,
     rv_plan_data = Some [\<lparr>rd_day = Some ''monday'', rd_meals = [\<lparr>rm_recipe_id = demo_recipe_uuid, rm_servings = None\<rparr>]\<rparr>],
     rv_targets = Some \<lparr>rt_daily_calories = 2000, rt_daily_protein = 100, rt_daily_fat = 70,
                        rt_daily_carbohydrates = 250, rt_daily_fiber = None\<rparr>,
     rv_options = Some \<lparr>ro_deviation_threshold = None, ro_require_all_recipes = None,
                        ro_use_usda_fallback = None, ro_detailed_breakdown = Some True\<rparr>\<rparr>"

definition demo_stored :: "stored_plan list" where
  "demo_stored =
     [\<lparr>sp_id = demo_plan_uuid, sp_user_id = ''u1'',
       sp_plan_data = Some [\<lparr>day_label = Some ''monday'',
         day_meals = [\<lparr>meal_recipe_id = demo_recipe_uuid, meal_servings = None\<rparr>]\<rparr>]\<rparr>,
      \<lparr>sp_id = demo_plan_uuid, sp_user_id = ''u2'', sp_plan_data = None\<rparr>]"

definition demo_vh_request :: "raw_validation_request \<Rightarrow> vh_request" where
  "demo_vh_request b = \<lparr>vh_method = POST, vh_user = Some ''u1'', vh_body = Some b\<rparr>"

subsection \<open>Lemmas\<close>

lemma processMeal_breakdown [simp]: "vs_breakdown (processMeal store usda opts m st) = vs_breakdown st"
  by (simp add: processMeal_def split: option.split)

lemma fold_processMeal_breakdown [simp]:
  "vs_breakdown (fold (processMeal store usda opts) ms st) = vs_breakdown st"
  by (induct ms arbitrary: st) simp_all

lemma fold_processDay_names:
  "map db_day (vs_breakdown (fold (processDay store usda opts) days st)) =
     map db_day (vs_breakdown st) @ (if detailed_breakdown opts then map dayName days else [])"
  by (induct days arbitrary: st) (simp_all add: processDay_def Let_def)

lemma validatePlan_breakdown_names:
  "breakdown (validatePlan store usda days t opts) = Some bs \<Longrightarrow> map db_day bs = map dayName days"
  by (auto simp: validatePlan_def Let_def fold_processDay_names vstate_init_def split: if_splits)

lemma parseDay_label: "parseDay d = Some d' \<Longrightarrow> day_label d' = None"
  by (auto simp: parseDay_def Let_def split: if_splits)

lemma parseValidationRequest_fields:
  "parseValidationRequest b = Some req \<Longrightarrow>
     vr_meal_plan_id req = rv_meal_plan_id b \<and>
     (\<forall>days. vr_plan_data req = Some days \<longrightarrow> list_all (\<lambda>d. day_label d = None) days)"
  by (auto simp: parseValidationRequest_def Let_def list_all_iff parseDay_label
      split: if_splits option.splits prod.splits)

lemma fetchPlan_Some: "fetchPlan plans pid u = Some p \<Longrightarrow> p \<in> set plans \<and> sp_id p = pid \<and> sp_user_id p = u"
proof -
  assume "fetchPlan plans pid u = Some p"
  then have "filter (\<lambda>p. sp_id p = pid \<and> sp_user_id p = u) plans = [p]"
    by (auto simp: fetchPlan_def split: list.splits)
  then have "p \<in> set (filter (\<lambda>p. sp_id p = pid \<and> sp_user_id p = u) plans)" by simp
  then show ?thesis by simp
qed

lemma validatorServe_ok:
  "validatorServe store ts tbl d plans rq = Vh_response 200 (Validation_body r) \<Longrightarrow>
   \<exists>u b req days. vh_method rq = POST \<and> vh_user rq = Some u \<and> vh_body rq = Some b \<and>
     parseValidationRequest b = Some req \<and>
     (case vr_meal_plan_id req of
        Some pid \<Rightarrow> (\<exists>p. fetchPlan plans pid u = Some p \<and> sp_plan_data p = Some days)
      | None \<Rightarrow> vr_plan_data req = Some days) \<and>
     r = validatePlan store (usdaLookup_db d (user_client u) ts tbl) days (vr_targets req) (vr_options req)"
  by (auto simp: validatorServe_def createErrorResponse_def Let_def
      split: http_method.splits option.splits sum.splits)

lemma demo_body_parsed:
  "parseValidationRequest demo_body = Some \<lparr>vr_meal_plan_id = None, vr_plan_data = Some
     [\<lparr>day_label = None, day_meals = [\<lparr>meal_recipe_id = demo_recipe_uuid, meal_servings = Some 1\<rparr>]\<rparr>],
     vr_targets = \<lparr>daily_calories = 2000, daily_protein = 100, daily_fat = 70, daily_carbohydrates = 250,
                   daily_fiber = None\<rparr>,
     vr_options = \<lparr>deviation_threshold = 15, require_all_recipes = True, use_usda_fallback = True,
                   detailed_breakdown = True\<rparr>\<rparr>"
  "parseValidationRequest (demo_body\<lparr>rv_meal_plan_id := Some demo_plan_uuid\<rparr>) =
     Some (\<lparr>vr_meal_plan_id = None, vr_plan_data = Some
     [\<lparr>day_label = None, day_meals = [\<lparr>meal_recipe_id = demo_recipe_uuid, meal_servings = Some 1\<rparr>]\<rparr>],
     vr_targets = \<lparr>daily_calories = 2000, daily_protein = 100, daily_fat = 70, daily_carbohydrates = 250,
                   daily_fiber = None\<rparr>,
     vr_options = \<lparr>deviation_threshold = 15, require_all_recipes = True, use_usda_fallback = True,
                   detailed_breakdown = True\<rparr>\<rparr>\<lparr>vr_meal_plan_id := Some demo_plan_uuid\<rparr>)"
  by code_simp+

subsection \<open>Properties\<close>

text \<open>C9: when the validator answers 200 to a request naming a \<open>meal_plan_id\<close>, the plan it
  validated is the \<open>plan_data\<close> of a stored row with that id owned by the caller.\<close>

theorem validatorServe_stored_plan_of_caller:
  assumes ok: "validatorServe store ts tbl d plans rq = Vh_response 200 (Validation_body r)"
    and u: "vh_user rq = Some u" and b: "vh_body rq = Some b" and pid: "rv_meal_plan_id b = Some pid"
  shows "\<exists>p\<in>set plans. sp_id p = pid \<and> sp_user_id p = u \<and>
           (\<exists>days t opts. sp_plan_data p = Some days \<and>
              r = validatePlan store (usdaLookup_db d (user_client u) ts tbl) days t opts)"
proof -
  obtain u' b' req days where "vh_user rq = Some u'" and "vh_body rq = Some b'"
    and req: "parseValidationRequest b' = Some req"
    and pl: "case vr_meal_plan_id req of
        Some pid \<Rightarrow> (\<exists>p. fetchPlan plans pid u' = Some p \<and> sp_plan_data p = Some days)
      | None \<Rightarrow> vr_plan_data req = Some days"
    and r: "r = validatePlan store (usdaLookup_db d (user_client u') ts tbl) days (vr_targets req) (vr_options req)"
    using validatorServe_ok [OF ok] by blast
  with u b have "u' = u" "b' = b" by simp_all
  with req pid have "vr_meal_plan_id req = Some pid" using parseValidationRequest_fields [OF req] by simp
  with pl obtain p where "fetchPlan plans pid u' = Some p" and "sp_plan_data p = Some days" by auto
  with fetchPlan_Some r \<open>u' = u\<close> show ?thesis by blast
qed

theorem validatorServe_stored_plan_of_caller_witness:
  "\<exists>p\<in>set demo_stored. sp_id p = demo_plan_uuid \<and> sp_user_id p = ''u1'' \<and>
     (\<exists>days t opts. sp_plan_data p = Some days \<and>
        validatePlan empty_store (usdaLookup_db demo_pg_db (user_client ''u1'') exact_search [])
          [\<lparr>day_label = Some ''monday'', day_meals = [\<lparr>meal_recipe_id = demo_recipe_uuid, meal_servings = None\<rparr>]\<rparr>]
          \<lparr>daily_calories = 2000, daily_protein = 100, daily_fat = 70, daily_carbohydrates = 250, daily_fiber = None\<rparr>
          \<lparr>deviation_threshold = 15, require_all_recipes = True, use_usda_fallback = True, detailed_breakdown = True\<rparr> =
        validatePlan empty_store (usdaLookup_db demo_pg_db (user_client ''u1'') exact_search []) days t opts)"
proof -
  have h: "validatorServe empty_store exact_search [] demo_pg_db demo_stored
      (demo_vh_request (demo_body\<lparr>rv_meal_plan_id := Some demo_plan_uuid\<rparr>)) =
    Vh_response 200 (Validation_body (validatePlan empty_store (usdaLookup_db demo_pg_db (user_client ''u1'') exact_search [])
          [\<lparr>day_label = Some ''monday'', day_meals = [\<lparr>meal_recipe_id = demo_recipe_uuid, meal_servings = None\<rparr>]\<rparr>]
          \<lparr>daily_calories = 2000, daily_protein = 100, daily_fat = 70, daily_carbohydrates = 250, daily_fiber = None\<rparr>
          \<lparr>deviation_threshold = 15, require_all_recipes = True, use_usda_fallback = True, detailed_breakdown = True\<rparr>))"
    by (simp add: validatorServe_def demo_vh_request_def demo_body_parsed fetchPlan_def demo_stored_def)
  show ?thesis
    using validatorServe_stored_plan_of_caller [OF h] by (simp add: demo_vh_request_def)
qed

text \<open>C24: for a plan sent in the body, every day of the detailed breakdown is named
  \<open>unknown\<close>: the schema's day object declares only \<open>meals\<close>, so zod drops the \<open>day\<close> key
  before \<open>validatePlan\<close> reads \<open>day.day || 'unknown'\<close>.\<close>

theorem validatorServe_body_days_unnamed:
  assumes ok: "validatorServe store ts tbl d plans rq = Vh_response 200 (Validation_body r)"
    and b: "vh_body rq = Some b" and nopid: "rv_meal_plan_id b = None" and bs: "breakdown r = Some bs"
  shows "list_all (\<lambda>x. db_day x = ''unknown'') bs"
proof -
  obtain u b' req days where "vh_body rq = Some b'"
    and req: "parseValidationRequest b' = Some req"
    and pl: "case vr_meal_plan_id req of
        Some pid \<Rightarrow> (\<exists>p. fetchPlan plans pid u = Some p \<and> sp_plan_data p = Some days)
      | None \<Rightarrow> vr_plan_data req = Some days"
    and r: "r = validatePlan store (usdaLookup_db d (user_client u) ts tbl) days (vr_targets req) (vr_options req)"
    using validatorServe_ok [OF ok] by blast
  with b have "b' = b" by simp
  with nopid have "vr_meal_plan_id req = None" using parseValidationRequest_fields [OF req] by simp
  with pl have days: "vr_plan_data req = Some days" by simp
  have "list_all (\<lambda>d. day_label d = None) days"
    using parseValidationRequest_fields [OF req] days by blast
  then have "map dayName days = map (\<lambda>_. ''unknown'') days"
    by (induct days) (simp_all add: dayName_def)
  moreover have "map db_day bs = map dayName days"
    using validatePlan_breakdown_names bs r by blast
  ultimately have "set (map db_day bs) = set (map (\<lambda>_. ''unknown'') days)" by simp
  also have "\<dots> \<subseteq> {''unknown''}" by auto
  finally show ?thesis by (auto simp: list_all_iff)
qed

theorem validatorServe_body_days_unnamed_witness:
  "validatorServe empty_store exact_search [] demo_pg_db demo_stored (demo_vh_request demo_body) =
      Vh_response 200 (Validation_body (validatePlan empty_store (usdaLookup_db demo_pg_db (user_client ''u1'') exact_search [])
          [\<lparr>day_label = None, day_meals = [\<lparr>meal_recipe_id = demo_recipe_uuid, meal_servings = Some 1\<rparr>]\<rparr>]
          \<lparr>daily_calories = 2000, daily_protein = 100, daily_fat = 70, daily_carbohydrates = 250, daily_fiber = None\<rparr>
          \<lparr>deviation_threshold = 15, require_all_recipes = True, use_usda_fallback = True, detailed_breakdown = True\<rparr>)) \<and>
   breakdown (validatePlan empty_store (usdaLookup_db demo_pg_db (user_client ''u1'') exact_search [])
          [\<lparr>day_label = None, day_meals = [\<lparr>meal_recipe_id = demo_recipe_uuid, meal_servings = Some 1\<rparr>]\<rparr>]
          \<lparr>daily_calories = 2000, daily_protein = 100, daily_fat = 70, daily_carbohydrates = 250, daily_fiber = None\<rparr>
          \<lparr>deviation_threshold = 15, require_all_recipes = True, use_usda_fallback = True, detailed_breakdown = True\<rparr>) =
      Some [\<lparr>db_day = ''unknown'', db_nutrition = 0, db_meals = []\<rparr>] \<and>
   list_all (\<lambda>x. db_day x = ''unknown'') [\<lparr>db_day = ''unknown'', db_nutrition = 0, db_meals = []\<rparr>]"
proof -
  have h: "validatorServe empty_store exact_search [] demo_pg_db demo_stored (demo_vh_request demo_body) =
      Vh_response 200 (Validation_body (validatePlan empty_store (usdaLookup_db demo_pg_db (user_client ''u1'') exact_search [])
          [\<lparr>day_label = None, day_meals = [\<lparr>meal_recipe_id = demo_recipe_uuid, meal_servings = Some 1\<rparr>]\<rparr>]
          \<lparr>daily_calories = 2000, daily_protein = 100, daily_fat = 70, daily_carbohydrates = 250, daily_fiber = None\<rparr>
          \<lparr>deviation_threshold = 15, require_all_recipes = True, use_usda_fallback = True, detailed_breakdown = True\<rparr>))"
    by (simp add: validatorServe_def demo_vh_request_def demo_body_parsed)
  have b: "breakdown (validatePlan empty_store (usdaLookup_db demo_pg_db (user_client ''u1'') exact_search [])
          [\<lparr>day_label = None, day_meals = [\<lparr>meal_recipe_id = demo_recipe_uuid, meal_servings = Some 1\<rparr>]\<rparr>]
          \<lparr>daily_calories = 2000, daily_protein = 100, daily_fat = 70, daily_carbohydrates = 250, daily_fiber = None\<rparr>
          \<lparr>deviation_threshold = 15, require_all_recipes = True, use_usda_fallback = True, detailed_breakdown = True\<rparr>) =
      Some [\<lparr>db_day = ''unknown'', db_nutrition = 0, db_meals = []\<rparr>]"
    by code_simp
  show ?thesis
    using validatorServe_body_days_unnamed [OF h _ _ b, of demo_body] h b
    by (simp add: demo_vh_request_def demo_body_def)
qed

end
