(* ===== verification/Generation_Logs_DB.thy ===== *)
theory Generation_Logs_DB
  imports Plan_Generator Row_Security
begin

text \<open>
  The table \<open>plan_generation_logs\<close> (database/schema-additions.sql lines 51-79) as the
  database that answers \<open>logGenerationEvent\<close>'s insert (plan-generator/utils/logging.ts
  lines 34-69). PostgREST refuses an object with a key that is not a column of the table;
  PostgreSQL then checks the \<open>uuid\<close> columns, the row-level security of
  \<^theory_text>\<open>Row_Security\<close> for the client's role, the \<open>CHECK\<close> on \<open>status\<close>, the \<open>UNIQUE\<close>
  \<open>generation_id\<close> and the foreign key to \<open>public.users\<close>. Which of them fails first only
  changes the printed error, so the model keeps whether the insert is accepted. The
  answer is the \<open>pq_log_ok\<close> parameter of the plan generator's \<open>serve\<close> callback of
  \<^theory_text>\<open>Plan_Generator\<close>, whose client acts as the caller. \<open>logFailedPlan\<close> (lines 74-108)
  inserts into \<open>failed_plans\<close> (schema-additions.sql lines 93-117) in the same way.
\<close>

definition plan_generation_logs_columns :: "string list" where
  "plan_generation_logs_columns =
     [''id'', ''user_id'', ''generation_id'', ''status'', ''started_at'', ''completed_at'', ''duration_ms'',
      ''claude_requests'', ''claude_tokens_used'', ''claude_cost_cents'', ''retry_count'', ''error_message'',
      ''fallback_reason'', ''recipes_selected'', ''nutritional_accuracy'', ''created_at'']"

text \<open>The keys of \<open>insertData\<close> (logging.ts lines 36-55).\<close>

definition opt_key :: "'a option \<Rightarrow> string list \<Rightarrow> string list" where
  "opt_key v ks = (case v of None \<Rightarrow> [] | Some _ \<Rightarrow> ks)"

definition logRowColumns :: "gen_log_row \<Rightarrow> string list" where
  "logRowColumns r = [''user_id'', ''generation_id'', ''status'']
     @ opt_key (glr_stage r) [''stage'']
     @ opt_key (glr_duration_ms r) [''duration_ms'', ''completed_at'']
     @ opt_key (glr_claude_requests r) [''claude_requests'']
     @ opt_key (glr_claude_tokens_used r) [''claude_tokens_used'']
     @ opt_key (glr_claude_cost_cents r) [''claude_cost_cents'']
     @ opt_key (glr_retry_count r) [''retry_count'']
     @ opt_key (glr_error_message r) [''error_message'']
     @ opt_key (glr_fallback_reason r) [''fallback_reason'']
     @ opt_key (glr_recipes_selected r) [''recipes_selected'']"

definition log_pg_row :: "gen_log_row \<Rightarrow> pg_row" where
  "log_pg_row r = [(''user_id'', glr_user_id r), (''generation_id'', glr_generation_id r), (''status'', glr_status r)]"

text \<open>\<open>CHECK (status IN ('started', 'completed', 'failed', 'fallback'))\<close> (line 57).\<close>

definition valid_log_status :: "string \<Rightarrow> bool" where
  "valid_log_status s = (s \<in> set [''started'', ''completed'', ''failed'', ''fallback''])"

definition pgl_accepts :: "pg_db \<Rightarrow> pg_client \<Rightarrow> gen_log_row \<Rightarrow> gen_log_row list \<Rightarrow> bool" where
  "pgl_accepts d cl r logs =
     (set (logRowColumns r) \<subseteq> set plan_generation_logs_columns
      \<and> is_uuid (glr_user_id r) \<and> is_uuid (glr_generation_id r)
      \<and> client_inserts d cl ''plan_generation_logs'' (log_pg_row r)
      \<and> valid_log_status (glr_status r)
      \<and> glr_generation_id r \<notin> set (map glr_generation_id logs)
      \<and> glr_user_id r \<in> set (map fst (db_users d)))"

text \<open>The table's invariant: generation ids unique, statuses allowed.\<close>

definition log_table_inv :: "gen_log_row list \<Rightarrow> bool" where
  "log_table_inv logs = (distinct (map glr_generation_id logs) \<and> list_all (\<lambda>r. valid_log_status (glr_status r)) logs)"

subsection \<open>\<open>logFailedPlan\<close>\<close>

text \<open>\<open>GenerationStage\<close> (unnamed/part\_003 lines 284-292).\<close>

datatype generation_stage = Validation_stage | Blueprint_ingestion | Candidate_selection | Ai_scoring
  | Nutrition_validation | Coherence_review | Wow_layer_generation | Serialization

text \<open>The argument of \<open>logFailedPlan\<close> (lines 74-84); \<open>any\<close> values are kept as their JSON
  text, \<open>None\<close> for \<open>undefined\<close>.\<close>

record failed_plan_data =
  fp_user_id :: string
  fp_generation_id :: string
  fp_failure_stage :: generation_stage
  fp_failure_reason :: string
  fp_user_blueprint :: "string option"
  fp_attempted_recipes :: "string option"
  fp_validation_results :: "string option"
  fp_prompt_used :: "string option"
  fp_ai_response :: "string option"

text \<open>The inserted object (lines 88-100): the data with \<open>reviewed\<close> and \<open>resolved\<close> false.\<close>

record failed_plan_row =
  fpr_data :: failed_plan_data
  fpr_reviewed :: bool
  fpr_resolved :: bool

definition failedPlanRow :: "failed_plan_data \<Rightarrow> failed_plan_row" where
  "failedPlanRow dat = \<lparr>fpr_data = dat, fpr_reviewed = False, fpr_resolved = False\<rparr>"

text \<open>The insert is accepted when the client may insert the row, the two \<open>UUID\<close> columns
  parse, the \<open>NOT NULL\<close> \<open>user_blueprint\<close> is given (\<open>undefined\<close> is left out of the
  JSON) and \<open>user_id\<close> references a user.\<close>

definition failed_plans_accepts :: "pg_db \<Rightarrow> pg_client \<Rightarrow> failed_plan_row \<Rightarrow> bool" where
  "failed_plans_accepts d cl r =
     (client_inserts d cl ''failed_plans'' [(''user_id'', fp_user_id (fpr_data r))]
      \<and> is_uuid (fp_user_id (fpr_data r)) \<and> is_uuid (fp_generation_id (fpr_data r))
      \<and> fp_user_blueprint (fpr_data r) \<noteq> None
      \<and> fp_user_id (fpr_data r) \<in> set (map fst (db_users d)))"

definition logFailedPlan :: "pg_db \<Rightarrow> pg_client \<Rightarrow> failed_plan_data \<Rightarrow> failed_plan_row list \<Rightarrow> failed_plan_row list" where
  "logFailedPlan d cl dat rows =
     (let row = failedPlanRow dat in if failed_plans_accepts d cl row then rows @ [row] else rows)"

subsection \<open>Lemmas\<close>

lemma pgl_user_refused: "\<not> pgl_accepts d (user_client u) r logs"
  by (simp add: pgl_accepts_def user_client_no_log_insert)

lemma logGenerationEvent_user_client [simp]:
  "logGenerationEvent now (pgl_accepts d (user_client u)) dat logs = logs"
  by (simp add: logGenerationEvent_def pgl_user_refused)

lemma logFailedPlan_user_client: "logFailedPlan d (user_client u) dat rows = rows"
  by (simp add: logFailedPlan_def failed_plans_accepts_def user_client_no_failed_plan_insert Let_def)

lemma logGenerationEvent_keeps_inv:
  "log_table_inv logs \<Longrightarrow> log_table_inv (logGenerationEvent now (pgl_accepts d cl) dat logs)"
  by (auto simp: logGenerationEvent_def log_table_inv_def pgl_accepts_def Let_def)

subsection \<open>Properties\<close>

text \<open>C2: the plan generator's \<open>serve\<close> callback, whose client is the caller's, adds no row
  to \<open>plan_generation_logs\<close> on any path: no policy lets a signed-in user insert there.\<close>

theorem servePlanGenerator_writes_no_log:
  "pq_log_ok rq = pgl_accepts d (user_client u) \<Longrightarrow>
   pgs_logs (snd (servePlanGenerator sc parseDate today year g env db uuid rq st)) = pgs_logs st"
  by (simp add: servePlanGenerator_def Let_def split: http_method.split sum.split prod.split request_error.split)

theorem servePlanGenerator_writes_no_log_witness:
  "pgs_logs (snd (servePlanGenerator source_scope demo_parseDate 20000 2025 ''g1'' all_ok_env [] ''p0''
      (demo_request\<lparr>pq_log_ok := pgl_accepts \<lparr>db_users = [(''u1'', None)], db_meal_plans = []\<rparr> (user_client ''u1'')\<rparr>)
      pg_init)) = []"
  using servePlanGenerator_writes_no_log
    [of "demo_request\<lparr>pq_log_ok := pgl_accepts \<lparr>db_users = [(''u1'', None)], db_meal_plans = []\<rparr> (user_client ''u1'')\<rparr>"
        "\<lparr>db_users = [(''u1'', None)], db_meal_plans = []\<rparr>" "''u1''" source_scope demo_parseDate 20000 2025 "''g1''"
        all_ok_env "[]" "''p0''" pg_init]
  by (simp add: pg_init_def)

text \<open>C26: the \<open>started\<close> event, which carries \<open>stage\<close>, is refused for every client and
  table state: \<open>plan_generation_logs\<close> has no \<open>stage\<close> column.\<close>

theorem started_log_refused:
  "\<not> pgl_accepts d cl (logRow now ((no_log_data u g ''started'')\<lparr>gl_stage := Some ''validation''\<rparr>)) logs"
  by (simp add: pgl_accepts_def logRowColumns_def logRow_def no_log_data_def truthy_str_opt_def
      str_truthy_def opt_key_def plan_generation_logs_columns_def)

end
