(* ===== verification/Spec2Isabelle.thy ===== *)
theory Spec2Isabelle
  imports Plan_Generator AI_Gateway Wow_Layer Plan_Tester USDA_Seeder Validator_Handler Generation_Logs_DB
begin

text \<open>
  \<^bold>\<open>A verification library for the Mealwise plan generation engine.\<close>

  The engine turns a user's blueprint into a weekly meal plan. The plan generator's edge
  function (unnamed/part\_001) checks the request (authentication, subscription, monthly
  limit), ingests the user's blueprint (profile, intake, subscription, Mifflin-St Jeor
  targets, completeness check of plan-generator/utils/logging.ts) and drives the stages: \<^emph>\<open>candidate selection\<close>
  (\<open>CandidateSelector\<close>, agents/wow-layer.ts lines 592-1153), the \<^emph>\<open>nutrition
  council\<close> (agents/nutrition-council.ts), which assembles a plan with Claude and checks
  its nutrients and coherence, the \<^emph>\<open>wow layer\<close> enhancement, and storage, up to
  three times, then a \<^emph>\<open>fallback plan\<close>. A standalone \<^emph>\<open>nutrition validator\<close>
  function (supabase/functions/nutrition-validator/index.ts) resolves nutrients in three
  tiers and scores plans against targets. The \<^emph>\<open>AI gateway\<close> function
  (supabase/functions/ai-gateway/index.ts) fronts Claude for clients: it validates a
  request, applies a per-user hourly rate limit, answers from a process-wide response cache
  when it can, sanitises the prompt, calls Claude and logs every request. The \<^emph>\<open>wow
  layer\<close> (\<open>WowLayerAgent\<close>, agents/wow-layer.ts lines 33-574) adds a grocery list, a
  prep-ahead schedule, XP challenges and cooking tips, and calls the \<^emph>\<open>Mood Jam\<close> agent
  (agents/mood-jam.ts), which asks Claude for the plan's mood, asks Spotify for
  recommendations and inserts a row into \<open>mood_jam_assignments\<close>. Two Node scripts
  work beside the engine: the USDA seeder (scripts/seed-usda-data.js) fills
  \<open>usda_nutrition_data\<close> from two samples, and the end-to-end tester
  (scripts/test-generation.js) creates test users, calls the edge function and checks the
  stored plan. The database side (database/schema-additions.sql, database/policies.sql)
  adds the engine's tables, the functions \<open>search_nutrition_data\<close> and
  \<open>calculate_plan_nutrition\<close>, a trigger, two analytics views and the row-level security
  policies. The edge functions create their Supabase client with the anon key and the
  caller's \<open>Authorization\<close> header, so every query and insert they make runs as the
  \<open>authenticated\<close> role with the caller's id; the scripts use the service role.

  \<^bold>\<open>Theories.\<close>
  \<^item> \<open>Prelude\<close>: JavaScript numbers as \<open>rat\<close> (exact; floating point rounding error is
    not modelled, so no property here depends on the order of a summation or on a value
    rounding across a threshold), \<open>Math.round\<close> as \<open>js_round\<close> (floor of \<open>x + 1/2\<close>), the falsy default
    \<open>x || d\<close> as \<open>js_or\<close>, comparisons with \<open>undefined\<close>, ASCII \<open>toLowerCase\<close>,
    \<open>includes\<close>, \<open>join\<close>; the nutrient vector \<open>nutrition\<close> as a
    \<open>comm_monoid_add\<close>, so totals are \<open>sum_list\<close>.
  \<^item> \<open>Meal_Plan\<close>: \<open>MealPlan\<close>, \<open>DayPlan\<close>, \<open>MealSlot\<close>,
    \<open>GenerationContext\<close>, the usage counters of every stage and a stage's result type
    \<open>'a stage\<close> (\<open>Stage_ok\<close> value or \<open>Stage_failed\<close> error, each with usage) through
    which the controller and its collaborators agree.
  \<^item> \<open>Nutrient_Resolver\<close> and \<open>Nutrition_Validator\<close>: \<open>calculateMealNutrition\<close>
    (stored data, USDA per-100 g lookup, keyword estimate), \<open>validatePlan\<close> with its two
    loops as folds over an explicit state record, deviations, threshold and suggestions.
    The recipe table and the USDA search are functions from ids and names to rows.
  \<^item> \<open>Candidate_Selector\<close>: the hard-constraint query as a predicate on rows plus sort
    and limit, the scorer's parsed reply as a parameter, final scores, the stable sort and
    the diversity loop \<open>selectLoop\<close> (structural recursion over the sorted candidates).
  \<^item> \<open>Nutrition_Council\<close>: \<open>validateAndRefine\<close>; the assembly and coherence replies of
    Claude are parameters (the parsed JSON and the token counts); the refinement loop is a
    \<open>function\<close> with measure \<open>3 - retryCount\<close>.
  \<^item> \<open>Generation_Controller\<close>: \<open>generateMealPlanWithRetry\<close> with the results of its
    collaborators per round as an \<open>attempt_env\<close>, the rows inserted into \<open>meal_plans\<close> as
    state, errors as values (\<open>js_error\<close>, the function's outcome is \<open>js_error +
    plan_generation_result\<close>), the loop as a \<open>function\<close> with measure
    \<open>maxRetries - retryCount\<close>; \<open>generateFallbackPlan\<close> with its query.
  \<^item> \<open>Blueprint\<close>: the database rows of a blueprint as records (the intake row extends
    the selector's \<open>intake\<close>), \<open>calculateNutritionalTargets\<close>,
    \<open>validateUserBlueprint\<close> with its non-boolean \<open>can_generate_plan\<close> as a datatype,
    the completeness score, the messages, the preference check and \<open>ingestUserBlueprint\<close>
    over the results of its queries.
  \<^item> \<open>Plan_Generator\<close>: the request schema, \<open>getNextMonday\<close> on day numbers,
    \<open>validateRequest\<close>, the generation log row, \<open>PerformanceTimer\<close> (an association list in
    insertion order) and \<open>servePlanGenerator\<close>, the \<open>serve\<close> callback composing validation,
    ingestion and \<open>generateMealPlanWithRetry\<close> over a state of inserted rows; the
    callback's uncaught error is an outcome \<open>Pg_uncaught\<close>. A log insert is the row
    \<open>logRow\<close> and the database's answer \<open>pq_log_ok row table\<close>, an interface that
    \<open>Generation_Logs_DB\<close> implements.
  \<^item> \<open>AI_Gateway\<close>: the gateway's state \<open>gw_state\<close> is its two module-level objects
    (\<open>RateLimiter.requests\<close> as a map from user ids to request times,
    \<open>ResponseCache.cache\<close> as a map from keys to entries) and the rows of
    \<open>ai_request_logs\<close>; \<open>isAllowed\<close>, \<open>getRemainingRequests\<close>, \<open>cacheGet\<close>,
    \<open>cacheSet\<close> and \<open>generateKey\<close> are the methods, \<open>handleAIRequest\<close> and
    \<open>serveGateway\<close> the \<open>serve\<close> callback, with \<open>requestCacheKey\<close>, \<open>serveRequest\<close> and
    \<open>callAndCache\<close> its three phases. Time (\<open>Date.now()\<close>) is an argument, one value per
    request. Strings are lists of UTF-16 code units, so \<open>btoa\<close> (base64, modelled by
    \<open>b64_encode\<close>) can reject units above 255; the regular
    expressions of \<open>sanitizePrompt\<close> are left-to-right scans (\<open>function\<close>s with measure
    \<open>length\<close>). A sequence of rate-limit checks is \<open>limiterRun\<close>, a fold that records
    each verdict.
  \<^item> \<open>Mood_Jam\<close>: parsed JSON as the datatype \<open>json\<close> (a number is its JavaScript
    text), truthiness, \<open>String(v)\<close>, property reads and object-literal dictionaries with
    the members of \<open>Object.prototype\<close>; the greedy regex match \<open>jsonMatch\<close>,
    \<open>parseMoodAnalysisResponse\<close> with \<open>JSON.parse\<close> as a parameter, the three HTTP
    replies as datatypes (the recommendations as a function of the token and the query), and
    \<open>assignMoodJam\<close> over the state \<open>mood_db\<close>: the users and \<open>meal_plans\<close> rows
    the policies read and the rows of \<open>mood_jam_assignments\<close>, whose insert by the
    agent's client (\<open>me_client\<close>) checks \<open>Row_Security\<close>'s policies and the foreign
    and primary keys.
  \<^item> \<open>Wow_Layer\<close>: \<open>normalizeIngredientName\<close> (its white-space collapse a
    \<open>function\<close> with measure \<open>length\<close>), \<open>categorizeIngredient\<close> over its table in
    insertion order, the grocery loop over an association list \<open>grocery_acc\<close>
    (\<open>AList.update\<close> keeps insertion order, as a JavaScript object does), the prep loop
    over the pair (tasks, keys), the stable sort as \<open>sort_key\<close>, XP challenges, tips,
    and \<open>enhancePlan\<close>, which calls \<open>assignMoodJam\<close> and threads its table. The
    references \<open>groceryRef\<close> and \<open>prepOccurrences\<close> state what the loops compute.
  \<^item> \<open>USDA_Seeder\<close>: the sample foods as data, the seeder's counters and the table's rows
    as the state \<open>seed_state\<close>, \<open>insertBatch\<close> as one atomic insert checked against the
    primary key \<open>fdc_id\<close>, the batch loop \<open>processLoop\<close> as a \<open>function\<close> with measure
    \<open>length foods - i\<close> (the batch size is the constant 100), and \<open>run\<close> with the user's
    confirmation line; \<open>chunks\<close> is the reference view of the loop.
  \<^item> \<open>Plan_Tester\<close>: the four test users as data, the rows the tester creates as
    \<open>tester_db\<close>, \<open>createTestUser\<close>, \<open>callPlanGenerator\<close>,
    \<open>validateGeneratedPlan\<close>, \<open>cleanupTestUser\<close> and \<open>runAllTests\<close>; each test takes
    the edge function's answer as an input, and \<open>edgeCall\<close> supplies it from
    \<open>servePlanGenerator\<close> applied to the tester's request.
  \<^item> \<open>Row_Security\<close>: policies.sql as a list of statements (\<open>stmt\<close>) run by
    \<open>run_script\<close> over a catalog (relations, row-level security flags, policies, grants),
    a failing statement reported and skipped as \<open>psql -f\<close> does; the relations of
    schema-additions.sql with Supabase's default grants as the starting catalog; the four
    policy expression forms evaluated over \<open>public.users\<close> and \<open>public.meal_plans\<close>;
    PostgreSQL's \<open>LIKE\<close> as \<open>sql_like\<close>; access (\<open>row_visible\<close>,
    \<open>row_insertable\<close>, \<open>row_updatable\<close>) as permissive policies combined by \<open>OR\<close> over
    the table privilege, \<open>service_role\<close> bypassing; the clients of the sources as
    \<open>user_client\<close>, \<open>anon_client\<close> and \<open>service_client\<close>.
  \<^item> \<open>Nutrition_DB\<close>: \<open>search_nutrition_data\<close> (filter, \<open>sort_key\<close> on
    similarity and rank, \<open>take\<close>) with pg_trgm's and text search's functions as the
    parameter \<open>text_search\<close>, over the rows the caller's role may read; the two
    \<open>lookupUSDANutrition\<close> copies; \<open>usdaLookup_db\<close>, the implementation of the
    \<open>usda_lookup\<close> interface of \<open>Nutrient_Resolver\<close> over the seeder's rows;
    \<open>calculate_plan_nutrition\<close> as PL/pgSQL loops in the error monad with SQL's
    \<open>NULL\<close> as \<open>None\<close>; the \<open>grocery_lists\<close> trigger.
  \<^item> \<open>Validator_Handler\<close>: zod's parse of the validator's request (defaults, bounds,
    \<open>uuid()\<close>, unknown keys dropped), the stored plan query with \<open>.single()\<close>,
    \<open>createErrorResponse\<close> and the \<open>serve\<close> callback \<open>validatorServe\<close>, whose
    validation uses \<open>usdaLookup_db\<close> with the caller's client.
  \<^item> \<open>Generation_Logs_DB\<close>: the columns and constraints of \<open>plan_generation_logs\<close>
    and the acceptance \<open>pgl_accepts\<close> of an insert (PostgREST's column check, \<open>uuid\<close>
    input, row-level security, \<open>CHECK\<close>, \<open>UNIQUE\<close>, foreign key), which instantiates
    the plan generator's \<open>pq_log_ok\<close>; \<open>logFailedPlan\<close> and \<open>failed_plans\<close>.
  \<^item> This theory composes the components: \<open>pipelineEnv\<close> builds a round's
    \<open>attempt_env\<close> from the selector, council and enhancement models.

  \<^bold>\<open>The unbound \<open>retry_count\<close>.\<close> The three result literals of
  \<open>generateMealPlanWithRetry\<close> use the shorthand \<open>retry_count\<close>, which names no variable.
  What it evaluates to is the parameter \<open>scope\<close> of the model, and the source's binding
  \<open>source_scope\<close> has none: evaluating it raises a \<open>ReferenceError\<close>. The properties of
  the controller are stated for \<open>source_scope\<close>, or for every binding when they hold
  whatever the identifier evaluates to; none assumes the identifier declared.

  \<^bold>\<open>What is proved.\<close>
  \<^item> Controller: as written it always rejects, after storing the plan of every round that
    reached the insert; whatever \<open>retry_count\<close> evaluates to, a stored plan is the plan
    of one of the rounds; the fallback plan has nine slots cycling through its pool.
  \<^item> Validator: validity and missing data, suggestion signs, the specification's scenarios
    (15.0 in, 15.01 out at the threshold).
  \<^item> Selector: every selected candidate passes the hard filters with a score in
    \<open>[0, 100]\<close>; at most 30 are kept; the first 16 ranked candidates are always kept,
    whatever their cuisine, and the cuisine cap holds only after them; missing scores
    default to 50.
  \<^item> Council: a closed form of the refinement loop (the repairs are stubs, so the plan is
    never changed), the coherence boundary, parse
    counts.
  \<^item> Plan generator: an accepted request has an active subscription within its monthly
    limit; \<open>getNextMonday\<close> is the next Monday.
  \<^item> Blueprint: an ingested blueprint meets the specification's entry guard; a profile
    without body data is refused with an empty field list; the macro targets' energy is
    within 9 kcal of the calorie target; \<open>can_generate_plan\<close> can be an object; a valid
    blueprint scores at least 40.
  \<^item> Gateway: the cache key ignores the prompt and the temperature (only 24 characters of
    \<open>model:temperature:prompt\<close> survive the slice), so one user's cached reply answers
    any other prompt to the same model for 30 minutes; in every time-ordered run a request
    is allowed only if fewer than 100 requests of its user were allowed in the hour before
    (the invariant is a sub-multiset relation between the allowed times and the stored
    ones); a quiet hour re-admits a user; a 429 leaves the state unchanged; a non-Latin-1
    prompt is a 500 that still counts; the cache round trip; the schema's bounds;
    the sanitiser's bounds, and its single passes re-forming \<open>javascript:\<close>.
  \<^item> Wow layer: the grocery loop equals its reference (a second unit's amount is
    dropped, the recipe still listed); the prep schedule has one task per key, sorted, with
    duplicate-free recipe lists; the \<open>garlic
    powder\<close> and \<open>olive oil\<close> entries are shadowed; the Prep Master challenge is never
    offered; the enhancement's usage and table effect are the mood jam's.
  \<^item> Mood Jam: the reply's match runs from the first \<open>{\<close> to the last \<open>}\<close>; a
    confidence of 0 is refused and any truthy one accepted; a mood such as
    \<open>constructor\<close> breaks the genre lookup; the playlist name comes from the mood's list
    for a random number in [0, 1); the usage is always the Claude call's; with the plan
    generator's client an assignment stores nothing whatever the tables hold (no INSERT
    policy for \<open>authenticated\<close>), though it reports success with a mood jam; with any
    client the table's key invariant is kept.
  \<^item> Seeder: the loop inserts the slices of the list in order; a run keeps the key,
    adds as many rows as it counts processed and counts every food once; on every table
    without the Foundation sample's ids it stores the 20 Foundation foods and none of the
    SR Legacy ones (a reused \<open>fdc_id\<close>); a confirmed rerun stores nothing.
  \<^item> Tester: against the edge function every test fails with 401 (anon-key
    authentication) and leaves its rows; the plan check refuses every fallback plan.
  \<^item> Row security: a signed-in user reads a generation log row exactly when it is the
    user's own or the user's email ends with \<open>@mealwise.app\<close> (or is
    \<open>admin@example.com\<close>); no signed-in user can insert a mood jam row or a log row; the
    REVOKE of line 200 makes the admins' \<open>failed_plans\<close> policy unreachable; the two policies
    on views are the script's only failures, and every client, anonymous included, reads
    the analytics views; the anonymous client reads, inserts and updates no row of the five
    engine tables.
  \<^item> Database functions: the USDA lookup of a signed-in caller returns a best match by
    (similarity, rank) and nothing exactly when no row matches; it never returns fiber, so
    the validator's USDA tier always computes zero fiber; \<open>calculate_plan_nutrition\<close>
    fails on every plan with a day (\<open>jsonb_set\<close> with an \<open>integer\<close>).
  \<^item> Validator handler: a 200 for a request naming a plan id validated the caller's own
    stored plan; a plan sent in the body has every breakdown day named \<open>unknown\<close>.
  \<^item> Generation log: the plan generator's callback adds no log row on any path, and the
    \<open>started\<close> event would be refused for any client (no \<open>stage\<close> column); an accepted
    insert keeps the table's key and status invariant.
  \<^item> Composition: every plan the pipeline stores in \<open>meal_plans\<close>, for every binding of
    \<open>retry_count\<close>, passed the council's nutrition check and was built by the assembler
    of its round, but need not come from the selected candidates (a peanut plan is stored
    for a user allergic to peanuts).

  \<^bold>\<open>Bounds and fuel.\<close> No fuel is used: every loop is structural (\<open>fold\<close>,
  \<open>selectLoop\<close>) or a \<open>function\<close> whose measure is the remaining retry budget (3), so
  all definitions are total and evaluate by \<open>code_simp\<close>. The gateway's scans recurse
  on shorter suffixes; \<open>AI_Gateway\<close> and \<open>Mood_Jam\<close> import \<open>Code_Target_Nat\<close> so
  that \<open>code_simp\<close> computes with code units, lengths and timestamps in binary. The wow
  layer's loops are structural over the plan's meals; \<open>collapse_ws\<close> recurses on a
  shorter suffix (its termination proof uses the measure \<open>length\<close>). The policy
  script and the SQL functions are finite (\<open>run_script\<close>, \<open>pn_days_loop\<close>,
  \<open>pn_meals_loop\<close> and \<open>sql_like\<close> are structural), and the deployed catalog is
  computed by \<open>code_simp\<close>.

  \<^bold>\<open>Not modelled.\<close> The text of zod's errors, CORS headers, durations and \<open>Date\<close>
  parsing (a parameter); prompt texts (Claude's replies are inputs, so the text sent does
  not change any modelled outcome); ids (\<open>uuidv4\<close>) and timestamps of the wow layer's
  records; a JSON object with its own \<open>toString\<close> key used as a mood (its conversion
  throws); Unicode white space beyond Latin-1 in \<open>normalizeIngredientName\<close>; the
  \<open>logPerformanceMetrics\<close> (never called, it only prints); of the SQL, the indexes, the
  columns no code writes or reads, and the contents of the two analytics views (no code
  path adds a row to \<open>plan_generation_logs\<close>, so they aggregate nothing the engine
  writes); pg_trgm's similarity and the text search functions (parameters); which
  constraint a refused insert reports first (only acceptance is kept); the tester's
  \<open>printSummary\<close> (output only) and its copy of \<open>getNextMonday\<close>. Dates are
  day numbers, not ISO strings; a plan without days has no daily average in the council
  (the code divides by zero). The gateway caches a reply with the request's time rather
  than the \<open>Date.now()\<close> read after the Claude call (the entry lives longer by the call's
  duration, which no property depends on). The validator's USDA tier does not model the
  throws on a missing unit or name, and a zod failure is the outcome
  \<open>Vh_invalid_request\<close> (status 422) without its message text.
\<close>

section \<open>Composition of the pipeline\<close>

text \<open>
  \<open>selectCandidates\<close>' result object (wow-layer.ts lines 604-667): no usage when the
  query finds nothing; one request and the scorer reply's tokens and cost otherwise (none
  when the call itself failed).
\<close>

definition selectorStage ::
  "recipe list \<Rightarrow> ai_reply \<Rightarrow> api_usage \<Rightarrow> selector_blueprint \<Rightarrow> preferences \<Rightarrow> candidate list stage" where
  "selectorStage db reply u bp prefs =
     (let scorerUsage = (case reply of
            Reply_failed e \<Rightarrow> \<lparr>claude_requests = Some 1, tokens_used = Some 0, cost_cents = Some 0\<rparr>
          | _ \<Rightarrow> replyUsage u) in
      case selectCandidates db reply bp prefs of
        Selected cs \<Rightarrow> Stage_ok cs scorerUsage
      | Selection_failed e \<Rightarrow>
          Stage_failed e (if performSQLFiltering db bp prefs = [] then no_usage else scorerUsage))"

text \<open>
  \<open>enhancePlan\<close> (wow-layer.ts lines 45-133): the plan with \<open>wow_layers\<close> added, which
  the model's plan record does not carry, or a failure; with the usage of the mood jam.
\<close>

definition enhancePlanStage :: "string option \<Rightarrow> usage \<Rightarrow> meal_plan \<Rightarrow> meal_plan stage" where
  "enhancePlanStage err u p = (case err of None \<Rightarrow> Stage_ok p u | Some e \<Rightarrow> Stage_failed e u)"

text \<open>The external inputs of one round: the three Claude replies, the new plan's id, the
  enhancement's outcome and the insert's error.\<close>

record round_inputs =
  ri_scorer_reply :: ai_reply
  ri_scorer_usage :: api_usage
  ri_assembly_reply :: assembly_reply
  ri_plan_uuid :: string
  ri_coherence :: "nat \<Rightarrow> coherence_reply"
  ri_enhance_error :: "string option"
  ri_enhance_usage :: usage
  ri_save_error :: "string option"

text \<open>The collaborators of one round as the controller calls them (part\_001 lines 404-447).\<close>

definition pipelineEnv ::
  "recipe list \<Rightarrow> recipe_store \<Rightarrow> usda_lookup \<Rightarrow> selector_blueprint \<Rightarrow> preferences \<Rightarrow> targets option
     \<Rightarrow> gen_context \<Rightarrow> round_inputs \<Rightarrow> attempt_env" where
  "pipelineEnv db store usda bp prefs tg ctx ri =
     \<lparr>ae_select = selectorStage db (ri_scorer_reply ri) (ri_scorer_usage ri) bp prefs,
      ae_council = (\<lambda>cands. validateAndRefine store usda tg (ri_plan_uuid ri) (ri_assembly_reply ri)
                      (ri_coherence ri) cands ctx),
      ae_enhance = enhancePlanStage (ri_enhance_error ri) (ri_enhance_usage ri),
      ae_save_error = ri_save_error ri\<rparr>"

subsection \<open>Test data\<close>

text \<open>A recipe of the table with peanuts, excluded for a user allergic to peanuts.\<close>

definition satay_recipe :: recipe where
  "satay_recipe = \<lparr>r_id = ''satay'', r_title = ''Peanut satay'', r_ingredient_names = [''Peanuts'', ''chicken''],
     r_prep_time = Some 20, r_cook_time = Some 20, r_difficulty = Some ''easy'', r_dietary_tags = [],
     r_cuisine = Some ''thai'', r_meal_types = [''dinner''], r_status = ''published'',
     r_is_premium = False, r_rating_average = 5, r_rating_count = 40\<rparr>"

text \<open>A round where every external reply is good and the assembler picks \<open>satay\<close>.\<close>

definition satay_round :: round_inputs where
  "satay_round = \<lparr>ri_scorer_reply = Reply_scores (Some demo_scores), ri_scorer_usage = Some (2000, 300),
     ri_assembly_reply = one_day_reply, ri_plan_uuid = ''p1'', ri_coherence = (\<lambda>i. coherence_rating 8),
     ri_enhance_error = None, ri_enhance_usage = no_usage, ri_save_error = None\<rparr>"

definition satay_env :: "nat \<Rightarrow> attempt_env" where
  "satay_env i = pipelineEnv [demo_recipe, satay_recipe] satay_store (\<lambda>n. None) demo_blueprint demo_prefs
     (Some satay_targets) nc_ctx satay_round"

subsection \<open>Lemmas\<close>

lemma roundSaves_pipelineEnv:
  assumes "roundSaves (pipelineEnv db store usda bp prefs tg ctx ri) = Some p"
  shows "(\<exists>cs u. selectorStage db (ri_scorer_reply ri) (ri_scorer_usage ri) bp prefs = Stage_ok cs u
      \<and> (\<exists>u'. validateAndRefine store usda tg (ri_plan_uuid ri) (ri_assembly_reply ri) (ri_coherence ri) cs ctx
             = Stage_ok p u'))"
  using assms
  by (auto simp: roundSaves_def pipelineEnv_def enhancePlanStage_def saveMealPlan_def
      split: stage.splits option.splits sum.splits)

section \<open>Properties spanning components\<close>

text \<open>
  C25: whatever \<open>retry_count\<close> evaluates to (the source's binding included, under which
  the request itself fails), every plan the composed pipeline stores in \<open>meal_plans\<close>
  was built by the assembler of one of the three rounds from that round's reply and passed
  the council's 15 percent nutrition check against the user's targets. Nothing on the way
  checks the plan's recipes against the candidates the selector kept.
\<close>

theorem pipeline_saved_plans_checked:
  assumes "p \<in> set (snd (generateMealPlanWithRetry sc
      (\<lambda>i. pipelineEnv db store usda bp prefs tg ctx (rounds i)) fdb uuid ctx))"
  shows "\<exists>i<maxRetries. (\<exists>u. assembleMealPlan (ri_plan_uuid (rounds i)) ctx (ri_assembly_reply (rounds i))
      = Stage_ok p u) \<and> nv_is_valid (validateNutrition store usda p tg)"
proof -
  obtain i where i: "i < maxRetries"
    and sv: "roundSaves (pipelineEnv db store usda bp prefs tg ctx (rounds i)) = Some p"
    using generate_saved_rounds [OF assms] by blast
  from roundSaves_pipelineEnv [OF sv] obtain cs u' where
    "validateAndRefine store usda tg (ri_plan_uuid (rounds i)) (ri_assembly_reply (rounds i))
       (ri_coherence (rounds i)) cs ctx = Stage_ok p u'"
    by blast
  from validateAndRefine_Stage_ok [OF this] i show ?thesis by blast
qed

subsection \<open>Witnesses\<close>

text \<open>For a user allergic to peanuts the selector keeps only the demo candidate, yet the
  code as written stores the plan of peanut satay the assembler names, once per round.\<close>

theorem pipeline_saved_plans_checked_witness:
  "\<not> allergenFree ''peanut'' satay_recipe
   \<and> ae_select (satay_env 0) = Stage_ok [demo_candidate] (replyUsage (Some (2000, 300)))
   \<and> map (map ms_recipe_id \<circ> plan_slots) (snd (generateMealPlanWithRetry source_scope satay_env [] ''fb'' nc_ctx))
       = [[''satay''], [''satay''], [''satay'']]
   \<and> (\<exists>i<maxRetries. (\<exists>u. assembleMealPlan ''p1'' nc_ctx one_day_reply
          = Stage_ok (hd (snd (generateMealPlanWithRetry source_scope satay_env [] ''fb'' nc_ctx))) u)
        \<and> nv_is_valid (validateNutrition satay_store (\<lambda>n. None)
              (hd (snd (generateMealPlanWithRetry source_scope satay_env [] ''fb'' nc_ctx))) (Some satay_targets)))"
proof -
  let ?p = "hd (snd (generateMealPlanWithRetry source_scope satay_env [] ''fb'' nc_ctx))"
  have facts: "\<not> allergenFree ''peanut'' satay_recipe
     \<and> ae_select (satay_env 0) = Stage_ok [demo_candidate] (replyUsage (Some (2000, 300)))
     \<and> map (map ms_recipe_id \<circ> plan_slots) (snd (generateMealPlanWithRetry source_scope satay_env [] ''fb'' nc_ctx))
         = [[''satay''], [''satay''], [''satay'']]"
    by code_simp
  have h: "?p \<in> set (snd (generateMealPlanWithRetry source_scope
      (\<lambda>i. pipelineEnv [demo_recipe, satay_recipe] satay_store (\<lambda>n. None) demo_blueprint demo_prefs
         (Some satay_targets) nc_ctx satay_round) [] ''fb'' nc_ctx))"
    by code_simp
  show ?thesis
    using facts pipeline_saved_plans_checked [OF h] by (simp add: satay_round_def satay_env_def)
qed

end
